(* ===== verification/Prelude.thy ===== *)
theory Prelude
  imports Complex_Main
begin

text \<open>
  Shared vocabulary of the development: the error monad over sums, Python strings,
  datetimes and timedeltas, tables keyed by a primary key, and the \<open>ORDER BY ... LIMIT 1\<close>
  selection.  The component theories add to the collections declared here.
\<close>

named_theorems bind_simps \<open>inversion of the error monad\<close>
named_theorems table_simps \<open>reads after writes on keyed tables\<close>
named_theorems fence_simps \<open>claim and lease predicates unfolded\<close>

section \<open>The error monad\<close>

text \<open>
  A call that may raise returns \<open>'e + 'a\<close>: \<open>Inl\<close> is the exception, \<open>Inr\<close> the value.
  \<open>bindE\<close> is sequencing (an exception skips the rest) and \<open>guardE\<close> is
  \<open>if not c: raise e\<close>.
\<close>

definition bindE :: "'e + 'a \<Rightarrow> ('a \<Rightarrow> 'e + 'b) \<Rightarrow> 'e + 'b" where
  "bindE m f = (case m of Inl e \<Rightarrow> Inl e | Inr x \<Rightarrow> f x)"

definition guardE :: "bool \<Rightarrow> 'e \<Rightarrow> 'e + unit" where
  "guardE c e = (if c then Inr () else Inl e)"

definition map_error :: "('e \<Rightarrow> 'f) \<Rightarrow> 'e + 'a \<Rightarrow> 'f + 'a" where
  "map_error h m = (case m of Inl e \<Rightarrow> Inl (h e) | Inr x \<Rightarrow> Inr x)"

definition opt_map_E :: "('a \<Rightarrow> 'e + 'b) \<Rightarrow> 'a option \<Rightarrow> 'e + 'b option" where
  "opt_map_E f v =
     (case v of None \<Rightarrow> Inr None
      | Some x \<Rightarrow> (case f x of Inl e \<Rightarrow> Inl e | Inr y \<Rightarrow> Inr (Some y)))"

lemma bindE_Inl [simp]: "bindE (Inl e) f = Inl e"
  by (simp add: bindE_def)

lemma bindE_Inr [simp]: "bindE (Inr x) f = f x"
  by (simp add: bindE_def)

lemma bindE_eq_Inr [bind_simps]: "bindE m f = Inr y \<longleftrightarrow> (\<exists>x. m = Inr x \<and> f x = Inr y)"
  by (cases m) auto

lemma bindE_InrE:
  assumes "bindE m f = Inr y" obtains x where "m = Inr x" "f x = Inr y"
  using assms by (auto simp: bindE_eq_Inr)

lemma bindE_eq_Inl [bind_simps]:
  "bindE m f = Inl e \<longleftrightarrow> m = Inl e \<or> (\<exists>x. m = Inr x \<and> f x = Inl e)"
  by (cases m) auto

lemma guardE_eq_Inr [bind_simps]: "guardE c e = Inr u \<longleftrightarrow> c"
  by (auto simp: guardE_def)

lemma guardE_eq_Inl [bind_simps]: "guardE c e = Inl e' \<longleftrightarrow> \<not> c \<and> e = e'"
  by (auto simp: guardE_def)

lemma guardE_simps [simp]: "guardE True e = Inr ()" "guardE False e = Inl e"
  by (simp_all add: guardE_def)

lemma map_error_eq_Inr [bind_simps]: "map_error h m = Inr y \<longleftrightarrow> m = Inr y"
  by (cases m) (auto simp: map_error_def)

lemma map_error_simps [simp]: "map_error h (Inl e) = Inl (h e)" "map_error h (Inr y) = Inr y"
  by (simp_all add: map_error_def)

lemma opt_map_E_simps [simp]:
  "opt_map_E f None = Inr None"
  "opt_map_E f (Some x) = (case f x of Inl e \<Rightarrow> Inl e | Inr y \<Rightarrow> Inr (Some y))"
  by (simp_all add: opt_map_E_def)

lemma opt_map_E_eq_Inr [bind_simps]:
  "opt_map_E f v = Inr w \<longleftrightarrow>
     (v = None \<and> w = None) \<or> (\<exists>x y. v = Some x \<and> f x = Inr y \<and> w = Some y)"
  by (cases v) (auto split: sum.splits)

text \<open>Reading an evaluated call: \<open>code_simp\<close> computes the left-hand sides.\<close>

lemma case_Inr_Some:
  "(case x of Inl e \<Rightarrow> False | Inr (s, None) \<Rightarrow> False | Inr (s, Some c) \<Rightarrow> P s c) \<longleftrightarrow>
     (\<exists>s c. x = Inr (s, Some c) \<and> P s c)"
  by (auto split: sum.splits option.splits)

lemma case_Inr_True:
  "(case x of Inl e \<Rightarrow> False | Inr (s, True) \<Rightarrow> P s | Inr (s, False) \<Rightarrow> False) \<longleftrightarrow> (\<exists>s. x = Inr (s, True) \<and> P s)"
  by (auto split: sum.splits bool.splits)

lemma case_Inr_triple:
  "(case x of Inl e \<Rightarrow> False | Inr (a, b, c) \<Rightarrow> P a b c) \<longleftrightarrow> (\<exists>a b c. x = Inr (a, b, c) \<and> P a b c)"
  by (auto split: sum.splits)

section \<open>Python strings\<close>

text \<open>
  A \<open>str\<close> is a list of characters; the characters of HOL are the code points below 256,
  and \<open>py_isspace\<close> is \<open>str.isspace\<close> on those.  \<open>py_object\<close> is an argument whose type the
  code tests with \<open>isinstance(value, str)\<close>.
\<close>

datatype py_object = PyStr string | PyOther

definition py_isspace :: "char \<Rightarrow> bool" where
  "py_isspace c \<longleftrightarrow>
     (let k = (of_char c :: nat)
      in (9 \<le> k \<and> k \<le> 13) \<or> (28 \<le> k \<and> k \<le> 32) \<or> k = 133 \<or> k = 160)"

definition py_strip :: "string \<Rightarrow> string" where
  "py_strip s = rev (dropWhile py_isspace (rev (dropWhile py_isspace s)))"

definition stripped :: "string \<Rightarrow> bool" where
  "stripped s \<longleftrightarrow> s \<noteq> [] \<and> \<not> py_isspace (hd s) \<and> \<not> py_isspace (last s)"

lemma hd_dropWhile_not: "dropWhile P xs \<noteq> [] \<Longrightarrow> \<not> P (hd (dropWhile P xs))"
  by (rule hd_dropWhile)

lemma last_dropWhile_same: "dropWhile P xs \<noteq> [] \<Longrightarrow> last (dropWhile P xs) = last xs"
  by (induction xs) auto

lemma stripped_py_strip: "py_strip s \<noteq> [] \<Longrightarrow> stripped (py_strip s)"
proof -
  let ?a = "dropWhile py_isspace s"
  let ?b = "dropWhile py_isspace (rev ?a)"
  assume ne: "py_strip s \<noteq> []"
  then have b: "?b \<noteq> []" by (simp add: py_strip_def)
  then have a: "?a \<noteq> []" by (metis dropWhile.simps(1) rev.simps(1))
  have "last (rev ?b) = hd ?b" using b by (simp add: last_rev)
  moreover have "\<not> py_isspace (hd ?b)" using b by (rule hd_dropWhile)
  moreover have "hd (rev ?b) = last ?b" using b by (simp add: hd_rev)
  moreover have "last ?b = last (rev ?a)" using b by (rule last_dropWhile_same)
  moreover have "last (rev ?a) = hd ?a" using a by (simp add: last_rev)
  moreover have "\<not> py_isspace (hd ?a)" using a by (rule hd_dropWhile)
  ultimately show ?thesis using ne by (simp add: stripped_def py_strip_def)
qed

lemma py_strip_stripped: "stripped s \<Longrightarrow> py_strip s = s"
proof -
  assume s: "stripped s"
  then have "dropWhile py_isspace s = s" by (cases s) (auto simp: stripped_def)
  moreover have "dropWhile py_isspace (rev s) = rev s"
    using s by (cases "rev s") (auto simp: stripped_def last_rev hd_rev[symmetric])
  ultimately show ?thesis by (simp add: py_strip_def)
qed

lemma py_strip_fixed_iff: "py_strip s = s \<and> s \<noteq> [] \<longleftrightarrow> stripped s"
  using stripped_py_strip py_strip_stripped by (metis stripped_def)

lemma py_strip_length: "length (py_strip s) \<le> length s"
  using length_dropWhile_le[of py_isspace "rev (dropWhile py_isspace s)"] length_dropWhile_le[of py_isspace s]
  by (simp add: py_strip_def)

lemma py_strip_Nil [simp]: "py_strip [] = []"
  by (simp add: py_strip_def)

text \<open>\<open>str(n)\<close> for an \<open>int\<close>.\<close>

definition digit_char :: "nat \<Rightarrow> char" where
  "digit_char d = ''0123456789'' ! d"

fun nat_str :: "nat \<Rightarrow> string" where
  "nat_str n = (if n < 10 then [digit_char n] else nat_str (n div 10) @ [digit_char (n mod 10)])"

declare nat_str.simps [simp del]

definition py_int_str :: "int \<Rightarrow> string" where
  "py_int_str n = (if n < 0 then CHR ''-'' # nat_str (nat (- n)) else nat_str (nat n))"

section \<open>Time\<close>

text \<open>
  An aware datetime is stored as the number of microseconds since the epoch in UTC
  (\<open>timestamp\<close>).  \<open>py_datetime\<close> is an argument the code has yet to normalise:
  \<open>Naive\<close> has no \<open>tzinfo\<close>, \<open>Aware l off\<close> shows local time \<open>l\<close> at offset \<open>off\<close>.
  Durations in the settings are floats of seconds, modelled as reals (IEEE rounding is not
  modelled); \<open>timedelta(seconds=s)\<close> rounds half to even to whole microseconds.
\<close>

type_synonym timestamp = int

datatype py_datetime = Naive int | Aware int int

definition round_half_even :: "real \<Rightarrow> int" where
  "round_half_even x =
     (let f = \<lfloor>x\<rfloor>; d = x - of_int f
      in if d < 1/2 then f else if 1/2 < d then f + 1
         else if even f then f else f + 1)"

definition timedelta_seconds :: "real \<Rightarrow> int" where
  "timedelta_seconds s = round_half_even (s * 1000000)"

lemma round_half_even_bounds:
  "of_int (round_half_even x) \<le> x + 1/2" "x - 1/2 \<le> of_int (round_half_even x)"
  by (auto simp: round_half_even_def Let_def) linarith+

lemma round_half_even_of_int [simp]: "round_half_even (of_int k) = k"
  by (simp add: round_half_even_def)

lemma round_half_even_mono: "x \<le> y \<Longrightarrow> round_half_even x \<le> round_half_even y"
proof -
  assume xy: "x \<le> y"
  then have fl: "\<lfloor>x\<rfloor> \<le> \<lfloor>y\<rfloor>" by (rule floor_mono)
  have le: "round_half_even x \<le> \<lfloor>x\<rfloor> + 1" "\<lfloor>y\<rfloor> \<le> round_half_even y"
    by (auto simp: round_half_even_def Let_def)
  show ?thesis
  proof (cases "\<lfloor>x\<rfloor> = \<lfloor>y\<rfloor>")
    case True
    with xy show ?thesis by (auto simp: round_half_even_def Let_def)
  next
    case False
    with fl le show ?thesis by linarith
  qed
qed

lemma timedelta_seconds_mono: "x \<le> y \<Longrightarrow> timedelta_seconds x \<le> timedelta_seconds y"
  by (simp add: timedelta_seconds_def round_half_even_mono)

lemma timedelta_seconds_nonneg: "0 \<le> x \<Longrightarrow> 0 \<le> timedelta_seconds x"
  using timedelta_seconds_mono[of 0 x] round_half_even_of_int[of 0]
  by (simp add: timedelta_seconds_def)

lemma timedelta_seconds_numeral [simp]:
  "timedelta_seconds (numeral n) = numeral n * 1000000" "timedelta_seconds 1 = 1000000"
  "timedelta_seconds 0 = 0"
  using round_half_even_of_int[of "numeral n * 1000000"] round_half_even_of_int[of 1000000]
    round_half_even_of_int[of 0]
  by (simp_all add: timedelta_seconds_def)

section \<open>Tables\<close>

text \<open>
  A table is the list of its rows in the order a scan returns them; every theorem is stated
  for all such orders.  \<open>tget\<close> is \<open>session.get\<close> by primary key, \<open>tput\<close> writes a row
  back over the row with the same key, \<open>tupdate\<close> is \<open>UPDATE ... WHERE\<close> (its row count is
  \<open>tcount\<close>).
\<close>

definition tget :: "('r \<Rightarrow> 'k) \<Rightarrow> 'k \<Rightarrow> 'r list \<Rightarrow> 'r option" where
  "tget key k tbl = find (\<lambda>r. key r = k) tbl"

definition tput :: "('r \<Rightarrow> 'k) \<Rightarrow> 'r \<Rightarrow> 'r list \<Rightarrow> 'r list" where
  "tput key r tbl = map (\<lambda>x. if key x = key r then r else x) tbl"

definition tupdate :: "('r \<Rightarrow> bool) \<Rightarrow> ('r \<Rightarrow> 'r) \<Rightarrow> 'r list \<Rightarrow> 'r list" where
  "tupdate P f tbl = map (\<lambda>x. if P x then f x else x) tbl"

definition tcount :: "('r \<Rightarrow> bool) \<Rightarrow> 'r list \<Rightarrow> nat" where
  "tcount P tbl = length (filter P tbl)"

abbreviation (input) tkeys :: "('r \<Rightarrow> 'k) \<Rightarrow> 'r list \<Rightarrow> 'k list" where
  "tkeys key tbl \<equiv> map key tbl"

lemma tget_Some_key [table_simps]: "tget key k tbl = Some r \<Longrightarrow> key r = k"
  by (auto simp: tget_def find_Some_iff)

lemma tget_Some_mem: "tget key k tbl = Some r \<Longrightarrow> r \<in> set tbl"
  by (auto simp: tget_def find_Some_iff)

lemma tget_None_iff: "tget key k tbl = None \<longleftrightarrow> k \<notin> set (tkeys key tbl)"
  by (auto simp: tget_def find_None_iff)

lemma tget_simps [simp]:
  "tget key k [] = None"
  "tget key k (r # tbl) = (if key r = k then Some r else tget key k tbl)"
  by (simp_all add: tget_def)

lemma tput_simps [simp]:
  "tput key r [] = []"
  "tput key r (x # tbl) = (if key x = key r then r else x) # tput key r tbl"
  by (simp_all add: tput_def)

lemma tupdate_simps [simp]:
  "tupdate P f [] = []"
  "tupdate P f (x # tbl) = (if P x then f x else x) # tupdate P f tbl"
  by (simp_all add: tupdate_def)

lemma tcount_simps [simp]:
  "tcount P [] = 0"
  "tcount P (x # tbl) = (if P x then Suc (tcount P tbl) else tcount P tbl)"
  by (simp_all add: tcount_def)

lemma tget_mem: "distinct (tkeys key tbl) \<Longrightarrow> r \<in> set tbl \<Longrightarrow> tget key (key r) tbl = Some r"
  by (induction tbl) force+

lemma list_ex_key:
  assumes "distinct (tkeys key tbl)"
  shows "list_ex (\<lambda>r. key r = k \<and> Q r) tbl \<longleftrightarrow> (\<exists>m. tget key k tbl = Some m \<and> Q m)"
proof
  assume "list_ex (\<lambda>r. key r = k \<and> Q r) tbl"
  then obtain r where "r \<in> set tbl" "key r = k" "Q r" by (auto simp: list_ex_iff)
  then show "\<exists>m. tget key k tbl = Some m \<and> Q m" using tget_mem[OF assms] by metis
next
  assume "\<exists>m. tget key k tbl = Some m \<and> Q m"
  then show "list_ex (\<lambda>r. key r = k \<and> Q r) tbl"
    unfolding list_ex_iff by (metis tget_Some_key tget_Some_mem)
qed

lemma tkeys_tput [table_simps]: "tkeys key (tput key r tbl) = tkeys key tbl"
  by (induction tbl) auto

lemma tget_tput [table_simps]:
  "tget key k (tput key r tbl) =
     (if key r = k then (case tget key k tbl of None \<Rightarrow> None | Some _ \<Rightarrow> Some r)
      else tget key k tbl)"
  by (induction tbl) auto

lemma tget_append [table_simps]:
  "tget key k (xs @ ys) = (case tget key k xs of None \<Rightarrow> tget key k ys | Some r \<Rightarrow> Some r)"
  by (induction xs) auto

lemma set_tput: "set (tput key r tbl) \<subseteq> insert r (set tbl)"
  by (induction tbl) auto

lemma tput_mem_cases:
  "x \<in> set (tput key r tbl) \<Longrightarrow> x = r \<or> (x \<in> set tbl \<and> key x \<noteq> key r)"
  by (induction tbl) (auto split: if_splits)

lemma tput_same:
  assumes "distinct (tkeys key tbl)" and "tget key (key r) tbl = Some r"
  shows "tput key r tbl = tbl"
  unfolding tput_def
proof (rule map_idI)
  fix x assume "x \<in> set tbl"
  then have "tget key (key x) tbl = Some x" using assms(1) by (simp add: tget_mem)
  with assms(2) show "(if key x = key r then r else x) = x" by auto
qed

lemma tput_length [simp]: "length (tput key r tbl) = length tbl"
  by (simp add: tput_def)

lemma tkeys_tupdate [table_simps]:
  "(\<And>x. key (f x) = key x) \<Longrightarrow> tkeys key (tupdate P f tbl) = tkeys key tbl"
  by (induction tbl) auto

lemma tupdate_mem: "x \<in> set (tupdate P f tbl) \<longleftrightarrow> (\<exists>y \<in> set tbl. x = (if P y then f y else y))"
  unfolding tupdate_def set_map image_iff ..

lemma tupdate_id: "tcount P tbl = 0 \<Longrightarrow> tupdate P f tbl = tbl"
  by (induction tbl) (auto split: if_splits)

lemma tget_tupdate [table_simps]:
  "(\<And>x. key (f x) = key x) \<Longrightarrow>
   tget key k (tupdate P f tbl) = map_option (\<lambda>r. if P r then f r else r) (tget key k tbl)"
  by (induction tbl) auto

lemma tcount_pos: "0 < tcount P tbl \<longleftrightarrow> (\<exists>r \<in> set tbl. P r)"
  by (induction tbl) auto

lemma tcount_le_one:
  "distinct (tkeys key tbl) \<Longrightarrow> (\<And>r. P r \<Longrightarrow> key r = k) \<Longrightarrow> tcount P tbl \<le> 1"
proof (induction tbl)
  case (Cons x tbl)
  have "P x \<Longrightarrow> tcount P tbl = 0"
  proof -
    assume "P x"
    then have "key x = k" by (rule Cons.prems(2))
    then have "\<And>r. r \<in> set tbl \<Longrightarrow> \<not> P r"
      using Cons.prems by (metis distinct.simps(2) image_eqI list.simps(9) set_map)
    then show ?thesis using tcount_pos[of P tbl] by auto
  qed
  with Cons show ?case by simp
qed simp

section \<open>Ordered selection\<close>

text \<open>
  \<open>SELECT ... WHERE P ORDER BY f ASC LIMIT 1\<close>: the first row, in scan order, whose sort key
  is least among the rows that satisfy \<open>P\<close>.
\<close>

definition select_first :: "('r \<Rightarrow> bool) \<Rightarrow> ('r \<Rightarrow> int) \<Rightarrow> 'r list \<Rightarrow> 'r option" where
  "select_first P f tbl =
     find (\<lambda>r. P r \<and> list_all (\<lambda>x. P x \<longrightarrow> f r \<le> f x) tbl) tbl"

lemma select_first_None: "select_first P f tbl = None \<longleftrightarrow> (\<forall>r \<in> set tbl. \<not> P r)"
proof
  assume none: "select_first P f tbl = None"
  show "\<forall>r \<in> set tbl. \<not> P r"
  proof (rule ccontr)
    assume "\<not> (\<forall>r \<in> set tbl. \<not> P r)"
    then have ne: "{r \<in> set tbl. P r} \<noteq> {}" by auto
    let ?m = "arg_min_on f {r \<in> set tbl. P r}"
    have "?m \<in> {r \<in> set tbl. P r}" using ne by (intro arg_min_if_finite) auto
    moreover have "\<forall>x \<in> {r \<in> set tbl. P r}. f ?m \<le> f x"
      using ne by (intro ballI arg_min_least) auto
    ultimately obtain m where "m \<in> {r \<in> set tbl. P r}" "\<forall>x \<in> {r \<in> set tbl. P r}. f m \<le> f x"
      by blast
    with none show False
      by (auto simp: select_first_def find_None_iff list_all_iff)
  qed
next
  assume "\<forall>r \<in> set tbl. \<not> P r"
  then show "select_first P f tbl = None" by (auto simp: select_first_def find_None_iff)
qed

lemma select_first_Some:
  "select_first P f tbl = Some r \<Longrightarrow>
   r \<in> set tbl \<and> P r \<and> (\<forall>x \<in> set tbl. P x \<longrightarrow> f r \<le> f x)"
  by (auto simp: select_first_def find_Some_iff list_all_iff)

text \<open>With distinct sort keys the selection is the head of the sorted list of candidates.\<close>

lemma select_first_sorted:
  assumes "distinct (map f tbl)"
  shows "select_first P f tbl = (case sort_key f (filter P tbl) of [] \<Rightarrow> None | x # _ \<Rightarrow> Some x)"
proof (cases "sort_key f (filter P tbl)")
  case Nil
  then have "filter P tbl = []" by (metis length_0_conv length_sort)
  then show ?thesis using Nil by (simp add: select_first_None filter_empty_conv)
next
  case (Cons x xs)
  have set: "set (x # xs) = {r \<in> set tbl. P r}" using arg_cong[OF Cons, of set] by auto
  have "sorted (map f (x # xs))" using Cons by (metis sorted_sort_key)
  then have least: "f x \<le> f r" if "r \<in> set tbl" "P r" for r using that set by auto
  have x: "x \<in> set tbl" "P x" using set by auto
  then have "select_first P f tbl \<noteq> None" by (auto simp: select_first_None)
  then obtain r where r: "select_first P f tbl = Some r" by blast
  from select_first_Some[OF r] x least have "f r = f x" "r \<in> set tbl" by (auto intro: antisym)
  with assms x(1) have "r = x" by (simp add: distinct_map inj_on_def)
  with r Cons show ?thesis by simp
qed

lemma filter_above:
  assumes "sorted (map f (A @ r # B))" "distinct (map f (A @ r # B))"
  shows "filter (\<lambda>x. (f r :: int) < f x) (A @ r # B) = B"
proof -
  have "\<forall>x \<in> set A. \<not> f r < f x" "\<forall>x \<in> set B. f r < f x"
    using assms by (auto simp: sorted_append order.strict_iff_order)
  then show ?thesis by (simp add: filter_empty_conv[THEN iffD2] filter_id_conv[THEN iffD2])
qed

lemma sort_key_map_same:
  assumes "\<And>r. f (g r) = f r"
  shows "sort_key f (map g xs) = map g (sort_key f xs)"
proof -
  have "insort_key f (g x) (map g ys) = map g (insort_key f x ys)" for x ys
    using assms by (induction ys) auto
  then show ?thesis by (induction xs) auto
qed

lemma take_takeWhile_prefix:
  "take n (takeWhile P xs) = take (length (take n (takeWhile P xs))) xs"
proof -
  have "take n (takeWhile P xs) = take (min n (length (takeWhile P xs))) xs"
    by (metis takeWhile_eq_take take_take)
  then show ?thesis by (metis length_take length_takeWhile_le min.assoc min.absorb1 min.absorb2 nle_le)
qed

end
