(* ===== verification/Domain_Job.thy ===== *)
theory Domain_Job
  imports Prelude
begin

text \<open>
  The research-job entity of \<open>src/src/atlas/domain/research_job.py\<close>: its status enum, its
  field checks, \<open>create\<close>, \<open>reconstitute\<close> and the eight lifecycle transitions.  The
  theory states the invariant the entity keeps, shows that every transition keeps it, and
  that an entity that satisfies it survives a trip through storage unchanged.
  The current time read by \<open>datetime.now(UTC)\<close> is the parameter \<open>now\<close>.
\<close>

section \<open>Data\<close>

datatype research_job_status = PENDING | RUNNING | AWAITING_REVIEW | COMPLETED | FAILED

definition status_value :: "research_job_status \<Rightarrow> string" where
  "status_value s =
     (case s of PENDING \<Rightarrow> ''PENDING'' | RUNNING \<Rightarrow> ''RUNNING''
      | AWAITING_REVIEW \<Rightarrow> ''AWAITING_REVIEW'' | COMPLETED \<Rightarrow> ''COMPLETED''
      | FAILED \<Rightarrow> ''FAILED'')"

datatype domain_error =
    InvalidResearchJobError string
  | InvalidTransitionError string string

record research_job =
  rj_id :: string
  rj_question :: string
  rj_status :: research_job_status
  rj_created_at :: timestamp
  rj_updated_at :: timestamp
  rj_started_at :: "timestamp option"
  rj_finished_at :: "timestamp option"
  rj_result :: "string option"
  rj_failure_reason :: "string option"

text \<open>The keyword arguments of \<open>reconstitute\<close>; \<open>None\<close> as status is any object that is
  not a member of the enum.\<close>

record stored_job =
  sj_id :: py_object
  sj_question :: py_object
  sj_status :: "research_job_status option"
  sj_created_at :: py_datetime
  sj_updated_at :: py_datetime
  sj_started_at :: "py_datetime option"
  sj_finished_at :: "py_datetime option"
  sj_result :: "py_object option"
  sj_failure_reason :: "py_object option"

definition MAX_RESEARCH_JOB_ID_LENGTH :: nat where
  "MAX_RESEARCH_JOB_ID_LENGTH = 128"

section \<open>Field checks\<close>

definition require_non_empty :: "py_object \<Rightarrow> string \<Rightarrow> domain_error + string" where
  "require_non_empty value field_name =
     (case value of
        PyOther \<Rightarrow> Inl (InvalidResearchJobError (field_name @ '' must be a string.''))
      | PyStr s \<Rightarrow>
          (let st = py_strip s
           in if st = [] then Inl (InvalidResearchJobError (field_name @ '' must be a non-empty string.''))
              else Inr st))"

definition require_job_id :: "py_object \<Rightarrow> domain_error + string" where
  "require_job_id value =
     bindE (require_non_empty value ''id'') (\<lambda>cleaned.
       if MAX_RESEARCH_JOB_ID_LENGTH < length cleaned
       then Inl (InvalidResearchJobError ''id must be at most 128 characters.'')
       else Inr cleaned)"

definition resolve_timestamp :: "timestamp \<Rightarrow> py_datetime option \<Rightarrow> domain_error + timestamp" where
  "resolve_timestamp now at' =
     (case at' of
        None \<Rightarrow> Inr now
      | Some (Naive _) \<Rightarrow> Inl (InvalidResearchJobError ''Timestamps must be timezone-aware.'')
      | Some (Aware l off) \<Rightarrow> Inr (l - off))"

definition ensure_not_before :: "timestamp \<Rightarrow> timestamp \<Rightarrow> domain_error + unit" where
  "ensure_not_before at' previous =
     guardE (\<not> at' < previous)
       (InvalidResearchJobError ''Timestamp must not be earlier than the job's updated_at.'')"

definition ensure_order ::
  "timestamp \<Rightarrow> timestamp \<Rightarrow> string \<Rightarrow> string \<Rightarrow> domain_error + unit" where
  "ensure_order earlier later earlier_name later_name =
     guardE (\<not> later < earlier)
       (InvalidResearchJobError (later_name @ '' must not be earlier than '' @ earlier_name @ ''.''))"

definition require_status ::
  "research_job_status \<Rightarrow> research_job_status \<Rightarrow> research_job \<Rightarrow> domain_error + unit" where
  "require_status expected attempted job =
     guardE (rj_status job = expected)
       (InvalidTransitionError (status_value (rj_status job)) (status_value attempted))"

section \<open>Construction\<close>

definition create_job ::
  "timestamp \<Rightarrow> py_object \<Rightarrow> py_object \<Rightarrow> py_datetime option \<Rightarrow> domain_error + research_job" where
  "create_job now i question at' =
     bindE (require_job_id i) (\<lambda>cleaned_id.
     bindE (require_non_empty question ''question'') (\<lambda>cleaned_question.
     bindE (resolve_timestamp now at') (\<lambda>ts.
       Inr \<lparr> rj_id = cleaned_id, rj_question = cleaned_question, rj_status = PENDING,
             rj_created_at = ts, rj_updated_at = ts, rj_started_at = None,
             rj_finished_at = None, rj_result = None, rj_failure_reason = None \<rparr>)))"

text \<open>The checks of \<open>reconstitute\<close> that depend on the status, after the fields have been
  normalised; the order of the checks decides which error is raised.\<close>

definition ensure_started_order :: "research_job \<Rightarrow> timestamp \<Rightarrow> domain_error + unit" where
  "ensure_started_order j started =
     bindE (ensure_order (rj_created_at j) started ''created_at'' ''started_at'') (\<lambda>_.
       ensure_order started (rj_updated_at j) ''started_at'' ''updated_at'')"

definition ensure_finished_order ::
  "research_job \<Rightarrow> timestamp \<Rightarrow> timestamp \<Rightarrow> domain_error + unit" where
  "ensure_finished_order j started finished =
     bindE (ensure_order (rj_created_at j) started ''created_at'' ''started_at'') (\<lambda>_.
     bindE (ensure_order started finished ''started_at'' ''finished_at'') (\<lambda>_.
       ensure_order finished (rj_updated_at j) ''finished_at'' ''updated_at''))"

definition reconstitute_pending :: "research_job \<Rightarrow> domain_error + unit" where
  "reconstitute_pending j =
     bindE (guardE (rj_finished_at j = None)
              (InvalidResearchJobError ''PENDING jobs cannot have finished_at.'')) (\<lambda>_.
     bindE (guardE (rj_result j = None \<and> rj_failure_reason j = None)
              (InvalidResearchJobError ''PENDING jobs cannot have result or failure_reason.'')) (\<lambda>_.
       (case rj_started_at j of None \<Rightarrow> Inr () | Some st \<Rightarrow> ensure_started_order j st)))"

definition reconstitute_active :: "string \<Rightarrow> research_job \<Rightarrow> domain_error + unit" where
  "reconstitute_active name j =
     (case rj_started_at j of
        None \<Rightarrow> Inl (InvalidResearchJobError (name @ '' jobs require started_at and no finished_at.''))
      | Some st \<Rightarrow>
          bindE (guardE (rj_finished_at j = None)
                   (InvalidResearchJobError (name @ '' jobs require started_at and no finished_at.''))) (\<lambda>_.
          bindE (guardE (rj_result j = None \<and> rj_failure_reason j = None)
                   (InvalidResearchJobError (name @ '' jobs cannot have result or failure_reason.''))) (\<lambda>_.
            ensure_started_order j st)))"

definition reconstitute_completed :: "research_job \<Rightarrow> domain_error + unit" where
  "reconstitute_completed j =
     (case (rj_started_at j, rj_finished_at j, rj_result j) of
        (Some st, Some fin, Some _) \<Rightarrow>
          bindE (guardE (rj_failure_reason j = None)
                   (InvalidResearchJobError ''COMPLETED jobs cannot have failure_reason.'')) (\<lambda>_.
            ensure_finished_order j st fin)
      | _ \<Rightarrow> Inl (InvalidResearchJobError ''COMPLETED jobs require started_at, finished_at, and result.''))"

definition reconstitute_failed :: "research_job \<Rightarrow> domain_error + unit" where
  "reconstitute_failed j =
     (case (rj_started_at j, rj_finished_at j, rj_failure_reason j) of
        (Some st, Some fin, Some _) \<Rightarrow>
          bindE (guardE (rj_result j = None)
                   (InvalidResearchJobError ''FAILED jobs cannot have result.'')) (\<lambda>_.
            ensure_finished_order j st fin)
      | _ \<Rightarrow> Inl (InvalidResearchJobError ''FAILED jobs require started_at, finished_at, and failure_reason.''))"

definition reconstitute_checks :: "research_job \<Rightarrow> domain_error + unit" where
  "reconstitute_checks j =
     (case rj_status j of
        PENDING \<Rightarrow> reconstitute_pending j
      | RUNNING \<Rightarrow> reconstitute_active ''RUNNING'' j
      | AWAITING_REVIEW \<Rightarrow> reconstitute_active ''AWAITING_REVIEW'' j
      | COMPLETED \<Rightarrow> reconstitute_completed j
      | FAILED \<Rightarrow> reconstitute_failed j)"

definition reconstitute :: "timestamp \<Rightarrow> stored_job \<Rightarrow> domain_error + research_job" where
  "reconstitute now s =
     (case sj_status s of
        None \<Rightarrow> Inl (InvalidResearchJobError ''status must be a ResearchJobStatus.'')
      | Some status \<Rightarrow>
          bindE (require_job_id (sj_id s)) (\<lambda>cleaned_id.
          bindE (require_non_empty (sj_question s) ''question'') (\<lambda>cleaned_question.
          bindE (resolve_timestamp now (Some (sj_created_at s))) (\<lambda>created.
          bindE (resolve_timestamp now (Some (sj_updated_at s))) (\<lambda>updated.
          bindE (opt_map_E (\<lambda>t. resolve_timestamp now (Some t)) (sj_started_at s)) (\<lambda>started.
          bindE (opt_map_E (\<lambda>t. resolve_timestamp now (Some t)) (sj_finished_at s)) (\<lambda>finished.
          bindE (opt_map_E (\<lambda>v. require_non_empty v ''result'') (sj_result s)) (\<lambda>cleaned_result.
          bindE (opt_map_E (\<lambda>v. require_non_empty v ''failure_reason'') (sj_failure_reason s)) (\<lambda>cleaned_failure.
          bindE (ensure_order created updated ''created_at'' ''updated_at'') (\<lambda>_.
            let job = \<lparr> rj_id = cleaned_id, rj_question = cleaned_question, rj_status = status,
                        rj_created_at = created, rj_updated_at = updated,
                        rj_started_at = started, rj_finished_at = finished,
                        rj_result = cleaned_result, rj_failure_reason = cleaned_failure \<rparr>
            in bindE (reconstitute_checks job) (\<lambda>_. Inr job)))))))))))"

section \<open>Transitions\<close>

definition start :: "timestamp \<Rightarrow> py_datetime option \<Rightarrow> research_job \<Rightarrow> domain_error + research_job" where
  "start now at' job =
     bindE (require_status PENDING RUNNING job) (\<lambda>_.
     bindE (guardE (rj_started_at job = None)
              (InvalidResearchJobError
                 ''start() requires started_at to be None; use resume_from_pending() for delayed PENDING jobs.'')) (\<lambda>_.
     bindE (resolve_timestamp now at') (\<lambda>ts.
     bindE (ensure_not_before ts (rj_updated_at job)) (\<lambda>_.
       Inr (job\<lparr> rj_status := RUNNING, rj_started_at := Some ts, rj_updated_at := ts \<rparr>)))))"

definition resume_from_pending ::
  "timestamp \<Rightarrow> py_datetime option \<Rightarrow> research_job \<Rightarrow> domain_error + research_job" where
  "resume_from_pending now at' job =
     bindE (require_status PENDING RUNNING job) (\<lambda>_.
     bindE (guardE (rj_started_at job \<noteq> None)
              (InvalidResearchJobError
                 ''resume_from_pending() requires started_at to be set; use start() for fresh PENDING jobs.'')) (\<lambda>_.
     bindE (resolve_timestamp now at') (\<lambda>ts.
     bindE (ensure_not_before ts (rj_updated_at job)) (\<lambda>_.
       Inr (job\<lparr> rj_status := RUNNING, rj_updated_at := ts \<rparr>)))))"

definition complete ::
  "timestamp \<Rightarrow> py_object \<Rightarrow> py_datetime option \<Rightarrow> research_job \<Rightarrow> domain_error + research_job" where
  "complete now res at' job =
     bindE (require_status RUNNING COMPLETED job) (\<lambda>_.
     bindE (require_non_empty res ''result'') (\<lambda>cleaned_result.
     bindE (resolve_timestamp now at') (\<lambda>ts.
     bindE (ensure_not_before ts (rj_updated_at job)) (\<lambda>_.
       Inr (job\<lparr> rj_status := COMPLETED, rj_result := Some cleaned_result, rj_failure_reason := None,
                 rj_finished_at := Some ts, rj_updated_at := ts \<rparr>)))))"

definition fail ::
  "timestamp \<Rightarrow> py_object \<Rightarrow> py_datetime option \<Rightarrow> research_job \<Rightarrow> domain_error + research_job" where
  "fail now reason at' job =
     bindE (require_status RUNNING FAILED job) (\<lambda>_.
     bindE (require_non_empty reason ''failure_reason'') (\<lambda>cleaned_reason.
     bindE (resolve_timestamp now at') (\<lambda>ts.
     bindE (ensure_not_before ts (rj_updated_at job)) (\<lambda>_.
       Inr (job\<lparr> rj_status := FAILED, rj_failure_reason := Some cleaned_reason, rj_result := None,
                 rj_finished_at := Some ts, rj_updated_at := ts \<rparr>)))))"

definition await_review ::
  "timestamp \<Rightarrow> py_datetime option \<Rightarrow> research_job \<Rightarrow> domain_error + research_job" where
  "await_review now at' job =
     bindE (require_status RUNNING AWAITING_REVIEW job) (\<lambda>_.
     bindE (resolve_timestamp now at') (\<lambda>ts.
     bindE (ensure_not_before ts (rj_updated_at job)) (\<lambda>_.
       Inr (job\<lparr> rj_status := AWAITING_REVIEW, rj_updated_at := ts \<rparr>))))"

definition return_to_pending ::
  "timestamp \<Rightarrow> py_datetime option \<Rightarrow> research_job \<Rightarrow> domain_error + research_job" where
  "return_to_pending now at' job =
     bindE (require_status RUNNING PENDING job) (\<lambda>_.
     bindE (resolve_timestamp now at') (\<lambda>ts.
     bindE (ensure_not_before ts (rj_updated_at job)) (\<lambda>_.
       Inr (job\<lparr> rj_status := PENDING, rj_finished_at := None, rj_result := None,
                 rj_failure_reason := None, rj_updated_at := ts \<rparr>))))"

definition approve_to_pending ::
  "timestamp \<Rightarrow> py_datetime option \<Rightarrow> research_job \<Rightarrow> domain_error + research_job" where
  "approve_to_pending now at' job =
     bindE (require_status AWAITING_REVIEW PENDING job) (\<lambda>_.
     bindE (resolve_timestamp now at') (\<lambda>ts.
     bindE (ensure_not_before ts (rj_updated_at job)) (\<lambda>_.
       Inr (job\<lparr> rj_status := PENDING, rj_updated_at := ts \<rparr>))))"

definition fail_from_review ::
  "timestamp \<Rightarrow> py_object \<Rightarrow> py_datetime option \<Rightarrow> research_job \<Rightarrow> domain_error + research_job" where
  "fail_from_review now reason at' job =
     bindE (require_status AWAITING_REVIEW FAILED job) (\<lambda>_.
     bindE (require_non_empty reason ''failure_reason'') (\<lambda>cleaned_reason.
     bindE (resolve_timestamp now at') (\<lambda>ts.
     bindE (ensure_not_before ts (rj_updated_at job)) (\<lambda>_.
       Inr (job\<lparr> rj_status := FAILED, rj_failure_reason := Some cleaned_reason, rj_result := None,
                 rj_finished_at := Some ts, rj_updated_at := ts \<rparr>)))))"

text \<open>One call of the entity's public interface, and the relation it induces.\<close>

datatype job_call =
    Start "py_datetime option"
  | ResumeFromPending "py_datetime option"
  | Complete py_object "py_datetime option"
  | Fail py_object "py_datetime option"
  | AwaitReview "py_datetime option"
  | ReturnToPending "py_datetime option"
  | ApproveToPending "py_datetime option"
  | FailFromReview py_object "py_datetime option"

fun job_apply :: "timestamp \<Rightarrow> job_call \<Rightarrow> research_job \<Rightarrow> domain_error + research_job" where
  "job_apply now (Start at') j = start now at' j"
| "job_apply now (ResumeFromPending at') j = resume_from_pending now at' j"
| "job_apply now (Complete res at') j = complete now res at' j"
| "job_apply now (Fail reason at') j = fail now reason at' j"
| "job_apply now (AwaitReview at') j = await_review now at' j"
| "job_apply now (ReturnToPending at') j = return_to_pending now at' j"
| "job_apply now (ApproveToPending at') j = approve_to_pending now at' j"
| "job_apply now (FailFromReview reason at') j = fail_from_review now reason at' j"

inductive job_reachable :: "research_job \<Rightarrow> bool" where
  created: "create_job now i question at' = Inr j \<Longrightarrow> job_reachable j"
| called: "job_reachable j \<Longrightarrow> job_apply now c j = Inr j' \<Longrightarrow> job_reachable j'"

section \<open>The invariant of the entity\<close>

definition text_field_ok :: "string option \<Rightarrow> bool" where
  "text_field_ok v = (case v of None \<Rightarrow> True | Some s \<Rightarrow> stripped s)"

definition started_ok :: "research_job \<Rightarrow> bool" where
  "started_ok j =
     (case rj_started_at j of
        None \<Rightarrow> False
      | Some st \<Rightarrow> rj_created_at j \<le> st \<and> st \<le> rj_updated_at j)"

definition finished_ok :: "research_job \<Rightarrow> bool" where
  "finished_ok j =
     (case (rj_started_at j, rj_finished_at j) of
        (Some st, Some fin) \<Rightarrow> rj_created_at j \<le> st \<and> st \<le> fin \<and> fin \<le> rj_updated_at j
      | _ \<Rightarrow> False)"

definition lifecycle_ok :: "research_job \<Rightarrow> bool" where
  "lifecycle_ok j =
     (case rj_status j of
        PENDING \<Rightarrow> rj_finished_at j = None \<and> rj_result j = None \<and> rj_failure_reason j = None
                   \<and> (rj_started_at j \<noteq> None \<longrightarrow> started_ok j)
      | RUNNING \<Rightarrow> started_ok j \<and> rj_finished_at j = None \<and> rj_result j = None \<and> rj_failure_reason j = None
      | AWAITING_REVIEW \<Rightarrow> started_ok j \<and> rj_finished_at j = None \<and> rj_result j = None \<and> rj_failure_reason j = None
      | COMPLETED \<Rightarrow> finished_ok j \<and> rj_result j \<noteq> None \<and> rj_failure_reason j = None
      | FAILED \<Rightarrow> finished_ok j \<and> rj_result j = None \<and> rj_failure_reason j \<noteq> None)"

definition job_wf :: "research_job \<Rightarrow> bool" where
  "job_wf j \<longleftrightarrow>
     stripped (rj_id j) \<and> length (rj_id j) \<le> MAX_RESEARCH_JOB_ID_LENGTH \<and>
     stripped (rj_question j) \<and> text_field_ok (rj_result j) \<and> text_field_ok (rj_failure_reason j) \<and>
     rj_created_at j \<le> rj_updated_at j \<and> lifecycle_ok j"

text \<open>What storage hands back for an entity: the stored columns, timestamps in UTC.\<close>

definition stored_of :: "research_job \<Rightarrow> stored_job" where
  "stored_of j =
     \<lparr> sj_id = PyStr (rj_id j), sj_question = PyStr (rj_question j), sj_status = Some (rj_status j),
       sj_created_at = Aware (rj_created_at j) 0, sj_updated_at = Aware (rj_updated_at j) 0,
       sj_started_at = map_option (\<lambda>t. Aware t 0) (rj_started_at j),
       sj_finished_at = map_option (\<lambda>t. Aware t 0) (rj_finished_at j),
       sj_result = map_option PyStr (rj_result j),
       sj_failure_reason = map_option PyStr (rj_failure_reason j) \<rparr>"

section \<open>Lemmas\<close>

lemma require_non_empty_Inr [bind_simps]:
  "require_non_empty v f = Inr s \<longleftrightarrow> (\<exists>x. v = PyStr x \<and> s = py_strip x \<and> s \<noteq> [])"
  by (auto simp: require_non_empty_def Let_def split: py_object.splits if_splits)

lemma require_non_empty_stripped: "require_non_empty v f = Inr s \<Longrightarrow> stripped s"
  by (auto simp: bind_simps stripped_py_strip)

lemma require_non_empty_fixed: "stripped s \<Longrightarrow> require_non_empty (PyStr s) f = Inr s"
  by (auto simp: bind_simps py_strip_stripped stripped_def)

lemma require_job_id_Inr [bind_simps]:
  "require_job_id v = Inr s \<longleftrightarrow>
     require_non_empty v ''id'' = Inr s \<and> length s \<le> MAX_RESEARCH_JOB_ID_LENGTH"
  by (cases "require_non_empty v ''id''") (auto simp: require_job_id_def)

lemma resolve_timestamp_Aware [simp]: "resolve_timestamp now (Some (Aware l off)) = Inr (l - off)"
  by (simp add: resolve_timestamp_def)

lemma ensure_not_before_Inr [bind_simps]: "ensure_not_before t p = Inr u \<longleftrightarrow> p \<le> t"
  by (auto simp: ensure_not_before_def bind_simps)

lemma ensure_order_Inr [bind_simps]: "ensure_order e l n1 n2 = Inr u \<longleftrightarrow> e \<le> l"
  by (auto simp: ensure_order_def bind_simps)

lemma require_status_Inr [bind_simps]: "require_status ex att j = Inr u \<longleftrightarrow> rj_status j = ex"
  by (auto simp: require_status_def bind_simps)

lemma require_status_Inl:
  "rj_status j \<noteq> ex \<Longrightarrow>
   require_status ex att j = Inl (InvalidTransitionError (status_value (rj_status j)) (status_value att))"
  by (simp add: require_status_def)

lemma ensure_started_order_Inr [bind_simps]:
  "ensure_started_order j st = Inr u \<longleftrightarrow> rj_created_at j \<le> st \<and> st \<le> rj_updated_at j"
  by (auto simp: ensure_started_order_def bind_simps)

lemma ensure_finished_order_Inr [bind_simps]:
  "ensure_finished_order j st fin = Inr u \<longleftrightarrow>
     rj_created_at j \<le> st \<and> st \<le> fin \<and> fin \<le> rj_updated_at j"
  by (auto simp: ensure_finished_order_def bind_simps)

text \<open>The status-dependent checks of \<open>reconstitute\<close> accept exactly the lifecycle part of
  the invariant.\<close>

lemma reconstitute_pending_Inr:
  "reconstitute_pending j = Inr u \<longleftrightarrow>
     rj_finished_at j = None \<and> rj_result j = None \<and> rj_failure_reason j = None \<and>
     (rj_started_at j \<noteq> None \<longrightarrow> started_ok j)"
  by (cases "rj_started_at j") (auto simp: reconstitute_pending_def started_ok_def bind_simps)

lemma reconstitute_active_Inr:
  "reconstitute_active n j = Inr u \<longleftrightarrow>
     started_ok j \<and> rj_finished_at j = None \<and> rj_result j = None \<and> rj_failure_reason j = None"
  by (cases "rj_started_at j") (auto simp: reconstitute_active_def started_ok_def bind_simps)

lemma reconstitute_completed_Inr:
  "reconstitute_completed j = Inr u \<longleftrightarrow>
     finished_ok j \<and> rj_result j \<noteq> None \<and> rj_failure_reason j = None"
  by (auto simp: reconstitute_completed_def finished_ok_def bind_simps split: option.splits)

lemma reconstitute_failed_Inr:
  "reconstitute_failed j = Inr u \<longleftrightarrow>
     finished_ok j \<and> rj_result j = None \<and> rj_failure_reason j \<noteq> None"
  by (auto simp: reconstitute_failed_def finished_ok_def bind_simps split: option.splits)

lemma reconstitute_checks_Inr [bind_simps]: "reconstitute_checks j = Inr u \<longleftrightarrow> lifecycle_ok j"
  by (cases "rj_status j")
     (auto simp: reconstitute_checks_def lifecycle_ok_def reconstitute_pending_Inr
        reconstitute_active_Inr reconstitute_completed_Inr reconstitute_failed_Inr)

lemma create_job_wf:
  assumes "create_job now i q at' = Inr j" shows "job_wf j" and "rj_status j = PENDING"
  using assms
  by (auto simp: create_job_def bind_simps job_wf_def lifecycle_ok_def text_field_ok_def
      dest: require_non_empty_stripped intro: stripped_py_strip)

lemma reconstitute_wf:
  assumes "reconstitute now s = Inr j" shows "job_wf j"
  using assms
  by (auto simp: reconstitute_def bind_simps Let_def job_wf_def text_field_ok_def stripped_py_strip
      split: option.splits)

lemma opt_map_E_fixed:
  "(\<And>x. v = Some x \<Longrightarrow> f (g x) = Inr x) \<Longrightarrow> opt_map_E f (map_option g v) = Inr v"
  by (cases v) auto

lemma research_job_eta:
  "\<lparr> rj_id = rj_id j, rj_question = rj_question j, rj_status = rj_status j,
     rj_created_at = rj_created_at j, rj_updated_at = rj_updated_at j,
     rj_started_at = rj_started_at j, rj_finished_at = rj_finished_at j,
     rj_result = rj_result j, rj_failure_reason = rj_failure_reason j \<rparr> = (j :: research_job)"
  by (cases j) simp

lemma reconstitute_stored_of: "job_wf j \<Longrightarrow> reconstitute now (stored_of j) = Inr j"
proof -
  assume wf: "job_wf j"
  have id: "require_job_id (PyStr (rj_id j)) = Inr (rj_id j)"
    and q: "require_non_empty (PyStr (rj_question j)) ''question'' = Inr (rj_question j)"
    and res: "opt_map_E (\<lambda>v. require_non_empty v ''result'') (map_option PyStr (rj_result j)) = Inr (rj_result j)"
    and fr: "opt_map_E (\<lambda>v. require_non_empty v ''failure_reason'') (map_option PyStr (rj_failure_reason j))
               = Inr (rj_failure_reason j)"
    and ord: "ensure_order (rj_created_at j) (rj_updated_at j) ''created_at'' ''updated_at'' = Inr ()"
    and chk: "reconstitute_checks j = Inr ()"
    using wf by (auto simp: job_wf_def require_non_empty_fixed require_job_id_Inr ensure_order_Inr
        reconstitute_checks_Inr text_field_ok_def intro!: opt_map_E_fixed)
  have ts: "opt_map_E (\<lambda>t. resolve_timestamp now (Some t)) (map_option (\<lambda>t. Aware t 0) v) = Inr v" for v
    by (rule opt_map_E_fixed) simp
  show ?thesis
    by (simp add: reconstitute_def stored_of_def id q ts res fr ord Let_def research_job_eta chk)
qed

lemmas transition_defs =
  start_def resume_from_pending_def complete_def fail_def await_review_def return_to_pending_def
  approve_to_pending_def fail_from_review_def

lemmas invariant_defs =
  job_wf_def lifecycle_ok_def started_ok_def finished_ok_def text_field_ok_def

text \<open>What every transition leaves alone and what it moves forward.\<close>

lemma job_apply_frame:
  assumes "job_apply now c j = Inr j'"
  shows "rj_id j' = rj_id j" "rj_question j' = rj_question j" "rj_created_at j' = rj_created_at j"
    "rj_updated_at j \<le> rj_updated_at j'"
  using assms by (cases c; auto simp: transition_defs bind_simps)+

lemma job_apply_started:
  assumes "job_apply now c j = Inr j'" "rj_started_at j = Some st"
  shows "rj_started_at j' = Some st"
  using assms by (cases c) (auto simp: transition_defs bind_simps)

lemma job_apply_lifecycle:
  assumes "job_apply now c j = Inr j'" "job_wf j" shows "lifecycle_ok j'"
  using assms
  by (cases c) (auto simp: transition_defs bind_simps invariant_defs split: option.splits)

lemma job_apply_text_fields:
  assumes "job_apply now c j = Inr j'" "job_wf j"
  shows "text_field_ok (rj_result j')" "text_field_ok (rj_failure_reason j')"
  using assms
  by (cases c; auto simp: transition_defs bind_simps job_wf_def text_field_ok_def stripped_py_strip)+

lemma job_apply_wf: "job_apply now c j = Inr j' \<Longrightarrow> job_wf j \<Longrightarrow> job_wf j'"
  using job_apply_frame job_apply_lifecycle job_apply_text_fields
  unfolding job_wf_def by (metis order_trans)

text \<open>The edges of the lifecycle.\<close>

definition lifecycle_edge :: "research_job_status \<Rightarrow> research_job_status \<Rightarrow> bool" where
  "lifecycle_edge s s' \<longleftrightarrow>
     (s, s') \<in> {(PENDING, RUNNING), (RUNNING, COMPLETED), (RUNNING, FAILED),
                (RUNNING, AWAITING_REVIEW), (RUNNING, PENDING),
                (AWAITING_REVIEW, PENDING), (AWAITING_REVIEW, FAILED)}"

definition is_terminal :: "research_job_status \<Rightarrow> bool" where
  "is_terminal s \<longleftrightarrow> s = COMPLETED \<or> s = FAILED"

lemma job_apply_edge: "job_apply now c j = Inr j' \<Longrightarrow> lifecycle_edge (rj_status j) (rj_status j')"
  by (cases c) (auto simp: transition_defs bind_simps lifecycle_edge_def)

lemma job_reachable_wf: "job_reachable j \<Longrightarrow> job_wf j"
  by (induction rule: job_reachable.induct) (auto intro: create_job_wf job_apply_wf)

section \<open>Properties\<close>

text \<open>
  C16. A research job that was created and then moved by any sequence of successful
  lifecycle calls satisfies the entity's invariant, and reading it back from storage gives
  exactly the same entity: \<open>reconstitute\<close> neither rejects nor changes it.
\<close>

theorem reachable_job_survives_storage:
  assumes "job_reachable j"
  shows "job_wf j \<and> reconstitute now (stored_of j) = Inr j"
  using assms by (simp add: job_reachable_wf reconstitute_stored_of)

definition witness_job :: research_job where
  "witness_job =
     \<lparr> rj_id = ''job-1'', rj_question = ''why'', rj_status = PENDING, rj_created_at = 10,
       rj_updated_at = 10, rj_started_at = None, rj_finished_at = None, rj_result = None,
       rj_failure_reason = None \<rparr>"

lemma witness_job_created:
  "create_job 0 (PyStr '' job-1 '') (PyStr ''why'') (Some (Aware 10 0)) = Inr witness_job"
  by (simp add: create_job_def require_job_id_def require_non_empty_def py_strip_def py_isspace_def
      witness_job_def MAX_RESEARCH_JOB_ID_LENGTH_def Let_def)

theorem reachable_job_survives_storage_witness:
  "job_wf witness_job \<and> reconstitute 0 (stored_of witness_job) = Inr witness_job"
  by (rule reachable_job_survives_storage)
     (rule job_reachable.created [OF witness_job_created])

text \<open>
  Every successful lifecycle call follows one of the seven edges of the lifecycle, keeps
  the job's identity, question and creation time, never moves \<open>updated_at\<close> backwards, and
  never changes \<open>started_at\<close> once it is set; a well-formed entity stays well-formed.
\<close>

lemma lifecycle_call_sound:
  assumes "job_apply now c j = Inr j'"
  shows "lifecycle_edge (rj_status j) (rj_status j')
       \<and> rj_id j' = rj_id j \<and> rj_question j' = rj_question j \<and> rj_created_at j' = rj_created_at j
       \<and> rj_updated_at j \<le> rj_updated_at j'
       \<and> (rj_started_at j \<noteq> None \<longrightarrow> rj_started_at j' = rj_started_at j)
       \<and> (job_wf j \<longrightarrow> job_wf j')"
  using assms job_apply_edge[OF assms] job_apply_frame[OF assms] job_apply_wf[OF assms]
    job_apply_started[OF assms] by auto

lemma lifecycle_call_sound_witness:
  "lifecycle_edge PENDING RUNNING
   \<and> rj_started_at (witness_job\<lparr>rj_status := RUNNING, rj_started_at := Some 12, rj_updated_at := 12\<rparr>) = Some 12
   \<and> job_wf (witness_job\<lparr>rj_status := RUNNING, rj_started_at := Some 12, rj_updated_at := 12\<rparr>)"
proof -
  have "job_apply 0 (Start (Some (Aware 12 0))) witness_job
      = Inr (witness_job\<lparr>rj_status := RUNNING, rj_started_at := Some 12, rj_updated_at := 12\<rparr>)"
    by (simp add: start_def require_status_def ensure_not_before_def witness_job_def)
  from lifecycle_call_sound [OF this] create_job_wf(1) [OF witness_job_created]
  show ?thesis by (simp add: witness_job_def)
qed

text \<open>
  \<open>COMPLETED\<close> and \<open>FAILED\<close> are final: on a terminal job every lifecycle call raises
  \<open>InvalidTransitionError\<close> naming the job's current status.
\<close>

lemma terminal_jobs_reject_every_call:
  assumes "is_terminal (rj_status j)"
  shows "\<exists>attempted. job_apply now c j = Inl (InvalidTransitionError (status_value (rj_status j)) attempted)"
  using assms
  by (cases c) (auto simp: transition_defs is_terminal_def require_status_def)

lemma terminal_jobs_reject_every_call_witness:
  "\<exists>attempted. job_apply 0 (Start None) (witness_job\<lparr>rj_status := FAILED\<rparr>)
     = Inl (InvalidTransitionError ''FAILED'' attempted)"
  using terminal_jobs_reject_every_call [of "witness_job\<lparr>rj_status := FAILED\<rparr>" 0 "Start None"]
  by (simp add: is_terminal_def status_value_def)



end
