(* ===== verification/Lease_Fence.thy ===== *)
theory Lease_Fence
  imports Prelude
begin

text \<open>
  The claim protocols of the stores, as interfaces.  Under \<open>token_fence\<close> a row is granted to a fresh
  token and only the token it was last granted to owns it (evaluation runs).  \<open>lease_fence\<close> adds a
  lease: the row becomes claimable only once its owner has lost it by the passing of time
  (research-job claims, outbox publish claims, dead-letter replay claims).  Each store interprets the
  locale on its own predicates.
\<close>

locale token_fence =
  fixes holder :: "'row \<Rightarrow> 'tok option"
    and owns :: "'row \<Rightarrow> 'tok \<Rightarrow> timestamp \<Rightarrow> bool"
    and granted :: "'row \<Rightarrow> 'tok \<Rightarrow> timestamp \<Rightarrow> timestamp \<Rightarrow> 'row \<Rightarrow> bool"
  assumes owns_holder: "owns r t at' \<Longrightarrow> holder r = Some t"
    and granted_holder: "granted r t now e r' \<Longrightarrow> holder r' = Some t"
    and granted_owns: "granted r t now e r' \<Longrightarrow> now < e \<Longrightarrow> owns r' t now"
begin

lemma single_owner: "owns r t a \<Longrightarrow> owns r t' a' \<Longrightarrow> t = t'"
  by (metis owns_holder option.inject)

lemma granted_fences_others: "granted r t now e r' \<Longrightarrow> t' \<noteq> t \<Longrightarrow> \<not> owns r' t' at'"
  by (metis granted_holder owns_holder option.inject)

end

locale lease_fence = token_fence holder owns granted
  for holder :: "'row \<Rightarrow> 'tok option"
    and owns :: "'row \<Rightarrow> 'tok \<Rightarrow> timestamp \<Rightarrow> bool"
    and granted :: "'row \<Rightarrow> 'tok \<Rightarrow> timestamp \<Rightarrow> timestamp \<Rightarrow> 'row \<Rightarrow> bool" +
  fixes claimable :: "'row \<Rightarrow> timestamp \<Rightarrow> bool"
  assumes owns_earlier: "owns r t at' \<Longrightarrow> now \<le> at' \<Longrightarrow> owns r t now"
    and claimable_unowned: "claimable r now \<Longrightarrow> \<not> owns r t now"
    and granted_claimable: "granted r t now e r' \<Longrightarrow> claimable r now"
begin

lemma claimable_fences_owner: "claimable r now \<Longrightarrow> now \<le> at' \<Longrightarrow> \<not> owns r t at'"
  using owns_earlier claimable_unowned by blast

text \<open>Handing a row over never takes it from a live owner, and leaves exactly the new owner.\<close>

lemma handover:
  assumes "granted r t now e r'" and "now < e"
  shows "(\<forall>t' at'. now \<le> at' \<longrightarrow> \<not> owns r t' at') \<and> (\<forall>t' at'. owns r' t' at' \<longrightarrow> t' = t) \<and> owns r' t now"
  using assms granted_claimable claimable_fences_owner granted_fences_others granted_owns
  by (intro conjI allI impI) metis+

end

end
