(* ===== verification/Job_Store.thy ===== *)
theory Job_Store
  imports Domain_Job Lease_Fence
begin

text \<open>
  The \<open>research_jobs\<close> table and its repository: the columns and \<open>CHECK\<close> constraints of
  \<open>src/src/atlas/persistence/models/research_job.py\<close>, the mapper of
  \<open>persistence/mappers/research_job.py\<close> and every operation of
  \<open>persistence/repositories/research_job.py\<close>, with the workflow executions that
  \<open>schedule_retry\<close> and the foreign key touch.
  A repository call runs inside \<open>session_scope\<close>: \<open>Inl\<close> is an exception, so the
  transaction rolls back and the store the caller still has is the result.  \<open>flush\<close> is
  where PostgreSQL checks the constraints.
\<close>

section \<open>Columns\<close>

datatype continuation_mode = NONE | JOB_RETRY | REVIEW_COMPLETE

definition mode_value :: "continuation_mode \<Rightarrow> string" where
  "mode_value m =
     (case m of NONE \<Rightarrow> ''NONE'' | JOB_RETRY \<Rightarrow> ''JOB_RETRY'' | REVIEW_COMPLETE \<Rightarrow> ''REVIEW_COMPLETE'')"

definition mode_of :: "string \<Rightarrow> continuation_mode option" where
  "mode_of s = find (\<lambda>m. mode_value m = s) [NONE, JOB_RETRY, REVIEW_COMPLETE]"

definition status_of :: "string \<Rightarrow> research_job_status option" where
  "status_of s = find (\<lambda>m. status_value m = s) [PENDING, RUNNING, AWAITING_REVIEW, COMPLETED, FAILED]"

record job_row =
  r_id :: string
  r_question :: string
  r_status :: string
  r_created_at :: timestamp
  r_updated_at :: timestamp
  r_started_at :: "timestamp option"
  r_finished_at :: "timestamp option"
  r_result :: "string option"
  r_failure_reason :: "string option"
  r_idempotency_key :: "string option"
  r_request_fingerprint :: "string option"
  r_lease_expires_at :: "timestamp option"
  r_claim_token :: "string option"
  r_repair_count :: int
  r_job_retry_count :: int
  r_evaluation_attempt_count :: int
  r_next_attempt_at :: "timestamp option"
  r_continuation_mode :: string
  r_claimed_continuation_mode :: string
  r_active_workflow_execution_id :: "string option"
  r_traceparent :: "string option"
  r_initial_traceparent_consumed_at :: "timestamp option"
  r_evaluation_profile :: "string option"

record exec_row =
  x_id :: string
  x_research_job_id :: string
  x_thread_id :: string
  x_status :: string
  x_started_at :: timestamp
  x_finished_at :: "timestamp option"

record store =
  st_jobs :: "job_row list"
  st_execs :: "exec_row list"

datatype store_error =
    DomainFailure domain_error
  | ValueError string
  | IntegrityError string
  | ResearchJobAlreadyExistsError string
  | IdempotencyKeyConflictError
  | ResearchJobNotFoundError string
  | AssertionError

section \<open>Constraints\<close>

text \<open>SQL's \<open>trim\<close> removes blanks only, unlike Python's \<open>strip\<close>.\<close>

definition sql_nonblank :: "string \<Rightarrow> bool" where
  "sql_nonblank s \<longleftrightarrow> (\<exists>c \<in> set s. c \<noteq> CHR '' '')"

definition ck_status :: "job_row \<Rightarrow> bool" where
  "ck_status r \<longleftrightarrow> r_status r \<in> {''PENDING'', ''RUNNING'', ''AWAITING_REVIEW'', ''COMPLETED'', ''FAILED''}"

definition ck_texts :: "job_row \<Rightarrow> bool" where
  "ck_texts r \<longleftrightarrow> sql_nonblank (r_id r) \<and> sql_nonblank (r_question r)"

definition ck_updated_after_created :: "job_row \<Rightarrow> bool" where
  "ck_updated_after_created r \<longleftrightarrow> r_created_at r \<le> r_updated_at r"

definition started_in_order :: "job_row \<Rightarrow> bool" where
  "started_in_order r =
     (case r_started_at r of None \<Rightarrow> False
      | Some st \<Rightarrow> r_created_at r \<le> st \<and> st \<le> r_updated_at r)"

definition finished_in_order :: "job_row \<Rightarrow> bool" where
  "finished_in_order r =
     (case (r_started_at r, r_finished_at r) of
        (Some st, Some fin) \<Rightarrow> r_created_at r \<le> st \<and> st \<le> fin \<and> fin \<le> r_updated_at r
      | _ \<Rightarrow> False)"

definition no_claim :: "job_row \<Rightarrow> bool" where
  "no_claim r \<longleftrightarrow> r_claim_token r = None \<and> r_lease_expires_at r = None"

definition ck_pending_fields :: "job_row \<Rightarrow> bool" where
  "ck_pending_fields r \<longleftrightarrow>
     r_status r = ''PENDING'' \<and> r_finished_at r = None \<and> r_result r = None \<and> r_failure_reason r = None \<and>
     no_claim r \<and> r_claimed_continuation_mode r = ''NONE'' \<and>
     ((r_started_at r = None \<and> r_next_attempt_at r = None \<and> r_continuation_mode r = ''NONE'' \<and>
         r_active_workflow_execution_id r = None)
      \<or> (r_next_attempt_at r \<noteq> None \<and> r_continuation_mode r = ''JOB_RETRY'' \<and>
         r_active_workflow_execution_id r = None \<and> started_in_order r)
      \<or> (r_next_attempt_at r \<noteq> None \<and> r_continuation_mode r = ''REVIEW_COMPLETE'' \<and>
         r_active_workflow_execution_id r \<noteq> None \<and> started_in_order r))"

definition ck_running_fields :: "job_row \<Rightarrow> bool" where
  "ck_running_fields r \<longleftrightarrow>
     r_status r = ''RUNNING'' \<and> r_finished_at r = None \<and> r_result r = None \<and> r_failure_reason r = None \<and>
     r_next_attempt_at r = None \<and> r_continuation_mode r = ''NONE'' \<and>
     r_claimed_continuation_mode r \<in> {''NONE'', ''JOB_RETRY'', ''REVIEW_COMPLETE''} \<and>
     (r_claimed_continuation_mode r = ''REVIEW_COMPLETE'' \<longrightarrow> r_active_workflow_execution_id r \<noteq> None) \<and>
     started_in_order r"

definition ck_awaiting_fields :: "job_row \<Rightarrow> bool" where
  "ck_awaiting_fields r \<longleftrightarrow>
     r_status r = ''AWAITING_REVIEW'' \<and> r_finished_at r = None \<and> r_result r = None \<and>
     r_failure_reason r = None \<and> no_claim r \<and> r_next_attempt_at r = None \<and>
     r_continuation_mode r = ''NONE'' \<and> r_claimed_continuation_mode r = ''NONE'' \<and>
     r_active_workflow_execution_id r \<noteq> None \<and> started_in_order r"

definition ck_terminal_fields :: "job_row \<Rightarrow> bool" where
  "ck_terminal_fields r \<longleftrightarrow>
     ((r_status r = ''COMPLETED'' \<and> r_result r \<noteq> None \<and> r_failure_reason r = None)
      \<or> (r_status r = ''FAILED'' \<and> r_failure_reason r \<noteq> None \<and> r_result r = None)) \<and>
     no_claim r \<and> r_next_attempt_at r = None \<and> r_continuation_mode r = ''NONE'' \<and>
     r_claimed_continuation_mode r = ''NONE'' \<and> r_active_workflow_execution_id r = None \<and>
     finished_in_order r"

definition ck_status_fields :: "job_row \<Rightarrow> bool" where
  "ck_status_fields r \<longleftrightarrow>
     ck_pending_fields r \<or> ck_running_fields r \<or> ck_awaiting_fields r \<or> ck_terminal_fields r"

definition ck_idempotency_pair :: "job_row \<Rightarrow> bool" where
  "ck_idempotency_pair r =
     (case (r_idempotency_key r, r_request_fingerprint r) of
        (None, None) \<Rightarrow> True
      | (Some k, Some f) \<Rightarrow> sql_nonblank k \<and> length f = 64
      | _ \<Rightarrow> False)"

definition ck_claim_lease_pair :: "job_row \<Rightarrow> bool" where
  "ck_claim_lease_pair r =
     (case (r_lease_expires_at r, r_claim_token r) of
        (None, None) \<Rightarrow> True
      | (Some _, Some t) \<Rightarrow> sql_nonblank t \<and> length t = 64
      | _ \<Rightarrow> False)"

definition ck_counters :: "job_row \<Rightarrow> bool" where
  "ck_counters r \<longleftrightarrow>
     0 \<le> r_repair_count r \<and> r_repair_count r \<le> 1 \<and>
     0 \<le> r_job_retry_count r \<and> r_job_retry_count r \<le> 2 \<and>
     0 \<le> r_evaluation_attempt_count r \<and> r_evaluation_attempt_count r \<le> 4"

definition ck_continuation_modes :: "job_row \<Rightarrow> bool" where
  "ck_continuation_modes r \<longleftrightarrow>
     mode_of (r_continuation_mode r) \<noteq> None \<and> mode_of (r_claimed_continuation_mode r) \<noteq> None"

definition hex_lower :: "char \<Rightarrow> bool" where
  "hex_lower c \<longleftrightarrow> c \<in> set ''0123456789abcdef''"

definition traceparent_format :: "string \<Rightarrow> bool" where
  "traceparent_format tp \<longleftrightarrow>
     length tp = 55 \<and> take 3 tp = ''00-'' \<and> tp ! 35 = CHR ''-'' \<and> tp ! 52 = CHR ''-'' \<and>
     list_all hex_lower (take 32 (drop 3 tp)) \<and> list_all hex_lower (take 16 (drop 36 tp)) \<and>
     list_all hex_lower (drop 53 tp) \<and>
     \<not> list_all (\<lambda>c. c = CHR ''0'') (take 32 (drop 3 tp)) \<and>
     \<not> list_all (\<lambda>c. c = CHR ''0'') (take 16 (drop 36 tp))"

definition ck_traceparent :: "job_row \<Rightarrow> bool" where
  "ck_traceparent r \<longleftrightarrow>
     (case r_traceparent r of None \<Rightarrow> True | Some tp \<Rightarrow> traceparent_format tp) \<and>
     (r_initial_traceparent_consumed_at r = None \<or> r_traceparent r \<noteq> None)"

definition ALLOWED_EVALUATION_PROFILES :: "string list" where
  "ALLOWED_EVALUATION_PROFILES = [''evaluation.candidate.v1'', ''evaluation.candidate.fake.v1'', ''evaluation.v1'']"

definition ck_evaluation_profile :: "job_row \<Rightarrow> bool" where
  "ck_evaluation_profile r \<longleftrightarrow>
     (case r_evaluation_profile r of None \<Rightarrow> True | Some p \<Rightarrow> p \<in> set ALLOWED_EVALUATION_PROFILES) \<and>
     ((r_status r = ''PENDING'' \<and> r_started_at r = None) \<or> r_evaluation_profile r \<noteq> None)"

definition row_checks :: "job_row \<Rightarrow> bool" where
  "row_checks r \<longleftrightarrow>
     ck_status r \<and> ck_texts r \<and> ck_updated_after_created r \<and> ck_status_fields r \<and> ck_idempotency_pair r \<and>
     ck_claim_lease_pair r \<and> ck_counters r \<and> ck_continuation_modes r \<and> ck_traceparent r \<and>
     ck_evaluation_profile r"

text \<open>\<open>fk_research_jobs_active_execution_job_pair\<close>: a bound execution exists and belongs to the job.\<close>

definition fk_active_execution :: "exec_row list \<Rightarrow> job_row \<Rightarrow> bool" where
  "fk_active_execution execs r =
     (case r_active_workflow_execution_id r of
        None \<Rightarrow> True
      | Some e \<Rightarrow> list_ex (\<lambda>x. x_id x = e \<and> x_research_job_id x = r_id r) execs)"

definition exec_checks :: "exec_row \<Rightarrow> bool" where
  "exec_checks x \<longleftrightarrow>
     sql_nonblank (x_id x) \<and> sql_nonblank (x_research_job_id x) \<and> sql_nonblank (x_thread_id x) \<and>
     ((x_status x = ''RUNNING'' \<and> x_finished_at x = None)
      \<or> (x_status x \<in> {''COMPLETED'', ''FAILED'', ''ABANDONED''} \<and>
         (case x_finished_at x of None \<Rightarrow> False | Some f \<Rightarrow> x_started_at x \<le> f)))"

text \<open>Which \<open>CHECK\<close> fails is not modelled: no caller distinguishes them.\<close>

definition flush_job :: "store \<Rightarrow> job_row \<Rightarrow> store_error + store" where
  "flush_job st r =
     (if \<not> row_checks r then Inl (IntegrityError ''check'')
      else if \<not> fk_active_execution (st_execs st) r
      then Inl (IntegrityError ''fk_research_jobs_active_execution_job_pair'')
      else Inr (st\<lparr> st_jobs := tput r_id r (st_jobs st) \<rparr>))"

section \<open>Mapper\<close>

definition to_orm :: "research_job \<Rightarrow> job_row" where
  "to_orm job =
     \<lparr> r_id = rj_id job, r_question = rj_question job, r_status = status_value (rj_status job),
       r_created_at = rj_created_at job, r_updated_at = rj_updated_at job,
       r_started_at = rj_started_at job, r_finished_at = rj_finished_at job,
       r_result = rj_result job, r_failure_reason = rj_failure_reason job,
       r_idempotency_key = None, r_request_fingerprint = None, r_lease_expires_at = None,
       r_claim_token = None, r_repair_count = 0, r_job_retry_count = 0,
       r_evaluation_attempt_count = 0, r_next_attempt_at = None, r_continuation_mode = ''NONE'',
       r_claimed_continuation_mode = ''NONE'', r_active_workflow_execution_id = None,
       r_traceparent = None, r_initial_traceparent_consumed_at = None, r_evaluation_profile = None \<rparr>"

definition apply_domain_to_orm :: "research_job \<Rightarrow> job_row \<Rightarrow> job_row" where
  "apply_domain_to_orm job model =
     model\<lparr> r_question := rj_question job, r_status := status_value (rj_status job),
            r_created_at := rj_created_at job, r_updated_at := rj_updated_at job,
            r_started_at := rj_started_at job, r_finished_at := rj_finished_at job,
            r_result := rj_result job, r_failure_reason := rj_failure_reason job \<rparr>"

text \<open>\<open>reconstitute\<close> reads no clock here: every timestamp is given, so its \<open>now\<close> is unused.\<close>

definition to_domain :: "job_row \<Rightarrow> store_error + research_job" where
  "to_domain model =
     (case status_of (r_status model) of
        None \<Rightarrow> Inl (ValueError ''ResearchJobStatus'')
      | Some status \<Rightarrow>
          map_error DomainFailure (reconstitute 0
            \<lparr> sj_id = PyStr (r_id model), sj_question = PyStr (r_question model), sj_status = Some status,
              sj_created_at = Aware (r_created_at model) 0, sj_updated_at = Aware (r_updated_at model) 0,
              sj_started_at = map_option (\<lambda>t. Aware t 0) (r_started_at model),
              sj_finished_at = map_option (\<lambda>t. Aware t 0) (r_finished_at model),
              sj_result = map_option PyStr (r_result model),
              sj_failure_reason = map_option PyStr (r_failure_reason model) \<rparr>))"

section \<open>Repository: plain reads and writes\<close>

definition add_job ::
  "store \<Rightarrow> research_job \<Rightarrow> string \<Rightarrow> string \<Rightarrow> string option \<Rightarrow> store_error + store" where
  "add_job st job idempotency_key request_fingerprint traceparent =
     (let model = (to_orm job)\<lparr> r_idempotency_key := Some idempotency_key,
                                 r_request_fingerprint := Some request_fingerprint,
                                 r_traceparent := traceparent \<rparr>
      in if \<not> row_checks model then Inl (IntegrityError ''check'')
         else if tget r_id (r_id model) (st_jobs st) \<noteq> None
         then Inl (ResearchJobAlreadyExistsError (rj_id job))
         else if list_ex (\<lambda>r. r_idempotency_key r = Some idempotency_key) (st_jobs st)
         then Inl IdempotencyKeyConflictError
         else Inr (st\<lparr> st_jobs := st_jobs st @ [model] \<rparr>))"

definition get_job :: "store \<Rightarrow> string \<Rightarrow> store_error + research_job option" where
  "get_job st job_id =
     (case tget r_id job_id (st_jobs st) of
        None \<Rightarrow> Inr None
      | Some model \<Rightarrow> bindE (to_domain model) (\<lambda>j. Inr (Some j)))"

definition get_by_idempotency_key ::
  "store \<Rightarrow> string \<Rightarrow> store_error + (research_job \<times> string) option" where
  "get_by_idempotency_key st key =
     (case find (\<lambda>r. r_idempotency_key r = Some key) (st_jobs st) of
        None \<Rightarrow> Inr None
      | Some model \<Rightarrow>
          (case r_request_fingerprint model of
             None \<Rightarrow> Inr None
           | Some fp \<Rightarrow> bindE (to_domain model) (\<lambda>j. Inr (Some (j, fp)))))"

definition save_job :: "store \<Rightarrow> research_job \<Rightarrow> store_error + store" where
  "save_job st job =
     (case tget r_id (rj_id job) (st_jobs st) of
        None \<Rightarrow> Inl (ResearchJobNotFoundError (rj_id job))
      | Some model \<Rightarrow> flush_job st (apply_domain_to_orm job model))"

definition get_attempt_counts :: "store \<Rightarrow> string \<Rightarrow> int \<times> int \<times> int" where
  "get_attempt_counts st job_id =
     (case tget r_id job_id (st_jobs st) of
        None \<Rightarrow> (0, 0, 0)
      | Some m \<Rightarrow> (r_repair_count m, r_job_retry_count m, r_evaluation_attempt_count m))"

section \<open>Repository: claiming\<close>

record claimed_job =
  cl_job :: research_job
  cl_claim_token :: string
  cl_continuation_mode :: continuation_mode
  cl_active_workflow_execution_id :: "string option"
  cl_traceparent :: "string option"
  cl_use_traceparent_as_parent :: bool
  cl_evaluation_profile :: string

definition EVALUATION_PROFILE_CANDIDATE :: string where
  "EVALUATION_PROFILE_CANDIDATE = ''evaluation.candidate.v1''"

text \<open>\<open>evaluation_profile or EVALUATION_PROFILE_CANDIDATE\<close>: an empty string is falsy too.\<close>

definition worker_profile_of :: "string option \<Rightarrow> string" where
  "worker_profile_of p =
     (case p of None \<Rightarrow> EVALUATION_PROFILE_CANDIDATE
      | Some s \<Rightarrow> if s = [] then EVALUATION_PROFILE_CANDIDATE else s)"

definition claim_eligible :: "timestamp \<Rightarrow> string \<Rightarrow> job_row \<Rightarrow> bool" where
  "claim_eligible now worker_profile r \<longleftrightarrow>
     ((r_status r = status_value PENDING \<and>
         (case r_next_attempt_at r of None \<Rightarrow> True | Some t \<Rightarrow> t \<le> now))
      \<or> (r_status r = status_value RUNNING \<and>
         (case r_lease_expires_at r of None \<Rightarrow> False | Some l \<Rightarrow> l < now))) \<and>
     (case r_evaluation_profile r of None \<Rightarrow> True | Some p \<Rightarrow> p = worker_profile)"

definition bind_evaluation_profile :: "job_row \<Rightarrow> string \<Rightarrow> job_row \<times> string option" where
  "bind_evaluation_profile model worker_profile =
     (case r_evaluation_profile model of
        None \<Rightarrow> (model\<lparr> r_evaluation_profile := Some worker_profile \<rparr>, Some worker_profile)
      | Some current \<Rightarrow> if current \<noteq> worker_profile then (model, None) else (model, Some current))"

definition maybe_consume_initial_traceparent :: "job_row \<Rightarrow> timestamp \<Rightarrow> job_row \<times> bool" where
  "maybe_consume_initial_traceparent model now =
     (if r_traceparent model = None then (model, False)
      else if r_initial_traceparent_consumed_at model \<noteq> None then (model, False)
      else (model\<lparr> r_initial_traceparent_consumed_at := Some now \<rparr>, True))"

text \<open>The two branches of \<open>claim_next\<close> on the selected row: the row to be flushed, the mode the
  claim carries and whether it consumed the initial traceparent.\<close>

definition claim_pending_row ::
  "job_row \<Rightarrow> timestamp \<Rightarrow> timestamp \<Rightarrow> string \<Rightarrow> store_error + (job_row \<times> continuation_mode \<times> bool)" where
  "claim_pending_row model now lease_expires_at claim_token =
     (case mode_of (r_continuation_mode model) of
        None \<Rightarrow> Inl (ValueError (''Unknown continuation_mode: '' @ r_continuation_mode model))
      | Some effective_mode \<Rightarrow>
          (let model = model\<lparr> r_claimed_continuation_mode := mode_value effective_mode,
                              r_continuation_mode := mode_value NONE \<rparr>
           in bindE (to_domain model) (\<lambda>job.
              bindE (map_error DomainFailure
                       (if rj_started_at job = None then start now (Some (Aware now 0)) job
                        else resume_from_pending now (Some (Aware now 0)) job)) (\<lambda>job.
                let model = (apply_domain_to_orm job model)\<lparr> r_claim_token := Some claim_token,
                              r_lease_expires_at := Some lease_expires_at, r_next_attempt_at := None \<rparr>;
                    (model, use_parent) = maybe_consume_initial_traceparent model now
                in Inr (model, effective_mode, use_parent)))))"

definition claim_running_row ::
  "job_row \<Rightarrow> timestamp \<Rightarrow> timestamp \<Rightarrow> string \<Rightarrow> store_error + (job_row \<times> continuation_mode \<times> bool)" where
  "claim_running_row model now lease_expires_at claim_token =
     (case mode_of (r_claimed_continuation_mode model) of
        None \<Rightarrow> Inl (ValueError (''Unknown claimed_continuation_mode: '' @ r_claimed_continuation_mode model))
      | Some claimed_mode \<Rightarrow>
          (let model = model\<lparr> r_claim_token := Some claim_token,
                              r_lease_expires_at := Some lease_expires_at \<rparr>
           in bindE (to_domain model) (\<lambda>job.
                let (model, use_parent) =
                      maybe_consume_initial_traceparent (apply_domain_to_orm job model) now
                in Inr (model, claimed_mode, use_parent))))"

definition finish_claim ::
  "store \<Rightarrow> string \<Rightarrow> string \<Rightarrow> job_row \<times> continuation_mode \<times> bool \<Rightarrow>
   store_error + (store \<times> claimed_job option)" where
  "finish_claim st claim_token bound res =
     (case res of (model, mode, use_parent) \<Rightarrow>
        bindE (flush_job st model) (\<lambda>st'.
        bindE (to_domain model) (\<lambda>job.
          Inr (st', Some \<lparr> cl_job = job, cl_claim_token = claim_token, cl_continuation_mode = mode,
                           cl_active_workflow_execution_id = r_active_workflow_execution_id model,
                           cl_traceparent = r_traceparent model,
                           cl_use_traceparent_as_parent = use_parent,
                           cl_evaluation_profile = bound \<rparr>))))"

text \<open>\<open>locked\<close> are the ids of the rows other transactions hold, which \<open>SKIP LOCKED\<close> passes over.\<close>

definition claim_next ::
  "store \<Rightarrow> string list \<Rightarrow> timestamp \<Rightarrow> timestamp \<Rightarrow> string \<Rightarrow> string option \<Rightarrow>
   store_error + (store \<times> claimed_job option)" where
  "claim_next st locked now lease_expires_at claim_token evaluation_profile =
     (let worker_profile = worker_profile_of evaluation_profile
      in case select_first (\<lambda>r. claim_eligible now worker_profile r \<and> r_id r \<notin> set locked)
                r_created_at (st_jobs st) of
           None \<Rightarrow> Inr (st, None)
         | Some model \<Rightarrow>
             (case bind_evaluation_profile model worker_profile of
                (_, None) \<Rightarrow> Inr (st, None)
              | (model, Some bound) \<Rightarrow>
                  if r_status model = status_value PENDING then
                    bindE (claim_pending_row model now lease_expires_at claim_token)
                      (finish_claim st claim_token bound)
                  else if r_status model = status_value RUNNING then
                    bindE (claim_running_row model now lease_expires_at claim_token)
                      (finish_claim st claim_token bound)
                  else Inr (st, None)))"

section \<open>Repository: claim-fenced transitions\<close>

definition owns_running_claim :: "job_row option \<Rightarrow> string \<Rightarrow> timestamp \<Rightarrow> bool" where
  "owns_running_claim model claim_token at' =
     (case model of
        None \<Rightarrow> False
      | Some m \<Rightarrow>
          if r_status m \<noteq> status_value RUNNING then False
          else if r_claim_token m \<noteq> Some claim_token then False
          else (case r_lease_expires_at m of None \<Rightarrow> False | Some l \<Rightarrow> \<not> l \<le> at'))"

definition clear_claim_and_continuation :: "job_row \<Rightarrow> job_row" where
  "clear_claim_and_continuation m =
     m\<lparr> r_claim_token := None, r_lease_expires_at := None, r_next_attempt_at := None,
        r_continuation_mode := mode_value NONE, r_claimed_continuation_mode := mode_value NONE,
        r_active_workflow_execution_id := None \<rparr>"

definition finalize_completion ::
  "store \<Rightarrow> string \<Rightarrow> string \<Rightarrow> string \<Rightarrow> timestamp \<Rightarrow> store_error + (store \<times> bool)" where
  "finalize_completion st job_id claim_token res at' =
     (let model = tget r_id job_id (st_jobs st)
      in if \<not> owns_running_claim model claim_token at' then Inr (st, False)
         else case model of
           None \<Rightarrow> Inl AssertionError
         | Some m \<Rightarrow>
             bindE (to_domain m) (\<lambda>job.
             bindE (map_error DomainFailure (complete at' (PyStr res) (Some (Aware at' 0)) job)) (\<lambda>job.
             bindE (flush_job st (clear_claim_and_continuation (apply_domain_to_orm job m))) (\<lambda>st'.
               Inr (st', True)))))"

definition finalize_failure ::
  "store \<Rightarrow> string \<Rightarrow> string \<Rightarrow> string \<Rightarrow> timestamp \<Rightarrow> store_error + (store \<times> bool)" where
  "finalize_failure st job_id claim_token reason at' =
     (let model = tget r_id job_id (st_jobs st)
      in if \<not> owns_running_claim model claim_token at' then Inr (st, False)
         else case model of
           None \<Rightarrow> Inl AssertionError
         | Some m \<Rightarrow>
             bindE (to_domain m) (\<lambda>job.
             bindE (map_error DomainFailure (fail at' (PyStr reason) (Some (Aware at' 0)) job)) (\<lambda>job.
             bindE (flush_job st (clear_claim_and_continuation (apply_domain_to_orm job m))) (\<lambda>st'.
               Inr (st', True)))))"

definition set_active_workflow_execution ::
  "store \<Rightarrow> string \<Rightarrow> string \<Rightarrow> string \<Rightarrow> timestamp \<Rightarrow> store_error + (store \<times> bool)" where
  "set_active_workflow_execution st job_id claim_token execution_id at' =
     (let model = tget r_id job_id (st_jobs st)
      in if \<not> owns_running_claim model claim_token at' then Inr (st, False)
         else case model of
           None \<Rightarrow> Inl AssertionError
         | Some m \<Rightarrow>
             bindE (flush_job st (m\<lparr> r_active_workflow_execution_id := Some execution_id \<rparr>)) (\<lambda>st'.
               Inr (st', True)))"

text \<open>\<open>UPDATE workflow_executions SET status = ..., finished_at = ... WHERE P\<close>: the executions after
  it and its row count; an updated row that fails a \<open>CHECK\<close> aborts the statement.
  \<open>abandon_for_retry\<close> is the one of \<open>schedule_retry\<close>.\<close>

definition update_execs ::
  "(exec_row \<Rightarrow> bool) \<Rightarrow> string \<Rightarrow> timestamp \<Rightarrow> exec_row list \<Rightarrow> store_error + (exec_row list \<times> nat)" where
  "update_execs P status at' execs =
     (let f = (\<lambda>x. x\<lparr> x_status := status, x_finished_at := Some at' \<rparr>)
      in if \<not> list_all (\<lambda>x. P x \<longrightarrow> exec_checks (f x)) execs
         then Inl (IntegrityError ''ck_workflow_executions_status_fields'')
         else Inr (tupdate P f execs, tcount P execs))"

definition abandon_for_retry ::
  "exec_row list \<Rightarrow> string \<Rightarrow> string \<Rightarrow> timestamp \<Rightarrow> store_error + (exec_row list \<times> bool)" where
  "abandon_for_retry execs execution_id job_id at' =
     bindE (update_execs (\<lambda>x. x_id x = execution_id \<and> x_research_job_id x = job_id \<and> x_status x = ''RUNNING'')
              ''ABANDONED'' at' execs)
       (\<lambda>(execs', n). Inr (execs', n \<noteq> 0))"

definition schedule_retry ::
  "store \<Rightarrow> string \<Rightarrow> string \<Rightarrow> timestamp \<Rightarrow> timestamp \<Rightarrow> string option \<Rightarrow>
   store_error + (store \<times> bool)" where
  "schedule_retry st job_id claim_token next_attempt_at at' abandon_execution_id =
     (let model = tget r_id job_id (st_jobs st)
      in if \<not> owns_running_claim model claim_token at' then Inr (st, False)
         else case model of
           None \<Rightarrow> Inl AssertionError
         | Some m \<Rightarrow>
             bindE (case abandon_execution_id of
                      None \<Rightarrow> Inr (st, True)
                    | Some e \<Rightarrow>
                        if r_active_workflow_execution_id m \<noteq> Some e then Inr (st, False)
                        else bindE (abandon_for_retry (st_execs st) e job_id at') (\<lambda>(execs, hit).
                               Inr (if hit then st\<lparr> st_execs := execs \<rparr> else st, hit)))
               (\<lambda>(st1, go_on).
                  if \<not> go_on then Inr (st1, False)
                  else
                    (let m = m\<lparr> r_job_retry_count := r_job_retry_count m + 1 \<rparr>
                     in bindE (to_domain m) (\<lambda>job.
                        bindE (map_error DomainFailure (return_to_pending at' (Some (Aware at' 0)) job)) (\<lambda>job.
                        bindE (flush_job st1
                                 ((apply_domain_to_orm job m)\<lparr> r_claim_token := None, r_lease_expires_at := None,
                                    r_continuation_mode := mode_value JOB_RETRY,
                                    r_claimed_continuation_mode := mode_value NONE,
                                    r_next_attempt_at := Some next_attempt_at,
                                    r_active_workflow_execution_id := None \<rparr>)) (\<lambda>st'.
                          Inr (st', True)))))))"

definition transition_awaiting_review ::
  "store \<Rightarrow> string \<Rightarrow> string \<Rightarrow> timestamp \<Rightarrow> store_error + (store \<times> bool)" where
  "transition_awaiting_review st job_id claim_token at' =
     (let model = tget r_id job_id (st_jobs st)
      in if \<not> owns_running_claim model claim_token at' then Inr (st, False)
         else case model of
           None \<Rightarrow> Inl AssertionError
         | Some m \<Rightarrow>
             bindE (to_domain m) (\<lambda>job.
             bindE (map_error DomainFailure (await_review at' (Some (Aware at' 0)) job)) (\<lambda>job.
             bindE (flush_job st ((apply_domain_to_orm job m)\<lparr> r_claim_token := None,
                      r_lease_expires_at := None, r_claimed_continuation_mode := mode_value NONE \<rparr>)) (\<lambda>st'.
               Inr (st', True)))))"

definition increment_repair_count ::
  "store \<Rightarrow> string \<Rightarrow> string \<Rightarrow> timestamp \<Rightarrow> store_error + (store \<times> bool)" where
  "increment_repair_count st job_id claim_token at' =
     (let model = tget r_id job_id (st_jobs st)
      in if \<not> owns_running_claim model claim_token at' then Inr (st, False)
         else case model of
           None \<Rightarrow> Inl AssertionError
         | Some m \<Rightarrow>
             if 1 \<le> r_repair_count m then Inr (st, False)
             else bindE (flush_job st (m\<lparr> r_repair_count := r_repair_count m + 1 \<rparr>)) (\<lambda>st'. Inr (st', True)))"

definition increment_evaluation_attempt_count ::
  "store \<Rightarrow> string \<Rightarrow> string \<Rightarrow> timestamp \<Rightarrow> store_error + (store \<times> bool)" where
  "increment_evaluation_attempt_count st job_id claim_token at' =
     (let model = tget r_id job_id (st_jobs st)
      in if \<not> owns_running_claim model claim_token at' then Inr (st, False)
         else case model of
           None \<Rightarrow> Inl AssertionError
         | Some m \<Rightarrow>
             if 4 \<le> r_evaluation_attempt_count m then Inr (st, False)
             else bindE (flush_job st (m\<lparr> r_evaluation_attempt_count := r_evaluation_attempt_count m + 1 \<rparr>))
                    (\<lambda>st'. Inr (st', True)))"

section \<open>Repository: operator review\<close>

definition approve_review_to_pending ::
  "store \<Rightarrow> string \<Rightarrow> string \<Rightarrow> timestamp \<Rightarrow> timestamp \<Rightarrow> store_error + (store \<times> bool)" where
  "approve_review_to_pending st job_id execution_id next_attempt_at at' =
     (case tget r_id job_id (st_jobs st) of
        None \<Rightarrow> Inr (st, False)
      | Some m \<Rightarrow>
          if r_status m \<noteq> status_value AWAITING_REVIEW then Inr (st, False)
          else bindE (to_domain m) (\<lambda>job.
               bindE (map_error DomainFailure (approve_to_pending at' (Some (Aware at' 0)) job)) (\<lambda>job.
               bindE (flush_job st ((apply_domain_to_orm job m)\<lparr> r_continuation_mode := mode_value REVIEW_COMPLETE,
                        r_next_attempt_at := Some next_attempt_at,
                        r_active_workflow_execution_id := Some execution_id \<rparr>)) (\<lambda>st'.
                 Inr (st', True)))))"

definition fail_job_from_review ::
  "store \<Rightarrow> string \<Rightarrow> string \<Rightarrow> timestamp \<Rightarrow> store_error + (store \<times> bool)" where
  "fail_job_from_review st job_id reason at' =
     (case tget r_id job_id (st_jobs st) of
        None \<Rightarrow> Inr (st, False)
      | Some m \<Rightarrow>
          if r_status m \<noteq> status_value AWAITING_REVIEW then Inr (st, False)
          else bindE (to_domain m) (\<lambda>job.
               bindE (map_error DomainFailure (fail_from_review at' (PyStr reason) (Some (Aware at' 0)) job)) (\<lambda>job.
               bindE (flush_job st (clear_claim_and_continuation (apply_domain_to_orm job m))) (\<lambda>st'.
                 Inr (st', True)))))"

section \<open>Lemmas on the mapper and the constraints\<close>

lemma status_of_value [simp]: "status_of (status_value s) = Some s"
  by (cases s) (simp_all add: status_of_def status_value_def)

lemma status_of_Some: "status_of x = Some s \<longleftrightarrow> x = status_value s"
proof
  assume "status_of x = Some s"
  then show "x = status_value s" by (auto simp: status_of_def split: if_splits)
qed simp

lemma ck_status_iff: "ck_status r \<longleftrightarrow> (\<exists>s. r_status r = status_value s)"
proof
  assume "ck_status r"
  then show "\<exists>s. r_status r = status_value s"
    unfolding ck_status_def status_value_def
    by (metis (no_types, lifting) empty_iff insert_iff research_job_status.simps(21-25))
next
  assume "\<exists>s. r_status r = status_value s"
  then obtain s where "r_status r = status_value s" ..
  then show "ck_status r" by (cases s) (simp_all add: ck_status_def status_value_def)
qed

lemma mode_of_value [simp]: "mode_of (mode_value m) = Some m"
  by (cases m) (simp_all add: mode_of_def mode_value_def)

lemma mode_of_Some: "mode_of x = Some m \<longleftrightarrow> x = mode_value m"
proof
  assume "mode_of x = Some m"
  then show "x = mode_value m" by (auto simp: mode_of_def split: if_splits)
qed simp

text \<open>The entity a row stands for, when its status column is one of the enum's values.\<close>

definition domain_of :: "job_row \<Rightarrow> research_job" where
  "domain_of r =
     \<lparr> rj_id = r_id r, rj_question = r_question r, rj_status = the (status_of (r_status r)),
       rj_created_at = r_created_at r, rj_updated_at = r_updated_at r,
       rj_started_at = r_started_at r, rj_finished_at = r_finished_at r,
       rj_result = r_result r, rj_failure_reason = r_failure_reason r \<rparr>"

lemma domain_of_sel [simp]:
  "rj_id (domain_of r) = r_id r" "rj_question (domain_of r) = r_question r"
  "rj_created_at (domain_of r) = r_created_at r" "rj_updated_at (domain_of r) = r_updated_at r"
  "rj_started_at (domain_of r) = r_started_at r" "rj_finished_at (domain_of r) = r_finished_at r"
  "rj_result (domain_of r) = r_result r" "rj_failure_reason (domain_of r) = r_failure_reason r"
  by (simp_all add: domain_of_def)

lemma to_domain_ok:
  assumes "r_status r = status_value s" "job_wf (domain_of r)"
  shows "to_domain r = Inr (domain_of r)"
proof -
  have "to_domain r = map_error DomainFailure (reconstitute 0 (stored_of (domain_of r)))"
    using assms(1) by (simp add: to_domain_def stored_of_def domain_of_def)
  with assms(2) show ?thesis by (simp add: reconstitute_stored_of)
qed

lemma domain_of_apply:
  "rj_id job = r_id m \<Longrightarrow> domain_of (apply_domain_to_orm job m) = job"
  by (cases job) (simp add: domain_of_def apply_domain_to_orm_def)

lemma flush_job_Inr [bind_simps]:
  "flush_job st r = Inr st' \<longleftrightarrow>
     row_checks r \<and> fk_active_execution (st_execs st) r \<and>
     st' = st\<lparr> st_jobs := tput r_id r (st_jobs st) \<rparr>"
  by (auto simp: flush_job_def)

text \<open>The invariant of the store: every row passes its constraints and reads back as an entity.\<close>

definition row_ok :: "job_row \<Rightarrow> bool" where
  "row_ok r \<longleftrightarrow> row_checks r \<and> job_wf (domain_of r)"

definition store_ok :: "store \<Rightarrow> bool" where
  "store_ok st \<longleftrightarrow>
     distinct (map r_id (st_jobs st)) \<and>
     list_all (\<lambda>r. row_ok r \<and> fk_active_execution (st_execs st) r) (st_jobs st) \<and>
     distinct (map x_id (st_execs st)) \<and> list_all exec_checks (st_execs st)"

lemma store_okD:
  assumes "store_ok st" "tget r_id i (st_jobs st) = Some m"
  shows "row_ok m" "fk_active_execution (st_execs st) m" "r_id m = i"
  using assms tget_Some_mem[OF assms(2)] tget_Some_key[OF assms(2)]
  by (auto simp: store_ok_def list_all_iff)

lemma row_ok_status: "row_ok m \<Longrightarrow> \<exists>s. r_status m = status_value s"
  by (auto simp: row_ok_def row_checks_def ck_status_iff)

lemma row_ok_to_domain: "row_ok m \<Longrightarrow> to_domain m = Inr (domain_of m)"
  using row_ok_status[of m] to_domain_ok[of m] by (auto simp: row_ok_def)

lemma domain_of_status: "row_ok m \<Longrightarrow> status_value (rj_status (domain_of m)) = r_status m"
  using row_ok_status[of m] by (auto simp: domain_of_def)

lemma store_ok_put:
  assumes "store_ok st" "row_ok r" "fk_active_execution (st_execs st) r"
  shows "store_ok (st\<lparr> st_jobs := tput r_id r (st_jobs st) \<rparr>)"
  using assms by (auto simp: store_ok_def list_all_iff tkeys_tput dest!: tput_mem_cases)

end
