(* ===== verification/Job_Fencing.thy ===== *)
theory Job_Fencing
  imports Job_Store
begin

text \<open>
  What the repository of \<open>Job_Store\<close> guarantees: the exact effect of each claim-fenced
  operation on a row its caller owns (no constraint of the table is ever tripped), that a caller
  who does not own the row changes nothing, and the claim protocol as an instance of
  \<open>lease_fence\<close>.
\<close>

section \<open>Rows a token owns\<close>

lemma status_value_simps [simp]:
  "status_value PENDING = ''PENDING''" "status_value RUNNING = ''RUNNING''"
  "status_value AWAITING_REVIEW = ''AWAITING_REVIEW''" "status_value COMPLETED = ''COMPLETED''"
  "status_value FAILED = ''FAILED''"
  by (simp_all add: status_value_def)

lemma mode_value_simps [simp]:
  "mode_value NONE = ''NONE''" "mode_value JOB_RETRY = ''JOB_RETRY''"
  "mode_value REVIEW_COMPLETE = ''REVIEW_COMPLETE''"
  by (simp_all add: mode_value_def)

lemma owns_running_claim_iff [fence_simps]:
  "owns_running_claim (Some m) tok at' \<longleftrightarrow>
     r_status m = ''RUNNING'' \<and> r_claim_token m = Some tok \<and>
     (\<exists>l. r_lease_expires_at m = Some l \<and> at' < l)"
  by (auto simp: owns_running_claim_def split: option.splits)

lemma owns_running_claim_None [simp]: "\<not> owns_running_claim None tok at'"
  by (simp add: owns_running_claim_def)

lemma status_fields_cases:
  assumes "row_ok m"
  shows "r_status m = ''PENDING'' \<Longrightarrow> ck_pending_fields m"
    and "r_status m = ''RUNNING'' \<Longrightarrow> ck_running_fields m"
    and "r_status m = ''AWAITING_REVIEW'' \<Longrightarrow> ck_awaiting_fields m"
    and "r_status m = ''COMPLETED'' \<Longrightarrow> ck_terminal_fields m"
    and "r_status m = ''FAILED'' \<Longrightarrow> ck_terminal_fields m"
  using assms
  by (auto simp: row_ok_def row_checks_def ck_status_fields_def ck_pending_fields_def
      ck_running_fields_def ck_awaiting_fields_def ck_terminal_fields_def)

lemma domain_status_iff:
  "row_ok m \<Longrightarrow> rj_status (domain_of m) = s \<longleftrightarrow> r_status m = status_value s"
  by (metis domain_of_status status_of_value option.inject)

text \<open>The columns no status-dependent constraint reads.\<close>

definition side_checks :: "job_row \<Rightarrow> bool" where
  "side_checks r \<longleftrightarrow> ck_texts r \<and> ck_idempotency_pair r \<and> ck_counters r \<and> ck_traceparent r"

lemma row_ok_side: "row_ok m \<Longrightarrow> side_checks m"
  by (simp add: row_ok_def row_checks_def side_checks_def)

lemma side_checks_cong:
  assumes "side_checks m" "r_id r = r_id m" "r_question r = r_question m"
    "r_idempotency_key r = r_idempotency_key m" "r_request_fingerprint r = r_request_fingerprint m"
    "r_repair_count r = r_repair_count m" "r_job_retry_count r = r_job_retry_count m"
    "r_evaluation_attempt_count r = r_evaluation_attempt_count m"
    "r_traceparent r = r_traceparent m"
    "r_initial_traceparent_consumed_at r = r_initial_traceparent_consumed_at m"
  shows "side_checks r"
  using assms
  by (simp add: side_checks_def ck_texts_def ck_idempotency_pair_def ck_counters_def ck_traceparent_def)

lemma owned_facts:
  assumes "row_ok m" "owns_running_claim (Some m) tok at'"
  shows "rj_status (domain_of m) = RUNNING" "ck_running_fields m" "started_in_order m"
    "\<exists>p. r_evaluation_profile m = Some p \<and> p \<in> set ALLOWED_EVALUATION_PROFILES"
    "r_created_at m \<le> r_updated_at m"
proof -
  have run: "r_status m = ''RUNNING''" using assms(2) by (simp add: fence_simps)
  show "rj_status (domain_of m) = RUNNING" using assms(1) run by (simp add: domain_status_iff)
  show "ck_running_fields m" using status_fields_cases(2) assms(1) run by blast
  then show "started_in_order m" by (simp add: ck_running_fields_def)
  show "\<exists>p. r_evaluation_profile m = Some p \<and> p \<in> set ALLOWED_EVALUATION_PROFILES"
    using assms(1) run by (auto simp: row_ok_def row_checks_def ck_evaluation_profile_def split: option.splits)
  show "r_created_at m \<le> r_updated_at m"
    using assms(1) by (simp add: row_ok_def row_checks_def ck_updated_after_created_def)
qed

section \<open>What each fenced operation writes\<close>

text \<open>The row each operation leaves behind, as plain column updates.\<close>

definition completed_row :: "string \<Rightarrow> timestamp \<Rightarrow> job_row \<Rightarrow> job_row" where
  "completed_row res at' m =
     clear_claim_and_continuation (m\<lparr> r_status := ''COMPLETED'', r_result := Some (py_strip res),
       r_failure_reason := None, r_finished_at := Some at', r_updated_at := at' \<rparr>)"

definition failed_row :: "string \<Rightarrow> timestamp \<Rightarrow> job_row \<Rightarrow> job_row" where
  "failed_row reason at' m =
     clear_claim_and_continuation (m\<lparr> r_status := ''FAILED'', r_failure_reason := Some (py_strip reason),
       r_result := None, r_finished_at := Some at', r_updated_at := at' \<rparr>)"

definition awaiting_row :: "timestamp \<Rightarrow> job_row \<Rightarrow> job_row" where
  "awaiting_row at' m =
     m\<lparr> r_status := ''AWAITING_REVIEW'', r_updated_at := at', r_claim_token := None,
        r_lease_expires_at := None, r_claimed_continuation_mode := ''NONE'' \<rparr>"

definition retry_row :: "timestamp \<Rightarrow> timestamp \<Rightarrow> job_row \<Rightarrow> job_row" where
  "retry_row next_at at' m =
     m\<lparr> r_status := ''PENDING'', r_updated_at := at', r_job_retry_count := r_job_retry_count m + 1,
        r_claim_token := None, r_lease_expires_at := None, r_continuation_mode := ''JOB_RETRY'',
        r_claimed_continuation_mode := ''NONE'', r_next_attempt_at := Some next_at,
        r_active_workflow_execution_id := None \<rparr>"

lemma running_domain:
  assumes "row_ok m" "r_status m = ''RUNNING''"
  shows "rj_status (domain_of m) = RUNNING" "r_finished_at m = None" "r_result m = None"
    "r_failure_reason m = None"
  using assms status_fields_cases(2)[of m]
  by (auto simp: domain_status_iff ck_running_fields_def)

lemmas ck_defs =
  row_checks_def side_checks_def ck_status_def ck_updated_after_created_def ck_status_fields_def
  ck_pending_fields_def ck_running_fields_def ck_awaiting_fields_def ck_terminal_fields_def no_claim_def
  finished_in_order_def started_in_order_def ck_claim_lease_pair_def ck_continuation_modes_def
  mode_of_def ck_evaluation_profile_def

lemmas row_defs =
  completed_row_def failed_row_def awaiting_row_def retry_row_def clear_claim_and_continuation_def

abbreviation (input) bad_timestamp :: store_error where
  "bad_timestamp \<equiv> DomainFailure (InvalidResearchJobError ''Timestamp must not be earlier than the job's updated_at.'')"

text \<open>Writing the moved entity back onto its row is the plain column update.\<close>

lemma apply_moves:
  "apply_domain_to_orm ((domain_of m)\<lparr> rj_status := COMPLETED, rj_result := Some x, rj_failure_reason := None,
        rj_finished_at := Some t, rj_updated_at := t \<rparr>) m
   = m\<lparr> r_status := ''COMPLETED'', r_result := Some x, r_failure_reason := None,
        r_finished_at := Some t, r_updated_at := t \<rparr>"
  "apply_domain_to_orm ((domain_of m)\<lparr> rj_status := FAILED, rj_failure_reason := Some x, rj_result := None,
        rj_finished_at := Some t, rj_updated_at := t \<rparr>) m
   = m\<lparr> r_status := ''FAILED'', r_failure_reason := Some x, r_result := None,
        r_finished_at := Some t, r_updated_at := t \<rparr>"
  "apply_domain_to_orm ((domain_of m)\<lparr> rj_status := AWAITING_REVIEW, rj_updated_at := t \<rparr>) m
   = m\<lparr> r_status := ''AWAITING_REVIEW'', r_updated_at := t \<rparr>"
  "apply_domain_to_orm ((domain_of m)\<lparr> rj_status := PENDING, rj_updated_at := t \<rparr>) m
   = m\<lparr> r_status := ''PENDING'', r_updated_at := t \<rparr>"
  "apply_domain_to_orm ((domain_of m)\<lparr> rj_status := RUNNING, rj_updated_at := t \<rparr>) m
   = m\<lparr> r_status := ''RUNNING'', r_updated_at := t \<rparr>"
  "apply_domain_to_orm ((domain_of m)\<lparr> rj_status := RUNNING, rj_started_at := Some t, rj_updated_at := t \<rparr>) m
   = m\<lparr> r_status := ''RUNNING'', r_started_at := Some t, r_updated_at := t \<rparr>"
  by (cases m; simp add: apply_domain_to_orm_def)+

lemma completed_row_checks:
  assumes "row_ok m" "owns_running_claim (Some m) tok at'" "r_updated_at m \<le> at'"
  shows "row_checks (completed_row res at' m)"
proof -
  have "side_checks (completed_row res at' m)"
    using row_ok_side[OF assms(1)] by (rule side_checks_cong) (simp_all add: row_defs)
  then show ?thesis using owned_facts[OF assms(1,2)] assms(3)
    by (auto simp: ck_defs row_defs split: option.splits)
qed

lemma failed_row_checks:
  assumes "row_ok m" "r_status m = ''RUNNING'' \<or> r_status m = ''AWAITING_REVIEW''" "r_updated_at m \<le> at'"
  shows "row_checks (failed_row reason at' m)"
proof -
  have side: "side_checks (failed_row reason at' m)"
    using row_ok_side[OF assms(1)] by (rule side_checks_cong) (simp_all add: row_defs)
  have "started_in_order m" "ck_evaluation_profile m" "r_created_at m \<le> r_updated_at m"
    using assms(1,2) status_fields_cases(2,3)[OF assms(1)]
    by (auto simp: ck_running_fields_def ck_awaiting_fields_def row_ok_def row_checks_def ck_updated_after_created_def)
  then show ?thesis using side assms(2,3)
    by (auto simp: ck_defs row_defs split: option.splits)
qed

lemma awaiting_row_checks:
  assumes "row_ok m" "owns_running_claim (Some m) tok at'" "r_updated_at m \<le> at'"
  shows "row_checks (awaiting_row at' m) \<longleftrightarrow> r_active_workflow_execution_id m \<noteq> None"
proof -
  have "side_checks (awaiting_row at' m)"
    using row_ok_side[OF assms(1)] by (rule side_checks_cong) (simp_all add: row_defs)
  then show ?thesis using owned_facts[OF assms(1,2)] assms(3)
    by (auto simp: ck_defs row_defs split: option.splits)
qed

lemma retry_row_checks:
  assumes "row_ok m" "owns_running_claim (Some m) tok at'" "r_updated_at m \<le> at'"
  shows "row_checks (retry_row next_at at' m) \<longleftrightarrow> r_job_retry_count m < 2"
proof -
  have "side_checks m" by (rule row_ok_side[OF assms(1)])
  then show ?thesis using owned_facts[OF assms(1,2)] assms(3)
    by (auto simp: ck_defs row_defs ck_texts_def ck_idempotency_pair_def ck_counters_def ck_traceparent_def
        split: option.splits)
qed

lemma fk_cleared [simp]: "r_active_workflow_execution_id r = None \<Longrightarrow> fk_active_execution xs r"
  by (simp add: fk_active_execution_def)

lemma fk_cong:
  assumes "r_active_workflow_execution_id r = r_active_workflow_execution_id m" "r_id r = r_id m"
  shows "fk_active_execution xs r = fk_active_execution xs m"
  using assms by (simp add: fk_active_execution_def split: option.splits)

text \<open>The exact result of the two finalizers on a row the caller owns.\<close>

lemma finalize_completion_owned:
  assumes "store_ok st" "tget r_id jid (st_jobs st) = Some m" "owns_running_claim (Some m) tok at'"
  shows "finalize_completion st jid tok res at' =
    (if py_strip res = [] then Inl (DomainFailure (InvalidResearchJobError ''result must be a non-empty string.''))
     else if at' < r_updated_at m then Inl bad_timestamp
     else Inr (st\<lparr> st_jobs := tput r_id (completed_row res at' m) (st_jobs st) \<rparr>, True))"
proof -
  note ok = store_okD[OF assms(1,2)]
  note f = owned_facts[OF ok(1) assms(3)]
  have "row_checks (completed_row res at' m)" if "r_updated_at m \<le> at'"
    using completed_row_checks ok(1) assms(3) that by blast
  then show ?thesis using assms f ok
    by (auto simp: finalize_completion_def Let_def row_ok_to_domain complete_def require_status_def
        require_non_empty_def ensure_not_before_def apply_moves completed_row_def flush_job_def
        clear_claim_and_continuation_def guardE_def)
qed

lemma finalize_failure_owned:
  assumes "store_ok st" "tget r_id jid (st_jobs st) = Some m" "owns_running_claim (Some m) tok at'"
  shows "finalize_failure st jid tok reason at' =
    (if py_strip reason = [] then Inl (DomainFailure (InvalidResearchJobError ''failure_reason must be a non-empty string.''))
     else if at' < r_updated_at m then Inl bad_timestamp
     else Inr (st\<lparr> st_jobs := tput r_id (failed_row reason at' m) (st_jobs st) \<rparr>, True))"
proof -
  note ok = store_okD[OF assms(1,2)]
  note f = owned_facts[OF ok(1) assms(3)]
  have "row_checks (failed_row reason at' m)" if "r_updated_at m \<le> at'"
    using failed_row_checks[OF ok(1) _ that] assms(3) by (simp add: fence_simps)
  then show ?thesis using assms f ok
    by (auto simp: finalize_failure_def Let_def row_ok_to_domain fail_def require_status_def
        require_non_empty_def ensure_not_before_def apply_moves failed_row_def flush_job_def
        clear_claim_and_continuation_def guardE_def)
qed

lemma transition_awaiting_review_owned:
  assumes "store_ok st" "tget r_id jid (st_jobs st) = Some m" "owns_running_claim (Some m) tok at'"
  shows "transition_awaiting_review st jid tok at' =
    (if at' < r_updated_at m then Inl bad_timestamp
     else if r_active_workflow_execution_id m = None then Inl (IntegrityError ''check'')
     else Inr (st\<lparr> st_jobs := tput r_id (awaiting_row at' m) (st_jobs st) \<rparr>, True))"
proof -
  note ok = store_okD[OF assms(1,2)]
  note f = owned_facts[OF ok(1) assms(3)]
  have "row_checks (awaiting_row at' m) \<longleftrightarrow> r_active_workflow_execution_id m \<noteq> None" if "r_updated_at m \<le> at'"
    using awaiting_row_checks ok(1) assms(3) that by blast
  moreover have "fk_active_execution (st_execs st) (awaiting_row at' m)"
    using ok(2) fk_cong[of "awaiting_row at' m" m] by (simp add: awaiting_row_def)
  ultimately show ?thesis using assms f ok
    by (auto simp: transition_awaiting_review_def Let_def row_ok_to_domain await_review_def require_status_def
        ensure_not_before_def apply_moves awaiting_row_def flush_job_def guardE_def)
qed

definition approved_row :: "string \<Rightarrow> timestamp \<Rightarrow> timestamp \<Rightarrow> job_row \<Rightarrow> job_row" where
  "approved_row e next_at at' m =
     m\<lparr> r_status := ''PENDING'', r_updated_at := at', r_continuation_mode := ''REVIEW_COMPLETE'',
        r_next_attempt_at := Some next_at, r_active_workflow_execution_id := Some e \<rparr>"

lemma approved_row_checks:
  assumes "row_ok m" "r_status m = ''AWAITING_REVIEW''" "r_updated_at m \<le> at'"
  shows "row_checks (approved_row e next_at at' m)"
proof -
  have side: "side_checks (approved_row e next_at at' m)"
    using row_ok_side[OF assms(1)] by (rule side_checks_cong) (simp_all add: approved_row_def)
  have "ck_awaiting_fields m" "ck_evaluation_profile m" "r_created_at m \<le> r_updated_at m"
    using assms(1,2) status_fields_cases(3)[OF assms(1)]
    by (auto simp: row_ok_def row_checks_def ck_updated_after_created_def)
  then show ?thesis using side assms(2,3)
    by (auto simp: ck_defs approved_row_def split: option.splits)
qed

lemma approve_review_to_pending_awaiting:
  assumes "store_ok st" "tget r_id jid (st_jobs st) = Some m" "r_status m = ''AWAITING_REVIEW''"
  shows "approve_review_to_pending st jid e next_at at' =
    (if at' < r_updated_at m then Inl bad_timestamp
     else if \<not> fk_active_execution (st_execs st) (approved_row e next_at at' m)
     then Inl (IntegrityError ''fk_research_jobs_active_execution_job_pair'')
     else Inr (st\<lparr> st_jobs := tput r_id (approved_row e next_at at' m) (st_jobs st) \<rparr>, True))"
proof -
  note ok = store_okD[OF assms(1,2)]
  have "row_checks (approved_row e next_at at' m)" if "r_updated_at m \<le> at'"
    using approved_row_checks[OF ok(1) assms(3) that] .
  moreover have "rj_status (domain_of m) = AWAITING_REVIEW" using ok(1) assms(3) by (simp add: domain_status_iff)
  ultimately show ?thesis using assms ok
    by (auto simp: approve_review_to_pending_def row_ok_to_domain approve_to_pending_def require_status_def
        ensure_not_before_def apply_moves approved_row_def flush_job_def guardE_def)
qed

lemma fail_job_from_review_awaiting:
  assumes "store_ok st" "tget r_id jid (st_jobs st) = Some m" "r_status m = ''AWAITING_REVIEW''"
  shows "fail_job_from_review st jid reason at' =
    (if py_strip reason = [] then Inl (DomainFailure (InvalidResearchJobError ''failure_reason must be a non-empty string.''))
     else if at' < r_updated_at m then Inl bad_timestamp
     else Inr (st\<lparr> st_jobs := tput r_id (failed_row reason at' m) (st_jobs st) \<rparr>, True))"
proof -
  note ok = store_okD[OF assms(1,2)]
  have "row_checks (failed_row reason at' m)" if "r_updated_at m \<le> at'"
    using failed_row_checks[OF ok(1) _ that] assms(3) by simp
  moreover have "rj_status (domain_of m) = AWAITING_REVIEW" using ok(1) assms(3) by (simp add: domain_status_iff)
  ultimately show ?thesis using assms ok
    by (auto simp: fail_job_from_review_def row_ok_to_domain fail_from_review_def require_status_def
        require_non_empty_def ensure_not_before_def apply_moves failed_row_def flush_job_def
        clear_claim_and_continuation_def guardE_def)
qed

section \<open>Every operation keeps the store's invariant\<close>

lemma domain_of_frame [simp]:
  "domain_of (m\<lparr> r_claim_token := x1 \<rparr>) = domain_of m" "domain_of (m\<lparr> r_lease_expires_at := x2 \<rparr>) = domain_of m"
  "domain_of (m\<lparr> r_next_attempt_at := x3 \<rparr>) = domain_of m" "domain_of (m\<lparr> r_continuation_mode := x4 \<rparr>) = domain_of m"
  "domain_of (m\<lparr> r_claimed_continuation_mode := x4 \<rparr>) = domain_of m"
  "domain_of (m\<lparr> r_active_workflow_execution_id := x1 \<rparr>) = domain_of m"
  "domain_of (m\<lparr> r_evaluation_profile := x1 \<rparr>) = domain_of m" "domain_of (m\<lparr> r_repair_count := x5 \<rparr>) = domain_of m"
  "domain_of (m\<lparr> r_job_retry_count := x5 \<rparr>) = domain_of m"
  "domain_of (m\<lparr> r_evaluation_attempt_count := x5 \<rparr>) = domain_of m"
  "domain_of (m\<lparr> r_initial_traceparent_consumed_at := x2 \<rparr>) = domain_of m"
  "domain_of (m\<lparr> r_idempotency_key := x1 \<rparr>) = domain_of m" "domain_of (m\<lparr> r_request_fingerprint := x1 \<rparr>) = domain_of m"
  "domain_of (m\<lparr> r_traceparent := x1 \<rparr>) = domain_of m"
  by (simp_all add: domain_of_def)

lemma to_domain_frame [simp]:
  "to_domain (m\<lparr> r_claim_token := x1 \<rparr>) = to_domain m" "to_domain (m\<lparr> r_lease_expires_at := x2 \<rparr>) = to_domain m"
  "to_domain (m\<lparr> r_continuation_mode := x4 \<rparr>) = to_domain m"
  "to_domain (m\<lparr> r_claimed_continuation_mode := x4 \<rparr>) = to_domain m"
  "to_domain (m\<lparr> r_evaluation_profile := x1 \<rparr>) = to_domain m"
  "to_domain (m\<lparr> r_job_retry_count := x5 \<rparr>) = to_domain m"
  "to_domain (m\<lparr> r_next_attempt_at := x2 \<rparr>) = to_domain m"
  "to_domain (m\<lparr> r_initial_traceparent_consumed_at := x2 \<rparr>) = to_domain m"
  by (simp_all add: to_domain_def split: option.splits)

lemma flush_ok:
  assumes "flush_job st r = Inr st'" "store_ok st" "job_wf (domain_of r)"
  shows "store_ok st'"
  using assms by (auto simp: bind_simps row_ok_def intro!: store_ok_put)

text \<open>Moving the entity of a good row by a lifecycle call gives a good entity again.\<close>

lemma moved_wf:
  assumes "row_ok m" "job_apply now c (domain_of m) = Inr job"
  shows "job_wf job" "domain_of (apply_domain_to_orm job m) = job"
  using assms job_apply_wf[OF assms(2)] job_apply_frame(1)[OF assms(2)]
  by (auto simp: row_ok_def intro!: domain_of_apply)

lemma apply_frame [simp]:
  "apply_domain_to_orm job (m\<lparr> r_job_retry_count := x5 \<rparr>) = (apply_domain_to_orm job m)\<lparr> r_job_retry_count := x5 \<rparr>"
  "apply_domain_to_orm job (m\<lparr> r_claim_token := x1 \<rparr>) = (apply_domain_to_orm job m)\<lparr> r_claim_token := x1 \<rparr>"
  "apply_domain_to_orm job (m\<lparr> r_lease_expires_at := x2 \<rparr>) = (apply_domain_to_orm job m)\<lparr> r_lease_expires_at := x2 \<rparr>"
  "apply_domain_to_orm job (m\<lparr> r_continuation_mode := x4 \<rparr>) = (apply_domain_to_orm job m)\<lparr> r_continuation_mode := x4 \<rparr>"
  "apply_domain_to_orm job (m\<lparr> r_claimed_continuation_mode := x4 \<rparr>) = (apply_domain_to_orm job m)\<lparr> r_claimed_continuation_mode := x4 \<rparr>"
  "apply_domain_to_orm job (m\<lparr> r_evaluation_profile := x1 \<rparr>) = (apply_domain_to_orm job m)\<lparr> r_evaluation_profile := x1 \<rparr>"
  by (simp_all add: apply_domain_to_orm_def)

text \<open>The shape the fenced transitions share: load, move, write back, flush.\<close>

lemma move_and_flush_ok:
  assumes "store_ok st" "tget r_id jid (st_jobs st) = Some m"
    "bindE (to_domain m) (\<lambda>job. bindE (map_error DomainFailure (job_apply now c job)) (\<lambda>job.
       bindE (flush_job st (w (apply_domain_to_orm job m))) (\<lambda>st'. Inr (st', True)))) = Inr (st2, b)"
    "\<And>r. domain_of (w r) = domain_of r"
  shows "store_ok st2"
proof -
  have ok: "row_ok m" using store_okD[OF assms(1,2)] by simp
  from assms(3) row_ok_to_domain[OF ok] obtain job where
    j: "job_apply now c (domain_of m) = Inr job" and f: "flush_job st (w (apply_domain_to_orm job m)) = Inr st2"
    by (auto simp: bindE_eq_Inr map_error_eq_Inr)
  from moved_wf[OF ok j] assms(4) have "job_wf (domain_of (w (apply_domain_to_orm job m)))" by simp
  with f assms(1) show ?thesis by (rule flush_ok)
qed

lemma fenced_store_ok:
  assumes "store_ok st"
  shows "finalize_completion st jid tok res at' = Inr (st', b) \<Longrightarrow> store_ok st'"
    and "finalize_failure st jid tok reason at' = Inr (st', b) \<Longrightarrow> store_ok st'"
    and "transition_awaiting_review st jid tok at' = Inr (st', b) \<Longrightarrow> store_ok st'"
    and "approve_review_to_pending st jid e n at' = Inr (st', b) \<Longrightarrow> store_ok st'"
    and "fail_job_from_review st jid reason at' = Inr (st', b) \<Longrightarrow> store_ok st'"
proof -
  note move = move_and_flush_ok[OF assms, of jid _ at']
  show "finalize_completion st jid tok res at' = Inr (st', b) \<Longrightarrow> store_ok st'"
    using assms
    by (auto simp: finalize_completion_def Let_def split: if_splits option.splits
        elim!: move[where c = "Complete (PyStr res) (Some (Aware at' 0))"
          and w = clear_claim_and_continuation, simplified] simp: clear_claim_and_continuation_def)
  show "finalize_failure st jid tok reason at' = Inr (st', b) \<Longrightarrow> store_ok st'"
    using assms
    by (auto simp: finalize_failure_def Let_def split: if_splits option.splits
        elim!: move[where c = "Fail (PyStr reason) (Some (Aware at' 0))"
          and w = clear_claim_and_continuation, simplified] simp: clear_claim_and_continuation_def)
  show "transition_awaiting_review st jid tok at' = Inr (st', b) \<Longrightarrow> store_ok st'"
    using assms
    by (auto simp: transition_awaiting_review_def Let_def split: if_splits option.splits
        elim!: move[where c = "AwaitReview (Some (Aware at' 0))"
          and w = "\<lambda>r. r\<lparr> r_claim_token := None, r_lease_expires_at := None,
                     r_claimed_continuation_mode := ''NONE'' \<rparr>", simplified])
  show "approve_review_to_pending st jid e n at' = Inr (st', b) \<Longrightarrow> store_ok st'"
    using assms
    by (auto simp: approve_review_to_pending_def split: if_splits option.splits
        elim!: move[where c = "ApproveToPending (Some (Aware at' 0))"
          and w = "\<lambda>r. r\<lparr> r_continuation_mode := ''REVIEW_COMPLETE'', r_next_attempt_at := Some n,
                     r_active_workflow_execution_id := Some e \<rparr>", simplified])
  show "fail_job_from_review st jid reason at' = Inr (st', b) \<Longrightarrow> store_ok st'"
    using assms
    by (auto simp: fail_job_from_review_def split: if_splits option.splits
        elim!: move[where c = "FailFromReview (PyStr reason) (Some (Aware at' 0))"
          and w = clear_claim_and_continuation, simplified] simp: clear_claim_and_continuation_def)
qed

lemma plain_store_ok:
  assumes "store_ok st"
  shows "set_active_workflow_execution st jid tok e at' = Inr (st', b) \<Longrightarrow> store_ok st'"
    and "increment_repair_count st jid tok at' = Inr (st', b) \<Longrightarrow> store_ok st'"
    and "increment_evaluation_attempt_count st jid tok at' = Inr (st', b) \<Longrightarrow> store_ok st'"
proof -
  have wf: "job_wf (domain_of m)" if "tget r_id jid (st_jobs st) = Some m" for m
    using store_okD(1)[OF assms that] by (simp add: row_ok_def)
  show "set_active_workflow_execution st jid tok e at' = Inr (st', b) \<Longrightarrow> store_ok st'"
    using assms wf
    by (auto simp: set_active_workflow_execution_def Let_def bindE_eq_Inr split: if_splits option.splits elim!: flush_ok)
  show "increment_repair_count st jid tok at' = Inr (st', b) \<Longrightarrow> store_ok st'"
    using assms wf
    by (auto simp: increment_repair_count_def Let_def bindE_eq_Inr split: if_splits option.splits elim!: flush_ok)
  show "increment_evaluation_attempt_count st jid tok at' = Inr (st', b) \<Longrightarrow> store_ok st'"
    using assms wf
    by (auto simp: increment_evaluation_attempt_count_def Let_def bindE_eq_Inr split: if_splits option.splits elim!: flush_ok)
qed

text \<open>Abandoning an execution keeps the identity of every execution, so no foreign key breaks.\<close>

lemma fk_active_execution_pairs:
  "fk_active_execution xs r \<longleftrightarrow>
     (\<forall>e. r_active_workflow_execution_id r = Some e \<longrightarrow> (e, r_id r) \<in> set (map (\<lambda>x. (x_id x, x_research_job_id x)) xs))"
  by (force simp: fk_active_execution_def list_ex_iff image_iff split: option.splits)

lemma update_execs_ok:
  assumes "store_ok st" "update_execs P status at' (st_execs st) = Inr (xs, n)"
  shows "store_ok (st\<lparr> st_execs := xs \<rparr>)"
proof -
  let ?f = "\<lambda>x. x\<lparr> x_status := status, x_finished_at := Some at' \<rparr>"
  have xs: "xs = tupdate P ?f (st_execs st)"
    and chk: "list_all (\<lambda>x. P x \<longrightarrow> exec_checks (?f x)) (st_execs st)"
    using assms(2) by (auto simp: update_execs_def Let_def split: if_splits)
  have ids: "map (\<lambda>x. (x_id x, x_research_job_id x)) xs = map (\<lambda>x. (x_id x, x_research_job_id x)) (st_execs st)"
    unfolding xs tupdate_def by simp
  have "fk_active_execution xs r = fk_active_execution (st_execs st) r" for r
    by (simp only: fk_active_execution_pairs ids)
  moreover have "map x_id xs = map x_id (st_execs st)" unfolding xs tupdate_def by simp
  moreover have "list_all exec_checks xs"
    using chk assms(1) unfolding xs tupdate_def by (auto simp: list_all_iff store_ok_def)
  ultimately show ?thesis using assms(1) by (simp add: store_ok_def)
qed

lemma abandon_for_retry_ok:
  "store_ok st \<Longrightarrow> abandon_for_retry (st_execs st) e jid at' = Inr (xs, hit) \<Longrightarrow> store_ok (st\<lparr> st_execs := xs \<rparr>)"
  by (auto simp: abandon_for_retry_def bindE_eq_Inr intro: update_execs_ok)

text \<open>The part of \<open>schedule_retry\<close> before the job moves: the abandoned execution, or a refusal.\<close>

definition abandon_step ::
  "store \<Rightarrow> job_row \<Rightarrow> string option \<Rightarrow> string \<Rightarrow> timestamp \<Rightarrow> store_error + (store \<times> bool)" where
  "abandon_step st m abandon jid at' =
     (case abandon of
        None \<Rightarrow> Inr (st, True)
      | Some e \<Rightarrow>
          if r_active_workflow_execution_id m \<noteq> Some e then Inr (st, False)
          else bindE (abandon_for_retry (st_execs st) e jid at') (\<lambda>(execs, hit).
                 Inr (if hit then st\<lparr> st_execs := execs \<rparr> else st, hit)))"

lemma abandon_step_ok:
  assumes "store_ok st" "abandon_step st m ab jid at' = Inr (st1, b)"
  shows "store_ok st1" "st_jobs st1 = st_jobs st" "\<not> b \<Longrightarrow> st1 = st"
  using assms abandon_for_retry_ok[OF assms(1)]
  by (auto simp: abandon_step_def bindE_eq_Inr split: option.splits if_splits)

lemma schedule_retry_cases:
  assumes "schedule_retry st jid tok n at' ab = Inr (st', b)" "store_ok st"
  obtains (refused) "st' = st" "\<not> b"
  | (moved) m st1 job where "b" "tget r_id jid (st_jobs st) = Some m" "owns_running_claim (Some m) tok at'"
      "abandon_step st m ab jid at' = Inr (st1, True)"
      "return_to_pending at' (Some (Aware at' 0)) (domain_of m) = Inr job"
      "flush_job st1 ((apply_domain_to_orm job m)\<lparr> r_job_retry_count := r_job_retry_count m + 1,
         r_claim_token := None, r_lease_expires_at := None, r_continuation_mode := ''JOB_RETRY'',
         r_claimed_continuation_mode := ''NONE'', r_next_attempt_at := Some n,
         r_active_workflow_execution_id := None \<rparr>) = Inr st'"
proof (cases "owns_running_claim (tget r_id jid (st_jobs st)) tok at'")
  case False
  then show thesis using assms(1) refused by (simp add: schedule_retry_def)
next
  case True
  then obtain m where m: "tget r_id jid (st_jobs st) = Some m" "owns_running_claim (Some m) tok at'"
    by (cases "tget r_id jid (st_jobs st)") auto
  note [simp] = row_ok_to_domain[OF store_okD(1)[OF assms(2) m(1)]]
  from assms(1) m obtain st1 c where s: "abandon_step st m ab jid at' = Inr (st1, c)"
    by (fastforce simp: schedule_retry_def abandon_step_def[symmetric] bindE_eq_Inr)
  show thesis
  proof (cases c)
    case False
    then show thesis using assms m s abandon_step_ok(3)[OF assms(2) s] refused
      by (simp add: schedule_retry_def abandon_step_def[symmetric])
  next
    case True
    then show thesis using assms(1) m s moved[of m st1]
      by (fastforce simp: schedule_retry_def abandon_step_def[symmetric] Let_def bindE_eq_Inr map_error_eq_Inr)
  qed
qed

lemma schedule_retry_store_ok:
  assumes "store_ok st" "schedule_retry st jid tok n at' ab = Inr (st', b)"
  shows "store_ok st'"
  using assms(2,1)
proof (cases rule: schedule_retry_cases)
  case (moved m st1 job)
  from moved_wf[OF store_okD(1)[OF assms(1) moved(2)], of at' "ReturnToPending (Some (Aware at' 0))" job]
    moved(5,6) abandon_step_ok(1)[OF assms(1) moved(4)]
  show ?thesis by (auto elim!: flush_ok)
qed (use assms in simp)

end
