(* ===== verification/Workflow_Store.thy ===== *)
theory Workflow_Store
  imports Job_Fencing
begin

text \<open>
  The workflow audit tables: \<open>workflow_executions\<close> (columns and constraints in \<open>Job_Store\<close>) and
  \<open>workflow_node_executions\<close> of \<open>src/src/atlas/persistence/models/workflow.py\<close>, with every
  operation of \<open>persistence/repositories/workflow.py\<close>.  A new id (\<open>uuid4\<close>) is an argument.
\<close>

section \<open>Executions\<close>

definition abandon_unfinished_for_job ::
  "store \<Rightarrow> string \<Rightarrow> timestamp \<Rightarrow> store_error + (store \<times> nat)" where
  "abandon_unfinished_for_job st job_id at' =
     bindE (update_execs (\<lambda>x. x_research_job_id x = job_id \<and> x_status x = ''RUNNING'') ''ABANDONED'' at' (st_execs st))
       (\<lambda>(xs, n). Inr (st\<lparr> st_execs := xs \<rparr>, n))"

text \<open>\<open>abandon_execution\<close>, \<open>complete_execution\<close> and \<open>fail_execution\<close> differ in the status they write.\<close>

definition end_execution ::
  "string \<Rightarrow> store \<Rightarrow> string \<Rightarrow> timestamp \<Rightarrow> store_error + (store \<times> bool)" where
  "end_execution status st execution_id at' =
     bindE (update_execs (\<lambda>x. x_id x = execution_id \<and> x_status x = ''RUNNING'') status at' (st_execs st))
       (\<lambda>(xs, n). Inr (st\<lparr> st_execs := xs \<rparr>, 0 < n))"

definition abandon_execution where "abandon_execution = end_execution ''ABANDONED''"
definition complete_execution where "complete_execution = end_execution ''COMPLETED''"
definition fail_execution where "fail_execution = end_execution ''FAILED''"

definition get_execution :: "store \<Rightarrow> string \<Rightarrow> exec_row option" where
  "get_execution st execution_id = tget x_id execution_id (st_execs st)"

text \<open>\<open>thread_id or execution_id\<close>: an empty string is falsy too.\<close>

definition create_execution ::
  "store \<Rightarrow> string \<Rightarrow> string \<Rightarrow> timestamp \<Rightarrow> string option \<Rightarrow> store_error + (store \<times> string)" where
  "create_execution st uuid job_id at' thread_id =
     (let x = \<lparr> x_id = uuid, x_research_job_id = job_id,
                x_thread_id = (case thread_id of None \<Rightarrow> uuid | Some t \<Rightarrow> if t = [] then uuid else t),
                x_status = ''RUNNING'', x_started_at = at', x_finished_at = None \<rparr>
      in if \<not> exec_checks x then Inl (IntegrityError ''check'')
         else if tget x_id uuid (st_execs st) \<noteq> None then Inl (IntegrityError ''workflow_executions_pkey'')
         else if tget r_id job_id (st_jobs st) = None
         then Inl (IntegrityError ''fk_workflow_executions_research_job_id'')
         else Inr (st\<lparr> st_execs := st_execs st @ [x] \<rparr>, uuid))"

text \<open>The subquery of \<open>_terminal_execution_for_claim\<close>.\<close>

definition claim_binds :: "store \<Rightarrow> string \<Rightarrow> string \<Rightarrow> string \<Rightarrow> timestamp \<Rightarrow> bool" where
  "claim_binds st job_id claim_token execution_id at' \<longleftrightarrow>
     list_ex (\<lambda>r. r_id r = job_id \<and> r_status r = ''RUNNING'' \<and> r_claim_token r = Some claim_token \<and>
                  (case r_lease_expires_at r of None \<Rightarrow> False | Some l \<Rightarrow> at' < l) \<and>
                  r_active_workflow_execution_id r = Some execution_id) (st_jobs st)"

definition terminal_execution_for_claim ::
  "store \<Rightarrow> string \<Rightarrow> string \<Rightarrow> string \<Rightarrow> timestamp \<Rightarrow> string \<Rightarrow> store_error + (store \<times> bool)" where
  "terminal_execution_for_claim st execution_id job_id claim_token at' target_status =
     bindE (update_execs (\<lambda>x. x_id x = execution_id \<and> x_research_job_id x = job_id \<and> x_status x = ''RUNNING'' \<and>
                               claim_binds st job_id claim_token execution_id at')
              target_status at' (st_execs st))
       (\<lambda>(xs, n). Inr (st\<lparr> st_execs := xs \<rparr>, 0 < n))"

definition complete_execution_for_claim where
  "complete_execution_for_claim st e j tok at' = terminal_execution_for_claim st e j tok at' ''COMPLETED''"
definition fail_execution_for_claim where
  "fail_execution_for_claim st e j tok at' = terminal_execution_for_claim st e j tok at' ''FAILED''"
definition abandon_execution_for_claim where
  "abandon_execution_for_claim st e j tok at' = terminal_execution_for_claim st e j tok at' ''ABANDONED''"

section \<open>Node attempts\<close>

record node_row =
  n_id :: string
  n_workflow_execution_id :: string
  n_node_name :: string
  n_attempt :: int
  n_status :: string
  n_started_at :: timestamp
  n_finished_at :: "timestamp option"
  n_error :: "string option"

definition node_checks :: "node_row \<Rightarrow> bool" where
  "node_checks n \<longleftrightarrow>
     1 \<le> n_attempt n \<and> sql_nonblank (n_id n) \<and> sql_nonblank (n_node_name n) \<and>
     ((n_status n = ''STARTED'' \<and> n_finished_at n = None \<and> n_error n = None)
      \<or> (n_status n = ''COMPLETED'' \<and> (case n_finished_at n of None \<Rightarrow> False | Some f \<Rightarrow> n_started_at n \<le> f) \<and>
         n_error n = None)
      \<or> (n_status n = ''FAILED'' \<and> (case n_finished_at n of None \<Rightarrow> False | Some f \<Rightarrow> n_started_at n \<le> f) \<and>
         n_error n \<noteq> None))"

definition node_attempts :: "string \<Rightarrow> string \<Rightarrow> node_row list \<Rightarrow> int list" where
  "node_attempts e name nodes =
     map n_attempt (filter (\<lambda>n. n_workflow_execution_id n = e \<and> n_node_name n = name) nodes)"

definition begin_node_attempt ::
  "store \<Rightarrow> node_row list \<Rightarrow> string \<Rightarrow> string \<Rightarrow> string \<Rightarrow> timestamp \<Rightarrow> store_error + (node_row list \<times> int)" where
  "begin_node_attempt st nodes uuid execution_id node_name at' =
     (let xs = node_attempts execution_id node_name nodes;
          attempt = (if xs = [] then 1 else Max (set xs) + 1);
          n = \<lparr> n_id = uuid, n_workflow_execution_id = execution_id, n_node_name = node_name,
                n_attempt = attempt, n_status = ''STARTED'', n_started_at = at', n_finished_at = None,
                n_error = None \<rparr>
      in if \<not> node_checks n then Inl (IntegrityError ''check'')
         else if tget n_id uuid nodes \<noteq> None then Inl (IntegrityError ''workflow_node_executions_pkey'')
         else if attempt \<in> set xs then Inl (IntegrityError ''uq_workflow_node_executions_attempt'')
         else if tget x_id execution_id (st_execs st) = None
         then Inl (IntegrityError ''fk_workflow_node_executions_workflow_execution_id'')
         else Inr (nodes @ [n], attempt))"

definition end_node_attempt ::
  "string \<Rightarrow> string option \<Rightarrow> node_row list \<Rightarrow> string \<Rightarrow> string \<Rightarrow> int \<Rightarrow> timestamp \<Rightarrow> store_error + node_row list" where
  "end_node_attempt status err nodes execution_id node_name attempt at' =
     (let P = (\<lambda>n. n_workflow_execution_id n = execution_id \<and> n_node_name n = node_name \<and>
                    n_attempt n = attempt \<and> n_status n = ''STARTED'');
          f = (\<lambda>n. n\<lparr> n_status := status, n_finished_at := Some at', n_error := err \<rparr>)
      in if \<not> list_all (\<lambda>n. P n \<longrightarrow> node_checks (f n)) nodes
         then Inl (IntegrityError ''ck_workflow_node_executions_status_fields'')
         else Inr (tupdate P f nodes))"

definition complete_node_attempt where
  "complete_node_attempt = end_node_attempt ''COMPLETED'' None"
definition fail_node_attempt where
  "fail_node_attempt nodes e name attempt err at' = end_node_attempt ''FAILED'' (Some err) nodes e name attempt at'"

section \<open>Lemmas\<close>

text \<open>The claim subquery agrees with \<open>_owns_running_claim\<close> on a store whose ids are unique.\<close>

lemma claim_binds_iff [fence_simps]:
  assumes "store_ok st"
  shows "claim_binds st jid tok e at' \<longleftrightarrow>
     (\<exists>m. tget r_id jid (st_jobs st) = Some m \<and> owns_running_claim (Some m) tok at' \<and>
          r_active_workflow_execution_id m = Some e)"
proof -
  have "distinct (map r_id (st_jobs st))" using assms by (simp add: store_ok_def)
  from list_ex_key[OF this] show ?thesis
    by (auto simp: claim_binds_def owns_running_claim_iff split: option.splits)
qed

lemma update_execs_none: "(\<And>x. \<not> P x) \<Longrightarrow> update_execs P s at' xs = Inr (xs, 0)"
  by (induction xs) (auto simp: update_execs_def Let_def list_all_iff)

lemma exec_ops_store_ok:
  assumes "store_ok st"
  shows "abandon_unfinished_for_job st jid at' = Inr (st', n) \<Longrightarrow> store_ok st'"
    and "end_execution s st e at' = Inr (st', b) \<Longrightarrow> store_ok st'"
    and "terminal_execution_for_claim st e jid tok at' s = Inr (st', b) \<Longrightarrow> store_ok st'"
  using assms
  by (auto simp: abandon_unfinished_for_job_def end_execution_def terminal_execution_for_claim_def bindE_eq_Inr
      dest: update_execs_ok)

lemma fk_append: "fk_active_execution xs r \<Longrightarrow> fk_active_execution (xs @ ys) r"
  by (auto simp: fk_active_execution_pairs)

lemma create_execution_store_ok:
  assumes "store_ok st" "create_execution st u jid at' t = Inr (st', e)"
  shows "store_ok st'"
  using assms
  by (auto simp: create_execution_def Let_def store_ok_def tget_None_iff list_all_iff fk_append split: if_splits)

text \<open>Attempts of a node are numbered from one without gaps.\<close>

definition numbered :: "int list \<Rightarrow> bool" where
  "numbered xs \<longleftrightarrow> xs = map int [1 ..< Suc (length xs)]"

definition nodes_ok :: "node_row list \<Rightarrow> bool" where
  "nodes_ok nodes \<longleftrightarrow>
     distinct (map n_id nodes) \<and> list_all node_checks nodes \<and>
     (\<forall>e name. numbered (node_attempts e name nodes))"

lemma numbered_snoc: "numbered xs \<Longrightarrow> numbered (xs @ [int (length xs) + 1])"
  by (simp add: numbered_def)

lemma numbered_Max: "xs \<noteq> [] \<Longrightarrow> numbered xs \<Longrightarrow> Max (set xs) = int (length xs)"
proof -
  assume ne: "xs \<noteq> []" and eq: "numbered xs"
  have "set xs = int ` {1 .. length xs}"
    by (subst eq[unfolded numbered_def]) (auto simp: atLeastLessThanSuc_atLeastAtMost)
  moreover have "Max (int ` {1 .. length xs}) = int (length xs)"
    using ne by (intro Max_eqI) (auto simp: Suc_le_eq)
  ultimately show ?thesis by simp
qed

lemma begin_node_attempt_number:
  assumes "nodes_ok nodes" "begin_node_attempt st nodes u e name at' = Inr (nodes', k)"
  shows "k = int (length (node_attempts e name nodes)) + 1"
  using assms(2) numbered_Max[of "node_attempts e name nodes"] assms(1)
  by (auto simp: begin_node_attempt_def Let_def nodes_ok_def split: if_splits)

lemma begin_node_attempt_ok:
  assumes "nodes_ok nodes" "begin_node_attempt st nodes u e name at' = Inr (nodes', k)"
  shows "nodes_ok nodes'"
proof -
  from assms(2) obtain n where n: "nodes' = nodes @ [n]" "node_checks n" "n_id n = u" "u \<notin> set (map n_id nodes)"
    "n_workflow_execution_id n = e" "n_node_name n = name" "n_attempt n = k"
    by (auto simp: begin_node_attempt_def Let_def tget_None_iff split: if_splits)
  have k: "k = int (length (node_attempts e name nodes)) + 1" using begin_node_attempt_number[OF assms] .
  have "node_attempts e' name' nodes' =
      node_attempts e' name' nodes @ (if e' = e \<and> name' = name then [k] else [])" for e' name'
    using n by (auto simp: node_attempts_def)
  then have "numbered (node_attempts e' name' nodes')" for e' name'
    using assms(1) k by (cases "e' = e \<and> name' = name") (simp_all add: nodes_ok_def numbered_snoc)
  then show ?thesis using n assms(1) by (simp add: nodes_ok_def)
qed

lemma end_node_attempt_ok:
  assumes "nodes_ok nodes" "end_node_attempt s err nodes e name k at' = Inr nodes'"
  shows "nodes_ok nodes'"
proof -
  let ?P = "\<lambda>n. n_workflow_execution_id n = e \<and> n_node_name n = name \<and> n_attempt n = k \<and> n_status n = ''STARTED''"
  let ?f = "\<lambda>n. n\<lparr> n_status := s, n_finished_at := Some at', n_error := err \<rparr>"
  have t: "nodes' = tupdate ?P ?f nodes" and c: "list_all (\<lambda>n. ?P n \<longrightarrow> node_checks (?f n)) nodes"
    using assms(2) by (auto simp: end_node_attempt_def Let_def split: if_splits)
  have "node_attempts e' name' nodes' = node_attempts e' name' nodes" for e' name'
    unfolding t by (induction nodes) (auto simp: node_attempts_def)
  moreover have "map n_id nodes' = map n_id nodes" unfolding t tupdate_def by simp
  moreover have "list_all node_checks nodes'"
    using c assms(1) unfolding t tupdate_def by (auto simp: list_all_iff nodes_ok_def)
  ultimately show ?thesis using assms(1) by (simp add: nodes_ok_def)
qed

end
