(* ===== verification/Eventing.thy ===== *)
theory Eventing
  imports Prelude
begin

text \<open>
  The research-job domain events of \<open>src/src/atlas/eventing\<close>: the typed payloads and envelopes
  of \<open>contracts.py\<close> with their field and model validators, the builders of \<open>builders.py\<close>, and the
  mapping level of \<open>serialization.py\<close> and \<open>parse_domain_event\<close>.  Two libraries are parameters: a
  \<open>pydantic\<close> record holds the coercions of pydantic's lax mode and its JSON-mode formats, and the
  text level of JSON is a function; what is assumed of pydantic is \<open>pydantic_laws\<close>.
\<close>

section \<open>Values\<close>

text \<open>What a validator receives: a decoded JSON value, or a Python \<open>UUID\<close> or \<open>datetime\<close> object.\<close>

type_synonym uuid = string

datatype py_value =
    VNull | VBool bool | VInt int | VFloat | VStr string | VList "py_value list"
  | VDict "(string \<times> py_value) list" | VUuid uuid | VDatetime py_datetime

record pydantic =
  pd_uuid :: "py_value \<Rightarrow> uuid option"
  pd_datetime :: "py_value \<Rightarrow> py_datetime option"
  pd_int :: "py_value \<Rightarrow> int option"
  pd_uuid_text :: "uuid \<Rightarrow> string"
  pd_iso :: "timestamp \<Rightarrow> string"

text \<open>Documented behaviour: a UUID or datetime object is accepted as it is, and the text that
  \<open>model_dump(mode="json")\<close> writes for one is read back as the same value.\<close>

definition pydantic_laws :: "pydantic \<Rightarrow> bool" where
  "pydantic_laws pd \<longleftrightarrow>
     (\<forall>u. pd_uuid pd (VUuid u) = Some u) \<and> (\<forall>d. pd_datetime pd (VDatetime d) = Some d) \<and>
     (\<forall>n. pd_int pd (VInt n) = Some n) \<and> (\<forall>u. pd_uuid pd (VStr (pd_uuid_text pd u)) = Some u) \<and>
     (\<forall>t. pd_datetime pd (VStr (pd_iso pd t)) = Some (Aware t 0))"

definition pd_str :: "py_value \<Rightarrow> string option" where
  "pd_str v = (case v of VStr s \<Rightarrow> Some s | _ \<Rightarrow> None)"

section \<open>Events\<close>

datatype event_payload =
    ResearchJobCreatedPayload string timestamp
  | ResearchJobCompletedPayload string timestamp
  | ResearchJobFailedPayload string timestamp string
  | ResearchJobAwaitingReviewPayload string string timestamp
  | ResearchJobRetryScheduledPayload string "string option" int timestamp

record domain_event =
  ev_event_id :: uuid
  ev_event_version :: int
  ev_aggregate_type :: string
  ev_aggregate_id :: string
  ev_occurred_at :: timestamp
  ev_payload :: event_payload

fun payload_type :: "event_payload \<Rightarrow> string" where
  "payload_type (ResearchJobCreatedPayload _ _) = ''research_job.created''"
| "payload_type (ResearchJobCompletedPayload _ _) = ''research_job.completed''"
| "payload_type (ResearchJobFailedPayload _ _ _) = ''research_job.failed''"
| "payload_type (ResearchJobAwaitingReviewPayload _ _ _) = ''research_job.awaiting_review''"
| "payload_type (ResearchJobRetryScheduledPayload _ _ _ _) = ''research_job.retry_scheduled''"

definition ev_event_type :: "domain_event \<Rightarrow> string" where
  "ev_event_type e = payload_type (ev_payload e)"

definition SUPPORTED_EVENT_TYPES :: "string list" where
  "SUPPORTED_EVENT_TYPES =
     [''research_job.created'', ''research_job.completed'', ''research_job.failed'',
      ''research_job.awaiting_review'', ''research_job.retry_scheduled'']"

fun payload_job_id :: "event_payload \<Rightarrow> string" where
  "payload_job_id (ResearchJobCreatedPayload j _) = j"
| "payload_job_id (ResearchJobCompletedPayload j _) = j"
| "payload_job_id (ResearchJobFailedPayload j _ _) = j"
| "payload_job_id (ResearchJobAwaitingReviewPayload j _ _) = j"
| "payload_job_id (ResearchJobRetryScheduledPayload j _ _ _) = j"

text \<open>Pydantic collects the failures of all validators into one \<open>ValidationError\<close>; a
  \<open>DomainEventValidationError\<close> raised in a validator is a \<open>ValueError\<close> and is collected too.\<close>

datatype event_error = ValidationError | DomainEventValidationError | DomainEventSerializationError

section \<open>Validators\<close>

definition min_length_1 :: "string \<Rightarrow> event_error + string" where
  "min_length_1 s = (if s = [] then Inl ValidationError else Inr s)"

definition normalize_utc :: "py_datetime \<Rightarrow> event_error + timestamp" where
  "normalize_utc d = (case d of Naive _ \<Rightarrow> Inl ValidationError | Aware l off \<Rightarrow> Inr (l - off))"

definition sanitize_reason_class :: "string \<Rightarrow> event_error + string" where
  "sanitize_reason_class v =
     (let cleaned = py_strip v
      in if cleaned = [] then Inl ValidationError
         else if list_ex py_isspace cleaned then Inl ValidationError
         else if 128 < length cleaned then Inl ValidationError
         else Inr cleaned)"

definition optional_execution_id :: "string option \<Rightarrow> event_error + string option" where
  "optional_execution_id v =
     (case v of None \<Rightarrow> Inr None
      | Some s \<Rightarrow> (let cleaned = py_strip s in if cleaned = [] then Inl ValidationError else Inr (Some cleaned)))"

text \<open>The payload classes: constructing one runs the field constraints and validators.\<close>

definition created_payload :: "string \<Rightarrow> py_datetime \<Rightarrow> event_error + event_payload" where
  "created_payload job created_at =
     bindE (min_length_1 job) (\<lambda>j. bindE (normalize_utc created_at) (\<lambda>t.
       Inr (ResearchJobCreatedPayload j t)))"

definition completed_payload :: "string \<Rightarrow> py_datetime \<Rightarrow> event_error + event_payload" where
  "completed_payload job completed_at =
     bindE (min_length_1 job) (\<lambda>j. bindE (normalize_utc completed_at) (\<lambda>t.
       Inr (ResearchJobCompletedPayload j t)))"

definition failed_payload :: "string \<Rightarrow> py_datetime \<Rightarrow> string \<Rightarrow> event_error + event_payload" where
  "failed_payload job failed_at reason_class =
     bindE (min_length_1 job) (\<lambda>j. bindE (normalize_utc failed_at) (\<lambda>t.
     bindE (guardE (1 \<le> length reason_class \<and> length reason_class \<le> 128) ValidationError) (\<lambda>_.
     bindE (sanitize_reason_class reason_class) (\<lambda>r.
       Inr (ResearchJobFailedPayload j t r)))))"

definition awaiting_review_payload :: "string \<Rightarrow> string \<Rightarrow> py_datetime \<Rightarrow> event_error + event_payload" where
  "awaiting_review_payload job execution_id entered_review_at =
     bindE (min_length_1 job) (\<lambda>j. bindE (min_length_1 execution_id) (\<lambda>e.
     bindE (normalize_utc entered_review_at) (\<lambda>t.
       Inr (ResearchJobAwaitingReviewPayload j e t))))"

definition retry_scheduled_payload ::
  "string \<Rightarrow> string option \<Rightarrow> int \<Rightarrow> py_datetime \<Rightarrow> event_error + event_payload" where
  "retry_scheduled_payload job abandoned job_retry_count next_attempt_at =
     bindE (min_length_1 job) (\<lambda>j. bindE (optional_execution_id abandoned) (\<lambda>a.
     bindE (guardE (1 \<le> job_retry_count \<and> job_retry_count \<le> 2) ValidationError) (\<lambda>_.
     bindE (normalize_utc next_attempt_at) (\<lambda>t.
       Inr (ResearchJobRetryScheduledPayload j a job_retry_count t)))))"

text \<open>\<open>_align_payload\<close>: the mutation's timestamp must be the envelope's, except for retries.\<close>

fun align_payload :: "domain_event \<Rightarrow> bool" where
  "align_payload e \<longleftrightarrow>
     ev_aggregate_id e = payload_job_id (ev_payload e) \<and>
     (case ev_payload e of
        ResearchJobCreatedPayload _ t \<Rightarrow> ev_occurred_at e = t
      | ResearchJobCompletedPayload _ t \<Rightarrow> ev_occurred_at e = t
      | ResearchJobFailedPayload _ t _ \<Rightarrow> ev_occurred_at e = t
      | ResearchJobAwaitingReviewPayload _ _ t \<Rightarrow> ev_occurred_at e = t
      | ResearchJobRetryScheduledPayload _ _ _ _ \<Rightarrow> True)"

text \<open>The envelope classes, which share \<open>_EventBase\<close>.\<close>

definition make_event :: "uuid \<Rightarrow> string \<Rightarrow> py_datetime \<Rightarrow> event_payload \<Rightarrow> event_error + domain_event" where
  "make_event event_id aggregate_id occurred_at payload =
     bindE (min_length_1 aggregate_id) (\<lambda>a. bindE (normalize_utc occurred_at) (\<lambda>t.
       let e = \<lparr> ev_event_id = event_id, ev_event_version = 1, ev_aggregate_type = ''research_job'',
                 ev_aggregate_id = a, ev_occurred_at = t, ev_payload = payload \<rparr>
       in if align_payload e then Inr e else Inl ValidationError))"

section \<open>Builders\<close>

text \<open>\<open>event_id\<close> is the caller's id or the fresh one.\<close>

definition build_research_job_created :: "uuid \<Rightarrow> string \<Rightarrow> py_datetime \<Rightarrow> event_error + domain_event" where
  "build_research_job_created event_id job created_at =
     bindE (created_payload job created_at) (make_event event_id job created_at)"

definition build_research_job_completed :: "uuid \<Rightarrow> string \<Rightarrow> py_datetime \<Rightarrow> event_error + domain_event" where
  "build_research_job_completed event_id job completed_at =
     bindE (completed_payload job completed_at) (make_event event_id job completed_at)"

definition build_research_job_failed ::
  "uuid \<Rightarrow> string \<Rightarrow> py_datetime \<Rightarrow> string \<Rightarrow> event_error + domain_event" where
  "build_research_job_failed event_id job failed_at reason_class =
     bindE (failed_payload job failed_at reason_class) (make_event event_id job failed_at)"

definition build_research_job_awaiting_review ::
  "uuid \<Rightarrow> string \<Rightarrow> string \<Rightarrow> py_datetime \<Rightarrow> event_error + domain_event" where
  "build_research_job_awaiting_review event_id job execution_id entered_review_at =
     bindE (awaiting_review_payload job execution_id entered_review_at) (make_event event_id job entered_review_at)"

definition build_research_job_retry_scheduled ::
  "uuid \<Rightarrow> string \<Rightarrow> string option \<Rightarrow> int \<Rightarrow> py_datetime \<Rightarrow> py_datetime \<Rightarrow> event_error + domain_event" where
  "build_research_job_retry_scheduled event_id job abandoned job_retry_count next_attempt_at occurred_at =
     bindE (retry_scheduled_payload job abandoned job_retry_count next_attempt_at)
       (make_event event_id job occurred_at)"

section \<open>Dumping and parsing\<close>

definition opt_str :: "string option \<Rightarrow> py_value" where
  "opt_str v = (case v of None \<Rightarrow> VNull | Some s \<Rightarrow> VStr s)"

text \<open>A \<open>VDict\<close> lists its entries by key, as \<open>canonical_json_dumps\<close> writes them (\<open>sort_keys=True\<close>).\<close>

fun payload_dump :: "pydantic \<Rightarrow> event_payload \<Rightarrow> py_value" where
  "payload_dump pd (ResearchJobCreatedPayload j t) =
     VDict [(''created_at'', VStr (pd_iso pd t)), (''research_job_id'', VStr j)]"
| "payload_dump pd (ResearchJobCompletedPayload j t) =
     VDict [(''completed_at'', VStr (pd_iso pd t)), (''research_job_id'', VStr j)]"
| "payload_dump pd (ResearchJobFailedPayload j t r) =
     VDict [(''failed_at'', VStr (pd_iso pd t)), (''reason_class'', VStr r), (''research_job_id'', VStr j)]"
| "payload_dump pd (ResearchJobAwaitingReviewPayload j e t) =
     VDict [(''entered_review_at'', VStr (pd_iso pd t)), (''research_job_id'', VStr j),
            (''workflow_execution_id'', VStr e)]"
| "payload_dump pd (ResearchJobRetryScheduledPayload j a k t) =
     VDict [(''abandoned_workflow_execution_id'', opt_str a), (''job_retry_count'', VInt k),
            (''next_attempt_at'', VStr (pd_iso pd t)), (''research_job_id'', VStr j)]"

definition domain_event_to_canonical_dict :: "pydantic \<Rightarrow> domain_event \<Rightarrow> py_value" where
  "domain_event_to_canonical_dict pd e =
     VDict [(''aggregate_id'', VStr (ev_aggregate_id e)), (''aggregate_type'', VStr (ev_aggregate_type e)),
            (''event_id'', VStr (pd_uuid_text pd (ev_event_id e))), (''event_type'', VStr (ev_event_type e)),
            (''event_version'', VInt (ev_event_version e)), (''occurred_at'', VStr (pd_iso pd (ev_occurred_at e))),
            (''payload'', payload_dump pd (ev_payload e))]"

definition MAX_PAYLOAD_JSON_BYTES :: nat where
  "MAX_PAYLOAD_JSON_BYTES = 16 * 1024"

text \<open>\<open>dumps\<close> is \<open>canonical_json_dumps\<close> followed by UTF-8 encoding: the bytes of the text.\<close>

definition serialize_payload ::
  "pydantic \<Rightarrow> (py_value \<Rightarrow> string) \<Rightarrow> domain_event \<Rightarrow> event_error + py_value" where
  "serialize_payload pd dumps e =
     (let payload = payload_dump pd (ev_payload e)
      in if MAX_PAYLOAD_JSON_BYTES < length (dumps payload) then Inl DomainEventSerializationError
         else Inr payload)"

definition field :: "(string \<times> py_value) list \<Rightarrow> string \<Rightarrow> (py_value \<Rightarrow> 'a option) \<Rightarrow> event_error + 'a" where
  "field kvs k coerce =
     (case map_of kvs k of
        None \<Rightarrow> Inl ValidationError
      | Some v \<Rightarrow> (case coerce v of None \<Rightarrow> Inl ValidationError | Some x \<Rightarrow> Inr x))"

definition only_keys :: "(string \<times> py_value) list \<Rightarrow> string list \<Rightarrow> event_error + unit" where
  "only_keys kvs ks = guardE (list_all (\<lambda>kv. fst kv \<in> set ks) kvs) ValidationError"

definition pd_opt_str :: "py_value \<Rightarrow> string option option" where
  "pd_opt_str v = (case v of VNull \<Rightarrow> Some None | VStr s \<Rightarrow> Some (Some s) | _ \<Rightarrow> None)"

definition parse_payload :: "pydantic \<Rightarrow> string \<Rightarrow> py_value \<Rightarrow> event_error + event_payload" where
  "parse_payload pd event_type v =
     (case v of
        VDict kvs \<Rightarrow>
          bindE (field kvs ''research_job_id'' pd_str) (\<lambda>j.
          if event_type = ''research_job.created'' then
            bindE (only_keys kvs [''research_job_id'', ''created_at'']) (\<lambda>_.
            bindE (field kvs ''created_at'' (pd_datetime pd)) (created_payload j))
          else if event_type = ''research_job.completed'' then
            bindE (only_keys kvs [''research_job_id'', ''completed_at'']) (\<lambda>_.
            bindE (field kvs ''completed_at'' (pd_datetime pd)) (completed_payload j))
          else if event_type = ''research_job.failed'' then
            bindE (only_keys kvs [''research_job_id'', ''failed_at'', ''reason_class'']) (\<lambda>_.
            bindE (field kvs ''failed_at'' (pd_datetime pd)) (\<lambda>d.
            bindE (field kvs ''reason_class'' pd_str) (failed_payload j d)))
          else if event_type = ''research_job.awaiting_review'' then
            bindE (only_keys kvs [''research_job_id'', ''workflow_execution_id'', ''entered_review_at'']) (\<lambda>_.
            bindE (field kvs ''workflow_execution_id'' pd_str) (\<lambda>e.
            bindE (field kvs ''entered_review_at'' (pd_datetime pd)) (awaiting_review_payload j e)))
          else
            bindE (only_keys kvs [''research_job_id'', ''abandoned_workflow_execution_id'',
                                  ''job_retry_count'', ''next_attempt_at'']) (\<lambda>_.
            bindE (field kvs ''abandoned_workflow_execution_id'' pd_opt_str) (\<lambda>a.
            bindE (field kvs ''job_retry_count'' (pd_int pd)) (\<lambda>k.
            bindE (field kvs ''next_attempt_at'' (pd_datetime pd)) (retry_scheduled_payload j a k)))))
      | _ \<Rightarrow> Inl ValidationError)"

text \<open>\<open>event_version\<close> and \<open>aggregate_type\<close> are literals with a default; \<open>event_type\<close> is the
  discriminator of the union and has to be present.\<close>

definition literal_default :: "(string \<times> py_value) list \<Rightarrow> string \<Rightarrow> py_value \<Rightarrow> event_error + unit" where
  "literal_default kvs k v =
     (case map_of kvs k of None \<Rightarrow> Inr () | Some w \<Rightarrow> guardE (w = v) ValidationError)"

definition validate_python :: "pydantic \<Rightarrow> py_value \<Rightarrow> event_error + domain_event" where
  "validate_python pd data =
     (case data of
        VDict kvs \<Rightarrow>
          bindE (field kvs ''event_type'' pd_str) (\<lambda>event_type.
          bindE (guardE (event_type \<in> set SUPPORTED_EVENT_TYPES) ValidationError) (\<lambda>_.
          bindE (only_keys kvs [''event_id'', ''event_version'', ''aggregate_type'', ''aggregate_id'',
                                ''occurred_at'', ''event_type'', ''payload'']) (\<lambda>_.
          bindE (literal_default kvs ''event_version'' (VInt 1)) (\<lambda>_.
          bindE (literal_default kvs ''aggregate_type'' (VStr ''research_job'')) (\<lambda>_.
          bindE (field kvs ''event_id'' (pd_uuid pd)) (\<lambda>i.
          bindE (field kvs ''aggregate_id'' pd_str) (\<lambda>a.
          bindE (field kvs ''occurred_at'' (pd_datetime pd)) (\<lambda>d.
          bindE (field kvs ''payload'' Some) (\<lambda>p.
          bindE (parse_payload pd event_type p) (make_event i a d))))))))))
      | _ \<Rightarrow> Inl ValidationError)"

definition parse_domain_event :: "pydantic \<Rightarrow> py_value \<Rightarrow> event_error + domain_event" where
  "parse_domain_event pd data = map_error (\<lambda>_. DomainEventValidationError) (validate_python pd data)"

section \<open>The invariant of events\<close>

fun payload_ok :: "event_payload \<Rightarrow> bool" where
  "payload_ok (ResearchJobCreatedPayload j t) \<longleftrightarrow> j \<noteq> []"
| "payload_ok (ResearchJobCompletedPayload j t) \<longleftrightarrow> j \<noteq> []"
| "payload_ok (ResearchJobFailedPayload j t r) \<longleftrightarrow>
     j \<noteq> [] \<and> r \<noteq> [] \<and> list_all (\<lambda>c. \<not> py_isspace c) r \<and> length r \<le> 128"
| "payload_ok (ResearchJobAwaitingReviewPayload j e t) \<longleftrightarrow> j \<noteq> [] \<and> e \<noteq> []"
| "payload_ok (ResearchJobRetryScheduledPayload j a k t) \<longleftrightarrow>
     j \<noteq> [] \<and> (case a of None \<Rightarrow> True | Some e \<Rightarrow> stripped e) \<and> 1 \<le> k \<and> k \<le> 2"

definition event_ok :: "domain_event \<Rightarrow> bool" where
  "event_ok e \<longleftrightarrow>
     ev_event_version e = 1 \<and> ev_aggregate_type e = ''research_job'' \<and> ev_aggregate_id e \<noteq> [] \<and>
     payload_ok (ev_payload e) \<and> align_payload e"

lemma validator_Inr [bind_simps]:
  "min_length_1 s = Inr x \<longleftrightarrow> s \<noteq> [] \<and> x = s"
  "normalize_utc d = Inr t \<longleftrightarrow> (\<exists>l off. d = Aware l off \<and> t = l - off)"
  "sanitize_reason_class r = Inr c \<longleftrightarrow> c = py_strip r \<and> c \<noteq> [] \<and> list_all (\<lambda>x. \<not> py_isspace x) c \<and> length c \<le> 128"
  by (auto simp: min_length_1_def normalize_utc_def sanitize_reason_class_def Let_def list_all_iff list_ex_iff
      split: py_datetime.splits)

lemma optional_execution_id_Inr [bind_simps]:
  "optional_execution_id v = Inr a \<longleftrightarrow>
     (v = None \<and> a = None) \<or> (\<exists>s. v = Some s \<and> py_strip s \<noteq> [] \<and> a = Some (py_strip s))"
  by (auto simp: optional_execution_id_def Let_def split: option.splits)

lemmas payload_defs =
  created_payload_def completed_payload_def failed_payload_def awaiting_review_payload_def retry_scheduled_payload_def

lemma payload_constructors_ok:
  "created_payload j d = Inr p \<Longrightarrow> payload_ok p" "completed_payload j d = Inr p \<Longrightarrow> payload_ok p"
  "failed_payload j d r = Inr p \<Longrightarrow> payload_ok p" "awaiting_review_payload j e d = Inr p \<Longrightarrow> payload_ok p"
  "retry_scheduled_payload j a k d = Inr p \<Longrightarrow> payload_ok p"
  by (auto simp: payload_defs bind_simps stripped_py_strip)

lemma make_event_Inr [bind_simps]:
  "make_event i a d p = Inr e \<longleftrightarrow>
     a \<noteq> [] \<and> (\<exists>l off. d = Aware l off \<and>
       e = \<lparr> ev_event_id = i, ev_event_version = 1, ev_aggregate_type = ''research_job'', ev_aggregate_id = a,
             ev_occurred_at = l - off, ev_payload = p \<rparr> \<and> align_payload e)"
  by (auto simp: make_event_def Let_def bind_simps)

lemma make_event_ok: "make_event i a d p = Inr e \<Longrightarrow> payload_ok p \<Longrightarrow> event_ok e"
  by (auto simp: bind_simps event_ok_def)

lemma parse_payload_ok: "parse_payload pd t v = Inr p \<Longrightarrow> payload_ok p"
  by (cases v; simp add: parse_payload_def; elim bindE_InrE;
      auto elim!: bindE_InrE dest: payload_constructors_ok split: if_splits)

lemma parse_domain_event_ok: "parse_domain_event pd v = Inr e \<Longrightarrow> event_ok e"
  by (cases v; simp add: parse_domain_event_def validate_python_def map_error_eq_Inr;
      elim bindE_InrE; blast intro: make_event_ok parse_payload_ok)

lemmas builder_defs =
  build_research_job_created_def build_research_job_completed_def build_research_job_failed_def
  build_research_job_awaiting_review_def build_research_job_retry_scheduled_def

text \<open>A valid payload is parsed back from its dump.\<close>

lemma py_strip_no_space: "r \<noteq> [] \<Longrightarrow> list_all (\<lambda>c. \<not> py_isspace c) r \<Longrightarrow> py_strip r = r"
  by (rule py_strip_stripped) (auto simp: stripped_def list_all_iff)

lemma not_stripped_Nil: "\<not> stripped []"
  by (simp add: stripped_def)

lemma payload_round_trip:
  assumes "pydantic_laws pd" "payload_ok p"
  shows "parse_payload pd (payload_type p) (payload_dump pd p) = Inr p"
  using assms
  by (cases p)
     (auto simp: parse_payload_def field_def only_keys_def pd_str_def pydantic_laws_def payload_defs
        min_length_1_def normalize_utc_def sanitize_reason_class_def py_strip_no_space Let_def list_all_iff list_ex_iff
        pd_opt_str_def opt_str_def optional_execution_id_def py_strip_stripped Suc_le_eq not_stripped_Nil
        split: option.splits)

lemma payload_type_supported: "payload_type p \<in> set SUPPORTED_EVENT_TYPES"
  by (cases p) (simp_all add: SUPPORTED_EVENT_TYPES_def)

lemma make_event_fixed:
  assumes "event_ok e"
  shows "make_event (ev_event_id e) (ev_aggregate_id e) (Aware (ev_occurred_at e) 0) (ev_payload e) = Inr e"
  using assms by (cases e) (auto simp: bind_simps event_ok_def)

lemma event_round_trip:
  assumes "pydantic_laws pd" "event_ok e"
  shows "parse_domain_event pd (domain_event_to_canonical_dict pd e) = Inr e"
  using assms(1) payload_round_trip[OF assms(1), of "ev_payload e"] payload_type_supported[of "ev_payload e"]
    make_event_fixed[OF assms(2)] assms(2)
  by (simp add: parse_domain_event_def validate_python_def domain_event_to_canonical_dict_def field_def pd_str_def
      only_keys_def literal_default_def pydantic_laws_def ev_event_type_def event_ok_def)

section \<open>A concrete instance of the laws\<close>

text \<open>Unary texts for the timestamps: not what pydantic writes, but they satisfy the laws.\<close>

definition demo_iso :: "timestamp \<Rightarrow> string" where
  "demo_iso t = (if t < 0 then CHR ''-'' else CHR ''+'') # replicate (nat \<bar>t\<bar>) (CHR ''1'')"

definition demo_pydantic :: pydantic where
  "demo_pydantic =
     \<lparr> pd_uuid = (\<lambda>v. case v of VUuid u \<Rightarrow> Some u | VStr s \<Rightarrow> Some s | _ \<Rightarrow> None),
       pd_datetime = (\<lambda>v. case v of VDatetime d \<Rightarrow> Some d
                          | VStr (c # r) \<Rightarrow> Some (Aware (if c = CHR ''-'' then - int (length r) else int (length r)) 0)
                          | _ \<Rightarrow> None),
       pd_int = (\<lambda>v. case v of VInt n \<Rightarrow> Some n | _ \<Rightarrow> None),
       pd_uuid_text = (\<lambda>u. u), pd_iso = demo_iso \<rparr>"

lemma demo_pydantic_laws: "pydantic_laws demo_pydantic"
  by (simp add: pydantic_laws_def demo_pydantic_def demo_iso_def)

definition w_event :: domain_event where
  "w_event = \<lparr> ev_event_id = ''u1'', ev_event_version = 1, ev_aggregate_type = ''research_job'',
     ev_aggregate_id = ''job-1'', ev_occurred_at = 50, ev_payload = ResearchJobFailedPayload ''job-1'' 50 ''ModelError'' \<rparr>"

lemma w_event_ok: "event_ok w_event"
  by code_simp

section \<open>Properties\<close>

text \<open>
  C35. Whatever mapping arrives, \<open>parse_domain_event\<close> returns only events of the catalogue: version
  1, aggregate \<open>research_job\<close>, a non-empty aggregate id that is the payload's job, the payload's
  mutation time equal to \<open>occurred_at\<close>, a whitespace-free reason class of at most 128 characters
  and a retry count of one or two; and every such event survives dumping and parsing unchanged.
\<close>

theorem event_envelope_round_trip:
  assumes "pydantic_laws pd"
  shows "(parse_domain_event pd v = Inr e' \<longrightarrow> event_ok e') \<and>
    (event_ok e \<longrightarrow> parse_domain_event pd (domain_event_to_canonical_dict pd e) = Inr e)"
  using parse_domain_event_ok event_round_trip[OF assms] by blast

theorem event_envelope_round_trip_witness:
  "parse_domain_event demo_pydantic (domain_event_to_canonical_dict demo_pydantic w_event) = Inr w_event"
  using event_envelope_round_trip [OF demo_pydantic_laws] w_event_ok by blast

text \<open>
  The builders: given the job's id and the mutation's UTC timestamp a created or completed
  event is always built for a non-empty id, a failed event exactly when the reason class is a
  single word of at most 128 characters, and the event is valid, carries the job as its
  aggregate and the mutation's timestamp as \<open>occurred_at\<close>.
\<close>

lemma builders_build_valid_events:
  assumes "job \<noteq> []"
  shows "(\<exists>c. build_research_job_created i job (Aware t 0) = Inr c \<and> event_ok c \<and>
           ev_aggregate_id c = job \<and> ev_occurred_at c = t \<and> ev_event_type c = ''research_job.created'') \<and>
         (\<exists>d. build_research_job_completed i job (Aware t 0) = Inr d \<and> event_ok d \<and>
           ev_aggregate_id d = job \<and> ev_occurred_at d = t \<and> ev_event_type d = ''research_job.completed'') \<and>
         ((\<exists>f. build_research_job_failed i job (Aware t 0) reason = Inr f \<and> event_ok f \<and>
            ev_aggregate_id f = job \<and> ev_occurred_at f = t) \<longleftrightarrow>
          length reason \<le> 128 \<and> py_strip reason \<noteq> [] \<and> list_all (\<lambda>c. \<not> py_isspace c) (py_strip reason))"
proof (intro conjI)
  show "\<exists>c. build_research_job_created i job (Aware t 0) = Inr c \<and> event_ok c \<and>
      ev_aggregate_id c = job \<and> ev_occurred_at c = t \<and> ev_event_type c = ''research_job.created''"
    using assms by (auto simp: builder_defs payload_defs bind_simps event_ok_def ev_event_type_def)
  show "\<exists>d. build_research_job_completed i job (Aware t 0) = Inr d \<and> event_ok d \<and>
      ev_aggregate_id d = job \<and> ev_occurred_at d = t \<and> ev_event_type d = ''research_job.completed''"
    using assms by (auto simp: builder_defs payload_defs bind_simps event_ok_def ev_event_type_def)
  show "(\<exists>f. build_research_job_failed i job (Aware t 0) reason = Inr f \<and> event_ok f \<and>
      ev_aggregate_id f = job \<and> ev_occurred_at f = t) \<longleftrightarrow>
    length reason \<le> 128 \<and> py_strip reason \<noteq> [] \<and> list_all (\<lambda>c. \<not> py_isspace c) (py_strip reason)"
    using assms py_strip_length[of reason]
    by (cases reason) (auto simp: builder_defs payload_defs bind_simps event_ok_def)
qed

lemma builders_build_valid_events_witness:
  "\<exists>f. build_research_job_failed ''u1'' ''job-1'' (Aware 50 0) '' ModelError '' = Inr f \<and> event_ok f \<and>
     ev_aggregate_id f = ''job-1'' \<and> ev_occurred_at f = 50"
proof -
  have "length '' ModelError '' \<le> 128 \<and> py_strip '' ModelError '' \<noteq> [] \<and>
      list_all (\<lambda>c. \<not> py_isspace c) (py_strip '' ModelError '')" by code_simp
  then show ?thesis using builders_build_valid_events [of "''job-1''" "''u1''" 50 "'' ModelError ''"] by blast
qed

end
