(* ===== verification/Outbox_Store.thy ===== *)
theory Outbox_Store
  imports Eventing Lease_Fence Job_Store
begin

text \<open>
  The transactional outbox: the columns and constraints of
  \<open>src/src/atlas/persistence/models/outbox.py\<close> and every operation of
  \<open>persistence/repositories/outbox.py\<close>.  \<open>outbox_position\<close> is drawn from an identity sequence
  (\<open>ob_next\<close>).  PostgreSQL's \<open>pg_column_size\<close>, pydantic and the JSON text codec are parameters,
  collected in \<open>outbox_env\<close>.
\<close>

section \<open>Rows\<close>

record outbox_row =
  o_event_id :: uuid
  o_outbox_position :: int
  o_event_type :: string
  o_event_version :: int
  o_aggregate_type :: string
  o_aggregate_id :: string
  o_occurred_at :: timestamp
  o_payload :: py_value
  o_created_at :: timestamp
  o_published_at :: "timestamp option"
  o_publish_claim_token :: "string option"
  o_publish_lease_expires_at :: "timestamp option"
  o_publish_attempts :: int
  o_last_publish_error_class :: "string option"
  o_traceparent :: "string option"

record outbox =
  ob_rows :: "outbox_row list"
  ob_next :: int

record outbox_env =
  oe_pydantic :: pydantic
  oe_dumps :: "py_value \<Rightarrow> string"
  oe_column_size :: "py_value \<Rightarrow> nat"

datatype outbox_error =
    OutboxEnqueueError string
  | OutboxValueError string
  | RebuildError event_error
  | RelayNotOwnerError

definition outbox_checks :: "outbox_env \<Rightarrow> outbox_row \<Rightarrow> bool" where
  "outbox_checks env r \<longleftrightarrow>
     o_event_version r = 1 \<and> 0 \<le> o_publish_attempts r \<and>
     ((o_publish_claim_token r = None \<and> o_publish_lease_expires_at r = None)
      \<or> (o_publish_claim_token r \<noteq> None \<and> o_publish_lease_expires_at r \<noteq> None)) \<and>
     (o_published_at r = None \<or> (o_publish_claim_token r = None \<and> o_publish_lease_expires_at r = None)) \<and>
     o_event_type r \<in> set SUPPORTED_EVENT_TYPES \<and> o_aggregate_type r = ''research_job'' \<and>
     oe_column_size env (o_payload r) \<le> 16384 \<and> sql_nonblank (o_aggregate_id r) \<and>
     (case o_traceparent r of None \<Rightarrow> True | Some tp \<Rightarrow> traceparent_format tp)"

section \<open>Enqueue\<close>

definition enqueue ::
  "outbox_env \<Rightarrow> outbox \<Rightarrow> domain_event \<Rightarrow> string option \<Rightarrow> outbox_error + outbox" where
  "enqueue env ob event traceparent =
     (case serialize_payload (oe_pydantic env) (oe_dumps env) event of
        Inl _ \<Rightarrow> Inl (OutboxEnqueueError ''DomainEventSerializationError'')
      | Inr payload \<Rightarrow>
          (let row = \<lparr> o_event_id = ev_event_id event, o_outbox_position = ob_next ob,
                 o_event_type = ev_event_type event, o_event_version = ev_event_version event,
                 o_aggregate_type = ev_aggregate_type event, o_aggregate_id = ev_aggregate_id event,
                 o_occurred_at = ev_occurred_at event, o_payload = payload, o_created_at = ev_occurred_at event,
                 o_published_at = None, o_publish_claim_token = None, o_publish_lease_expires_at = None,
                 o_publish_attempts = 0, o_last_publish_error_class = None, o_traceparent = traceparent \<rparr>
           in if \<not> outbox_checks env row \<or> tget o_event_id (ev_event_id event) (ob_rows ob) \<noteq> None
              then Inl (OutboxEnqueueError ''IntegrityError'')
              else Inr \<lparr> ob_rows = ob_rows ob @ [row], ob_next = ob_next ob + 1 \<rparr>))"

section \<open>Claiming a batch\<close>

record claimed_record =
  cr_event_id :: uuid
  cr_outbox_position :: int
  cr_event :: domain_event
  cr_publish_claim_token :: string
  cr_publish_lease_expires_at :: timestamp
  cr_publish_attempts :: int
  cr_traceparent :: "string option"

definition rebuild_event :: "pydantic \<Rightarrow> outbox_row \<Rightarrow> event_error + domain_event" where
  "rebuild_event pd m =
     parse_domain_event pd (VDict
       [(''event_id'', VUuid (o_event_id m)), (''event_version'', VInt (o_event_version m)),
        (''event_type'', VStr (o_event_type m)), (''aggregate_type'', VStr (o_aggregate_type m)),
        (''aggregate_id'', VStr (o_aggregate_id m)), (''occurred_at'', VDatetime (Aware (o_occurred_at m) 0)),
        (''payload'', o_payload m)])"

definition is_claimable :: "outbox_row \<Rightarrow> timestamp \<Rightarrow> bool" where
  "is_claimable row at' =
     (if o_published_at row \<noteq> None then False
      else if o_publish_claim_token row = None then True
      else (case o_publish_lease_expires_at row of None \<Rightarrow> True | Some l \<Rightarrow> l \<le> at'))"

text \<open>The first unpublished row at a position above \<open>after\<close>.\<close>

definition next_unpublished :: "outbox_row list \<Rightarrow> int \<Rightarrow> outbox_row option" where
  "next_unpublished rows after =
     select_first (\<lambda>r. o_published_at r = None \<and> after < o_outbox_position r) o_outbox_position rows"

definition head_unpublished :: "outbox_row list \<Rightarrow> outbox_row option" where
  "head_unpublished rows = select_first (\<lambda>r. o_published_at r = None) o_outbox_position rows"

text \<open>The \<open>while len(to_claim) < batch_size\<close> loop, with the number of rows that still fit;
  \<open>locked\<close> are the rows another transaction holds.\<close>

primrec claim_more :: "outbox_row list \<Rightarrow> uuid list \<Rightarrow> timestamp \<Rightarrow> nat \<Rightarrow> int \<Rightarrow> outbox_row list" where
  "claim_more rows locked at' 0 after = []"
| "claim_more rows locked at' (Suc n) after =
     (case next_unpublished rows after of
        None \<Rightarrow> []
      | Some r \<Rightarrow>
          if o_event_id r \<in> set locked then []
          else if o_published_at r \<noteq> None then []
          else if \<not> is_claimable r at' then []
          else r # claim_more rows locked at' n (o_outbox_position r))"

definition rows_to_claim :: "outbox_row list \<Rightarrow> uuid list \<Rightarrow> timestamp \<Rightarrow> nat \<Rightarrow> outbox_row list" where
  "rows_to_claim rows locked at' batch_size =
     (case head_unpublished rows of
        None \<Rightarrow> []
      | Some h \<Rightarrow>
          if o_event_id h \<in> set locked then []
          else if o_published_at h \<noteq> None then []
          else if \<not> is_claimable h at' then []
          else h # claim_more rows locked at' (batch_size - 1) (o_outbox_position h))"

definition claim_outbox_row :: "string \<Rightarrow> timestamp \<Rightarrow> outbox_row \<Rightarrow> outbox_row" where
  "claim_outbox_row tok lease r =
     r\<lparr> o_publish_claim_token := Some tok, o_publish_lease_expires_at := Some lease,
        o_publish_attempts := o_publish_attempts r + 1 \<rparr>"

fun claim_rows ::
  "pydantic \<Rightarrow> string \<Rightarrow> timestamp \<Rightarrow> outbox_row list \<Rightarrow> outbox_row list \<Rightarrow>
   outbox_error + (outbox_row list \<times> claimed_record list)" where
  "claim_rows pd tok lease rows [] = Inr (rows, [])"
| "claim_rows pd tok lease rows (r # rs) =
     (let r' = claim_outbox_row tok lease r
      in bindE (map_error RebuildError (rebuild_event pd r')) (\<lambda>event.
         bindE (claim_rows pd tok lease (tput o_event_id r' rows) rs) (\<lambda>(rows', claimed).
           Inr (rows', \<lparr> cr_event_id = o_event_id r', cr_outbox_position = o_outbox_position r', cr_event = event,
                         cr_publish_claim_token = tok, cr_publish_lease_expires_at = lease,
                         cr_publish_attempts = o_publish_attempts r', cr_traceparent = o_traceparent r' \<rparr> # claimed))))"

definition claim_batch ::
  "outbox_env \<Rightarrow> outbox \<Rightarrow> uuid list \<Rightarrow> string \<Rightarrow> timestamp \<Rightarrow> timestamp \<Rightarrow> int \<Rightarrow>
   outbox_error + (outbox \<times> claimed_record list)" where
  "claim_batch env ob locked claimant_token at' lease_expires_at batch_size =
     (if batch_size < 1 then Inl (OutboxValueError ''batch_size must be at least 1'')
      else if lease_expires_at \<le> at' then Inl (OutboxValueError ''lease_expires_at must be later than at'')
      else bindE (claim_rows (oe_pydantic env) claimant_token lease_expires_at (ob_rows ob)
                    (rows_to_claim (ob_rows ob) locked at' (nat batch_size)))
             (\<lambda>(rows, claimed). Inr (ob\<lparr> ob_rows := rows \<rparr>, claimed)))"

section \<open>Finishing a claim\<close>

definition owns_publish_claim :: "outbox_row \<Rightarrow> string \<Rightarrow> timestamp \<Rightarrow> bool" where
  "owns_publish_claim r tok at' \<longleftrightarrow>
     o_publish_claim_token r = Some tok \<and> o_published_at r = None \<and>
     (case o_publish_lease_expires_at r of None \<Rightarrow> False | Some l \<Rightarrow> at' < l)"

definition published_row :: "timestamp \<Rightarrow> outbox_row \<Rightarrow> outbox_row" where
  "published_row at' r =
     r\<lparr> o_published_at := Some at', o_publish_claim_token := None, o_publish_lease_expires_at := None,
        o_last_publish_error_class := None \<rparr>"

definition released_row :: "string \<Rightarrow> outbox_row \<Rightarrow> outbox_row" where
  "released_row err r =
     r\<lparr> o_publish_claim_token := None, o_publish_lease_expires_at := None,
        o_last_publish_error_class := Some err \<rparr>"

definition mark_published :: "outbox \<Rightarrow> uuid \<Rightarrow> string \<Rightarrow> timestamp \<Rightarrow> outbox \<times> bool" where
  "mark_published ob event_id tok at' =
     (let P = (\<lambda>r. o_event_id r = event_id \<and> owns_publish_claim r tok at')
      in (ob\<lparr> ob_rows := tupdate P (published_row at') (ob_rows ob) \<rparr>, tcount P (ob_rows ob) = 1))"

definition sanitize_error_class :: "string \<Rightarrow> string" where
  "sanitize_error_class error_class =
     (let s = py_strip error_class
      in take 128 (if s = [] \<or> list_ex py_isspace s then ''PublishError'' else s))"

definition release_failed_claim :: "outbox \<Rightarrow> uuid \<Rightarrow> string \<Rightarrow> timestamp \<Rightarrow> string \<Rightarrow> outbox \<times> bool" where
  "release_failed_claim ob event_id tok at' error_class =
     (let P = (\<lambda>r. o_event_id r = event_id \<and> owns_publish_claim r tok at')
      in (ob\<lparr> ob_rows := tupdate P (released_row (sanitize_error_class error_class)) (ob_rows ob) \<rparr>,
          tcount P (ob_rows ob) = 1))"

section \<open>Reads\<close>

definition backlog_stats :: "outbox \<Rightarrow> timestamp \<Rightarrow> nat \<times> real option" where
  "backlog_stats ob now =
     (tcount (\<lambda>r. o_published_at r = None) (ob_rows ob),
      map_option (\<lambda>r. of_int (now - o_created_at r) / 1000000) (head_unpublished (ob_rows ob)))"

definition get_by_event_id :: "outbox \<Rightarrow> uuid \<Rightarrow> outbox_row option" where
  "get_by_event_id ob i = tget o_event_id i (ob_rows ob)"

definition list_for_aggregate :: "outbox \<Rightarrow> string \<Rightarrow> string \<Rightarrow> outbox_row list" where
  "list_for_aggregate ob aggregate_type aggregate_id =
     sort_key o_outbox_position
       (filter (\<lambda>r. o_aggregate_type r = aggregate_type \<and> o_aggregate_id r = aggregate_id) (ob_rows ob))"

section \<open>The invariant\<close>

definition row_event :: "pydantic \<Rightarrow> outbox_row \<Rightarrow> domain_event" where
  "row_event pd r = (case rebuild_event pd r of Inr e \<Rightarrow> e | Inl _ \<Rightarrow> undefined)"

definition outbox_row_ok :: "outbox_env \<Rightarrow> outbox_row \<Rightarrow> bool" where
  "outbox_row_ok env r \<longleftrightarrow>
     outbox_checks env r \<and>
     (case rebuild_event (oe_pydantic env) r of
        Inl _ \<Rightarrow> False | Inr e \<Rightarrow> ev_event_id e = o_event_id r \<and> ev_aggregate_id e = o_aggregate_id r)"

definition outbox_ok :: "outbox_env \<Rightarrow> outbox \<Rightarrow> bool" where
  "outbox_ok env ob \<longleftrightarrow>
     distinct (map o_event_id (ob_rows ob)) \<and> distinct (map o_outbox_position (ob_rows ob)) \<and>
     list_all (\<lambda>r. outbox_row_ok env r \<and> o_outbox_position r < ob_next ob) (ob_rows ob)"

lemma rebuild_frame [simp]:
  "rebuild_event pd (claim_outbox_row tok lease r) = rebuild_event pd r"
  "rebuild_event pd (published_row at' r) = rebuild_event pd r"
  "rebuild_event pd (released_row err r) = rebuild_event pd r"
  by (simp_all add: rebuild_event_def claim_outbox_row_def published_row_def released_row_def)

lemma row_update_keeps [simp]:
  "o_event_id (claim_outbox_row tok lease r) = o_event_id r" "o_event_id (published_row at' r) = o_event_id r"
  "o_event_id (released_row err r) = o_event_id r"
  "o_outbox_position (claim_outbox_row tok lease r) = o_outbox_position r"
  "o_outbox_position (published_row at' r) = o_outbox_position r"
  "o_outbox_position (released_row err r) = o_outbox_position r"
  "o_aggregate_id (claim_outbox_row tok lease r) = o_aggregate_id r"
  "o_aggregate_id (published_row at' r) = o_aggregate_id r"
  "o_aggregate_id (released_row err r) = o_aggregate_id r"
  "o_published_at (claim_outbox_row tok lease r) = o_published_at r"
  "o_published_at (released_row err r) = o_published_at r"
  "o_published_at (published_row at' r) = Some at'"
  by (simp_all add: claim_outbox_row_def published_row_def released_row_def)

lemma outbox_row_ok_iff:
  "outbox_row_ok env r \<longleftrightarrow>
     outbox_checks env r \<and> (\<exists>e. rebuild_event (oe_pydantic env) r = Inr e \<and>
       ev_event_id e = o_event_id r \<and> ev_aggregate_id e = o_aggregate_id r)"
  by (auto simp: outbox_row_ok_def split: sum.splits)

lemma row_updates_checks:
  assumes "outbox_checks env r"
  shows "o_published_at r = None \<Longrightarrow> outbox_checks env (claim_outbox_row tok lease r)"
    "outbox_checks env (published_row at' r)" "outbox_checks env (released_row err r)"
  using assms
  by (auto simp: outbox_checks_def claim_outbox_row_def published_row_def released_row_def split: option.splits)

lemma row_updates_ok:
  assumes "outbox_row_ok env r"
  shows "o_published_at r = None \<Longrightarrow> outbox_row_ok env (claim_outbox_row tok lease r)"
    "outbox_row_ok env (published_row at' r)" "outbox_row_ok env (released_row err r)"
  using assms row_updates_checks by (auto simp: outbox_row_ok_iff)

text \<open>A row enqueued for a valid event is rebuilt as exactly that event.\<close>

lemma enqueued_row_rebuilds:
  assumes "pydantic_laws pd" "event_ok e"
    "o_event_id r = ev_event_id e" "o_event_type r = ev_event_type e" "o_event_version r = ev_event_version e"
    "o_aggregate_type r = ev_aggregate_type e" "o_aggregate_id r = ev_aggregate_id e"
    "o_occurred_at r = ev_occurred_at e" "o_payload r = payload_dump pd (ev_payload e)"
  shows "rebuild_event pd r = Inr e"
  using assms payload_round_trip[OF assms(1), of "ev_payload e"] payload_type_supported[of "ev_payload e"]
    make_event_fixed[OF assms(2)]
  by (simp add: rebuild_event_def parse_domain_event_def validate_python_def field_def pd_str_def
      only_keys_def literal_default_def pydantic_laws_def ev_event_type_def event_ok_def)

lemma enqueue_cases:
  assumes "enqueue env ob e tp = Inr ob'"
  obtains r where "ob' = \<lparr> ob_rows = ob_rows ob @ [r], ob_next = ob_next ob + 1 \<rparr>" "outbox_checks env r"
    "o_event_id r = ev_event_id e" "o_event_type r = ev_event_type e" "o_event_version r = ev_event_version e"
    "o_aggregate_type r = ev_aggregate_type e" "o_aggregate_id r = ev_aggregate_id e"
    "o_occurred_at r = ev_occurred_at e" "o_payload r = payload_dump (oe_pydantic env) (ev_payload e)"
    "o_outbox_position r = ob_next ob" "o_published_at r = None" "o_publish_claim_token r = None"
    "ev_event_id e \<notin> set (map o_event_id (ob_rows ob))"
  using assms
  by (auto simp: enqueue_def serialize_payload_def Let_def tget_None_iff split: sum.splits if_splits)

lemma enqueue_ok:
  assumes "outbox_ok env ob" "pydantic_laws (oe_pydantic env)" "event_ok e" "enqueue env ob e tp = Inr ob'"
  shows "outbox_ok env ob'"
  using assms(4)
proof (rule enqueue_cases)
  fix r
  assume ob': "ob' = \<lparr> ob_rows = ob_rows ob @ [r], ob_next = ob_next ob + 1 \<rparr>" and chk: "outbox_checks env r"
    and f: "o_event_id r = ev_event_id e" "o_event_type r = ev_event_type e" "o_event_version r = ev_event_version e"
    "o_aggregate_type r = ev_aggregate_type e" "o_aggregate_id r = ev_aggregate_id e"
    "o_occurred_at r = ev_occurred_at e" "o_payload r = payload_dump (oe_pydantic env) (ev_payload e)"
    and pos: "o_outbox_position r = ob_next ob" and new: "ev_event_id e \<notin> set (map o_event_id (ob_rows ob))"
  have "outbox_row_ok env r"
    using chk enqueued_row_rebuilds[OF assms(2,3) f] f by (simp add: outbox_row_ok_def)
  moreover have "\<forall>x \<in> set (ob_rows ob). o_outbox_position x < ob_next ob"
    using assms(1) by (auto simp: outbox_ok_def list_all_iff)
  ultimately show ?thesis using assms(1) new f(1) pos unfolding ob'
    by (force simp: outbox_ok_def list_all_iff)
qed

section \<open>Head-of-line claiming\<close>

definition unpublished :: "outbox_row list \<Rightarrow> outbox_row list" where
  "unpublished rows = sort_key o_outbox_position (filter (\<lambda>r. o_published_at r = None) rows)"

lemma unpublished_sorted: "sorted (map o_outbox_position (unpublished rows))"
  by (simp add: unpublished_def)

lemma unpublished_distinct:
  "distinct (map o_outbox_position rows) \<Longrightarrow> distinct (map o_outbox_position (unpublished rows))"
  by (simp add: unpublished_def distinct_map inj_on_def)

lemma set_unpublished: "set (unpublished rows) = {r \<in> set rows. o_published_at r = None}"
  by (auto simp: unpublished_def)

lemma head_unpublished_eq:
  "distinct (map o_outbox_position rows) \<Longrightarrow>
   head_unpublished rows = (case unpublished rows of [] \<Rightarrow> None | x # _ \<Rightarrow> Some x)"
  by (simp add: head_unpublished_def select_first_sorted unpublished_def)

lemma next_unpublished_eq:
  assumes "distinct (map o_outbox_position rows)" "unpublished rows = A @ r # B"
  shows "next_unpublished rows (o_outbox_position r) = (case B of [] \<Rightarrow> None | x # _ \<Rightarrow> Some x)"
proof -
  have "sort_key o_outbox_position
          (filter (\<lambda>x. o_published_at x = None \<and> o_outbox_position r < o_outbox_position x) rows)
      = filter (\<lambda>x. o_outbox_position r < o_outbox_position x) (unpublished rows)"
    by (simp add: unpublished_def filter_sort conj_commute)
  also have "\<dots> = B"
    using filter_above[of o_outbox_position A r B] unpublished_sorted[of rows] unpublished_distinct[OF assms(1)]
    by (simp add: assms(2))
  finally show ?thesis by (simp add: next_unpublished_def select_first_sorted[OF assms(1)])
qed

lemma claim_more_eq:
  assumes "distinct (map o_outbox_position rows)" "unpublished rows = A @ r # B"
  shows "claim_more rows locked at' n (o_outbox_position r) =
    take n (takeWhile (\<lambda>x. o_event_id x \<notin> set locked \<and> is_claimable x at') B)"
  using assms(2)
proof (induction n arbitrary: A r B)
  case (Suc n)
  show ?case
  proof (cases B)
    case Nil
    then show ?thesis using next_unpublished_eq[OF assms(1) Suc.prems] by simp
  next
    case (Cons x C)
    have split: "unpublished rows = (A @ [r]) @ x # C" using Suc.prems Cons by simp
    have "o_published_at x = None" using set_unpublished[of rows] split by auto
    then show ?thesis
      using next_unpublished_eq[OF assms(1) Suc.prems] Cons Suc.IH[OF split] by simp
  qed
qed simp

lemma rows_to_claim_eq:
  assumes "distinct (map o_outbox_position rows)" "0 < n"
  shows "rows_to_claim rows locked at' n =
    take n (takeWhile (\<lambda>x. o_event_id x \<notin> set locked \<and> is_claimable x at') (unpublished rows))"
proof (cases "unpublished rows")
  case Nil
  then show ?thesis by (simp add: rows_to_claim_def head_unpublished_eq[OF assms(1)])
next
  case (Cons h B)
  have "o_published_at h = None" using set_unpublished[of rows] Cons by auto
  moreover obtain k where "n = Suc k" using assms(2) by (cases n) auto
  ultimately show ?thesis
    using claim_more_eq[OF assms(1), of "[]" h B locked at' k] Cons
    by (simp add: rows_to_claim_def head_unpublished_eq[OF assms(1)])
qed

section \<open>The publish-claim protocol\<close>

definition publish_granted :: "outbox_row \<Rightarrow> string \<Rightarrow> timestamp \<Rightarrow> timestamp \<Rightarrow> outbox_row \<Rightarrow> bool" where
  "publish_granted r tok at' lease r' \<longleftrightarrow> is_claimable r at' \<and> r' = claim_outbox_row tok lease r"

lemma is_claimable_unpublished: "is_claimable r at' \<Longrightarrow> o_published_at r = None"
  by (auto simp: is_claimable_def split: if_splits)

interpretation publish_claims: lease_fence o_publish_claim_token owns_publish_claim publish_granted is_claimable
proof unfold_locales
  fix r t and at' now :: timestamp
  show "owns_publish_claim r t at' \<Longrightarrow> o_publish_claim_token r = Some t" by (simp add: owns_publish_claim_def)
  show "owns_publish_claim r t at' \<Longrightarrow> now \<le> at' \<Longrightarrow> owns_publish_claim r t now"
    by (auto simp: owns_publish_claim_def split: option.splits)
  show "is_claimable r now \<Longrightarrow> \<not> owns_publish_claim r t now"
    by (auto simp: owns_publish_claim_def is_claimable_def split: option.splits if_splits)
next
  fix r t now e r' assume g: "publish_granted r t now e r'"
  then show "is_claimable r now" by (simp add: publish_granted_def)
  show "o_publish_claim_token r' = Some t" using g by (simp add: publish_granted_def claim_outbox_row_def)
  show "owns_publish_claim r' t now" if "now < e"
    using g that is_claimable_unpublished[of r now]
    by (simp add: publish_granted_def claim_outbox_row_def owns_publish_claim_def)
qed

section \<open>What a claim writes\<close>

definition claimed_of :: "pydantic \<Rightarrow> string \<Rightarrow> timestamp \<Rightarrow> outbox_row \<Rightarrow> claimed_record" where
  "claimed_of pd tok lease r =
     \<lparr> cr_event_id = o_event_id r, cr_outbox_position = o_outbox_position r, cr_event = row_event pd r,
       cr_publish_claim_token = tok, cr_publish_lease_expires_at = lease,
       cr_publish_attempts = o_publish_attempts r + 1, cr_traceparent = o_traceparent r \<rparr>"

lemma claim_rows_fold:
  assumes "\<forall>r \<in> set rs. \<exists>e. rebuild_event pd r = Inr e"
  shows "claim_rows pd tok lease rows rs =
    Inr (fold (\<lambda>r. tput o_event_id (claim_outbox_row tok lease r)) rs rows, map (claimed_of pd tok lease) rs)"
  using assms
proof (induction rs arbitrary: rows)
  case (Cons r rs)
  then obtain e where "rebuild_event pd r = Inr e" by auto
  then show ?case using Cons by (simp add: claimed_of_def row_event_def claim_outbox_row_def[of tok lease r] Let_def
        rebuild_frame(1)[of pd tok lease r, unfolded claim_outbox_row_def])
qed simp

lemma fold_tput_update:
  assumes "distinct (map key rows)" "set rs \<subseteq> set rows" "\<And>r. key (g r) = key r"
  shows "fold (\<lambda>r. tput key (g r)) rs rows = tupdate (\<lambda>r. r \<in> set rs) g rows"
  using assms(2)
proof (induction rs rule: rev_induct)
  case Nil
  show ?case by (simp add: tupdate_def)
next
  case (snoc a rs)
  have a: "x = a" if "x \<in> set rows" "key x = key a" for x
    using that assms(1) snoc.prems by (auto simp: distinct_map inj_on_def)
  have "tput key (g a) (tupdate (\<lambda>r. r \<in> set rs) g rows) = tupdate (\<lambda>r. r \<in> set (rs @ [a])) g rows"
    unfolding tput_def tupdate_def map_map
    by (rule map_cong) (auto simp: assms(3) dest: a)
  then show ?case using snoc by simp
qed

lemma rows_to_claim_facts:
  assumes "outbox_ok env ob"
  shows "set (rows_to_claim (ob_rows ob) locked at' n) \<subseteq> set (ob_rows ob)"
    "r \<in> set (rows_to_claim (ob_rows ob) locked at' n) \<Longrightarrow> is_claimable r at' \<and> o_event_id r \<notin> set locked"
proof -
  have d: "distinct (map o_outbox_position (ob_rows ob))" using assms by (simp add: outbox_ok_def)
  have base: "set (rows_to_claim (ob_rows ob) locked at' (Suc k)) \<subseteq>
      set (takeWhile (\<lambda>x. o_event_id x \<notin> set locked \<and> is_claimable x at') (unpublished (ob_rows ob)))" for k
    unfolding rows_to_claim_eq[OF d zero_less_Suc] by (rule set_take_subset)
  have "rows_to_claim (ob_rows ob) locked at' 0 = rows_to_claim (ob_rows ob) locked at' (Suc 0)"
    by (simp add: rows_to_claim_def split: option.splits)
  then have sub: "set (rows_to_claim (ob_rows ob) locked at' n) \<subseteq>
      set (takeWhile (\<lambda>x. o_event_id x \<notin> set locked \<and> is_claimable x at') (unpublished (ob_rows ob)))"
    using base by (cases n) auto
  then show "set (rows_to_claim (ob_rows ob) locked at' n) \<subseteq> set (ob_rows ob)"
    using set_unpublished[of "ob_rows ob"] by (auto dest: set_takeWhileD)
  show "is_claimable r at' \<and> o_event_id r \<notin> set locked" if "r \<in> set (rows_to_claim (ob_rows ob) locked at' n)"
    using sub that by (auto dest: set_takeWhileD)
qed

lemma claim_batch_result:
  assumes "outbox_ok env ob" "1 \<le> b" "at' < lease"
  shows "claim_batch env ob locked tok at' lease b =
    Inr (ob\<lparr> ob_rows := tupdate (\<lambda>r. r \<in> set (rows_to_claim (ob_rows ob) locked at' (nat b)))
                        (claim_outbox_row tok lease) (ob_rows ob) \<rparr>,
         map (claimed_of (oe_pydantic env) tok lease) (rows_to_claim (ob_rows ob) locked at' (nat b)))"
proof -
  let ?rs = "rows_to_claim (ob_rows ob) locked at' (nat b)"
  have sub: "set ?rs \<subseteq> set (ob_rows ob)" using rows_to_claim_facts(1)[OF assms(1)] .
  have "\<forall>r \<in> set ?rs. \<exists>e. rebuild_event (oe_pydantic env) r = Inr e"
    using sub assms(1) by (fastforce simp: outbox_ok_def list_all_iff outbox_row_ok_iff)
  then have "claim_rows (oe_pydantic env) tok lease (ob_rows ob) ?rs =
      Inr (tupdate (\<lambda>r. r \<in> set ?rs) (claim_outbox_row tok lease) (ob_rows ob),
           map (claimed_of (oe_pydantic env) tok lease) ?rs)"
    using claim_rows_fold fold_tput_update[OF _ sub, of o_event_id "claim_outbox_row tok lease"] assms(1)
    by (simp add: outbox_ok_def)
  then show ?thesis using assms(2,3) by (simp add: claim_batch_def)
qed

lemma claim_batch_ok:
  assumes "outbox_ok env ob" "claim_batch env ob locked tok at' lease b = Inr (ob', cs)"
  shows "outbox_ok env ob'"
proof -
  have bl: "1 \<le> b" "at' < lease" using assms(2) by (auto simp: claim_batch_def split: if_splits)
  let ?rs = "rows_to_claim (ob_rows ob) locked at' (nat b)"
  have ob': "ob' = ob\<lparr> ob_rows := tupdate (\<lambda>r. r \<in> set ?rs) (claim_outbox_row tok lease) (ob_rows ob) \<rparr>"
    using assms(2) claim_batch_result[OF assms(1) bl] by simp
  have "outbox_row_ok env (claim_outbox_row tok lease r)" if "r \<in> set ?rs" for r
  proof -
    have "r \<in> set (ob_rows ob)" "o_published_at r = None"
      using that rows_to_claim_facts[OF assms(1)] is_claimable_unpublished by blast+
    then show ?thesis using assms(1) row_updates_ok(1) by (auto simp: outbox_ok_def list_all_iff)
  qed
  then show ?thesis using assms(1) unfolding ob'
    by (auto simp: outbox_ok_def list_all_iff tupdate_def comp_def if_distrib cong: if_cong)
qed

lemma tupdate_ok:
  assumes "outbox_ok env ob" "\<And>r. outbox_row_ok env r \<Longrightarrow> outbox_row_ok env (f r)"
    "\<And>r. o_event_id (f r) = o_event_id r" "\<And>r. o_outbox_position (f r) = o_outbox_position r"
  shows "outbox_ok env (ob\<lparr> ob_rows := tupdate P f (ob_rows ob) \<rparr>)"
  using assms
  by (auto simp: outbox_ok_def list_all_iff tupdate_def comp_def if_distrib cong: if_cong)

lemma finish_ok:
  assumes "outbox_ok env ob"
  shows "outbox_ok env (fst (mark_published ob i tok at'))"
    "outbox_ok env (fst (release_failed_claim ob i tok at' err))"
  using assms row_updates_ok
  by (auto simp: mark_published_def release_failed_claim_def Let_def intro!: tupdate_ok)

end
