(* ===== verification/Recovery_Policy.thy ===== *)
theory Recovery_Policy
  imports Prelude
begin

text \<open>
  The recovery policy engine: \<open>src/src/atlas/recovery/policy.py\<close> with the exception hierarchies
  it classifies (\<open>application/exceptions.py\<close>, \<open>recovery/errors.py\<close> and the \<open>errors.py\<close> of
  \<open>evaluation\<close>, \<open>evidence\<close>, \<open>models\<close>, \<open>tools\<close> and \<open>embeddings\<close>), and the aggregation of
  graded dimensions of \<open>src/src/atlas/evaluation/aggregation.py\<close>.

  An exception is its class.  The classes the repository defines are the constructors of
  \<open>exc_class\<close>; every other class (builtins, provider SDKs, drivers) is \<open>OtherClass\<close> with its
  \<open>__name__\<close>, which is all the code reads of it.  \<open>secrets.randbelow\<close> is a parameter.
\<close>

section \<open>Exception classes\<close>

datatype exc_class =
    ClaimOwnershipError
  | PolicyDecisionConflictError
  | EvaluationError | EvaluationValidationError | EvaluationNotFoundError | EvaluationConflictError
  | EvaluationInProgressError | EvaluationOwnershipLostError | EvaluationTerminalError
  | EvaluationAttemptCapError | EvaluationStaleError | SemanticGraderConfigurationError
  | EvaluationProfileMismatchError
  | EvidenceError | EvidenceValidationError | EvidenceNotFoundError | EvidenceTooLargeError
  | CitationIntegrityError | ClaimEvidenceRequiredError | ReportArtifactConflictError
  | UrlCanonicalizationError | EvidenceOwnershipError
  | ModelError | ModelTimeoutError | ModelRateLimitedError | ModelTemporaryError | ModelAuthConfigError
  | ModelInvalidRequestError | ModelInvalidStructuredOutputError | ModelRefusalError | ModelUnknownError
  | ModelInvocationInProgressError | ModelAttemptOwnershipLostError
  | ToolError | ToolTimeoutError | ToolRateLimitedError | ToolTemporaryError | ToolAuthConfigError
  | ToolInvalidRequestError | ToolPermissionDeniedError | ToolSsrfBlockedError | ToolContentRejectedError
  | ToolBudgetExhaustedError | ToolUnknownError | ToolInvocationInProgressError | ToolAttemptOwnershipLostError
  | EmbeddingError | EmbeddingAuthConfigError | EmbeddingTimeoutError | EmbeddingRateLimitedError
  | EmbeddingInvalidRequestError | EmbeddingProviderError | EmbeddingConflictError
  | OtherClass string

text \<open>The base class the source names in the \<open>class\<close> statement, where it is a class of the repository.\<close>

fun base_class :: "exc_class \<Rightarrow> exc_class option" where
  "base_class EvaluationAttemptCapError = Some EvaluationTerminalError"
| "base_class c =
     (if c \<in> {EvaluationValidationError, EvaluationNotFoundError, EvaluationConflictError,
               EvaluationInProgressError, EvaluationOwnershipLostError, EvaluationTerminalError,
               EvaluationStaleError, SemanticGraderConfigurationError, EvaluationProfileMismatchError}
      then Some EvaluationError
      else if c \<in> {EvidenceValidationError, EvidenceNotFoundError, EvidenceTooLargeError, CitationIntegrityError,
               ClaimEvidenceRequiredError, ReportArtifactConflictError, UrlCanonicalizationError,
               EvidenceOwnershipError}
      then Some EvidenceError
      else if c \<in> {ModelTimeoutError, ModelRateLimitedError, ModelTemporaryError, ModelAuthConfigError,
               ModelInvalidRequestError, ModelInvalidStructuredOutputError, ModelRefusalError, ModelUnknownError,
               ModelInvocationInProgressError, ModelAttemptOwnershipLostError}
      then Some ModelError
      else if c \<in> {ToolTimeoutError, ToolRateLimitedError, ToolTemporaryError, ToolAuthConfigError,
               ToolInvalidRequestError, ToolPermissionDeniedError, ToolSsrfBlockedError, ToolContentRejectedError,
               ToolBudgetExhaustedError, ToolUnknownError, ToolInvocationInProgressError,
               ToolAttemptOwnershipLostError}
      then Some ToolError
      else if c \<in> {EmbeddingAuthConfigError, EmbeddingTimeoutError, EmbeddingRateLimitedError,
               EmbeddingInvalidRequestError, EmbeddingProviderError, EmbeddingConflictError}
      then Some EmbeddingError
      else None)"

text \<open>No hierarchy of the repository is deeper than three classes.\<close>

definition mro :: "exc_class \<Rightarrow> exc_class list" where
  "mro c = c # (case base_class c of None \<Rightarrow> []
                | Some b \<Rightarrow> b # (case base_class b of None \<Rightarrow> [] | Some d \<Rightarrow> [d]))"

definition isinstance :: "exc_class \<Rightarrow> exc_class list \<Rightarrow> bool" where
  "isinstance c classes \<longleftrightarrow> list_ex (\<lambda>b. b \<in> set classes) (mro c)"

text \<open>\<open>type(exc).__name__\<close>.\<close>

fun class_name :: "exc_class \<Rightarrow> string" where
  "class_name ClaimOwnershipError = ''ClaimOwnershipError''"
| "class_name PolicyDecisionConflictError = ''PolicyDecisionConflictError''"
| "class_name EvaluationError = ''EvaluationError''"
| "class_name EvaluationValidationError = ''EvaluationValidationError''"
| "class_name EvaluationNotFoundError = ''EvaluationNotFoundError''"
| "class_name EvaluationConflictError = ''EvaluationConflictError''"
| "class_name EvaluationInProgressError = ''EvaluationInProgressError''"
| "class_name EvaluationOwnershipLostError = ''EvaluationOwnershipLostError''"
| "class_name EvaluationTerminalError = ''EvaluationTerminalError''"
| "class_name EvaluationAttemptCapError = ''EvaluationAttemptCapError''"
| "class_name EvaluationStaleError = ''EvaluationStaleError''"
| "class_name SemanticGraderConfigurationError = ''SemanticGraderConfigurationError''"
| "class_name EvaluationProfileMismatchError = ''EvaluationProfileMismatchError''"
| "class_name EvidenceError = ''EvidenceError''"
| "class_name EvidenceValidationError = ''EvidenceValidationError''"
| "class_name EvidenceNotFoundError = ''EvidenceNotFoundError''"
| "class_name EvidenceTooLargeError = ''EvidenceTooLargeError''"
| "class_name CitationIntegrityError = ''CitationIntegrityError''"
| "class_name ClaimEvidenceRequiredError = ''ClaimEvidenceRequiredError''"
| "class_name ReportArtifactConflictError = ''ReportArtifactConflictError''"
| "class_name UrlCanonicalizationError = ''UrlCanonicalizationError''"
| "class_name EvidenceOwnershipError = ''EvidenceOwnershipError''"
| "class_name ModelError = ''ModelError''"
| "class_name ModelTimeoutError = ''ModelTimeoutError''"
| "class_name ModelRateLimitedError = ''ModelRateLimitedError''"
| "class_name ModelTemporaryError = ''ModelTemporaryError''"
| "class_name ModelAuthConfigError = ''ModelAuthConfigError''"
| "class_name ModelInvalidRequestError = ''ModelInvalidRequestError''"
| "class_name ModelInvalidStructuredOutputError = ''ModelInvalidStructuredOutputError''"
| "class_name ModelRefusalError = ''ModelRefusalError''"
| "class_name ModelUnknownError = ''ModelUnknownError''"
| "class_name ModelInvocationInProgressError = ''ModelInvocationInProgressError''"
| "class_name ModelAttemptOwnershipLostError = ''ModelAttemptOwnershipLostError''"
| "class_name ToolError = ''ToolError''"
| "class_name ToolTimeoutError = ''ToolTimeoutError''"
| "class_name ToolRateLimitedError = ''ToolRateLimitedError''"
| "class_name ToolTemporaryError = ''ToolTemporaryError''"
| "class_name ToolAuthConfigError = ''ToolAuthConfigError''"
| "class_name ToolInvalidRequestError = ''ToolInvalidRequestError''"
| "class_name ToolPermissionDeniedError = ''ToolPermissionDeniedError''"
| "class_name ToolSsrfBlockedError = ''ToolSsrfBlockedError''"
| "class_name ToolContentRejectedError = ''ToolContentRejectedError''"
| "class_name ToolBudgetExhaustedError = ''ToolBudgetExhaustedError''"
| "class_name ToolUnknownError = ''ToolUnknownError''"
| "class_name ToolInvocationInProgressError = ''ToolInvocationInProgressError''"
| "class_name ToolAttemptOwnershipLostError = ''ToolAttemptOwnershipLostError''"
| "class_name EmbeddingError = ''EmbeddingError''"
| "class_name EmbeddingAuthConfigError = ''EmbeddingAuthConfigError''"
| "class_name EmbeddingTimeoutError = ''EmbeddingTimeoutError''"
| "class_name EmbeddingRateLimitedError = ''EmbeddingRateLimitedError''"
| "class_name EmbeddingInvalidRequestError = ''EmbeddingInvalidRequestError''"
| "class_name EmbeddingProviderError = ''EmbeddingProviderError''"
| "class_name EmbeddingConflictError = ''EmbeddingConflictError''"
| "class_name (OtherClass n) = n"

text \<open>Python's \<open>sub in s\<close> and \<open>s.startswith(p)\<close>.\<close>

fun py_in :: "string \<Rightarrow> string \<Rightarrow> bool" where
  "py_in sub [] \<longleftrightarrow> sub = []"
| "py_in sub (c # cs) \<longleftrightarrow> take (length sub) (c # cs) = sub \<or> py_in sub cs"

definition py_startswith :: "string \<Rightarrow> string \<Rightarrow> bool" where
  "py_startswith s p \<longleftrightarrow> take (length p) s = p"

section \<open>Categories and decisions\<close>

datatype failure_category =
    QUALITY_CITATION_INTEGRITY | QUALITY_STRUCTURE | QUALITY_COVERAGE | QUALITY_GROUNDEDNESS
  | QUALITY_COMPLETENESS | QUALITY_TOOL_POLICY
  | TRANSIENT_TIMEOUT | TRANSIENT_RATE_LIMIT | TRANSIENT_PROVIDER
  | PERMANENT_VALIDATION | PERMANENT_AUTH_CONFIG | PERMANENT_BUDGET_EXHAUSTED
  | REPAIRABLE_DRAFT | NEEDS_HUMAN_REVIEW | TERMINAL_UNKNOWN

text \<open>The members of this \<open>StrEnum\<close> have equal names and values.\<close>

fun category_value :: "failure_category \<Rightarrow> string" where
  "category_value QUALITY_CITATION_INTEGRITY = ''QUALITY_CITATION_INTEGRITY''"
| "category_value QUALITY_STRUCTURE = ''QUALITY_STRUCTURE''"
| "category_value QUALITY_COVERAGE = ''QUALITY_COVERAGE''"
| "category_value QUALITY_GROUNDEDNESS = ''QUALITY_GROUNDEDNESS''"
| "category_value QUALITY_COMPLETENESS = ''QUALITY_COMPLETENESS''"
| "category_value QUALITY_TOOL_POLICY = ''QUALITY_TOOL_POLICY''"
| "category_value TRANSIENT_TIMEOUT = ''TRANSIENT_TIMEOUT''"
| "category_value TRANSIENT_RATE_LIMIT = ''TRANSIENT_RATE_LIMIT''"
| "category_value TRANSIENT_PROVIDER = ''TRANSIENT_PROVIDER''"
| "category_value PERMANENT_VALIDATION = ''PERMANENT_VALIDATION''"
| "category_value PERMANENT_AUTH_CONFIG = ''PERMANENT_AUTH_CONFIG''"
| "category_value PERMANENT_BUDGET_EXHAUSTED = ''PERMANENT_BUDGET_EXHAUSTED''"
| "category_value REPAIRABLE_DRAFT = ''REPAIRABLE_DRAFT''"
| "category_value NEEDS_HUMAN_REVIEW = ''NEEDS_HUMAN_REVIEW''"
| "category_value TERMINAL_UNKNOWN = ''TERMINAL_UNKNOWN''"

record policy_decision =
  pd_action :: string
  pd_failure_category :: failure_category
  pd_reason_code :: string

record attempt_counts =
  ac_repair_count :: int
  ac_job_retry_count :: int
  ac_evaluation_attempt_count :: int

definition MAX_REPAIRS :: int where "MAX_REPAIRS = 1"
definition MAX_JOB_RETRIES :: int where "MAX_JOB_RETRIES = 2"
definition MAX_EVALUATION_ATTEMPTS :: int where "MAX_EVALUATION_ATTEMPTS = 4"

section \<open>Backoff\<close>

definition compute_retry_delay_seconds ::
  "(int \<Rightarrow> int) \<Rightarrow> int \<Rightarrow> real \<Rightarrow> real \<Rightarrow> real \<Rightarrow> real option \<Rightarrow> exc_class + real" where
  "compute_retry_delay_seconds randbelow attempt_number base_seconds max_backoff_seconds jitter_max_seconds
     jitter_seconds =
     (if attempt_number < 1 then Inl (OtherClass ''ValueError'')
      else
        let exponential = min max_backoff_seconds (base_seconds * 2 ^ nat (attempt_number - 1))
        in (case jitter_seconds of
              None \<Rightarrow>
                Inr (exponential +
                     (if jitter_max_seconds \<le> 0 then 0
                      else of_int (randbelow (\<lfloor>jitter_max_seconds * 1000\<rfloor> + 1)) / 1000))
            | Some j \<Rightarrow>
                if j < 0 \<or> jitter_max_seconds < j then Inl (OtherClass ''ValueError'') else Inr (exponential + j)))"

definition schedule_next_attempt_at ::
  "(int \<Rightarrow> int) \<Rightarrow> timestamp \<Rightarrow> int \<Rightarrow> real \<Rightarrow> real \<Rightarrow> real \<Rightarrow> real option \<Rightarrow> exc_class + timestamp" where
  "schedule_next_attempt_at randbelow now attempt_number base_seconds max_backoff_seconds jitter_max_seconds
     jitter_seconds =
     bindE (compute_retry_delay_seconds randbelow attempt_number base_seconds max_backoff_seconds
              jitter_max_seconds jitter_seconds) (\<lambda>delay. Inr (now + timedelta_seconds delay))"

section \<open>Categorising exceptions\<close>

definition TRANSIENT_EXCEPTION_NAMES :: "string list" where
  "TRANSIENT_EXCEPTION_NAMES =
     [''ReadTimeout'', ''ConnectTimeout'', ''APITimeoutError'', ''RateLimitError'', ''ServiceUnavailableError'',
      ''InternalServerError'', ''APIConnectionError'']"

definition PERMANENT_EXCEPTION_NAMES :: "string list" where
  "PERMANENT_EXCEPTION_NAMES =
     [''ValueError'', ''ValidationError'', ''RequestValidationError'', ''EvaluationValidationError'',
      ''ToolBudgetExhaustedError'', ''AuthenticationError'', ''PermissionError'']"

definition OWNERSHIP_CLASSES :: "exc_class list" where
  "OWNERSHIP_CLASSES =
     [ClaimOwnershipError, PolicyDecisionConflictError, EvaluationOwnershipLostError, EvaluationConflictError,
      EvaluationInProgressError, EvaluationAttemptCapError, EvaluationTerminalError, EvaluationNotFoundError,
      EvaluationStaleError, EvidenceOwnershipError, ModelInvocationInProgressError,
      ModelAttemptOwnershipLostError, ToolInvocationInProgressError, ToolAttemptOwnershipLostError,
      EmbeddingConflictError]"

text \<open>The class-name fallback at the end of \<open>categorize_exception\<close>.\<close>

definition categorize_by_name :: "string \<Rightarrow> failure_category" where
  "categorize_by_name n =
     (if n \<in> set TRANSIENT_EXCEPTION_NAMES \<or> py_in ''Timeout'' n \<or> py_in ''RateLimit'' n then
        (if py_in ''RateLimit'' n then TRANSIENT_RATE_LIMIT
         else if py_in ''Timeout'' n then TRANSIENT_TIMEOUT
         else TRANSIENT_PROVIDER)
      else if n \<in> set PERMANENT_EXCEPTION_NAMES \<or> py_in ''Budget'' n then
        (if py_in ''Budget'' n then PERMANENT_BUDGET_EXHAUSTED
         else if py_in ''Auth'' n \<or> py_in ''Permission'' n then PERMANENT_AUTH_CONFIG
         else PERMANENT_VALIDATION)
      else TERMINAL_UNKNOWN)"

definition categorize_exception :: "exc_class \<Rightarrow> failure_category" where
  "categorize_exception exc =
     (if isinstance exc OWNERSHIP_CLASSES then TERMINAL_UNKNOWN
      else if isinstance exc [ModelTimeoutError, ToolTimeoutError, EmbeddingTimeoutError] then TRANSIENT_TIMEOUT
      else if isinstance exc [ModelRateLimitedError, ToolRateLimitedError, EmbeddingRateLimitedError]
      then TRANSIENT_RATE_LIMIT
      else if isinstance exc [ModelTemporaryError, ToolTemporaryError, EmbeddingProviderError]
      then TRANSIENT_PROVIDER
      else if isinstance exc [ModelAuthConfigError, ToolAuthConfigError, EmbeddingAuthConfigError,
                              ToolPermissionDeniedError]
      then PERMANENT_AUTH_CONFIG
      else if isinstance exc [ToolBudgetExhaustedError] then PERMANENT_BUDGET_EXHAUSTED
      else if isinstance exc [ModelInvalidRequestError, ModelInvalidStructuredOutputError, ModelRefusalError,
                              EvaluationValidationError, ToolInvalidRequestError, ToolSsrfBlockedError,
                              ToolContentRejectedError, EmbeddingInvalidRequestError]
      then PERMANENT_VALIDATION
      else if isinstance exc [ModelUnknownError, ToolUnknownError] then TERMINAL_UNKNOWN
      else categorize_by_name (class_name exc))"

text \<open>
  \<open>decide_for_exception\<close>.  The two \<open>isinstance\<close> tests of its first block together name the
  classes of \<open>OWNERSHIP_CLASSES\<close>, with the same result.
\<close>

definition decide_for_exception :: "exc_class \<Rightarrow> attempt_counts \<Rightarrow> policy_decision" where
  "decide_for_exception exc counts =
     (let category = categorize_exception exc;
          decision = (\<lambda>action reason_code.
            \<lparr> pd_action = action, pd_failure_category = category, pd_reason_code = reason_code \<rparr>)
      in if category = TERMINAL_UNKNOWN then
           (if isinstance exc [ClaimOwnershipError, EvaluationOwnershipLostError, EvaluationConflictError,
                               EvaluationInProgressError, EvaluationAttemptCapError, EvaluationTerminalError,
                               EvidenceOwnershipError]
            then decision ''terminal'' ''OWNERSHIP_CONFLICT''
            else if isinstance exc [PolicyDecisionConflictError, EvaluationNotFoundError, EvaluationStaleError,
                                    ModelInvocationInProgressError, ModelAttemptOwnershipLostError,
                                    ToolInvocationInProgressError, ToolAttemptOwnershipLostError,
                                    EmbeddingConflictError]
            then decision ''terminal'' ''OWNERSHIP_CONFLICT''
            else decision ''terminal'' ''UNCLASSIFIED_TERMINAL'')
         else if py_startswith (category_value category) ''TRANSIENT_'' \<and>
                 ac_job_retry_count counts < MAX_JOB_RETRIES
         then decision ''retry'' ''TRANSIENT_RETRY''
         else if py_startswith (category_value category) ''TRANSIENT_'' then decision ''terminal'' ''RETRY_CAP''
         else if py_startswith (category_value category) ''PERMANENT_'' then decision ''terminal'' ''PERMANENT_FAIL''
         else decision ''terminal'' ''UNCLASSIFIED_TERMINAL'')"

section \<open>Graded dimensions\<close>

record dimension_result =
  dr_name :: string
  dr_score :: real
  dr_passed :: bool
  dr_method :: string
  dr_is_hard :: bool
  dr_is_provisional :: bool
  dr_failure_codes :: "string list"
  dr_weight :: real

definition HARD_DIMENSIONS :: "string list" where
  "HARD_DIMENSIONS = [''citation_integrity'', ''tool_use'', ''report_structure'']"

definition PROVISIONAL_SOFT_DIMENSIONS :: "string list" where
  "PROVISIONAL_SOFT_DIMENSIONS = [''coverage'', ''completeness'', ''lexical_id_groundedness'']"

definition HARD_NAME_TO_CATEGORY :: "(string \<times> failure_category) list" where
  "HARD_NAME_TO_CATEGORY =
     [(''citation_integrity'', QUALITY_CITATION_INTEGRITY), (''tool_use'', QUALITY_TOOL_POLICY),
      (''report_structure'', QUALITY_STRUCTURE)]"

definition SOFT_NAME_TO_CATEGORY :: "(string \<times> failure_category) list" where
  "SOFT_NAME_TO_CATEGORY =
     [(''coverage'', QUALITY_COVERAGE), (''completeness'', QUALITY_COMPLETENESS),
      (''lexical_id_groundedness'', QUALITY_GROUNDEDNESS), (''semantic_groundedness'', QUALITY_GROUNDEDNESS)]"

definition categorize_evaluation_failure :: "dimension_result list \<Rightarrow> exc_class + failure_category" where
  "categorize_evaluation_failure dimensions =
     (let failed = filter (\<lambda>item. \<not> dr_passed item \<and> dr_method item \<noteq> ''skipped'') dimensions
      in case find (\<lambda>item. dr_name item \<in> set HARD_DIMENSIONS) failed of
           Some item \<Rightarrow>
             (case map_of HARD_NAME_TO_CATEGORY (dr_name item) of
                None \<Rightarrow> Inl (OtherClass ''KeyError'')
              | Some category \<Rightarrow> Inr category)
         | None \<Rightarrow>
             if list_ex (\<lambda>item. map_of SOFT_NAME_TO_CATEGORY (dr_name item) \<noteq> None) failed
             then Inr REPAIRABLE_DRAFT else Inr NEEDS_HUMAN_REVIEW)"

text \<open>\<open>result.passed\<close> is \<open>bool | None\<close>; \<open>None\<close> is falsy.\<close>

definition decide_for_evaluation ::
  "bool option \<Rightarrow> dimension_result list \<Rightarrow> attempt_counts \<Rightarrow> exc_class + policy_decision" where
  "decide_for_evaluation passed dimensions counts =
     (let decision = (\<lambda>action category reason_code.
            Inr \<lparr> pd_action = action, pd_failure_category = category, pd_reason_code = reason_code \<rparr>)
      in if passed = Some True then decision ''complete'' NEEDS_HUMAN_REVIEW ''EVALUATION_PASSED''
         else if MAX_EVALUATION_ATTEMPTS \<le> ac_evaluation_attempt_count counts
         then decision ''terminal'' TERMINAL_UNKNOWN ''EVALUATION_ATTEMPT_CAP''
         else bindE (categorize_evaluation_failure dimensions) (\<lambda>category.
           if category \<in> {QUALITY_CITATION_INTEGRITY, QUALITY_TOOL_POLICY}
           then decision ''terminal'' category ''HARD_QUALITY_FAIL''
           else if category = QUALITY_STRUCTURE then
             (if ac_repair_count counts < MAX_REPAIRS then decision ''repair'' category ''STRUCTURE_REPAIR''
              else decision ''terminal'' category ''STRUCTURE_REPAIR_EXHAUSTED'')
           else if category = REPAIRABLE_DRAFT then
             (if ac_repair_count counts < MAX_REPAIRS then decision ''repair'' category ''SOFT_QUALITY_REPAIR''
              else decision ''await_review'' NEEDS_HUMAN_REVIEW ''REPAIR_EXHAUSTED'')
           else decision ''await_review'' NEEDS_HUMAN_REVIEW ''AMBIGUOUS_QUALITY''))"

section \<open>What the policy decides\<close>

lemma transient_values:
  "py_startswith (category_value c) ''TRANSIENT_'' \<longleftrightarrow> c \<in> {TRANSIENT_TIMEOUT, TRANSIENT_RATE_LIMIT, TRANSIENT_PROVIDER}"
  by (cases c) (simp_all add: py_startswith_def)

lemma permanent_values:
  "py_startswith (category_value c) ''PERMANENT_'' \<longleftrightarrow>
     c \<in> {PERMANENT_VALIDATION, PERMANENT_AUTH_CONFIG, PERMANENT_BUDGET_EXHAUSTED}"
  by (cases c) (simp_all add: py_startswith_def)

text \<open>An exception is retried exactly when it is transient and the retry budget is not used up.\<close>

lemma retry_iff:
  "pd_action (decide_for_exception exc counts) = ''retry'' \<longleftrightarrow>
     categorize_exception exc \<in> {TRANSIENT_TIMEOUT, TRANSIENT_RATE_LIMIT, TRANSIENT_PROVIDER} \<and>
     ac_job_retry_count counts < 2"
  unfolding decide_for_exception_def Let_def transient_values permanent_values MAX_JOB_RETRIES_def by auto

lemma exception_decision_cases:
  "pd_action (decide_for_exception exc counts) \<in> {''retry'', ''terminal''}"
  "pd_failure_category (decide_for_exception exc counts) = categorize_exception exc"
  unfolding decide_for_exception_def Let_def by auto

lemma categorize_evaluation_failure_total: "\<exists>c. categorize_evaluation_failure ds = Inr c"
proof (cases "find (\<lambda>item. dr_name item \<in> set HARD_DIMENSIONS)
    (filter (\<lambda>item. \<not> dr_passed item \<and> dr_method item \<noteq> ''skipped'') ds)")
  case (Some item)
  then have "dr_name item \<in> set HARD_DIMENSIONS" by (auto simp: find_Some_iff)
  then obtain c where "map_of HARD_NAME_TO_CATEGORY (dr_name item) = Some c"
    by (auto simp: HARD_DIMENSIONS_def HARD_NAME_TO_CATEGORY_def)
  with Some show ?thesis by (simp add: categorize_evaluation_failure_def)
qed (simp add: categorize_evaluation_failure_def)

lemma decide_for_evaluation_total: "\<exists>d. decide_for_evaluation passed ds counts = Inr d"
  using categorize_evaluation_failure_total[of ds] by (auto simp: decide_for_evaluation_def)

lemma evaluation_repair_within_budget:
  "decide_for_evaluation passed ds counts = Inr d \<Longrightarrow> pd_action d = ''repair'' \<Longrightarrow>
   ac_repair_count counts < MAX_REPAIRS \<and> ac_evaluation_attempt_count counts < MAX_EVALUATION_ATTEMPTS"
  using categorize_evaluation_failure_total[of ds]
  by (auto simp: decide_for_evaluation_def split: if_splits)

lemma evaluation_complete_iff:
  "decide_for_evaluation passed ds counts = Inr d \<Longrightarrow> pd_action d = ''complete'' \<longleftrightarrow> passed = Some True"
  using categorize_evaluation_failure_total[of ds]
  by (auto simp: decide_for_evaluation_def split: if_splits)

lemma evaluation_action_cases:
  "decide_for_evaluation passed ds counts = Inr d \<Longrightarrow>
   pd_action d \<in> {''complete'', ''repair'', ''await_review'', ''terminal''}"
  using categorize_evaluation_failure_total[of ds]
  by (auto simp: decide_for_evaluation_def split: if_splits)

text \<open>A failed citation or tool-use dimension is never repaired and never sent to a reviewer.\<close>

lemma hard_failure_is_terminal:
  assumes "decide_for_evaluation passed ds counts = Inr d" "passed \<noteq> Some True"
    and "find (\<lambda>item. dr_name item \<in> set HARD_DIMENSIONS)
           (filter (\<lambda>item. \<not> dr_passed item \<and> dr_method item \<noteq> ''skipped'') ds) = Some item"
    and "dr_name item \<noteq> ''report_structure''"
  shows "pd_action d = ''terminal''"
proof -
  have "dr_name item \<in> set HARD_DIMENSIONS" using assms(3) by (auto simp: find_Some_iff)
  with assms(4) have "dr_name item \<in> {''citation_integrity'', ''tool_use''}" by (auto simp: HARD_DIMENSIONS_def)
  then have "categorize_evaluation_failure ds \<in> {Inr QUALITY_CITATION_INTEGRITY, Inr QUALITY_TOOL_POLICY}"
    using assms(3) by (auto simp: categorize_evaluation_failure_def HARD_NAME_TO_CATEGORY_def)
  with assms(1,2) show ?thesis by (auto simp: decide_for_evaluation_def split: if_splits)
qed

end
