(* ===== verification/Recovery_Store.thy ===== *)
theory Recovery_Store
  imports Workflow_Store Outbox_Store Recovery_Policy
begin

text \<open>
  The application database: the job store, the outbox and the audit tables the application services
  write in the same transactions.  Tables: \<open>policy_decisions\<close>, \<open>job_recovery_attempts\<close> and
  \<open>human_review_decisions\<close> (\<open>src/src/atlas/persistence/models/recovery.py\<close>), \<open>evaluation_runs\<close> and
  \<open>evaluation_dimension_results\<close> (\<open>persistence/models/evaluation.py\<close>).  Operations: every one of
  \<open>persistence/repositories/recovery.py\<close>, \<open>session_scope\<close> of \<open>persistence/db.py\<close> and
  \<open>fingerprint_policy_decision\<close> of \<open>recovery/fingerprint.py\<close> (SHA-256 and the JSON text codec are
  parameters).
\<close>

section \<open>Rows\<close>

record policy_row =
  pl_id :: string
  pl_research_job_id :: string
  pl_workflow_execution_id :: "string option"
  pl_evaluation_run_id :: "string option"
  pl_decision :: string
  pl_failure_category :: string
  pl_reason_code :: string
  pl_decision_fingerprint :: string
  pl_created_at :: timestamp

record recovery_row =
  ra_id :: string
  ra_research_job_id :: string
  ra_policy_decision_id :: string
  ra_abandoned_workflow_execution_id :: string
  ra_attempt_number :: int
  ra_next_attempt_at :: timestamp
  ra_created_at :: timestamp

record review_row =
  hr_id :: string
  hr_research_job_id :: string
  hr_workflow_execution_id :: string
  hr_evaluation_run_id :: string
  hr_decision :: string
  hr_candidate_fingerprint :: string
  hr_actor_id :: string
  hr_idempotency_key :: string
  hr_request_fingerprint :: string
  hr_created_at :: timestamp

record eval_row =
  er_id :: string
  er_research_job_id :: string
  er_workflow_execution_id :: string
  er_evaluation_profile :: string
  er_evaluation_attempt :: int
  er_status :: string
  er_ownership_token :: string
  er_input_fingerprint :: string
  er_job_claim_fingerprint :: string
  er_passed :: "bool option"
  er_aggregate_score :: "real option"
  er_disposition_hint :: "string option"
  er_grader_versions :: "(string \<times> string) list option"
  er_deadline_at :: timestamp
  er_started_at :: timestamp
  er_finished_at :: "timestamp option"

record dim_row =
  dm_id :: string
  dm_evaluation_run_id :: string
  dm_result :: dimension_result

record app_db =
  db_store :: store
  db_nodes :: "node_row list"
  db_outbox :: outbox
  db_policies :: "policy_row list"
  db_recoveries :: "recovery_row list"
  db_reviews :: "review_row list"
  db_evals :: "eval_row list"
  db_dims :: "dim_row list"

section \<open>Constraints\<close>

text \<open>\<open>String(n)\<close> columns reject longer values.\<close>

definition fits :: "nat \<Rightarrow> string \<Rightarrow> bool" where
  "fits n s \<longleftrightarrow> length s \<le> n"

definition policy_checks :: "policy_row \<Rightarrow> bool" where
  "policy_checks p \<longleftrightarrow>
     pl_decision p \<in> {''complete'', ''repair'', ''await_review'', ''retry'', ''terminal'', ''reject''} \<and>
     sql_nonblank (pl_id p) \<and> sql_nonblank (pl_failure_category p) \<and> sql_nonblank (pl_reason_code p) \<and>
     length (pl_decision_fingerprint p) = 64 \<and>
     fits 36 (pl_id p) \<and> fits 128 (pl_research_job_id p) \<and> fits 64 (pl_failure_category p) \<and> fits 64 (pl_reason_code p)"

definition recovery_checks :: "recovery_row \<Rightarrow> bool" where
  "recovery_checks a \<longleftrightarrow>
     1 \<le> ra_attempt_number a \<and> ra_attempt_number a \<le> 2 \<and> sql_nonblank (ra_id a) \<and>
     fits 36 (ra_id a) \<and> fits 128 (ra_research_job_id a)"

definition review_checks :: "review_row \<Rightarrow> bool" where
  "review_checks h \<longleftrightarrow>
     hr_decision h \<in> {''approve'', ''reject''} \<and> length (hr_candidate_fingerprint h) = 64 \<and>
     length (hr_request_fingerprint h) = 64 \<and> sql_nonblank (hr_actor_id h) \<and> sql_nonblank (hr_idempotency_key h) \<and>
     sql_nonblank (hr_id h) \<and> fits 36 (hr_id h) \<and> fits 128 (hr_research_job_id h) \<and> fits 128 (hr_actor_id h) \<and>
     fits 128 (hr_idempotency_key h)"

definition job_exists :: "app_db \<Rightarrow> string \<Rightarrow> bool" where
  "job_exists db job_id \<longleftrightarrow> tget r_id job_id (st_jobs (db_store db)) \<noteq> None"

definition exec_exists :: "app_db \<Rightarrow> string \<Rightarrow> bool" where
  "exec_exists db e \<longleftrightarrow> tget x_id e (st_execs (db_store db)) \<noteq> None"

definition eval_exists :: "app_db \<Rightarrow> string \<Rightarrow> bool" where
  "eval_exists db e \<longleftrightarrow> tget er_id e (db_evals db) \<noteq> None"

section \<open>Transactions\<close>

text \<open>
  A transaction is a function of the database that raises or returns the changed database with a
  value; \<open>session_scope\<close> commits or rolls back.  Errors of the stores become the exception classes
  the callers see.
\<close>

fun exc_of_store :: "store_error \<Rightarrow> exc_class" where
  "exc_of_store (DomainFailure (InvalidResearchJobError _)) = OtherClass ''InvalidResearchJobError''"
| "exc_of_store (DomainFailure (InvalidTransitionError _ _)) = OtherClass ''InvalidTransitionError''"
| "exc_of_store (ValueError _) = OtherClass ''ValueError''"
| "exc_of_store (IntegrityError _) = OtherClass ''IntegrityError''"
| "exc_of_store (ResearchJobAlreadyExistsError _) = OtherClass ''ResearchJobAlreadyExistsError''"
| "exc_of_store IdempotencyKeyConflictError = OtherClass ''IdempotencyKeyConflictError''"
| "exc_of_store (ResearchJobNotFoundError _) = OtherClass ''ResearchJobNotFoundError''"
| "exc_of_store AssertionError = OtherClass ''AssertionError''"

definition session_scope :: "app_db \<Rightarrow> (app_db \<Rightarrow> exc_class + (app_db \<times> 'a)) \<Rightarrow> app_db \<times> (exc_class + 'a)" where
  "session_scope db body = (case body db of Inl e \<Rightarrow> (db, Inl e) | Inr (db', v) \<Rightarrow> (db', Inr v))"

definition on_store :: "app_db \<Rightarrow> (store \<Rightarrow> store_error + (store \<times> 'a)) \<Rightarrow> exc_class + (app_db \<times> 'a)" where
  "on_store db f =
     (case f (db_store db) of Inl e \<Rightarrow> Inl (exc_of_store e) | Inr (st, v) \<Rightarrow> Inr (db\<lparr> db_store := st \<rparr>, v))"

text \<open>\<open>outbox.enqueue(session, build_...(...))\<close>.\<close>

definition enqueue_built ::
  "outbox_env \<Rightarrow> string option \<Rightarrow> event_error + domain_event \<Rightarrow> app_db \<Rightarrow> exc_class + app_db" where
  "enqueue_built env traceparent built db =
     (case built of
        Inl _ \<Rightarrow> Inl (OtherClass ''ValidationError'')
      | Inr event \<Rightarrow>
          (case enqueue env (db_outbox db) event traceparent of
             Inl _ \<Rightarrow> Inl (OtherClass ''OutboxEnqueueError'')
           | Inr ob \<Rightarrow> Inr (db\<lparr> db_outbox := ob \<rparr>)))"

section \<open>Policy decisions\<close>

record hashing =
  hs_dumps :: "py_value \<Rightarrow> string"
  hs_sha256 :: "string \<Rightarrow> string"

text \<open>A hex digest of SHA-256 has 64 characters.\<close>

definition hashing_laws :: "hashing \<Rightarrow> bool" where
  "hashing_laws h \<longleftrightarrow> (\<forall>s. length (hs_sha256 h s) = 64)"

definition fingerprint_policy_decision ::
  "hashing \<Rightarrow> string \<Rightarrow> string option \<Rightarrow> string option \<Rightarrow> policy_decision \<Rightarrow> attempt_counts \<Rightarrow> string" where
  "fingerprint_policy_decision h job_id execution_id evaluation_run_id decision counts =
     hs_sha256 h (hs_dumps h (VDict
       [(''decision'', VStr (pd_action decision)),
        (''evaluation_attempt_count'', VInt (ac_evaluation_attempt_count counts)),
        (''evaluation_run_id'', opt_str evaluation_run_id),
        (''failure_category'', VStr (category_value (pd_failure_category decision))),
        (''job_retry_count'', VInt (ac_job_retry_count counts)),
        (''reason_code'', VStr (pd_reason_code decision)),
        (''repair_count'', VInt (ac_repair_count counts)),
        (''research_job_id'', VStr job_id),
        (''workflow_execution_id'', opt_str execution_id)]))"

definition policy_key :: "policy_row \<Rightarrow> string \<times> string" where
  "policy_key p = (pl_research_job_id p, pl_decision_fingerprint p)"

text \<open>\<open>INSERT ... ON CONFLICT DO NOTHING\<close> on the fingerprint constraint: any other violation raises.\<close>

definition insert_policy_decision :: "app_db \<Rightarrow> policy_row \<Rightarrow> exc_class + (app_db \<times> string)" where
  "insert_policy_decision db p =
     (if \<not> policy_checks p then Inl (OtherClass ''IntegrityError'')
      else case tget policy_key (policy_key p) (db_policies db) of
        Some existing \<Rightarrow>
          if pl_decision existing \<noteq> pl_decision p \<or> pl_failure_category existing \<noteq> pl_failure_category p \<or>
             pl_reason_code existing \<noteq> pl_reason_code p \<or>
             pl_workflow_execution_id existing \<noteq> pl_workflow_execution_id p \<or>
             pl_evaluation_run_id existing \<noteq> pl_evaluation_run_id p
          then Inl PolicyDecisionConflictError
          else Inr (db, pl_id existing)
      | None \<Rightarrow>
          if tget pl_id (pl_id p) (db_policies db) \<noteq> None \<or> \<not> job_exists db (pl_research_job_id p) \<or>
             \<not> (case pl_workflow_execution_id p of None \<Rightarrow> True | Some e \<Rightarrow> exec_exists db e) \<or>
             \<not> (case pl_evaluation_run_id p of None \<Rightarrow> True | Some e \<Rightarrow> eval_exists db e)
          then Inl (OtherClass ''IntegrityError'')
          else Inr (db\<lparr> db_policies := db_policies db @ [p] \<rparr>, pl_id p))"

section \<open>Recovery attempts\<close>

definition insert_recovery_attempt :: "app_db \<Rightarrow> recovery_row \<Rightarrow> exc_class + app_db" where
  "insert_recovery_attempt db a =
     (if \<not> recovery_checks a \<or> tget ra_id (ra_id a) (db_recoveries db) \<noteq> None \<or>
         list_ex (\<lambda>b. ra_research_job_id b = ra_research_job_id a \<and> ra_attempt_number b = ra_attempt_number a)
           (db_recoveries db) \<or>
         \<not> job_exists db (ra_research_job_id a) \<or> tget pl_id (ra_policy_decision_id a) (db_policies db) = None \<or>
         \<not> exec_exists db (ra_abandoned_workflow_execution_id a)
      then Inl (OtherClass ''IntegrityError'')
      else Inr (db\<lparr> db_recoveries := db_recoveries db @ [a] \<rparr>))"

text \<open>\<open>scalar_one_or_none\<close> raises when more than one row matches.\<close>

definition get_recovery_attempt_by_policy :: "app_db \<Rightarrow> string \<Rightarrow> exc_class + recovery_row option" where
  "get_recovery_attempt_by_policy db policy_id =
     (case filter (\<lambda>a. ra_policy_decision_id a = policy_id) (db_recoveries db) of
        [] \<Rightarrow> Inr None | [a] \<Rightarrow> Inr (Some a) | _ \<Rightarrow> Inl (OtherClass ''MultipleResultsFound''))"

section \<open>Review decisions\<close>

definition review_key :: "review_row \<Rightarrow> string \<times> string" where
  "review_key h = (hr_research_job_id h, hr_idempotency_key h)"

definition get_review_decision_by_idempotency :: "app_db \<Rightarrow> string \<Rightarrow> string \<Rightarrow> review_row option" where
  "get_review_decision_by_idempotency db job_id key = tget review_key (job_id, key) (db_reviews db)"

definition insert_review_decision :: "app_db \<Rightarrow> review_row \<Rightarrow> exc_class + app_db" where
  "insert_review_decision db h =
     (if \<not> review_checks h \<or> tget hr_id (hr_id h) (db_reviews db) \<noteq> None \<or>
         tget review_key (review_key h) (db_reviews db) \<noteq> None \<or> \<not> job_exists db (hr_research_job_id h) \<or>
         \<not> list_ex (\<lambda>x. x_id x = hr_workflow_execution_id h \<and> x_research_job_id x = hr_research_job_id h)
              (st_execs (db_store db)) \<or>
         \<not> eval_exists db (hr_evaluation_run_id h)
      then Inl (OtherClass ''IntegrityError'')
      else Inr (db\<lparr> db_reviews := db_reviews db @ [h] \<rparr>))"

definition get_latest_approve_for_execution :: "app_db \<Rightarrow> string \<Rightarrow> string \<Rightarrow> review_row option" where
  "get_latest_approve_for_execution db job_id execution_id =
     select_first (\<lambda>h. hr_research_job_id h = job_id \<and> hr_workflow_execution_id h = execution_id \<and>
                       hr_decision h = ''approve'') (\<lambda>h. - hr_created_at h) (db_reviews db)"

section \<open>Lemmas\<close>

lemma session_scope_Inl: "session_scope db body = (db', Inl e) \<longleftrightarrow> db' = db \<and> body db = Inl e"
  by (auto simp: session_scope_def split: sum.splits)

lemma session_scope_Inr: "session_scope db body = (db', Inr v) \<longleftrightarrow> body db = Inr (db', v)"
  by (auto simp: session_scope_def split: sum.splits)

lemma on_store_Inr [bind_simps]:
  "on_store db f = Inr (db', v) \<longleftrightarrow> (\<exists>st. f (db_store db) = Inr (st, v) \<and> db' = db\<lparr> db_store := st \<rparr>)"
  by (auto simp: on_store_def split: sum.splits)

lemma enqueue_built_Inr:
  "enqueue_built env tp built db = Inr db' \<longleftrightarrow>
     (\<exists>e ob. built = Inr e \<and> enqueue env (db_outbox db) e tp = Inr ob \<and> db' = db\<lparr> db_outbox := ob \<rparr>)"
  by (auto simp: enqueue_built_def split: sum.splits)

lemma enqueue_Inr:
  "enqueue env ob e tp = Inr ob' \<Longrightarrow>
   \<exists>row. ob_rows ob' = ob_rows ob @ [row] \<and> o_event_id row = ev_event_id e \<and> o_event_type row = ev_event_type e \<and>
         o_aggregate_id row = ev_aggregate_id e \<and> o_published_at row = None \<and> tget o_event_id (o_event_id row) (ob_rows ob) = None"
  by (auto simp: enqueue_def Let_def split: sum.splits if_splits)

text \<open>Repeating a decision returns the id of the row that stands and writes nothing.\<close>

lemma insert_policy_decision_mem:
  "insert_policy_decision db p = Inr (db', i) \<Longrightarrow>
   \<exists>r. tget policy_key (policy_key p) (db_policies db') = Some r \<and> pl_id r = i \<and>
       pl_decision r = pl_decision p \<and> pl_failure_category r = pl_failure_category p \<and>
       pl_reason_code r = pl_reason_code p \<and> pl_workflow_execution_id r = pl_workflow_execution_id p \<and>
       pl_evaluation_run_id r = pl_evaluation_run_id p \<and> policy_checks p"
  by (auto simp: insert_policy_decision_def tget_append split: if_splits option.splits)

lemma insert_policy_decision_again:
  assumes "insert_policy_decision db p = Inr (db', i)"
    and "policy_key q = policy_key p" "pl_decision q = pl_decision p" "pl_failure_category q = pl_failure_category p"
      "pl_reason_code q = pl_reason_code p" "pl_workflow_execution_id q = pl_workflow_execution_id p"
      "pl_evaluation_run_id q = pl_evaluation_run_id p" "policy_checks q"
  shows "insert_policy_decision db' q = Inr (db', i)"
  using insert_policy_decision_mem[OF assms(1)] assms(2-) by (auto simp: insert_policy_decision_def)

lemma insert_policy_decision_frame:
  "insert_policy_decision db p = Inr (db', i) \<Longrightarrow>
   db_store db' = db_store db \<and> db_outbox db' = db_outbox db \<and> db_recoveries db' = db_recoveries db \<and>
   db_reviews db' = db_reviews db \<and> db_evals db' = db_evals db \<and> db_nodes db' = db_nodes db \<and>
   db_dims db' = db_dims db"
  by (auto simp: insert_policy_decision_def split: if_splits option.splits)

lemma insert_policy_decision_new:
  "insert_policy_decision db p = Inr (db', pl_id p) \<Longrightarrow> tget pl_id (pl_id p) (db_policies db) = None \<Longrightarrow>
   db' = db\<lparr> db_policies := db_policies db @ [p] \<rparr>"
proof -
  assume ins: "insert_policy_decision db p = Inr (db', pl_id p)" and new: "tget pl_id (pl_id p) (db_policies db) = None"
  have "tget policy_key (policy_key p) (db_policies db) = None"
  proof (rule ccontr)
    assume "\<not> ?thesis"
    then obtain r where r: "tget policy_key (policy_key p) (db_policies db) = Some r" by blast
    with ins have "pl_id r = pl_id p" by (auto simp: insert_policy_decision_def split: if_splits)
    with tget_Some_mem[OF r] new show False unfolding tget_None_iff by (metis image_eqI set_map)
  qed
  with ins show ?thesis by (auto simp: insert_policy_decision_def split: if_splits)
qed

lemma insert_recovery_attempt_frame:
  "insert_recovery_attempt db a = Inr db' \<Longrightarrow>
   db_store db' = db_store db \<and> db_outbox db' = db_outbox db \<and> db_policies db' = db_policies db \<and>
   db_reviews db' = db_reviews db \<and> db_evals db' = db_evals db \<and> db_recoveries db' = db_recoveries db @ [a]"
  by (auto simp: insert_recovery_attempt_def split: if_splits)

text \<open>At most two retries of a job are ever recorded, with distinct numbers.\<close>

definition recoveries_ok :: "app_db \<Rightarrow> bool" where
  "recoveries_ok db \<longleftrightarrow>
     (\<forall>a \<in> set (db_recoveries db). recovery_checks a) \<and>
     distinct (map (\<lambda>a. (ra_research_job_id a, ra_attempt_number a)) (db_recoveries db))"

lemma insert_recovery_attempt_ok:
  "insert_recovery_attempt db a = Inr db' \<Longrightarrow> recoveries_ok db \<Longrightarrow> recoveries_ok db'"
proof -
  assume ins: "insert_recovery_attempt db a = Inr db'" and ok: "recoveries_ok db"
  have fresh: "(ra_research_job_id a, ra_attempt_number a) \<notin>
      set (map (\<lambda>a. (ra_research_job_id a, ra_attempt_number a)) (db_recoveries db))"
  proof
    assume "(ra_research_job_id a, ra_attempt_number a) \<in>
      set (map (\<lambda>a. (ra_research_job_id a, ra_attempt_number a)) (db_recoveries db))"
    then obtain b where "b \<in> set (db_recoveries db)" "ra_research_job_id b = ra_research_job_id a"
      "ra_attempt_number b = ra_attempt_number a" by auto
    then have "list_ex (\<lambda>b. ra_research_job_id b = ra_research_job_id a \<and> ra_attempt_number b = ra_attempt_number a)
        (db_recoveries db)" by (auto simp: list_ex_iff)
    with ins show False by (simp add: insert_recovery_attempt_def)
  qed
  have "db' = db\<lparr> db_recoveries := db_recoveries db @ [a] \<rparr>" "recovery_checks a"
    using ins by (simp_all add: insert_recovery_attempt_def split: if_splits)
  with ok fresh show ?thesis by (simp add: recoveries_ok_def)
qed

lemma recoveries_bounded:
  assumes "recoveries_ok db"
  shows "length (filter (\<lambda>a. ra_research_job_id a = j) (db_recoveries db)) \<le> 2"
proof -
  let ?as = "filter (\<lambda>a. ra_research_job_id a = j) (db_recoveries db)"
  have "distinct (map (\<lambda>a. (ra_research_job_id a, ra_attempt_number a)) ?as)"
    using assms by (simp add: recoveries_ok_def distinct_map_filter)
  then have "distinct (map ra_attempt_number ?as)" by (auto simp: distinct_map inj_on_def)
  then have "length ?as = card (ra_attempt_number ` set ?as)" by (metis distinct_card length_map set_map)
  also have "\<dots> \<le> card {1, 2 :: int}"
    using assms by (intro card_mono) (auto simp: recoveries_ok_def recovery_checks_def)
  finally show ?thesis by simp
qed

end
