(* ===== verification/Evaluation_Grading.thy ===== *)
theory Evaluation_Grading
  imports Recovery_Policy
begin

text \<open>
  Grading a candidate report: the deterministic graders and the offline semantic grader of
  \<open>src/src/atlas/evaluation/graders.py\<close>, the aggregation of \<open>evaluation/aggregation.py\<close>, the
  report preview of \<open>workflow/fakes.py\<close> and the composition in \<open>evaluation/runner.py\<close>.

  A Python float is the real number it denotes.  Every literal and every operation is rounded by
  the parameter \<open>rnd\<close>, as IEEE 754 prescribes (the exact result, correctly rounded); \<open>fsum\<close> is the
  builtin \<open>sum\<close> on floats, which Python 3.12 computes with compensation.  What the theorems use of
  the two is collected in \<open>float_rounding\<close>.
\<close>

section \<open>Floats\<close>

type_synonym rounding = "real \<Rightarrow> real"

definition float_rounding :: "rounding \<Rightarrow> (real list \<Rightarrow> real) \<Rightarrow> bool" where
  "float_rounding rnd fsum \<longleftrightarrow>
     mono rnd \<and> (\<forall>x. rnd (rnd x) = rnd x) \<and> rnd 0 = 0 \<and> rnd 1 = 1 \<and> rnd (1/16) = 1/16 \<and>
     (\<forall>xs. list_all (\<lambda>x. 0 \<le> x) xs \<longrightarrow> 0 \<le> fsum xs)"

section \<open>Candidates\<close>

record claim_structured =
  cs_text :: string
  cs_evidence_item_ids :: "string list"

record tool_summary_row =
  ts_node_name :: string
  ts_origin :: string
  ts_tool_id :: string
  ts_status :: string

record evaluation_candidate =
  ec_job_id :: string
  ec_question :: string
  ec_plan :: "string list"
  ec_findings :: "string list"
  ec_draft :: string
  ec_claims :: "claim_structured list"
  ec_evidence_item_ids :: "string list"
  ec_tool_summary :: "tool_summary_row list"
  ec_repair_count :: int
  ec_evaluation_attempt :: int
  ec_evaluation_profile :: string
  ec_golden_facets_hit :: "real option"
  ec_golden_completeness_ratio :: "real option"

section \<open>The report\<close>

text \<open>\<open>sep.join(parts)\<close>, and the numbered lines of \<open>enumerate(..., start=1)\<close>.\<close>

fun py_join :: "string \<Rightarrow> string list \<Rightarrow> string" where
  "py_join sep [] = []"
| "py_join sep [x] = x"
| "py_join sep (x # y # ys) = x @ sep @ py_join sep (y # ys)"

fun numbered_lines :: "nat \<Rightarrow> string list \<Rightarrow> string list" where
  "numbered_lines k [] = []"
| "numbered_lines k (x # xs) = (nat_str k @ ''. '' @ x) # numbered_lines (Suc k) xs"

definition nl :: string where "nl = [CHR 0x0A]"

definition format_research_report ::
  "string \<Rightarrow> string list \<Rightarrow> string list \<Rightarrow> string \<Rightarrow> claim_structured list \<Rightarrow> string" where
  "format_research_report question plan findings draft claims =
     (let report = ''Question:'' @ nl @ question @ nl @ nl @
                   ''Plan:'' @ nl @ py_join nl (numbered_lines 1 plan) @ nl @ nl @
                   ''Findings:'' @ nl @ py_join nl (map (\<lambda>f. ''- '' @ f) findings) @ nl @ nl @
                   ''Draft:'' @ nl @ draft
      in if claims = [] then report
         else report @ nl @ nl @ ''Citations:'' @ nl @
              py_join nl (numbered_lines 1
                (map (\<lambda>c. cs_text c @ '' ['' @ py_join '', '' (cs_evidence_item_ids c) @ '']'') claims)))"

section \<open>Weights and thresholds\<close>

definition BASE_WEIGHTS :: "rounding \<Rightarrow> (string \<times> real) list" where
  "BASE_WEIGHTS rnd =
     [(''citation_integrity'', rnd (25/100)), (''tool_use'', rnd (10/100)), (''report_structure'', rnd (15/100)),
      (''coverage'', rnd (15/100)), (''completeness'', rnd (15/100)), (''lexical_id_groundedness'', rnd (20/100))]"

definition SEMANTIC_WEIGHT :: "rounding \<Rightarrow> real" where
  "SEMANTIC_WEIGHT rnd = rnd (10/100)"

definition PROVISIONAL_SOFT_PASS_THRESHOLD :: "rounding \<Rightarrow> real" where
  "PROVISIONAL_SOFT_PASS_THRESHOLD rnd = rnd (70/100)"

definition SEMANTIC_PASS_THRESHOLD :: "rounding \<Rightarrow> real" where
  "SEMANTIC_PASS_THRESHOLD rnd = rnd (70/100)"

definition HARD_PASS_SCORE :: real where "HARD_PASS_SCORE = 1"

text \<open>\<open>BASE_WEIGHTS[name]\<close> raises \<open>KeyError\<close> on another name; the graders pass literals.\<close>

definition weight_for :: "rounding \<Rightarrow> string \<Rightarrow> bool \<Rightarrow> real option" where
  "weight_for rnd name semantic_present =
     (if name = ''semantic_groundedness'' then Some (if semantic_present then SEMANTIC_WEIGHT rnd else 0)
      else map_of (BASE_WEIGHTS rnd) name)"

definition soft_passed :: "rounding \<Rightarrow> real \<Rightarrow> bool" where
  "soft_passed rnd score \<longleftrightarrow> PROVISIONAL_SOFT_PASS_THRESHOLD rnd \<le> score"

definition hard_passed :: "real \<Rightarrow> bool" where
  "hard_passed score \<longleftrightarrow> score = HARD_PASS_SCORE"

section \<open>Graders\<close>

text \<open>The order-preserving deduplication loop of the graders.\<close>

fun dedup_codes :: "string list \<Rightarrow> string list \<Rightarrow> string list" where
  "dedup_codes seen [] = []"
| "dedup_codes seen (c # cs) = (if c \<in> set seen then dedup_codes seen cs else c # dedup_codes (c # seen) cs)"

definition hard_dimension :: "rounding \<Rightarrow> string \<Rightarrow> bool \<Rightarrow> real \<Rightarrow> string list \<Rightarrow> dimension_result" where
  "hard_dimension rnd name provisional score codes =
     \<lparr> dr_name = name, dr_score = score, dr_passed = hard_passed score, dr_method = ''deterministic'',
       dr_is_hard = True, dr_is_provisional = provisional, dr_failure_codes = codes,
       dr_weight = the (weight_for rnd name False) \<rparr>"

definition soft_dimension :: "rounding \<Rightarrow> string \<Rightarrow> real \<Rightarrow> bool \<Rightarrow> string list \<Rightarrow> dimension_result" where
  "soft_dimension rnd name score passed codes =
     \<lparr> dr_name = name, dr_score = score, dr_passed = passed, dr_method = ''deterministic'',
       dr_is_hard = False, dr_is_provisional = True, dr_failure_codes = codes,
       dr_weight = the (weight_for rnd name False) \<rparr>"

definition citation_codes :: "string list \<Rightarrow> claim_structured \<Rightarrow> string list" where
  "citation_codes linked_ids claim =
     (if cs_evidence_item_ids claim = [] then [''CITATION_EMPTY_CLAIM'']
      else if list_ex (\<lambda>i. i \<notin> set linked_ids) (cs_evidence_item_ids claim) then [''CITATION_UNLINKED'']
      else [])"

definition grade_citation_integrity ::
  "rounding \<Rightarrow> evaluation_candidate \<Rightarrow> string list \<Rightarrow> bool \<Rightarrow> dimension_result" where
  "grade_citation_integrity rnd candidate linked_ids provenance_ok =
     (let codes0 = (if provenance_ok then [] else [''CITATION_PROVENANCE_INCOMPLETE''])
      in if ec_claims candidate = []
         then hard_dimension rnd ''citation_integrity'' False (if provenance_ok then 1 else 0) codes0
         else
           let unique_codes = dedup_codes [] (codes0 @ concat (map (citation_codes linked_ids) (ec_claims candidate)))
           in hard_dimension rnd ''citation_integrity'' False (if unique_codes = [] then 1 else 0) unique_codes)"

text \<open>\<open>str.upper\<close> on the characters below 256 whose upper case stays below 256.\<close>

definition py_upper_char :: "char \<Rightarrow> char" where
  "py_upper_char c =
     (let k = (of_char c :: nat)
      in if (97 \<le> k \<and> k \<le> 122) \<or> (224 \<le> k \<and> k \<le> 254 \<and> k \<noteq> 247) then char_of (k - 32) else c)"

fun tool_codes :: "tool_summary_row list \<Rightarrow> string list" where
  "tool_codes [] = []"
| "tool_codes (row # rows) =
     (if map py_upper_char (py_strip (ts_origin row)) \<noteq> ''WORKFLOW'' then [''TOOL_UNKNOWN_ORIGIN'']
      else if py_strip (ts_node_name row) \<noteq> ''research'' then [''TOOL_NODE_VIOLATION'']
      else tool_codes rows)"

definition grade_tool_use :: "rounding \<Rightarrow> tool_summary_row list \<Rightarrow> int \<Rightarrow> bool \<Rightarrow> dimension_result" where
  "grade_tool_use rnd tool_rows max_logical_calls allow_zero_tools =
     (if tool_rows = [] then
        (if allow_zero_tools then hard_dimension rnd ''tool_use'' False 1 []
         else hard_dimension rnd ''tool_use'' False 0 [''TOOL_REQUIRED''])
      else
        let codes = tool_codes tool_rows;
            codes = (if codes = [] \<and> max_logical_calls < int (length tool_rows)
                     then [''TOOL_BUDGET_EXCEEDED''] else codes);
            unique_codes = dedup_codes [] codes
        in hard_dimension rnd ''tool_use'' False (if unique_codes \<noteq> [] then 0 else 1) unique_codes)"

definition grade_report_structure ::
  "rounding \<Rightarrow> string \<Rightarrow> string \<Rightarrow> string list \<Rightarrow> dimension_result" where
  "grade_report_structure rnd preview_report draft plan =
     (let missing = filter (\<lambda>label. \<not> py_in label preview_report) [''Question:'', ''Plan:'', ''Findings:'', ''Draft:''];
          codes = (if py_strip draft = [] then [''STRUCTURE_EMPTY_DRAFT''] else []) @
                  (if missing \<noteq> [] then [''STRUCTURE_MISSING_SECTION''] else []) @
                  (if plan = [] then [''STRUCTURE_EMPTY_PLAN''] else [])
      in hard_dimension rnd ''report_structure'' True (if codes \<noteq> [] then 0 else 1) codes)"

definition grade_coverage :: "rounding \<Rightarrow> nat \<Rightarrow> bool \<Rightarrow> int \<Rightarrow> real option \<Rightarrow> dimension_result" where
  "grade_coverage rnd linked_count has_claims min_linked golden_facets_hit =
     (let (score, codes) =
        (case golden_facets_hit of
           Some g \<Rightarrow> (g, if g < PROVISIONAL_SOFT_PASS_THRESHOLD rnd then [''COVERAGE_FACET_MISSING''] else [])
         | None \<Rightarrow>
             if has_claims then
               (let score = (if min_linked \<le> int linked_count then 1 else 0)
                in (score, if score < 1 then [''COVERAGE_BELOW_MIN''] else []))
             else (1, []))
      in soft_dimension rnd ''coverage'' score (soft_passed rnd score) codes)"

text \<open>
  \<open>_SIGNIFICANT_TOKEN.findall(text.lower())\<close>: the maximal runs of \<open>[a-z0-9]\<close> of length four or
  more.  \<open>str.lower\<close> is modelled on the characters below 256.
\<close>

definition py_lower_char :: "char \<Rightarrow> char" where
  "py_lower_char c =
     (let k = (of_char c :: nat)
      in if (65 \<le> k \<and> k \<le> 90) \<or> (192 \<le> k \<and> k \<le> 222 \<and> k \<noteq> 215) then char_of (k + 32) else c)"

definition token_char :: "char \<Rightarrow> bool" where
  "token_char c \<longleftrightarrow> c \<in> set ''abcdefghijklmnopqrstuvwxyz0123456789''"

fun token_runs :: "string \<Rightarrow> string \<Rightarrow> string list" where
  "token_runs run [] = [rev run]"
| "token_runs run (c # cs) = (if token_char c then token_runs (c # run) cs else rev run # token_runs [] cs)"

definition significant_tokens :: "string \<Rightarrow> string list" where
  "significant_tokens txt = filter (\<lambda>t. 4 \<le> length t) (token_runs [] (map py_lower_char txt))"

definition task_satisfied :: "string list \<Rightarrow> string \<Rightarrow> bool" where
  "task_satisfied corpus_tokens task \<longleftrightarrow> list_all (\<lambda>t. t \<in> set corpus_tokens) (significant_tokens task)"

definition grade_completeness ::
  "rounding \<Rightarrow> string list \<Rightarrow> string list \<Rightarrow> string \<Rightarrow> real option \<Rightarrow> dimension_result" where
  "grade_completeness rnd plan findings draft golden_ratio =
     (case golden_ratio of
        Some g \<Rightarrow>
          soft_dimension rnd ''completeness'' g (soft_passed rnd g)
            (if g < PROVISIONAL_SOFT_PASS_THRESHOLD rnd then [''COMPLETENESS_FACET_MISSING''] else [])
      | None \<Rightarrow>
          if plan = [] then soft_dimension rnd ''completeness'' 1 True []
          else
            let corpus_tokens = significant_tokens (py_join '' '' (findings @ [draft]));
                satisfied = length (filter (task_satisfied corpus_tokens) plan);
                score = rnd (real satisfied / real (length plan))
            in soft_dimension rnd ''completeness'' score (soft_passed rnd score)
                 (if satisfied < length plan then [''COMPLETENESS_FACET_MISSING''] else []))"

definition claim_supported :: "string list \<Rightarrow> claim_structured \<Rightarrow> bool" where
  "claim_supported linked_ids claim \<longleftrightarrow>
     cs_evidence_item_ids claim \<noteq> [] \<and> list_all (\<lambda>i. i \<in> set linked_ids) (cs_evidence_item_ids claim)"

definition grade_lexical_id_groundedness ::
  "rounding \<Rightarrow> claim_structured list \<Rightarrow> string list \<Rightarrow> dimension_result" where
  "grade_lexical_id_groundedness rnd claims linked_ids =
     (if claims = [] then soft_dimension rnd ''lexical_id_groundedness'' 1 True []
      else
        let supported = length (filter (claim_supported linked_ids) claims);
            score = rnd (real supported / real (length claims))
        in soft_dimension rnd ''lexical_id_groundedness'' score (soft_passed rnd score)
             (if supported < length claims then [''GROUNDEDNESS_ID_OUTSIDE_LINKS''] else []))"

definition SEMANTIC_UNCLEAR_INCLUSIVE_LOWER :: "rounding \<Rightarrow> real" where
  "SEMANTIC_UNCLEAR_INCLUSIVE_LOWER rnd = rnd (40/100)"

definition support_label_for_score :: "rounding \<Rightarrow> real \<Rightarrow> string" where
  "support_label_for_score rnd score =
     (if score < SEMANTIC_UNCLEAR_INCLUSIVE_LOWER rnd then ''unsupported''
      else if score < SEMANTIC_PASS_THRESHOLD rnd then ''unclear'' else ''supported'')"

text \<open>\<open>FakeSemanticGroundednessGrader.grade\<close>, on the ids of the request's claims and excerpts.\<close>

definition fake_semantic_grade :: "rounding \<Rightarrow> string list list \<Rightarrow> string list \<Rightarrow> dimension_result" where
  "fake_semantic_grade rnd claim_ids excerpt_ids =
     (let score = (if list_all (\<lambda>ids. list_all (\<lambda>i. i \<in> set excerpt_ids) ids) claim_ids then 1 else rnd (1/2));
          label = support_label_for_score rnd score;
          codes = (if soft_passed rnd score then []
                   else if label = ''unsupported'' then [''SEMANTIC_UNSUPPORTED'']
                   else if label = ''unclear'' then [''SEMANTIC_UNCLEAR'']
                   else [''SEMANTIC_GROUNDEDNESS_WEAK''])
      in \<lparr> dr_name = ''semantic_groundedness'', dr_score = score, dr_passed = soft_passed rnd score,
           dr_method = ''llm'', dr_is_hard = False, dr_is_provisional = True, dr_failure_codes = codes,
           dr_weight = the (weight_for rnd ''semantic_groundedness'' True) \<rparr>)"

definition skipped_semantic_dimension :: dimension_result where
  "skipped_semantic_dimension =
     \<lparr> dr_name = ''semantic_groundedness'', dr_score = 0, dr_passed = True, dr_method = ''skipped'',
       dr_is_hard = False, dr_is_provisional = True, dr_failure_codes = [], dr_weight = 0 \<rparr>"

section \<open>Aggregation\<close>

text \<open>\<open>next((item for item in dimensions if ...), None)\<close> finds the first entry, \<open>by_name\<close> keeps the last.\<close>

definition by_name :: "dimension_result list \<Rightarrow> string \<Rightarrow> dimension_result option" where
  "by_name dimensions name = find (\<lambda>d. dr_name d = name) (rev dimensions)"

definition semantic_present :: "dimension_result list \<Rightarrow> bool" where
  "semantic_present dimensions =
     (case find (\<lambda>d. dr_name d = ''semantic_groundedness'') dimensions of
        None \<Rightarrow> False | Some d \<Rightarrow> dr_method d \<noteq> ''skipped'')"

definition applicable_total :: "rounding \<Rightarrow> (real list \<Rightarrow> real) \<Rightarrow> real" where
  "applicable_total rnd fsum = rnd (fsum (map snd (BASE_WEIGHTS rnd)) + SEMANTIC_WEIGHT rnd)"

definition applicable_weights ::
  "rounding \<Rightarrow> (real list \<Rightarrow> real) \<Rightarrow> dimension_result list \<Rightarrow> (string \<times> real) list" where
  "applicable_weights rnd fsum dimensions =
     (if semantic_present dimensions then
        let scale = rnd (1 / applicable_total rnd fsum)
        in map (\<lambda>(n, v). (n, rnd (v * scale))) (BASE_WEIGHTS rnd) @
           [(''semantic_groundedness'', rnd (SEMANTIC_WEIGHT rnd * scale))]
      else BASE_WEIGHTS rnd)"

definition stamped_passed :: "rounding \<Rightarrow> dimension_result \<Rightarrow> bool" where
  "stamped_passed rnd d =
     (if dr_name d \<in> set HARD_DIMENSIONS then dr_score d = HARD_PASS_SCORE
      else if dr_name d \<in> set PROVISIONAL_SOFT_DIMENSIONS then PROVISIONAL_SOFT_PASS_THRESHOLD rnd \<le> dr_score d
      else if dr_name d = ''semantic_groundedness'' then SEMANTIC_PASS_THRESHOLD rnd \<le> dr_score d
      else dr_passed d)"

text \<open>The loop over the dimensions: stamped copies, the weighted sum and the weight total.\<close>

fun aggregate_loop ::
  "rounding \<Rightarrow> (string \<times> real) list \<Rightarrow> dimension_result list \<Rightarrow> dimension_result list \<times> real \<times> real \<Rightarrow>
   dimension_result list \<times> real \<times> real" where
  "aggregate_loop rnd weights [] acc = acc"
| "aggregate_loop rnd weights (d # ds) (stamped, weighted_sum, weight_total) =
     (if dr_method d = ''skipped''
      then aggregate_loop rnd weights ds
             (stamped @ [d\<lparr> dr_weight := 0, dr_passed := True \<rparr>], weighted_sum, weight_total)
      else
        let weight = (case map_of weights (dr_name d) of None \<Rightarrow> dr_weight d | Some w \<Rightarrow> w)
        in aggregate_loop rnd weights ds
             (stamped @ [d\<lparr> dr_weight := weight, dr_passed := stamped_passed rnd d \<rparr>],
              rnd (weighted_sum + rnd (dr_score d * weight)), rnd (weight_total + weight)))"

definition all_named :: "dimension_result list \<Rightarrow> string list \<Rightarrow> (real \<Rightarrow> bool) \<Rightarrow> bool" where
  "all_named dimensions names ok \<longleftrightarrow>
     list_all (\<lambda>n. case by_name dimensions n of None \<Rightarrow> True | Some d \<Rightarrow> ok (dr_score d)) names"

definition dimensions_pass :: "rounding \<Rightarrow> dimension_result list \<Rightarrow> bool" where
  "dimensions_pass rnd dimensions \<longleftrightarrow>
     all_named dimensions HARD_DIMENSIONS (\<lambda>s. s = HARD_PASS_SCORE) \<and>
     all_named dimensions PROVISIONAL_SOFT_DIMENSIONS (\<lambda>s. PROVISIONAL_SOFT_PASS_THRESHOLD rnd \<le> s) \<and>
     (case by_name dimensions ''semantic_groundedness'' of
        None \<Rightarrow> True
      | Some d \<Rightarrow> dr_method d = ''skipped'' \<or> SEMANTIC_PASS_THRESHOLD rnd \<le> dr_score d)"

definition aggregate_dimensions ::
  "rounding \<Rightarrow> (real list \<Rightarrow> real) \<Rightarrow> dimension_result list \<Rightarrow> real \<times> bool \<times> dimension_result list" where
  "aggregate_dimensions rnd fsum dimensions =
     (let weights = applicable_weights rnd fsum dimensions;
          (stamped, weighted_sum, weight_total) = aggregate_loop rnd weights dimensions ([], 0, 0)
      in (if 0 < weight_total then rnd (weighted_sum / weight_total) else 0,
          dimensions_pass rnd dimensions, stamped))"

section \<open>Grading a candidate\<close>

text \<open>
  \<open>EvaluationRunner._grade\<close>: the six deterministic dimensions, then the semantic one: skipped
  without a grader, else what the grader returned.  Tracing is left out.
\<close>

definition grade :: "rounding \<Rightarrow> evaluation_candidate \<Rightarrow> string list \<Rightarrow> tool_summary_row list \<Rightarrow> bool \<Rightarrow> int \<Rightarrow> int \<Rightarrow>
   dimension_result option \<Rightarrow> dimension_result list" where
  "grade rnd candidate linked_ids tool_rows provenance_ok min_linked max_logical_calls semantic =
     (let preview = format_research_report (ec_question candidate) (ec_plan candidate) (ec_findings candidate)
                      (ec_draft candidate) (ec_claims candidate)
      in [grade_citation_integrity rnd candidate linked_ids provenance_ok,
          grade_tool_use rnd tool_rows max_logical_calls True,
          grade_report_structure rnd preview (ec_draft candidate) (ec_plan candidate),
          grade_coverage rnd (length (remdups linked_ids)) (ec_claims candidate \<noteq> []) min_linked
            (ec_golden_facets_hit candidate),
          grade_completeness rnd (ec_plan candidate) (ec_findings candidate) (ec_draft candidate)
            (ec_golden_completeness_ratio candidate),
          grade_lexical_id_groundedness rnd (ec_claims candidate) linked_ids,
          (case semantic of None \<Rightarrow> skipped_semantic_dimension | Some d \<Rightarrow> d)])"

section \<open>Lemmas\<close>

lemma py_in_prefix: "py_in sub (sub @ s)"
  by (cases sub; cases s) auto

lemma py_in_append: "py_in sub s \<Longrightarrow> py_in sub (pre @ s)"
  by (induction pre) auto

text \<open>The preview always shows the four sections, so \<open>STRUCTURE_MISSING_SECTION\<close> is never raised.\<close>

lemma report_has_sections:
  assumes "label \<in> {''Question:'', ''Plan:'', ''Findings:'', ''Draft:''}"
  shows "py_in label (format_research_report q plan fs draft claims)"
proof -
  let ?tail = "if claims = [] then [] else nl @ nl @ ''Citations:'' @ nl @
            py_join nl (numbered_lines 1
              (map (\<lambda>c. cs_text c @ '' ['' @ py_join '', '' (cs_evidence_item_ids c) @ '']'') claims))"
  let ?q = "nl @ q @ nl @ nl" and ?p = "nl @ py_join nl (numbered_lines 1 plan) @ nl @ nl"
  let ?f = "nl @ py_join nl (map (\<lambda>f. ''- '' @ f) fs) @ nl @ nl" and ?d = "nl @ draft @ ?tail"
  have "format_research_report q plan fs draft claims =
      ''Question:'' @ ?q @ ''Plan:'' @ ?p @ ''Findings:'' @ ?f @ ''Draft:'' @ ?d"
    unfolding format_research_report_def Let_def
    by (cases "claims = []") (simp_all only: append_assoc if_True if_False append_Nil2 simp_thms)
  moreover have "py_in ''Draft:'' (''Question:'' @ ?q @ ''Plan:'' @ ?p @ ''Findings:'' @ ?f @ ''Draft:'' @ ?d)"
    by (rule py_in_append, rule py_in_append, rule py_in_append, rule py_in_append, rule py_in_append, rule py_in_append,
        rule py_in_prefix)
  moreover have "py_in ''Findings:'' (''Question:'' @ ?q @ ''Plan:'' @ ?p @ ''Findings:'' @ ?f @ ''Draft:'' @ ?d)"
    by (rule py_in_append, rule py_in_append, rule py_in_append, rule py_in_append, rule py_in_prefix)
  moreover have "py_in ''Plan:'' (''Question:'' @ ?q @ ''Plan:'' @ ?p @ ''Findings:'' @ ?f @ ''Draft:'' @ ?d)"
    by (rule py_in_append, rule py_in_append, rule py_in_prefix)
  moreover have "py_in ''Question:'' (''Question:'' @ ?q @ ''Plan:'' @ ?p @ ''Findings:'' @ ?f @ ''Draft:'' @ ?d)"
    by (rule py_in_prefix)
  ultimately show ?thesis using assms by (elim insertE emptyE) (simp_all only:)
qed

lemma dedup_codes_Nil: "dedup_codes seen cs = [] \<longleftrightarrow> set cs \<subseteq> set seen"
  by (induction seen cs rule: dedup_codes.induct) auto

lemma hard_dimension_simps [simp]:
  "dr_name (hard_dimension rnd n p s cs) = n" "dr_score (hard_dimension rnd n p s cs) = s"
  "dr_method (hard_dimension rnd n p s cs) = ''deterministic''"
  by (simp_all add: hard_dimension_def)

lemma soft_dimension_simps [simp]:
  "dr_name (soft_dimension rnd n s p cs) = n" "dr_score (soft_dimension rnd n s p cs) = s"
  "dr_method (soft_dimension rnd n s p cs) = ''deterministic''"
  by (simp_all add: soft_dimension_def)

lemma grader_names [simp]:
  "dr_name (grade_citation_integrity rnd cand linked prov) = ''citation_integrity''"
  "dr_name (grade_tool_use rnd rows mx zero) = ''tool_use''"
  "dr_name (grade_report_structure rnd preview draft plan) = ''report_structure''"
  "dr_name (grade_coverage rnd n has mn golden) = ''coverage''"
  "dr_name (grade_completeness rnd plan fs draft ratio) = ''completeness''"
  "dr_name (grade_lexical_id_groundedness rnd claims linked) = ''lexical_id_groundedness''"
  "dr_name skipped_semantic_dimension = ''semantic_groundedness''"
  by (simp_all add: grade_citation_integrity_def grade_tool_use_def grade_report_structure_def grade_coverage_def
        grade_completeness_def grade_lexical_id_groundedness_def skipped_semantic_dimension_def Let_def
        split: option.split prod.split)

text \<open>What each deterministic grader accepts.\<close>

definition tool_row_ok :: "tool_summary_row \<Rightarrow> bool" where
  "tool_row_ok row \<longleftrightarrow>
     map py_upper_char (py_strip (ts_origin row)) = ''WORKFLOW'' \<and> py_strip (ts_node_name row) = ''research''"

lemma tool_codes_Nil: "tool_codes rows = [] \<longleftrightarrow> (\<forall>row \<in> set rows. tool_row_ok row)"
  by (induction rows) (auto simp: tool_row_ok_def)

lemma citation_score:
  "dr_score (grade_citation_integrity rnd cand linked prov) = HARD_PASS_SCORE \<longleftrightarrow>
     prov \<and> (\<forall>c \<in> set (ec_claims cand). claim_supported linked c)"
proof -
  have "citation_codes linked c = [] \<longleftrightarrow> claim_supported linked c" for c
    by (auto simp: citation_codes_def claim_supported_def list_ex_iff list_all_iff)
  then show ?thesis
    by (auto simp: grade_citation_integrity_def HARD_PASS_SCORE_def dedup_codes_Nil Let_def)
qed

lemma tool_use_score:
  "dr_score (grade_tool_use rnd rows mx True) = HARD_PASS_SCORE \<longleftrightarrow>
     (\<forall>row \<in> set rows. tool_row_ok row) \<and> (rows = [] \<or> int (length rows) \<le> mx)"
  by (auto simp: grade_tool_use_def HARD_PASS_SCORE_def dedup_codes_Nil tool_codes_Nil[symmetric] Let_def)

lemma structure_score:
  "dr_score (grade_report_structure rnd (format_research_report q plan fs draft claims) draft plan) = HARD_PASS_SCORE
     \<longleftrightarrow> py_strip draft \<noteq> [] \<and> plan \<noteq> []"
  by (auto simp: grade_report_structure_def HARD_PASS_SCORE_def report_has_sections Let_def)

lemma float_roundingD:
  assumes "float_rounding rnd fsum"
  shows "x \<le> y \<Longrightarrow> rnd x \<le> rnd y" "rnd (rnd x) = rnd x" "rnd 0 = 0" "rnd 1 = 1" "rnd (1/16) = 1/16"
    "list_all (\<lambda>x. 0 \<le> x) xs \<Longrightarrow> 0 \<le> fsum xs"
  using assms by (auto simp: float_rounding_def monoD)

lemma rnd_nonneg: "float_rounding rnd fsum \<Longrightarrow> 0 \<le> x \<Longrightarrow> 0 \<le> rnd x"
  using float_roundingD(1)[of rnd fsum 0 x] by (simp add: float_roundingD(3))

lemma rnd_le_one: "float_rounding rnd fsum \<Longrightarrow> x \<le> 1 \<Longrightarrow> rnd x \<le> 1"
  using float_roundingD(1)[of rnd fsum x 1] by (simp add: float_roundingD(4))

lemma coverage_score:
  assumes "float_rounding rnd fsum"
  shows "PROVISIONAL_SOFT_PASS_THRESHOLD rnd \<le> dr_score (grade_coverage rnd n has mn None) \<longleftrightarrow>
     (has \<longrightarrow> mn \<le> int n)"
proof -
  have "rnd (70/100) \<le> 1" using assms by (rule rnd_le_one) simp
  moreover have "1/16 \<le> rnd (70/100)"
    using float_roundingD(1)[OF assms, of "1/16" "70/100"] float_roundingD(5)[OF assms] by simp
  ultimately show ?thesis by (auto simp: grade_coverage_def PROVISIONAL_SOFT_PASS_THRESHOLD_def Let_def)
qed

lemma lexical_score:
  assumes "float_rounding rnd fsum" and "\<forall>c \<in> set claims. claim_supported linked c"
  shows "PROVISIONAL_SOFT_PASS_THRESHOLD rnd \<le> dr_score (grade_lexical_id_groundedness rnd claims linked)"
proof -
  have "filter (claim_supported linked) claims = claims" using assms(2) by simp
  then have "dr_score (grade_lexical_id_groundedness rnd claims linked) = 1"
    using float_roundingD(4)[OF assms(1)] by (simp add: grade_lexical_id_groundedness_def)
  then show ?thesis using rnd_le_one[OF assms(1), of "70/100"] by (simp add: PROVISIONAL_SOFT_PASS_THRESHOLD_def)
qed

lemma by_name_grade:
  assumes "\<And>d. sem = Some d \<Longrightarrow> dr_name d = ''semantic_groundedness''"
  shows
  "by_name (grade rnd cand linked rows prov mn mx sem) ''citation_integrity'' =
     Some (grade_citation_integrity rnd cand linked prov)"
  "by_name (grade rnd cand linked rows prov mn mx sem) ''tool_use'' = Some (grade_tool_use rnd rows mx True)"
  "by_name (grade rnd cand linked rows prov mn mx sem) ''report_structure'' =
     Some (grade_report_structure rnd (format_research_report (ec_question cand) (ec_plan cand) (ec_findings cand)
             (ec_draft cand) (ec_claims cand)) (ec_draft cand) (ec_plan cand))"
  "by_name (grade rnd cand linked rows prov mn mx sem) ''coverage'' =
     Some (grade_coverage rnd (length (remdups linked)) (ec_claims cand \<noteq> []) mn (ec_golden_facets_hit cand))"
  "by_name (grade rnd cand linked rows prov mn mx sem) ''completeness'' =
     Some (grade_completeness rnd (ec_plan cand) (ec_findings cand) (ec_draft cand) (ec_golden_completeness_ratio cand))"
  "by_name (grade rnd cand linked rows prov mn mx sem) ''lexical_id_groundedness'' =
     Some (grade_lexical_id_groundedness rnd (ec_claims cand) linked)"
  "by_name (grade rnd cand linked rows prov mn mx sem) ''semantic_groundedness'' =
     Some (case sem of None \<Rightarrow> skipped_semantic_dimension | Some d \<Rightarrow> d)"
  using assms by (cases sem; simp add: by_name_def grade_def Let_def)+

section \<open>The aggregate score is a score\<close>

definition float_weights :: "rounding \<Rightarrow> (string \<times> real) list \<Rightarrow> bool" where
  "float_weights rnd ws \<longleftrightarrow> (\<forall>(n, w) \<in> set ws. 0 \<le> w \<and> rnd w = w)"

lemma base_weights_float: "float_rounding rnd fsum \<Longrightarrow> float_weights rnd (BASE_WEIGHTS rnd)"
  by (auto simp: float_weights_def BASE_WEIGHTS_def float_roundingD(2) intro: rnd_nonneg)

text \<open>The total the weights are rescaled by is positive, so \<open>1.0 / total\<close> does not raise.\<close>

lemma applicable_total_pos:
  assumes r: "float_rounding rnd fsum"
  shows "0 < applicable_total rnd fsum"
proof -
  have "0 \<le> fsum (map snd (BASE_WEIGHTS rnd))"
    using base_weights_float[OF r]
    by (intro float_roundingD(6)[OF r]) (auto simp: float_weights_def list_all_iff split: prod.splits)
  moreover have "1/16 \<le> SEMANTIC_WEIGHT rnd"
    using float_roundingD(1)[OF r, of "1/16" "10/100"] float_roundingD(5)[OF r] by (simp add: SEMANTIC_WEIGHT_def)
  ultimately have "rnd (1/16) \<le> applicable_total rnd fsum"
    unfolding applicable_total_def by (intro float_roundingD(1)[OF r]) simp
  then show ?thesis using float_roundingD(5)[OF r] by simp
qed

lemma applicable_weights_float:
  assumes r: "float_rounding rnd fsum"
  shows "float_weights rnd (applicable_weights rnd fsum ds)"
proof -
  let ?scale = "rnd (1 / applicable_total rnd fsum)"
  have scale: "0 \<le> ?scale" using applicable_total_pos[OF r] by (intro rnd_nonneg[OF r]) simp
  have "0 \<le> rnd (v * ?scale) \<and> rnd (rnd (v * ?scale)) = rnd (v * ?scale)" if "0 \<le> v" for v
    using that scale float_roundingD(2)[OF r] by (simp add: rnd_nonneg[OF r])
  moreover have "0 \<le> SEMANTIC_WEIGHT rnd" unfolding SEMANTIC_WEIGHT_def by (rule rnd_nonneg[OF r]) simp
  ultimately show ?thesis
    using base_weights_float[OF r] by (auto simp: applicable_weights_def float_weights_def Let_def)
qed

lemma aggregate_loop_bounds:
  assumes r: "float_rounding rnd fsum" and w: "float_weights rnd ws"
    and "\<forall>d \<in> set ds. 0 \<le> dr_score d \<and> dr_score d \<le> 1 \<and> 0 \<le> dr_weight d \<and> rnd (dr_weight d) = dr_weight d"
    and "0 \<le> a" "a \<le> b" "aggregate_loop rnd ws ds (st, a, b) = (st', a', b')"
  shows "0 \<le> a' \<and> a' \<le> b'"
  using assms(3-6)
proof (induction ds arbitrary: st a b)
  case (Cons d ds)
  let ?w = "case map_of ws (dr_name d) of None \<Rightarrow> dr_weight d | Some w \<Rightarrow> w"
  show ?case
  proof (cases "dr_method d = ''skipped''")
    case True
    with Cons show ?thesis by simp
  next
    case False
    have w': "0 \<le> ?w" "rnd ?w = ?w"
      using w Cons.prems(1) by (auto simp: float_weights_def dest!: map_of_SomeD split: option.split)
    have score: "0 \<le> dr_score d" "dr_score d \<le> 1" using Cons.prems(1) by auto
    have "dr_score d * ?w \<le> ?w" using score w'(1) by (metis mult.commute mult.right_neutral mult_left_mono)
    then have "rnd (dr_score d * ?w) \<le> ?w" using float_roundingD(1)[OF r] w'(2) by metis
    then have "rnd (a + rnd (dr_score d * ?w)) \<le> rnd (b + ?w)"
      using Cons.prems(3) by (intro float_roundingD(1)[OF r]) simp
    moreover have "0 \<le> rnd (a + rnd (dr_score d * ?w))"
      using Cons.prems(2) score(1) w'(1) by (intro rnd_nonneg[OF r] add_nonneg_nonneg) auto
    ultimately show ?thesis using Cons.IH Cons.prems False by (auto simp: Let_def)
  qed
qed simp

text \<open>
  The aggregate that is stored is a score between 0 and 1 whatever the rounding of the float
  operations does, so the range check of the \<open>evaluation_runs\<close> table never rejects it.
\<close>

lemma aggregate_score_in_range:
  assumes "float_rounding rnd fsum"
    and "\<forall>d \<in> set ds. 0 \<le> dr_score d \<and> dr_score d \<le> 1 \<and> 0 \<le> dr_weight d \<and> rnd (dr_weight d) = dr_weight d"
  shows "0 \<le> fst (aggregate_dimensions rnd fsum ds) \<and> fst (aggregate_dimensions rnd fsum ds) \<le> 1"
proof -
  obtain st a b where l: "aggregate_loop rnd (applicable_weights rnd fsum ds) ds ([], 0, 0) = (st, a, b)"
    by (metis prod_cases3)
  have ab: "0 \<le> a \<and> a \<le> b"
    using aggregate_loop_bounds[OF assms(1) applicable_weights_float[OF assms(1)] assms(2) _ _ l] by simp
  then have "0 < b \<Longrightarrow> 0 \<le> rnd (a / b) \<and> rnd (a / b) \<le> 1"
    by (intro conjI rnd_nonneg[OF assms(1)] rnd_le_one[OF assms(1)]) auto
  then show ?thesis by (simp add: aggregate_dimensions_def l)
qed

text \<open>A concrete rounding: to the nearest multiple of \<open>2 ^ -10\<close>, ties to even.\<close>

definition grid_rnd :: rounding where
  "grid_rnd x = of_int (round_half_even (x * 1024)) / 1024"

lemma grid_rounding: "float_rounding grid_rnd sum_list"
proof -
  have id: "grid_rnd (of_int k / 1024) = of_int k / 1024" for k by (simp add: grid_rnd_def)
  have "mono grid_rnd"
    by (rule monoI) (auto simp: grid_rnd_def divide_right_mono intro!: round_half_even_mono)
  moreover have "grid_rnd (grid_rnd x) = grid_rnd x" for x
    using id[of "round_half_even (x * 1024)"] by (simp add: grid_rnd_def)
  moreover have "0 \<le> sum_list xs" if "list_all (\<lambda>x. 0 \<le> x) xs" for xs :: "real list"
    using that by (auto simp: list_all_iff intro: sum_list_nonneg)
  ultimately show ?thesis using id[of 0] id[of 1024] id[of 64] by (simp add: float_rounding_def)
qed

lemma aggregate_score_in_range_witness:
  "0 \<le> fst (aggregate_dimensions grid_rnd sum_list
       [hard_dimension grid_rnd ''tool_use'' False 1 [], skipped_semantic_dimension]) \<and>
   fst (aggregate_dimensions grid_rnd sum_list
       [hard_dimension grid_rnd ''tool_use'' False 1 [], skipped_semantic_dimension]) \<le> 1"
proof (rule aggregate_score_in_range[OF grid_rounding])
  have w: "dr_weight (hard_dimension grid_rnd ''tool_use'' False 1 []) = grid_rnd (10/100)"
    by (simp add: hard_dimension_def weight_for_def BASE_WEIGHTS_def)
  show "\<forall>d \<in> set [hard_dimension grid_rnd ''tool_use'' False 1 [], skipped_semantic_dimension].
     0 \<le> dr_score d \<and> dr_score d \<le> 1 \<and> 0 \<le> dr_weight d \<and> grid_rnd (dr_weight d) = dr_weight d"
    using rnd_nonneg[OF grid_rounding, of "10/100"] float_roundingD(2,3)[OF grid_rounding] w
    by (simp add: skipped_semantic_dimension_def)
qed

section \<open>What passing means\<close>

text \<open>
  C20. Under the default profile (semantic grading skipped, no golden ratios) a candidate passes
  exactly when its provenance is intact, every claim cites at least one evidence item and only items
  linked to the job, every tool call came from the research node of the workflow within the call
  budget, draft and plan are not empty, a candidate with claims has the minimum of linked evidence,
  and enough plan tasks are covered by the findings and the draft.
\<close>

theorem candidate_passes_exactly:
  assumes r: "float_rounding rnd fsum"
    and golden: "ec_golden_facets_hit cand = None" "ec_golden_completeness_ratio cand = None"
  shows "fst (snd (aggregate_dimensions rnd fsum (grade rnd cand linked rows prov mn mx None))) \<longleftrightarrow>
     prov \<and> (\<forall>c \<in> set (ec_claims cand). claim_supported linked c) \<and>
     (\<forall>row \<in> set rows. tool_row_ok row) \<and> (rows = [] \<or> int (length rows) \<le> mx) \<and>
     py_strip (ec_draft cand) \<noteq> [] \<and> ec_plan cand \<noteq> [] \<and>
     (ec_claims cand \<noteq> [] \<longrightarrow> mn \<le> int (card (set linked))) \<and>
     rnd (70/100) \<le> rnd (real (length (filter (task_satisfied (significant_tokens
         (py_join '' '' (ec_findings cand @ [ec_draft cand])))) (ec_plan cand))) / real (length (ec_plan cand)))"
    (is "?pass = ?spec")
proof -
  have none: "\<And>d. None = Some d \<Longrightarrow> dr_name d = ''semantic_groundedness''" by simp
  have "?pass = dimensions_pass rnd (grade rnd cand linked rows prov mn mx None)"
    by (simp add: aggregate_dimensions_def Let_def split: prod.split)
  also have "\<dots> = ?spec"
    using coverage_score[OF r] lexical_score[OF r, of "ec_claims cand" linked]
    by (auto simp: dimensions_pass_def all_named_def HARD_DIMENSIONS_def PROVISIONAL_SOFT_DIMENSIONS_def
        by_name_grade[OF none] citation_score tool_use_score structure_score golden length_remdups_card_conv
        grade_completeness_def PROVISIONAL_SOFT_PASS_THRESHOLD_def skipped_semantic_dimension_def Let_def)
  finally show ?thesis .
qed

definition w_candidate :: evaluation_candidate where
  "w_candidate =
     \<lparr> ec_job_id = ''job-1'', ec_question = ''q'', ec_plan = [''scope''], ec_findings = [], ec_draft = ''the scope'',
       ec_claims = [\<lparr> cs_text = ''c'', cs_evidence_item_ids = [''e1''] \<rparr>], ec_evidence_item_ids = [''e1''],
       ec_tool_summary = [], ec_repair_count = 0, ec_evaluation_attempt = 1,
       ec_evaluation_profile = ''evaluation.candidate.v1'', ec_golden_facets_hit = None,
       ec_golden_completeness_ratio = None \<rparr>"

theorem candidate_passes_exactly_witness:
  "fst (snd (aggregate_dimensions grid_rnd sum_list (grade grid_rnd w_candidate [''e1''] [] True 1 6 None))) \<and>
   \<not> fst (snd (aggregate_dimensions grid_rnd sum_list (grade grid_rnd w_candidate [''e2''] [] True 1 6 None)))"
proof -
  have golden: "ec_golden_facets_hit w_candidate = None" "ec_golden_completeness_ratio w_candidate = None"
    by (simp_all add: w_candidate_def)
  have tasks: "filter (task_satisfied (significant_tokens
      (py_join '' '' (ec_findings w_candidate @ [ec_draft w_candidate])))) (ec_plan w_candidate) = [''scope'']"
    by code_simp
  have strip: "py_strip (ec_draft w_candidate) \<noteq> []" by code_simp
  have le: "grid_rnd (70/100) \<le> grid_rnd 1" by (rule float_roundingD(1)[OF grid_rounding]) simp
  show ?thesis
    unfolding candidate_passes_exactly[OF grid_rounding golden] tasks
    using strip le by (simp add: w_candidate_def claim_supported_def)
qed

end
