(* ===== verification/Job_Claims.thy ===== *)
theory Job_Claims
  imports Workflow_Store
begin

text \<open>
  Claiming research jobs: the exact effect of \<open>claim_next\<close> on the row it selects, the claim
  protocol as an instance of \<open>lease_fence\<close>, and what holds over every history of the job
  store (the step relation \<open>store_step\<close> has one rule per repository operation).
\<close>

section \<open>One claim\<close>

text \<open>What \<open>claim_next\<close> does to the row it selected, up to the flush.\<close>

definition claim_row ::
  "job_row \<Rightarrow> timestamp \<Rightarrow> timestamp \<Rightarrow> string \<Rightarrow> string \<Rightarrow> store_error + (job_row \<times> continuation_mode \<times> bool)" where
  "claim_row m now lease tok profile =
     (if r_status m = ''PENDING''
      then claim_pending_row (fst (bind_evaluation_profile m profile)) now lease tok
      else claim_running_row (fst (bind_evaluation_profile m profile)) now lease tok)"

definition claimed_row :: "timestamp \<Rightarrow> timestamp \<Rightarrow> string \<Rightarrow> string \<Rightarrow> job_row \<Rightarrow> job_row" where
  "claimed_row now lease tok profile m =
     (let m = m\<lparr> r_evaluation_profile := Some profile, r_claim_token := Some tok, r_lease_expires_at := Some lease,
                 r_initial_traceparent_consumed_at :=
                   (if r_traceparent m \<noteq> None \<and> r_initial_traceparent_consumed_at m = None then Some now
                    else r_initial_traceparent_consumed_at m) \<rparr>
      in if r_status m = ''PENDING''
         then m\<lparr> r_status := ''RUNNING'', r_updated_at := now,
                 r_started_at := (case r_started_at m of None \<Rightarrow> Some now | Some s \<Rightarrow> Some s),
                 r_claimed_continuation_mode := r_continuation_mode m, r_continuation_mode := ''NONE'',
                 r_next_attempt_at := None \<rparr>
         else m)"

definition claim_mode :: "job_row \<Rightarrow> string" where
  "claim_mode m = (if r_status m = ''PENDING'' then r_continuation_mode m else r_claimed_continuation_mode m)"

lemma bind_profile_eligible:
  "claim_eligible now p m \<Longrightarrow>
   bind_evaluation_profile m p = (m\<lparr> r_evaluation_profile := Some p \<rparr>, Some p)"
  by (cases m) (auto simp: claim_eligible_def bind_evaluation_profile_def split: option.splits)

lemma claim_eligible_status:
  "claim_eligible now p m \<Longrightarrow> r_status m = ''PENDING'' \<or> r_status m = ''RUNNING''"
  by (auto simp: claim_eligible_def)

lemma apply_domain_of [simp]:
  "row_ok m \<Longrightarrow> apply_domain_to_orm (domain_of m) m = m"
  using domain_of_status[of m] by (cases m) (simp add: apply_domain_to_orm_def)

lemma row_ok_modes:
  assumes "row_ok m"
  shows "\<exists>k. mode_of (r_continuation_mode m) = Some k" "\<exists>k. mode_of (r_claimed_continuation_mode m) = Some k"
  using assms by (auto simp: row_ok_def row_checks_def ck_continuation_modes_def)

lemma claim_row_pending:
  assumes "row_ok m" "claim_eligible now p m" "r_status m = ''PENDING''" "r_updated_at m \<le> now"
  shows "\<exists>k. mode_of (claim_mode m) = Some k \<and>
    claim_row m now lease tok p = Inr (claimed_row now lease tok p m, k,
      r_traceparent m \<noteq> None \<and> r_initial_traceparent_consumed_at m = None)"
proof -
  obtain k where k: "mode_of (r_continuation_mode m) = Some k" using row_ok_modes(1)[OF assms(1)] by blast
  have st: "rj_status (domain_of m) = PENDING" using assms(1,3) by (simp add: domain_status_iff)
  have to: "to_domain m = Inr (domain_of m)" using row_ok_to_domain[OF assms(1)] .
  have "claim_row m now lease tok p = Inr (claimed_row now lease tok p m, k,
      r_traceparent m \<noteq> None \<and> r_initial_traceparent_consumed_at m = None)"
    using assms k st to mode_of_Some[of "r_continuation_mode m" k]
    by (cases "r_started_at m")
       (auto simp: claim_row_def claim_pending_row_def bind_profile_eligible[OF assms(2)] Let_def
          start_def resume_from_pending_def require_status_def ensure_not_before_def apply_moves
          maybe_consume_initial_traceparent_def claimed_row_def)
  with k show ?thesis using assms(3) by (auto simp: claim_mode_def)
qed

lemma claim_row_running:
  assumes "row_ok m" "claim_eligible now p m" "r_status m = ''RUNNING''"
  shows "\<exists>k. mode_of (claim_mode m) = Some k \<and>
    claim_row m now lease tok p = Inr (claimed_row now lease tok p m, k,
      r_traceparent m \<noteq> None \<and> r_initial_traceparent_consumed_at m = None)"
proof -
  obtain k where k: "mode_of (r_claimed_continuation_mode m) = Some k" using row_ok_modes(2)[OF assms(1)] by blast
  have to: "to_domain m = Inr (domain_of m)" using row_ok_to_domain[OF assms(1)] .
  have "claim_row m now lease tok p = Inr (claimed_row now lease tok p m, k,
      r_traceparent m \<noteq> None \<and> r_initial_traceparent_consumed_at m = None)"
    using assms k to mode_of_Some[of "r_claimed_continuation_mode m" k]
    by (auto simp: claim_row_def claim_running_row_def bind_profile_eligible[OF assms(2)] Let_def
          maybe_consume_initial_traceparent_def claimed_row_def intro!: job_row.equality)
  with k show ?thesis using assms(3) by (auto simp: claim_mode_def)
qed

text \<open>What a claim needs from its worker for the row to pass the constraints.\<close>

definition worker_ok :: "string \<Rightarrow> string \<Rightarrow> bool" where
  "worker_ok tok profile \<longleftrightarrow>
     length tok = 64 \<and> sql_nonblank tok \<and> profile \<in> set ALLOWED_EVALUATION_PROFILES"

lemma claimed_row_checks:
  assumes "row_ok m" "claim_eligible now p m" "worker_ok tok p"
    "r_status m = ''PENDING'' \<Longrightarrow> r_updated_at m \<le> now"
  shows "row_checks (claimed_row now lease tok p m)"
proof -
  have side: "side_checks m" by (rule row_ok_side[OF assms(1)])
  have cr: "r_created_at m \<le> r_updated_at m"
    using assms(1) by (simp add: row_ok_def row_checks_def ck_updated_after_created_def)
  consider (p) "r_status m = ''PENDING''" "ck_pending_fields m"
    | (r) "r_status m = ''RUNNING''" "ck_running_fields m"
    using claim_eligible_status[OF assms(2)] status_fields_cases(1,2)[OF assms(1)] by blast
  then show ?thesis
  proof cases
    case p
    then show ?thesis using side cr assms(3,4)
      by (auto simp: ck_defs claimed_row_def Let_def worker_ok_def ck_texts_def ck_idempotency_pair_def
          ck_counters_def ck_traceparent_def split: option.splits)
  next
    case r
    then show ?thesis using side cr assms(3)
      by (auto simp: ck_defs claimed_row_def Let_def worker_ok_def ck_texts_def ck_idempotency_pair_def
          ck_counters_def ck_traceparent_def split: option.splits)
  qed
qed

lemma claimed_row_keeps [simp]:
  "r_id (claimed_row now lease tok p m) = r_id m"
  "r_question (claimed_row now lease tok p m) = r_question m"
  "r_created_at (claimed_row now lease tok p m) = r_created_at m"
  "r_idempotency_key (claimed_row now lease tok p m) = r_idempotency_key m"
  "r_request_fingerprint (claimed_row now lease tok p m) = r_request_fingerprint m"
  "r_traceparent (claimed_row now lease tok p m) = r_traceparent m"
  "r_active_workflow_execution_id (claimed_row now lease tok p m) = r_active_workflow_execution_id m"
  "r_repair_count (claimed_row now lease tok p m) = r_repair_count m"
  "r_job_retry_count (claimed_row now lease tok p m) = r_job_retry_count m"
  "r_evaluation_attempt_count (claimed_row now lease tok p m) = r_evaluation_attempt_count m"
  "r_evaluation_profile (claimed_row now lease tok p m) = Some p"
  by (simp_all add: claimed_row_def Let_def)

lemma fk_claimed: "fk_active_execution xs (claimed_row now lease tok p m) = fk_active_execution xs m"
  by (rule fk_cong) simp_all

lemma claimed_row_wf:
  assumes "row_ok m" "claim_eligible now p m" "r_status m = ''PENDING'' \<Longrightarrow> r_updated_at m \<le> now"
  shows "job_wf (domain_of (claimed_row now lease tok p m))"
proof (cases "r_status m = ''PENDING''")
  case True
  then have st: "rj_status (domain_of m) = PENDING" using assms(1) by (simp add: domain_status_iff)
  have upd: "r_updated_at m \<le> now" using assms(3) True by simp
  define c where "c = (if r_started_at m = None then Start (Some (Aware now 0)) else ResumeFromPending (Some (Aware now 0)))"
  have "job_apply now c (domain_of m) = Inr (domain_of (claimed_row now lease tok p m))"
    using True st upd
    by (cases "r_started_at m")
       (auto simp: c_def start_def resume_from_pending_def require_status_def ensure_not_before_def
          domain_of_def claimed_row_def Let_def status_of_def)
  then show ?thesis using job_apply_wf assms(1) by (auto simp: row_ok_def)
next
  case False
  then have "domain_of (claimed_row now lease tok p m) = domain_of m"
    by (simp add: claimed_row_def Let_def)
  then show ?thesis using assms(1) by (simp add: row_ok_def)
qed

lemma claimed_row_ok:
  assumes "row_ok m" "claim_eligible now p m" "worker_ok tok p" "r_status m = ''PENDING'' \<Longrightarrow> r_updated_at m \<le> now"
  shows "row_ok (claimed_row now lease tok p m)"
  using claimed_row_checks[OF assms] claimed_row_wf[OF assms(1,2,4)] by (simp add: row_ok_def)

section \<open>\<open>claim_next\<close>\<close>

abbreviation (input) next_eligible :: "store \<Rightarrow> string list \<Rightarrow> timestamp \<Rightarrow> string \<Rightarrow> job_row option" where
  "next_eligible st locked now p \<equiv>
     select_first (\<lambda>r. claim_eligible now p r \<and> r_id r \<notin> set locked) r_created_at (st_jobs st)"

lemma claim_next_unfold:
  assumes "next_eligible st locked now (worker_profile_of ep) = Some m"
  shows "claim_next st locked now lease tok ep =
    bindE (claim_row m now lease tok (worker_profile_of ep)) (finish_claim st tok (worker_profile_of ep))"
proof -
  have e: "claim_eligible now (worker_profile_of ep) m" using select_first_Some[OF assms] by simp
  show ?thesis using claim_eligible_status[OF e]
    by (auto simp: claim_next_def Let_def assms bind_profile_eligible[OF e] claim_row_def)
qed

lemma claim_next_exact_helper:
  assumes "store_ok st" "next_eligible st locked now (worker_profile_of ep) = Some m"
    "worker_ok tok (worker_profile_of ep)" "r_updated_at m \<le> now"
  shows "\<exists>k. mode_of (claim_mode m) = Some k \<and>
    claim_next st locked now lease tok ep =
      (let m' = claimed_row now lease tok (worker_profile_of ep) m
       in Inr (st\<lparr> st_jobs := tput r_id m' (st_jobs st) \<rparr>,
            Some \<lparr> cl_job = domain_of m', cl_claim_token = tok, cl_continuation_mode = k,
                   cl_active_workflow_execution_id = r_active_workflow_execution_id m,
                   cl_traceparent = r_traceparent m,
                   cl_use_traceparent_as_parent =
                     (r_traceparent m \<noteq> None \<and> r_initial_traceparent_consumed_at m = None),
                   cl_evaluation_profile = worker_profile_of ep \<rparr>))"
proof -
  let ?p = "worker_profile_of ep"
  let ?m' = "claimed_row now lease tok ?p m"
  have sel: "claim_eligible now ?p m" "m \<in> set (st_jobs st)" using select_first_Some[OF assms(2)] by auto
  have ok: "row_ok m" "fk_active_execution (st_execs st) m"
    using assms(1) sel(2) by (auto simp: store_ok_def list_all_iff)
  have ok': "row_ok ?m'" using claimed_row_ok[OF ok(1) sel(1) assms(3)] assms(4) by simp
  obtain k where k: "mode_of (claim_mode m) = Some k" "claim_row m now lease tok ?p = Inr (?m', k,
      r_traceparent m \<noteq> None \<and> r_initial_traceparent_consumed_at m = None)"
    using claim_row_pending[OF ok(1) sel(1)] claim_row_running[OF ok(1) sel(1)] claim_eligible_status[OF sel(1)]
      assms(4) by metis
  then show ?thesis
    using k ok' ok(2) row_ok_to_domain[OF ok']
    by (simp add: claim_next_unfold[OF assms(2)] finish_claim_def flush_job_def fk_claimed Let_def row_ok_def)
qed

lemma claim_row_late:
  assumes "row_ok m" "claim_eligible now p m" "claim_row m now lease tok p = Inr x" "r_status m = ''PENDING''"
  shows "r_updated_at m \<le> now"
proof (rule ccontr)
  assume late: "\<not> r_updated_at m \<le> now"
  have "rj_status (domain_of m) = PENDING" using assms(1,4) by (simp add: domain_status_iff)
  then show False using assms late row_ok_to_domain[OF assms(1)] row_ok_modes(1)[OF assms(1)]
    by (auto simp: claim_row_def claim_pending_row_def bind_profile_eligible[OF assms(2)] Let_def
        start_def resume_from_pending_def require_status_def ensure_not_before_def bindE_eq_Inr split: if_splits)
qed

text \<open>Whatever the worker passes, a claim that succeeds has written \<open>claimed_row\<close>.\<close>

lemma claim_next_cases:
  assumes "store_ok st" "claim_next st locked now lease tok ep = Inr (st', res)"
  obtains (idle) "res = None" "st' = st" "next_eligible st locked now (worker_profile_of ep) = None"
  | (got) m k where "next_eligible st locked now (worker_profile_of ep) = Some m" "row_ok m"
      "claim_eligible now (worker_profile_of ep) m" "m \<in> set (st_jobs st)"
      "r_status m = ''PENDING'' \<Longrightarrow> r_updated_at m \<le> now"
      "claim_row m now lease tok (worker_profile_of ep) =
         Inr (claimed_row now lease tok (worker_profile_of ep) m, k,
           r_traceparent m \<noteq> None \<and> r_initial_traceparent_consumed_at m = None)"
      "flush_job st (claimed_row now lease tok (worker_profile_of ep) m) = Inr st'"
      "res = Some \<lparr> cl_job = domain_of (claimed_row now lease tok (worker_profile_of ep) m), cl_claim_token = tok,
         cl_continuation_mode = k, cl_active_workflow_execution_id = r_active_workflow_execution_id m,
         cl_traceparent = r_traceparent m,
         cl_use_traceparent_as_parent = (r_traceparent m \<noteq> None \<and> r_initial_traceparent_consumed_at m = None),
         cl_evaluation_profile = worker_profile_of ep \<rparr>"
proof (cases "next_eligible st locked now (worker_profile_of ep)")
  case None
  then show thesis using assms(2) idle by (simp add: claim_next_def Let_def)
next
  case (Some m)
  let ?p = "worker_profile_of ep"
  let ?m' = "claimed_row now lease tok ?p m"
  have sel: "claim_eligible now ?p m" "m \<in> set (st_jobs st)" using select_first_Some[OF Some] by auto
  have ok: "row_ok m" using assms(1) sel(2) by (auto simp: store_ok_def list_all_iff)
  obtain x where x: "claim_row m now lease tok ?p = Inr x"
    using assms(2) by (auto simp: claim_next_unfold[OF Some] bindE_eq_Inr)
  have late: "r_status m = ''PENDING'' \<Longrightarrow> r_updated_at m \<le> now"
    using claim_row_late[OF ok sel(1) x] by blast
  obtain k where k: "claim_row m now lease tok ?p = Inr (?m', k,
      r_traceparent m \<noteq> None \<and> r_initial_traceparent_consumed_at m = None)"
    using claim_row_pending[OF ok sel(1)] claim_row_running[OF ok sel(1)] claim_eligible_status[OF sel(1)]
      late by metis
  have f: "flush_job st ?m' = Inr st'"
    using assms(2) by (auto simp: claim_next_unfold[OF Some] k finish_claim_def bindE_eq_Inr)
  have "row_ok ?m'"
    using claimed_row_wf[OF ok sel(1) late] f by (simp add: row_ok_def bind_simps)
  then have "res = Some \<lparr> cl_job = domain_of ?m', cl_claim_token = tok, cl_continuation_mode = k,
      cl_active_workflow_execution_id = r_active_workflow_execution_id m, cl_traceparent = r_traceparent m,
      cl_use_traceparent_as_parent = (r_traceparent m \<noteq> None \<and> r_initial_traceparent_consumed_at m = None),
      cl_evaluation_profile = ?p \<rparr>"
    using assms(2) f row_ok_to_domain[of ?m']
    by (simp add: claim_next_unfold[OF Some] k finish_claim_def)
  then show thesis using got[OF Some ok sel late k f] by blast
qed

section \<open>The claim protocol\<close>

definition job_granted :: "string \<Rightarrow> job_row \<Rightarrow> string \<Rightarrow> timestamp \<Rightarrow> timestamp \<Rightarrow> job_row \<Rightarrow> bool" where
  "job_granted p m tok now lease m' \<longleftrightarrow>
     row_ok m \<and> claim_eligible now p m \<and> (\<exists>k b. claim_row m now lease tok p = Inr (m', k, b))"

lemma job_granted_row:
  assumes "job_granted p m tok now lease m'" shows "m' = claimed_row now lease tok p m"
proof -
  from assms obtain k b where g: "row_ok m" "claim_eligible now p m" "claim_row m now lease tok p = Inr (m', k, b)"
    by (auto simp: job_granted_def)
  from claim_row_late[OF g] claim_row_pending[OF g(1,2)] claim_row_running[OF g(1,2)] claim_eligible_status[OF g(2)]
  show ?thesis using g(3) by (metis Inr_inject prod.inject)
qed

lemma claimed_row_owned:
  assumes "claim_eligible now p m"
  shows "r_claim_token (claimed_row now lease tok p m) = Some tok"
    "at' < lease \<Longrightarrow> owns_running_claim (Some (claimed_row now lease tok p m)) tok at'"
  using claim_eligible_status[OF assms] by (auto simp: claimed_row_def Let_def fence_simps)

interpretation job_claims: lease_fence r_claim_token "\<lambda>r. owns_running_claim (Some r)"
  "job_granted p" "\<lambda>r now. claim_eligible now p r" for p
proof unfold_locales
  fix r t at' assume "owns_running_claim (Some r) t at'"
  then show "r_claim_token r = Some t" by (simp add: fence_simps)
next
  fix r t and at' now :: timestamp assume "owns_running_claim (Some r) t at'" "now \<le> at'"
  then show "owns_running_claim (Some r) t now" by (auto simp: fence_simps)
next
  fix r t now assume "claim_eligible now p r"
  then show "\<not> owns_running_claim (Some r) t now" by (auto simp: fence_simps claim_eligible_def)
next
  fix r t now e r' assume g: "job_granted p r t now e r'"
  then show c: "claim_eligible now p r" by (simp add: job_granted_def)
  show "r_claim_token r' = Some t" using claimed_row_owned(1)[OF c] job_granted_row[OF g] by simp
  show "owns_running_claim (Some r') t now" if "now < e"
    using claimed_row_owned(2)[OF c that] job_granted_row[OF g] by simp
qed

text \<open>A caller whose token does not own the row is told so and changes nothing.\<close>

lemma fenced_refused:
  assumes "\<not> owns_running_claim (tget r_id jid (st_jobs st)) tok at'"
  shows "finalize_completion st jid tok res at' = Inr (st, False)"
    "finalize_failure st jid tok reason at' = Inr (st, False)"
    "set_active_workflow_execution st jid tok e at' = Inr (st, False)"
    "schedule_retry st jid tok n at' ab = Inr (st, False)"
    "transition_awaiting_review st jid tok at' = Inr (st, False)"
    "increment_repair_count st jid tok at' = Inr (st, False)"
    "increment_evaluation_attempt_count st jid tok at' = Inr (st, False)"
  using assms
  by (simp_all add: finalize_completion_def finalize_failure_def set_active_workflow_execution_def
      schedule_retry_def transition_awaiting_review_def increment_repair_count_def
      increment_evaluation_attempt_count_def)

lemma terminal_execution_refused:
  assumes "store_ok st" "\<not> owns_running_claim (tget r_id jid (st_jobs st)) tok at'"
  shows "terminal_execution_for_claim st e jid tok at' s = Inr (st, False)"
proof -
  have "\<not> claim_binds st jid tok e at'" using assms by (auto simp: claim_binds_iff)
  then show ?thesis by (simp add: terminal_execution_for_claim_def update_execs_none)
qed

section \<open>Histories of the job store\<close>

text \<open>
  One committed repository call.  \<open>save\<close> is left out: nothing in the system calls it.
\<close>

inductive store_step :: "store \<Rightarrow> store \<Rightarrow> bool" where
  add: "create_job now i q at' = Inr job \<Longrightarrow> add_job st job key fp tp = Inr st' \<Longrightarrow> store_step st st'"
| claim: "claim_next st locked now lease tok ep = Inr (st', c) \<Longrightarrow> store_step st st'"
| completed: "finalize_completion st jid tok res at' = Inr (st', b) \<Longrightarrow> store_step st st'"
| failed: "finalize_failure st jid tok reason at' = Inr (st', b) \<Longrightarrow> store_step st st'"
| bound: "set_active_workflow_execution st jid tok e at' = Inr (st', b) \<Longrightarrow> store_step st st'"
| retried: "schedule_retry st jid tok n at' ab = Inr (st', b) \<Longrightarrow> store_step st st'"
| awaiting: "transition_awaiting_review st jid tok at' = Inr (st', b) \<Longrightarrow> store_step st st'"
| repaired: "increment_repair_count st jid tok at' = Inr (st', b) \<Longrightarrow> store_step st st'"
| evaluated: "increment_evaluation_attempt_count st jid tok at' = Inr (st', b) \<Longrightarrow> store_step st st'"
| approved: "approve_review_to_pending st jid e n at' = Inr (st', b) \<Longrightarrow> store_step st st'"
| rejected: "fail_job_from_review st jid reason at' = Inr (st', b) \<Longrightarrow> store_step st st'"
| execution: "create_execution st u jid at' th = Inr (st', e) \<Longrightarrow> store_step st st'"
| abandoned: "abandon_unfinished_for_job st jid at' = Inr (st', n') \<Longrightarrow> store_step st st'"
| ended: "end_execution s st e at' = Inr (st', b) \<Longrightarrow> store_step st st'"
| terminal: "terminal_execution_for_claim st e jid tok at' s = Inr (st', b) \<Longrightarrow> store_step st st'"

inductive store_reachable :: "store \<Rightarrow> bool" where
  empty: "store_reachable \<lparr> st_jobs = [], st_execs = [] \<rparr>"
| step: "store_reachable st \<Longrightarrow> store_step st st' \<Longrightarrow> store_reachable st'"

lemma to_orm_domain [simp]: "domain_of (to_orm job) = job"
  by (cases job) (simp add: domain_of_def to_orm_def)

lemma to_orm_fields [simp]:
  "r_id (to_orm job) = rj_id job" "r_active_workflow_execution_id (to_orm job) = None"
  "r_started_at (to_orm job) = rj_started_at job" "r_initial_traceparent_consumed_at (to_orm job) = None"
  by (simp_all add: to_orm_def)

lemma add_job_store_ok:
  assumes "store_ok st" "job_wf job" "add_job st job key fp tp = Inr st'"
  shows "store_ok st'"
  using assms
  by (auto simp: add_job_def Let_def store_ok_def row_ok_def tget_None_iff
      split: if_splits)

lemma claim_next_store_ok:
  assumes "store_ok st" "claim_next st locked now lease tok ep = Inr (st', c)"
  shows "store_ok st'"
  using assms
proof (cases rule: claim_next_cases)
  case (got m k)
  from claimed_row_wf[OF got(2,3,5)] show ?thesis by (rule flush_ok[OF got(7) assms(1)])
qed (use assms in simp)

lemma store_step_ok: "store_step st st' \<Longrightarrow> store_ok st \<Longrightarrow> store_ok st'"
  by (induction rule: store_step.induct)
     (auto dest: create_job_wf(1) add_job_store_ok claim_next_store_ok fenced_store_ok plain_store_ok
        schedule_retry_store_ok exec_ops_store_ok create_execution_store_ok)

lemma store_reachable_ok: "store_reachable st \<Longrightarrow> store_ok st"
proof (induction rule: store_reachable.induct)
  case empty
  show ?case by (simp add: store_ok_def)
qed (rule store_step_ok)

end
