(* ===== verification/Job_History.thy ===== *)
theory Job_History
  imports Job_Claims
begin

text \<open>
  What no history of the job store can undo: the relation \<open>row_evolves\<close> between a job's row now
  and later, that every repository call respects it, and the properties of claims and
  terminal jobs that follow.
\<close>

section \<open>How a row may change\<close>

definition terminal_row :: "job_row \<Rightarrow> bool" where
  "terminal_row m \<longleftrightarrow> r_status m = ''COMPLETED'' \<or> r_status m = ''FAILED''"

definition keeps :: "'a option \<Rightarrow> 'a option \<Rightarrow> bool" where
  "keeps x y \<longleftrightarrow> (case x of None \<Rightarrow> True | Some v \<Rightarrow> y = Some v)"

definition row_evolves :: "job_row \<Rightarrow> job_row \<Rightarrow> bool" where
  "row_evolves m r \<longleftrightarrow>
     r_id r = r_id m \<and> r_question r = r_question m \<and> r_created_at r = r_created_at m \<and>
     r_idempotency_key r = r_idempotency_key m \<and> r_request_fingerprint r = r_request_fingerprint m \<and>
     r_traceparent r = r_traceparent m \<and> r_updated_at m \<le> r_updated_at r \<and>
     keeps (r_started_at m) (r_started_at r) \<and> keeps (r_evaluation_profile m) (r_evaluation_profile r) \<and>
     keeps (r_initial_traceparent_consumed_at m) (r_initial_traceparent_consumed_at r) \<and>
     r_repair_count m \<le> r_repair_count r \<and> r_job_retry_count m \<le> r_job_retry_count r \<and>
     r_evaluation_attempt_count m \<le> r_evaluation_attempt_count r \<and>
     (terminal_row m \<longrightarrow> r = m)"

lemma keeps_simps [simp]: "keeps x x" "keeps None y" "keeps (Some v) y \<longleftrightarrow> y = Some v"
  by (auto simp: keeps_def split: option.splits)

lemma keeps_trans: "keeps x y \<Longrightarrow> keeps y z \<Longrightarrow> keeps x z"
  by (cases x) auto

lemma row_evolves_refl [simp]: "row_evolves m m"
  by (simp add: row_evolves_def)

lemma row_evolves_trans: "row_evolves m r \<Longrightarrow> row_evolves r s \<Longrightarrow> row_evolves m s"
  by (auto simp: row_evolves_def intro: keeps_trans)

definition store_evolves :: "store \<Rightarrow> store \<Rightarrow> bool" where
  "store_evolves st st' \<longleftrightarrow>
     (\<forall>jid m. tget r_id jid (st_jobs st) = Some m \<longrightarrow>
        (\<exists>r. tget r_id jid (st_jobs st') = Some r \<and> row_evolves m r))"

lemma store_evolves_same: "st_jobs st' = st_jobs st \<Longrightarrow> store_evolves st st'"
  by (simp add: store_evolves_def)

lemma store_evolves_trans: "store_evolves a b \<Longrightarrow> store_evolves b c \<Longrightarrow> store_evolves a c"
  unfolding store_evolves_def using row_evolves_trans by meson

lemma store_evolves_flush:
  assumes "flush_job st r = Inr st'" "tget r_id (r_id r) (st_jobs st) = Some m" "row_evolves m r"
  shows "store_evolves st st'"
  using assms by (auto simp: store_evolves_def bind_simps tget_tput)

text \<open>A moved entity written back onto its row, whatever claim columns are written with it.\<close>

lemma moved_evolves:
  assumes "row_ok m" "job_apply now c (domain_of m) = Inr job"
  shows "row_evolves m (apply_domain_to_orm job m)" "\<not> terminal_row m"
proof -
  have "lifecycle_edge (rj_status (domain_of m)) (rj_status job)" using job_apply_edge[OF assms(2)] .
  then show nt: "\<not> terminal_row m"
    using domain_status_iff[OF assms(1), of COMPLETED] domain_status_iff[OF assms(1), of FAILED]
    by (auto simp: terminal_row_def lifecycle_edge_def)
  have "keeps (r_started_at m) (rj_started_at job)"
    using job_apply_started[OF assms(2)] by (cases "r_started_at m") auto
  then show "row_evolves m (apply_domain_to_orm job m)"
    using nt job_apply_frame[OF assms(2)] by (simp add: row_evolves_def apply_domain_to_orm_def)
qed

lemma move_and_flush_evolves:
  assumes "store_ok st" "tget r_id jid (st_jobs st) = Some m"
    "bindE (to_domain m) (\<lambda>job. bindE (map_error DomainFailure (job_apply now c job)) (\<lambda>job.
       bindE (flush_job st (w (apply_domain_to_orm job m))) (\<lambda>st'. Inr (st', True)))) = Inr (st2, b)"
    "\<And>r. \<not> terminal_row m \<Longrightarrow> row_evolves m r \<Longrightarrow> row_evolves m (w r)"
  shows "store_evolves st st2"
proof -
  note ok = store_okD[OF assms(1,2)]
  from assms(3) row_ok_to_domain[OF ok(1)] obtain job where
    j: "job_apply now c (domain_of m) = Inr job" and f: "flush_job st (w (apply_domain_to_orm job m)) = Inr st2"
    by (auto simp: bindE_eq_Inr map_error_eq_Inr)
  from moved_evolves[OF ok(1) j] assms(4) have e: "row_evolves m (w (apply_domain_to_orm job m))" by blast
  then have "r_id (w (apply_domain_to_orm job m)) = jid" using ok(3) by (simp add: row_evolves_def)
  with store_evolves_flush[OF f _ e] assms(2) show ?thesis by simp
qed

lemma fenced_evolves:
  assumes "store_ok st"
  shows "finalize_completion st jid tok res at' = Inr (st', b) \<Longrightarrow> store_evolves st st'"
    and "finalize_failure st jid tok reason at' = Inr (st', b) \<Longrightarrow> store_evolves st st'"
    and "transition_awaiting_review st jid tok at' = Inr (st', b) \<Longrightarrow> store_evolves st st'"
    and "approve_review_to_pending st jid e n at' = Inr (st', b) \<Longrightarrow> store_evolves st st'"
    and "fail_job_from_review st jid reason at' = Inr (st', b) \<Longrightarrow> store_evolves st st'"
proof -
  note move = move_and_flush_evolves[OF assms, of jid _ at']
  note same = store_evolves_same[OF refl]
  show "finalize_completion st jid tok res at' = Inr (st', b) \<Longrightarrow> store_evolves st st'"
    by (auto simp: finalize_completion_def Let_def same split: if_splits option.splits
        elim!: move[where c = "Complete (PyStr res) (Some (Aware at' 0))"
          and w = clear_claim_and_continuation, simplified]
        simp: clear_claim_and_continuation_def row_evolves_def)
  show "finalize_failure st jid tok reason at' = Inr (st', b) \<Longrightarrow> store_evolves st st'"
    by (auto simp: finalize_failure_def Let_def same split: if_splits option.splits
        elim!: move[where c = "Fail (PyStr reason) (Some (Aware at' 0))"
          and w = clear_claim_and_continuation, simplified]
        simp: clear_claim_and_continuation_def row_evolves_def)
  show "transition_awaiting_review st jid tok at' = Inr (st', b) \<Longrightarrow> store_evolves st st'"
    by (auto simp: transition_awaiting_review_def Let_def same split: if_splits option.splits
        elim!: move[where c = "AwaitReview (Some (Aware at' 0))"
          and w = "\<lambda>r. r\<lparr> r_claim_token := None, r_lease_expires_at := None,
                     r_claimed_continuation_mode := ''NONE'' \<rparr>", simplified] simp: row_evolves_def)
  show "approve_review_to_pending st jid e n at' = Inr (st', b) \<Longrightarrow> store_evolves st st'"
    by (auto simp: approve_review_to_pending_def same split: if_splits option.splits
        elim!: move[where c = "ApproveToPending (Some (Aware at' 0))"
          and w = "\<lambda>r. r\<lparr> r_continuation_mode := ''REVIEW_COMPLETE'', r_next_attempt_at := Some n,
                     r_active_workflow_execution_id := Some e \<rparr>", simplified] simp: row_evolves_def)
  show "fail_job_from_review st jid reason at' = Inr (st', b) \<Longrightarrow> store_evolves st st'"
    by (auto simp: fail_job_from_review_def same split: if_splits option.splits
        elim!: move[where c = "FailFromReview (PyStr reason) (Some (Aware at' 0))"
          and w = clear_claim_and_continuation, simplified]
        simp: clear_claim_and_continuation_def row_evolves_def)
qed

lemma schedule_retry_evolves:
  assumes "store_ok st" "schedule_retry st jid tok n at' ab = Inr (st', b)"
  shows "store_evolves st st'"
  using assms(2,1)
proof (cases rule: schedule_retry_cases)
  case refused
  then show ?thesis by (simp add: store_evolves_same)
next
  case (moved m st1 job)
  note ok = store_okD[OF assms(1) moved(2)]
  note ev = moved_evolves[OF ok(1), of at' "ReturnToPending (Some (Aware at' 0))" job]
  let ?r = "(apply_domain_to_orm job m)\<lparr> r_job_retry_count := r_job_retry_count m + 1,
         r_claim_token := None, r_lease_expires_at := None, r_continuation_mode := ''JOB_RETRY'',
         r_claimed_continuation_mode := ''NONE'', r_next_attempt_at := Some n,
         r_active_workflow_execution_id := None \<rparr>"
  have jobs: "st_jobs st1 = st_jobs st" using abandon_step_ok(2)[OF assms(1) moved(4)] .
  have e: "row_evolves m ?r" using ev moved(5) by (simp add: row_evolves_def)
  then have "r_id ?r = jid" using ok(3) by (simp add: row_evolves_def)
  with store_evolves_flush[OF moved(6) _ e] moved(2) jobs have "store_evolves st1 st'" by simp
  then show ?thesis using store_evolves_same[OF jobs] store_evolves_trans by blast
qed

lemma owned_flush_evolves:
  assumes "store_ok st" "tget r_id jid (st_jobs st) = Some m" "owns_running_claim (Some m) tok at'"
    "flush_job st r = Inr st'" "\<not> terminal_row m \<Longrightarrow> row_evolves m r"
  shows "store_evolves st st'"
proof -
  have e: "row_evolves m r" using assms(3,5) by (simp add: fence_simps terminal_row_def)
  then have "r_id r = jid" using store_okD(3)[OF assms(1,2)] by (simp add: row_evolves_def)
  with store_evolves_flush[OF assms(4) _ e] assms(2) show ?thesis by simp
qed

lemma plain_evolves:
  assumes "store_ok st"
  shows "set_active_workflow_execution st jid tok e at' = Inr (st', b) \<Longrightarrow> store_evolves st st'"
    and "increment_repair_count st jid tok at' = Inr (st', b) \<Longrightarrow> store_evolves st st'"
    and "increment_evaluation_attempt_count st jid tok at' = Inr (st', b) \<Longrightarrow> store_evolves st st'"
proof -
  note rules = Let_def bindE_eq_Inr store_evolves_same
  note flush = owned_flush_evolves[OF assms, of jid]
  show "set_active_workflow_execution st jid tok e at' = Inr (st', b) \<Longrightarrow> store_evolves st st'"
    by (auto simp: set_active_workflow_execution_def rules split: if_splits option.splits
        elim!: flush) (simp add: row_evolves_def)
  show "increment_repair_count st jid tok at' = Inr (st', b) \<Longrightarrow> store_evolves st st'"
    by (auto simp: increment_repair_count_def rules split: if_splits option.splits
        elim!: flush) (simp add: row_evolves_def)
  show "increment_evaluation_attempt_count st jid tok at' = Inr (st', b) \<Longrightarrow> store_evolves st st'"
    by (auto simp: increment_evaluation_attempt_count_def rules split: if_splits option.splits
        elim!: flush) (simp add: row_evolves_def)
qed

lemma exec_ops_evolve:
  shows "abandon_unfinished_for_job st jid at' = Inr (st', n) \<Longrightarrow> store_evolves st st'"
    and "end_execution s st e at' = Inr (st', b) \<Longrightarrow> store_evolves st st'"
    and "terminal_execution_for_claim st e jid tok at' s = Inr (st', b) \<Longrightarrow> store_evolves st st'"
    and "create_execution st u jid at' th = Inr (st', e') \<Longrightarrow> store_evolves st st'"
  by (auto simp: abandon_unfinished_for_job_def end_execution_def terminal_execution_for_claim_def
      create_execution_def Let_def bindE_eq_Inr split: if_splits intro!: store_evolves_same)

lemma claimed_row_evolves:
  assumes "claim_eligible now p m" "r_status m = ''PENDING'' \<Longrightarrow> r_updated_at m \<le> now"
  shows "row_evolves m (claimed_row now lease tok p m)"
proof -
  have "\<not> terminal_row m" using claim_eligible_status[OF assms(1)] by (auto simp: terminal_row_def)
  moreover have "keeps (r_evaluation_profile m) (Some p)"
    using assms(1) by (auto simp: claim_eligible_def split: option.splits)
  ultimately show ?thesis using assms(2)
    by (auto simp: row_evolves_def claimed_row_def Let_def keeps_def split: option.splits)
qed

lemma claim_next_evolves:
  assumes "store_ok st" "claim_next st locked now lease tok ep = Inr (st', c)"
  shows "store_evolves st st'"
  using assms
proof (cases rule: claim_next_cases)
  case idle
  then show ?thesis by (simp add: store_evolves_same)
next
  case (got m k)
  have "tget r_id (r_id m) (st_jobs st) = Some m"
    using assms(1) got(4) by (simp add: store_ok_def tget_mem)
  with store_evolves_flush[OF got(7)] claimed_row_evolves[OF got(3,5)] show ?thesis by simp
qed

lemma add_job_evolves:
  assumes "add_job st job key fp tp = Inr st'" shows "store_evolves st st'"
proof -
  obtain m where "st_jobs st' = st_jobs st @ [m]"
    using assms by (auto simp: add_job_def Let_def split: if_splits)
  moreover have "tget r_id jid (xs @ ys) = Some r" if "tget r_id jid xs = Some r" for jid r and xs ys :: "job_row list"
    using that by (induction xs) (auto split: if_splits)
  ultimately show ?thesis by (auto simp: store_evolves_def)
qed

lemma store_step_evolves: "store_step st st' \<Longrightarrow> store_ok st \<Longrightarrow> store_evolves st st'"
  by (induction rule: store_step.induct)
     (auto dest: add_job_evolves claim_next_evolves fenced_evolves plain_evolves
        schedule_retry_evolves exec_ops_evolve)

lemma store_steps_evolve:
  assumes "store_step\<^sup>*\<^sup>* st st'" "store_ok st" shows "store_evolves st st' \<and> store_ok st'"
  using assms
  by (induction rule: rtranclp_induct)
     (auto intro: store_evolves_same store_evolves_trans store_step_evolves store_step_ok)

section \<open>Concrete rows for the witnesses\<close>

definition w_token :: string where "w_token = replicate 64 (CHR ''t'')"

definition w_row :: job_row where
  "w_row = (to_orm witness_job)\<lparr> r_idempotency_key := Some ''k'',
     r_request_fingerprint := Some (replicate 64 (CHR ''a'')),
     r_traceparent := Some (''00-'' @ replicate 32 (CHR ''a'') @ ''-'' @ replicate 16 (CHR ''b'') @ ''-01'') \<rparr>"

definition w_store :: store where "w_store = \<lparr> st_jobs = [w_row], st_execs = [] \<rparr>"

definition w_exec :: exec_row where
  "w_exec = \<lparr> x_id = ''e1'', x_research_job_id = ''job-1'', x_thread_id = ''e1'', x_status = ''RUNNING'',
              x_started_at = 25, x_finished_at = None \<rparr>"

definition w_running :: store where
  "w_running = \<lparr> st_jobs = [(claimed_row 20 100 w_token EVALUATION_PROFILE_CANDIDATE w_row)
                              \<lparr> r_active_workflow_execution_id := Some ''e1'' \<rparr>],
                 st_execs = [w_exec] \<rparr>"

definition w_done :: store where
  "w_done = \<lparr> st_jobs = [completed_row ''answer'' 50 (claimed_row 20 100 w_token EVALUATION_PROFILE_CANDIDATE w_row)],
              st_execs = [] \<rparr>"

definition w_review :: store where
  "w_review = \<lparr> st_jobs = [awaiting_row 50 ((claimed_row 20 100 w_token EVALUATION_PROFILE_CANDIDATE w_row)
                              \<lparr> r_active_workflow_execution_id := Some ''e1'' \<rparr>)],
                st_execs = [w_exec] \<rparr>"

lemma w_stores_ok: "store_ok w_store" "store_ok w_running" "store_ok w_done" "store_ok w_review"
  by code_simp+

lemma w_worker: "worker_ok w_token (worker_profile_of None)"
  by code_simp

lemma w_store_reachable: "store_reachable w_store"
proof -
  have "add_job \<lparr> st_jobs = [], st_execs = [] \<rparr> witness_job ''k'' (replicate 64 (CHR ''a''))
          (r_traceparent w_row) = Inr w_store"
    by code_simp
  then show ?thesis using store_reachable.empty witness_job_created store_step.add store_reachable.step by metis
qed

lemma w_claim: "\<exists>c. claim_next w_store [] 20 100 w_token None =
    Inr (w_store\<lparr> st_jobs := [claimed_row 20 100 w_token EVALUATION_PROFILE_CANDIDATE w_row] \<rparr>, Some c)"
proof -
  have n: "next_eligible w_store [] 20 (worker_profile_of None) = Some w_row" and u: "r_updated_at w_row \<le> 20"
    and p: "worker_profile_of None = EVALUATION_PROFILE_CANDIDATE"
    by code_simp+
  from claim_next_exact_helper[OF w_stores_ok(1) n w_worker u, where lease = 100] show ?thesis
    by (auto simp: Let_def w_store_def p)
qed

section \<open>Properties\<close>



text \<open>
  C17. \<open>claim_next\<close> with a 64-character token and an allowed profile, on a clock not behind the
  rows: when no unlocked row is due it changes nothing and returns \<open>None\<close>; otherwise it
  succeeds, on a due unlocked row with the oldest \<open>created_at\<close>, writes exactly the claim (token,
  lease, profile, the consumed continuation mode, \<open>RUNNING\<close>) and returns that row's entity.
\<close>

theorem claim_next_exact:
  assumes "store_ok st" "worker_ok tok (worker_profile_of ep)" "\<forall>r \<in> set (st_jobs st). r_updated_at r \<le> now"
  shows "if \<forall>r \<in> set (st_jobs st). claim_eligible now (worker_profile_of ep) r \<longrightarrow> r_id r \<in> set locked
         then claim_next st locked now lease tok ep = Inr (st, None)
         else \<exists>m c. m \<in> set (st_jobs st) \<and> claim_eligible now (worker_profile_of ep) m \<and> r_id m \<notin> set locked \<and>
           (\<forall>r \<in> set (st_jobs st). claim_eligible now (worker_profile_of ep) r \<and> r_id r \<notin> set locked \<longrightarrow>
              r_created_at m \<le> r_created_at r) \<and>
           claim_next st locked now lease tok ep =
             Inr (st\<lparr> st_jobs := tput r_id (claimed_row now lease tok (worker_profile_of ep) m) (st_jobs st) \<rparr>, Some c) \<and>
           cl_job c = domain_of (claimed_row now lease tok (worker_profile_of ep) m) \<and> cl_claim_token c = tok \<and>
           mode_of (claim_mode m) = Some (cl_continuation_mode c)"
proof (cases "next_eligible st locked now (worker_profile_of ep)")
  case None
  then have none: "\<forall>r \<in> set (st_jobs st). claim_eligible now (worker_profile_of ep) r \<longrightarrow> r_id r \<in> set locked"
    unfolding select_first_None by blast
  show ?thesis using None none by (simp add: claim_next_def Let_def)
next
  case (Some m)
  have m: "m \<in> set (st_jobs st)" "claim_eligible now (worker_profile_of ep) m" "r_id m \<notin> set locked"
    "\<forall>r \<in> set (st_jobs st). claim_eligible now (worker_profile_of ep) r \<and> r_id r \<notin> set locked \<longrightarrow>
       r_created_at m \<le> r_created_at r"
    using select_first_Some[OF Some] by auto
  from claim_next_exact_helper[OF assms(1) Some assms(2), of lease] assms(3) m
  show ?thesis unfolding Let_def by (auto intro!: exI[of _ m])
qed

theorem claim_next_exact_witness:
  "\<exists>c. claim_next w_store [] 20 100 w_token None =
     Inr (\<lparr> st_jobs = [claimed_row 20 100 w_token EVALUATION_PROFILE_CANDIDATE w_row], st_execs = [] \<rparr>, Some c)"
proof -
  have u: "\<forall>r \<in> set (st_jobs w_store). r_updated_at r \<le> 20"
    and e: "claim_eligible 20 EVALUATION_PROFILE_CANDIDATE w_row"
    and p: "worker_profile_of None = EVALUATION_PROFILE_CANDIDATE"
    by code_simp+
  from claim_next_exact [OF w_stores_ok(1) w_worker u, of "[]" 100] show ?thesis
    using e by (auto simp: w_store_def p)
qed

text \<open>
  C5. A claim never takes a job from a live owner and always fences everybody else: no token
  owned the claimed row at the claim's time or later, and afterwards every claim-fenced
  operation called with another token, at any time, reports \<open>False\<close> and changes nothing.
\<close>

theorem claim_fences_other_workers:
  assumes "store_ok st" "claim_next st locked now lease tok ep = Inr (st', Some c)"
    and "tok' \<noteq> tok" "now \<le> t"
  shows "\<not> owns_running_claim (tget r_id (rj_id (cl_job c)) (st_jobs st)) tok' t
    \<and> finalize_completion st' (rj_id (cl_job c)) tok' res at' = Inr (st', False)
    \<and> finalize_failure st' (rj_id (cl_job c)) tok' reason at' = Inr (st', False)
    \<and> set_active_workflow_execution st' (rj_id (cl_job c)) tok' e at' = Inr (st', False)
    \<and> schedule_retry st' (rj_id (cl_job c)) tok' n at' ab = Inr (st', False)
    \<and> transition_awaiting_review st' (rj_id (cl_job c)) tok' at' = Inr (st', False)
    \<and> increment_repair_count st' (rj_id (cl_job c)) tok' at' = Inr (st', False)
    \<and> increment_evaluation_attempt_count st' (rj_id (cl_job c)) tok' at' = Inr (st', False)
    \<and> terminal_execution_for_claim st' e (rj_id (cl_job c)) tok' at' s = Inr (st', False)"
  using assms(1,2)
proof (cases rule: claim_next_cases)
  case (got m k)
  let ?m' = "claimed_row now lease tok (worker_profile_of ep) m"
  have g: "job_granted (worker_profile_of ep) m tok now lease ?m'" using got(2,3,6) by (auto simp: job_granted_def)
  have jid: "rj_id (cl_job c) = r_id m" using got(8) by simp
  have before: "tget r_id (r_id m) (st_jobs st) = Some m"
    using assms(1) got(4) by (simp add: store_ok_def tget_mem)
  then have after: "tget r_id (r_id m) (st_jobs st') = Some ?m'"
    using got(7) by (auto simp: bind_simps tget_tput)
  have "\<not> owns_running_claim (Some m) tok' t"
    using job_claims.claimable_fences_owner[OF got(3) assms(4)] .
  moreover have "\<not> owns_running_claim (Some ?m') tok' at'"
    using job_claims.granted_fences_others[OF g] assms(3) by blast
  ultimately show ?thesis
    unfolding jid using before after claim_next_store_ok[OF assms(1,2)]
    by (simp add: fenced_refused terminal_execution_refused)
qed simp

theorem claim_fences_other_workers_witness:
  "\<exists>st' c. claim_next w_store [] 20 100 w_token None = Inr (st', Some c) \<and>
     finalize_completion st' (rj_id (cl_job c)) ''stale'' ''late answer'' 30 = Inr (st', False)"
proof -
  obtain st' c where c: "claim_next w_store [] 20 100 w_token None = Inr (st', Some c)"
    using w_claim by blast
  have "''stale'' \<noteq> w_token" by code_simp
  from claim_fences_other_workers [OF w_stores_ok(1) c this order_refl] c show ?thesis by blast
qed

text \<open>
  Completing a job under its claim, on a store that satisfies the invariant: the owner with
  a non-blank result and a clock not behind the row gets \<open>True\<close> and the row is exactly the
  completed one (stripped result, claim and continuation cleared); a blank result or an
  earlier timestamp raises; anybody else gets \<open>False\<close>.  No constraint of the table trips.
\<close>

lemma finalize_completion_exact:
  assumes "store_ok st"
  shows "finalize_completion st jid tok res at' =
    (case tget r_id jid (st_jobs st) of
       None \<Rightarrow> Inr (st, False)
     | Some m \<Rightarrow>
         if \<not> owns_running_claim (Some m) tok at' then Inr (st, False)
         else if py_strip res = [] then Inl (DomainFailure (InvalidResearchJobError ''result must be a non-empty string.''))
         else if at' < r_updated_at m then Inl bad_timestamp
         else Inr (st\<lparr> st_jobs := tput r_id (completed_row res at' m) (st_jobs st) \<rparr>, True))"
  using assms finalize_completion_owned[OF assms, of jid] fenced_refused(1)[of jid st tok at' res]
  by (auto split: option.splits)

lemma finalize_completion_exact_witness:
  "\<exists>st'. finalize_completion w_running ''job-1'' w_token '' answer '' 50 = Inr (st', True) \<and>
     map r_status (st_jobs st') = [''COMPLETED''] \<and> map r_result (st_jobs st') = [Some ''answer'']"
proof -
  obtain m where m: "st_jobs w_running = [m]" and own: "owns_running_claim (Some m) w_token 50"
    and i: "r_id m = ''job-1''" and u: "r_updated_at m = 20"
    unfolding w_running_def by (simp add: claimed_row_def Let_def w_row_def witness_job_def fence_simps to_orm_def)
  have "py_strip '' answer '' = ''answer''" by code_simp
  with finalize_completion_exact [OF w_stores_ok(2), of "''job-1''" w_token "'' answer ''" 50] show ?thesis
    using m own i u by (simp add: row_defs)
qed

text \<open>
  A terminal job is final: no sequence of repository calls changes any column of its row.
\<close>

lemma terminal_jobs_are_final:
  assumes "store_ok st" "store_step\<^sup>*\<^sup>* st st'" "tget r_id jid (st_jobs st) = Some m" "terminal_row m"
  shows "tget r_id jid (st_jobs st') = Some m"
  using store_steps_evolve[OF assms(2,1)] assms(3,4) by (fastforce simp: store_evolves_def row_evolves_def)

lemma w_after_done: "store_step\<^sup>*\<^sup>* w_done w_done"
proof -
  have "finalize_failure w_done ''job-1'' w_token ''late'' 60 = Inr (w_done, False)" by code_simp
  then show ?thesis by (intro r_into_rtranclp store_step.failed)
qed

lemma terminal_jobs_are_final_witness:
  "\<exists>m. tget r_id ''job-1'' (st_jobs w_done) = Some m \<and> r_result m = Some ''answer''"
proof -
  obtain m where m: "tget r_id ''job-1'' (st_jobs w_done) = Some m" "terminal_row m" "r_result m = Some ''answer''"
    unfolding w_done_def
    by (simp add: terminal_row_def row_defs claimed_row_def Let_def w_row_def witness_job_def to_orm_def)
       (simp add: py_strip_def py_isspace_def)
  from terminal_jobs_are_final [OF w_stores_ok(3) w_after_done m(1,2)] m(3) show ?thesis by blast
qed

text \<open>
  What a job keeps over every history: its identity, question, idempotency key and
  fingerprint; the start time, the evaluation profile and the traceparent-consumption mark once
  they are set; \<open>updated_at\<close> and the three attempt counters never decrease, and the counters
  stay within their caps (one repair, two retries, four evaluations).
\<close>

lemma job_identity_and_bindings_persist:
  assumes "store_ok st" "store_step\<^sup>*\<^sup>* st st'" "tget r_id jid (st_jobs st) = Some m"
  shows "\<exists>r. tget r_id jid (st_jobs st') = Some r \<and> row_evolves m r \<and>
    r_repair_count r \<in> {0..1} \<and> r_job_retry_count r \<in> {0..2} \<and> r_evaluation_attempt_count r \<in> {0..4}"
proof -
  from store_steps_evolve[OF assms(2,1)] assms(3) obtain r where
    r: "tget r_id jid (st_jobs st') = Some r" "row_evolves m r" and ok: "store_ok st'"
    by (auto simp: store_evolves_def)
  from store_okD(1)[OF ok r(1)] have "ck_counters r" by (simp add: row_ok_def row_checks_def)
  with r show ?thesis by (auto simp: ck_counters_def)
qed

lemma job_identity_and_bindings_persist_witness:
  "\<exists>r. row_evolves w_row r \<and> r_status r = ''RUNNING'' \<and> r_job_retry_count r \<in> {0..2}"
proof -
  obtain c where "claim_next w_store [] 20 100 w_token None =
    Inr (w_store\<lparr> st_jobs := [claimed_row 20 100 w_token EVALUATION_PROFILE_CANDIDATE w_row] \<rparr>, Some c)"
    using w_claim by blast
  then have "store_step\<^sup>*\<^sup>* w_store
      (w_store\<lparr> st_jobs := [claimed_row 20 100 w_token EVALUATION_PROFILE_CANDIDATE w_row] \<rparr>)"
    using store_step.claim by blast
  moreover have "tget r_id ''job-1'' (st_jobs w_store) = Some w_row"
    by (simp add: w_store_def w_row_def witness_job_def)
  ultimately show ?thesis
    using job_identity_and_bindings_persist [OF w_stores_ok(1)]
    by (fastforce simp: claimed_row_def Let_def w_row_def witness_job_def to_orm_def w_store_def split: if_splits)
qed

text \<open>
  C31. The initial traceparent is handed out at most once, ever: after a claim that was told to
  use it as its parent, no later claim of the same job is, whatever happened in between.
\<close>

theorem traceparent_consumed_at_most_once:
  assumes "store_ok st" "claim_next st locked now lease tok ep = Inr (st1, Some c)"
    "cl_use_traceparent_as_parent c" "store_step\<^sup>*\<^sup>* st1 st2"
    "claim_next st2 locked' now' lease' tok' ep' = Inr (st3, Some c')" "rj_id (cl_job c') = rj_id (cl_job c)"
  shows "\<not> cl_use_traceparent_as_parent c'"
proof -
  from assms(1,2) obtain r where
    r: "tget r_id (rj_id (cl_job c)) (st_jobs st1) = Some r" "r_initial_traceparent_consumed_at r \<noteq> None"
  proof (cases rule: claim_next_cases)
    case (got m k)
    have "tget r_id (r_id m) (st_jobs st) = Some m"
      using assms(1) got(4) by (simp add: store_ok_def tget_mem)
    then have "tget r_id (r_id m) (st_jobs st1) = Some (claimed_row now lease tok (worker_profile_of ep) m)"
      using got(7) by (auto simp: bind_simps tget_tput)
    moreover have "r_initial_traceparent_consumed_at (claimed_row now lease tok (worker_profile_of ep) m) \<noteq> None"
      using assms(3) got(8) by (auto simp: claimed_row_def Let_def)
    ultimately show thesis using that got(8) by simp
  qed simp
  note later = store_steps_evolve[OF assms(4) claim_next_store_ok[OF assms(1,2)]]
  then obtain r' where r': "tget r_id (rj_id (cl_job c)) (st_jobs st2) = Some r'"
    "r_initial_traceparent_consumed_at r' \<noteq> None"
    using r by (fastforce simp: store_evolves_def row_evolves_def)
  from later have ok2: "store_ok st2" by simp
  from ok2 assms(5) show ?thesis
  proof (cases rule: claim_next_cases)
    case (got m k)
    have "tget r_id (r_id m) (st_jobs st2) = Some m"
      using ok2 got(4) by (simp add: store_ok_def tget_mem)
    with r' assms(6) got(8) show ?thesis by simp
  qed simp
qed

lemma w_two_claims:
  "case claim_next w_store [] 20 100 w_token None of
     Inr (st1, Some c) \<Rightarrow> cl_use_traceparent_as_parent c \<and>
       (case claim_next st1 [] 200 300 w_token None of
          Inr (st3, Some c') \<Rightarrow> rj_id (cl_job c') = rj_id (cl_job c)
        | _ \<Rightarrow> False)
   | _ \<Rightarrow> False"
  by code_simp

theorem traceparent_consumed_at_most_once_witness:
  "\<exists>st1 c st3 c'. claim_next w_store [] 20 100 w_token None = Inr (st1, Some c) \<and>
     cl_use_traceparent_as_parent c \<and> claim_next st1 [] 200 300 w_token None = Inr (st3, Some c') \<and>
     \<not> cl_use_traceparent_as_parent c'"
proof -
  obtain st1 c st3 c' where w: "claim_next w_store [] 20 100 w_token None = Inr (st1, Some c)"
    "cl_use_traceparent_as_parent c" "claim_next st1 [] 200 300 w_token None = Inr (st3, Some c')"
    "rj_id (cl_job c') = rj_id (cl_job c)"
    using w_two_claims unfolding case_Inr_Some by blast
  from traceparent_consumed_at_most_once [OF w_stores_ok(1) w(1,2) rtranclp.rtrancl_refl w(3,4)] w
  show ?thesis by blast
qed

text \<open>
  \<open>schedule_retry\<close> with an execution to abandon is all or nothing: when it returns \<open>True\<close>
  the job is exactly the delayed \<open>PENDING\<close> row with one more retry and the execution, which was
  running and bound to the job, is \<open>ABANDONED\<close> at the same instant; when it returns \<open>False\<close>
  nothing changed.
\<close>

lemma schedule_retry_all_or_nothing:
  assumes "store_ok st" "schedule_retry st jid tok n at' (Some e) = Inr (st', b)"
  shows "if b
    then \<exists>m x. tget r_id jid (st_jobs st) = Some m \<and> owns_running_claim (Some m) tok at' \<and>
      r_active_workflow_execution_id m = Some e \<and>
      tget r_id jid (st_jobs st') = Some (retry_row n at' m) \<and> r_job_retry_count (retry_row n at' m) \<le> 2 \<and>
      tget x_id e (st_execs st) = Some x \<and> x_status x = ''RUNNING'' \<and>
      tget x_id e (st_execs st') = Some (x\<lparr> x_status := ''ABANDONED'', x_finished_at := Some at' \<rparr>)
    else st' = st"
  using assms(2,1)
proof (cases rule: schedule_retry_cases)
  case (moved m st1 job)
  note ok = store_okD[OF assms(1) moved(2)]
  let ?P = "\<lambda>x. x_id x = e \<and> x_research_job_id x = jid \<and> x_status x = ''RUNNING''"
  let ?f = "\<lambda>x. x\<lparr> x_status := ''ABANDONED'', x_finished_at := Some at' \<rparr>"
  have bound: "r_active_workflow_execution_id m = Some e" and st1: "st1 = st\<lparr> st_execs := tupdate ?P ?f (st_execs st) \<rparr>"
    and hit: "0 < tcount ?P (st_execs st)"
    using moved(4) by (auto simp: abandon_step_def abandon_for_retry_def update_execs_def Let_def bindE_eq_Inr split: if_splits)
  from hit obtain x where x: "x \<in> set (st_execs st)" "?P x" by (auto simp: tcount_pos)
  then have gx: "tget x_id e (st_execs st) = Some x"
    using assms(1) tget_mem[of x_id "st_execs st" x] by (simp add: store_ok_def)
  let ?r = "(apply_domain_to_orm job m)\<lparr> r_job_retry_count := r_job_retry_count m + 1,
         r_claim_token := None, r_lease_expires_at := None, r_continuation_mode := ''JOB_RETRY'',
         r_claimed_continuation_mode := ''NONE'', r_next_attempt_at := Some n,
         r_active_workflow_execution_id := None \<rparr>"
  have run: "r_status m = ''RUNNING''" using moved(3) by (simp add: fence_simps)
  have "job = (domain_of m)\<lparr> rj_status := PENDING, rj_finished_at := None, rj_result := None,
                 rj_failure_reason := None, rj_updated_at := at' \<rparr>"
    using moved(5) by (auto simp: return_to_pending_def bind_simps)
  then have r: "?r = retry_row n at' m"
    using running_domain(2-4)[OF ok(1) run]
    by (intro job_row.equality) (simp_all add: retry_row_def apply_domain_to_orm_def)
  have "ck_counters (retry_row n at' m)" using moved(6) r by (simp add: bind_simps row_checks_def)
  moreover have "r_id (retry_row n at' m) = jid" using ok(3) by (simp add: retry_row_def)
  ultimately have "tget r_id jid (st_jobs st') = Some (retry_row n at' m)" "r_job_retry_count (retry_row n at' m) \<le> 2"
    using moved(2,6) unfolding r st1 by (auto simp: bind_simps tget_tput ck_counters_def)
  moreover have "st_execs st' = tupdate ?P ?f (st_execs st)" using moved(6) st1 by (auto simp: bind_simps)
  then have "tget x_id e (st_execs st') = Some (?f x)"
    using gx x(2) by (simp add: tget_tupdate)
  ultimately show ?thesis using moved(1-3) bound gx x by auto
qed simp

text \<open>
  C32. An operator's approval resumes the reviewed execution: after \<open>approve_review_to_pending\<close>
  for the execution the job awaits review on, the claim that picks the job up runs in
  \<open>REVIEW_COMPLETE\<close> mode on that very execution.
\<close>

theorem approved_job_resumes_reviewed_execution:
  assumes "store_ok st" "tget r_id jid (st_jobs st) = Some m" "r_status m = ''AWAITING_REVIEW''"
    "approve_review_to_pending st jid e next_at at' = Inr (st1, True)"
    "claim_next st1 locked now lease tok ep = Inr (st2, Some c)" "rj_id (cl_job c) = jid"
  shows "cl_continuation_mode c = REVIEW_COMPLETE \<and> cl_active_workflow_execution_id c = Some e \<and>
    rj_status (cl_job c) = RUNNING \<and> next_at \<le> now"
proof -
  have ok1: "store_ok st1" using fenced_store_ok(4)[OF assms(1,4)] .
  have st1: "st1 = st\<lparr> st_jobs := tput r_id (approved_row e next_at at' m) (st_jobs st) \<rparr>"
    using assms(4) approve_review_to_pending_awaiting[OF assms(1-3), of e next_at at'] by (simp split: if_splits)
  have "r_id (approved_row e next_at at' m) = jid"
    using store_okD(3)[OF assms(1,2)] by (simp add: approved_row_def)
  then have row: "tget r_id jid (st_jobs st1) = Some (approved_row e next_at at' m)"
    using assms(2) by (simp add: st1 tget_tput)
  from ok1 assms(5) show ?thesis
  proof (cases rule: claim_next_cases)
    case (got r k)
    have "tget r_id (r_id r) (st_jobs st1) = Some r" using ok1 got(4) by (simp add: store_ok_def tget_mem)
    then have r: "r = approved_row e next_at at' m" using row got(8) assms(6) by simp
    from claim_row_pending[OF got(2,3) _ got(5), of lease tok] r
    have "mode_of (claim_mode r) = Some k" using got(6) by (auto simp: approved_row_def)
    moreover have "claim_mode r = mode_value REVIEW_COMPLETE" by (simp add: r claim_mode_def approved_row_def)
    ultimately have "k = REVIEW_COMPLETE" by (simp only: mode_of_value) simp
    moreover have "rj_status (domain_of (claimed_row now lease tok (worker_profile_of ep) r)) = RUNNING"
      by (simp add: domain_of_def claimed_row_def Let_def r approved_row_def status_of_def)
    ultimately show ?thesis using got(3,8) by (simp add: r approved_row_def claim_eligible_def)
  qed simp
qed

theorem approved_job_resumes_reviewed_execution_witness:
  "\<exists>st1 st2 c. approve_review_to_pending w_review ''job-1'' ''e1'' 60 60 = Inr (st1, True) \<and>
     claim_next st1 [] 70 100 w_token None = Inr (st2, Some c) \<and> cl_continuation_mode c = REVIEW_COMPLETE"
proof -
  have "case approve_review_to_pending w_review ''job-1'' ''e1'' 60 60 of
      Inr (st1, True) \<Rightarrow> (case claim_next st1 [] 70 100 w_token None of
          Inr (st2, Some c) \<Rightarrow> rj_id (cl_job c) = ''job-1'' | _ \<Rightarrow> False) | _ \<Rightarrow> False"
    by code_simp
  then obtain st1 st2 c where w: "approve_review_to_pending w_review ''job-1'' ''e1'' 60 60 = Inr (st1, True)"
    "claim_next st1 [] 70 100 w_token None = Inr (st2, Some c)" "rj_id (cl_job c) = ''job-1''"
    unfolding case_Inr_Some case_Inr_True by blast
  obtain m where "tget r_id ''job-1'' (st_jobs w_review) = Some m" "r_status m = ''AWAITING_REVIEW''"
    by (simp add: w_review_def awaiting_row_def w_row_def witness_job_def)
  from approved_job_resumes_reviewed_execution [OF w_stores_ok(4) this w] w show ?thesis by blast
qed

end
