(* ===== verification/Evaluation_Service.thy ===== *)
theory Evaluation_Service
  imports Recovery_Store Evaluation_Grading Job_History "HOL-Library.List_Lexorder" "HOL-Library.Char_ord"
begin

text \<open>
  Durable evaluation runs: every operation of \<open>src/src/atlas/evaluation/repository.py\<close>, the service of
  \<open>evaluation/service.py\<close>, the claim fingerprint of \<open>evaluation/claim_fingerprint.py\<close> and the owned
  run of \<open>evaluation/runner.py\<close>, over the tables declared in \<open>Recovery_Store\<close>.  New ids, ownership
  tokens and clock readings are arguments; tracing and metrics are left out.
\<close>

section \<open>Constraints\<close>

definition eval_checks :: "eval_row \<Rightarrow> bool" where
  "eval_checks r \<longleftrightarrow>
     er_status r \<in> {''IN_PROGRESS'', ''SUCCEEDED'', ''FAILED''} \<and>
     er_evaluation_profile r \<in> set ALLOWED_EVALUATION_PROFILES \<and> 1 \<le> er_evaluation_attempt r \<and>
     length (er_ownership_token r) = 64 \<and> length (er_input_fingerprint r) = 64 \<and>
     length (er_job_claim_fingerprint r) = 64 \<and>
     (case er_aggregate_score r of None \<Rightarrow> True | Some s \<Rightarrow> 0 \<le> s \<and> s \<le> 1) \<and>
     ((er_status r = ''IN_PROGRESS'' \<and> er_finished_at r = None \<and> er_passed r = None \<and> er_aggregate_score r = None)
      \<or> (er_status r = ''SUCCEEDED'' \<and> er_passed r \<noteq> None \<and> er_aggregate_score r \<noteq> None \<and>
         (case er_finished_at r of None \<Rightarrow> False | Some f \<Rightarrow> er_started_at r \<le> f))
      \<or> (er_status r = ''FAILED'' \<and> (case er_finished_at r of None \<Rightarrow> False | Some f \<Rightarrow> er_started_at r \<le> f)))"

definition dim_checks :: "dimension_result \<Rightarrow> bool" where
  "dim_checks d \<longleftrightarrow>
     0 \<le> dr_score d \<and> dr_score d \<le> 1 \<and> 0 \<le> dr_weight d \<and> dr_weight d \<le> 1 \<and>
     dr_method d \<in> {''deterministic'', ''llm'', ''skipped''} \<and>
     dr_name d \<in> {''citation_integrity'', ''tool_use'', ''report_structure'', ''coverage'', ''completeness'',
                  ''lexical_id_groundedness'', ''semantic_groundedness''}"

section \<open>Repository\<close>

definition eval_key :: "eval_row \<Rightarrow> string \<times> string \<times> int" where
  "eval_key r = (er_workflow_execution_id r, er_evaluation_profile r, er_evaluation_attempt r)"

definition get_by_execution_key :: "app_db \<Rightarrow> string \<Rightarrow> string \<Rightarrow> int \<Rightarrow> eval_row option" where
  "get_by_execution_key db execution_id profile attempt = tget eval_key (execution_id, profile, attempt) (db_evals db)"

definition get_by_id :: "app_db \<Rightarrow> string \<Rightarrow> eval_row option" where
  "get_by_id db run_id = tget er_id run_id (db_evals db)"

definition new_run ::
  "string \<Rightarrow> string \<Rightarrow> string \<Rightarrow> string \<Rightarrow> int \<Rightarrow> string \<Rightarrow> string \<Rightarrow> string \<Rightarrow> timestamp \<Rightarrow> timestamp \<Rightarrow> eval_row" where
  "new_run run_id job_id execution_id profile attempt tok fingerprint claim_fingerprint deadline_at at' =
     \<lparr> er_id = run_id, er_research_job_id = job_id, er_workflow_execution_id = execution_id,
       er_evaluation_profile = profile, er_evaluation_attempt = attempt, er_status = ''IN_PROGRESS'',
       er_ownership_token = tok, er_input_fingerprint = fingerprint, er_job_claim_fingerprint = claim_fingerprint,
       er_passed = None, er_aggregate_score = None, er_disposition_hint = None, er_grader_versions = None,
       er_deadline_at = deadline_at, er_started_at = at', er_finished_at = None \<rparr>"

definition create_run :: "app_db \<Rightarrow> eval_row \<Rightarrow> exc_class + app_db" where
  "create_run db r =
     (if \<not> eval_checks r \<or> tget er_id (er_id r) (db_evals db) \<noteq> None \<or> tget eval_key (eval_key r) (db_evals db) \<noteq> None \<or>
         \<not> job_exists db (er_research_job_id r) \<or> \<not> exec_exists db (er_workflow_execution_id r)
      then Inl (OtherClass ''IntegrityError'')
      else Inr (db\<lparr> db_evals := db_evals db @ [r] \<rparr>))"

definition clear_dimensions :: "app_db \<Rightarrow> string \<Rightarrow> app_db" where
  "clear_dimensions db run_id = db\<lparr> db_dims := filter (\<lambda>d. dm_evaluation_run_id d \<noteq> run_id) (db_dims db) \<rparr>"

definition reclaimed_run :: "string \<Rightarrow> string \<Rightarrow> string \<Rightarrow> timestamp \<Rightarrow> timestamp \<Rightarrow> eval_row \<Rightarrow> eval_row" where
  "reclaimed_run tok fingerprint claim_fingerprint deadline_at at' r =
     r\<lparr> er_status := ''IN_PROGRESS'', er_ownership_token := tok, er_input_fingerprint := fingerprint,
        er_job_claim_fingerprint := claim_fingerprint, er_passed := None, er_aggregate_score := None,
        er_disposition_hint := None, er_grader_versions := None, er_deadline_at := deadline_at,
        er_started_at := at', er_finished_at := None \<rparr>"

definition reclaim_run ::
  "app_db \<Rightarrow> string \<Rightarrow> string \<Rightarrow> string \<Rightarrow> string \<Rightarrow> timestamp \<Rightarrow> timestamp \<Rightarrow> exc_class + app_db" where
  "reclaim_run db run_id tok fingerprint claim_fingerprint deadline_at at' =
     (case get_by_id db run_id of
        None \<Rightarrow> Inl (OtherClass ''LookupError'')
      | Some r \<Rightarrow>
          (let r' = reclaimed_run tok fingerprint claim_fingerprint deadline_at at' r
           in if eval_checks r'
              then Inr (clear_dimensions (db\<lparr> db_evals := tput er_id r' (db_evals db) \<rparr>) run_id)
              else Inl (OtherClass ''IntegrityError'')))"

definition replace_dimensions ::
  "app_db \<Rightarrow> (nat \<Rightarrow> string) \<Rightarrow> string \<Rightarrow> dimension_result list \<Rightarrow> exc_class + app_db" where
  "replace_dimensions db uuids run_id dimensions =
     (let db = clear_dimensions db run_id;
          rows = map (\<lambda>(i, d). \<lparr> dm_id = uuids i, dm_evaluation_run_id = run_id, dm_result = d \<rparr>)
                   (enumerate 0 dimensions)
      in if list_all dim_checks dimensions \<and> distinct (map dr_name dimensions) \<and>
            distinct (map dm_id (db_dims db @ rows))
         then Inr (db\<lparr> db_dims := db_dims db @ rows \<rparr>)
         else Inl (OtherClass ''IntegrityError''))"

text \<open>The fenced \<open>UPDATE\<close>s: the row count is 1 exactly when the run is in progress under the token.\<close>

definition run_owned_by :: "string \<Rightarrow> string \<Rightarrow> eval_row \<Rightarrow> bool" where
  "run_owned_by run_id tok r \<longleftrightarrow> er_id r = run_id \<and> er_status r = ''IN_PROGRESS'' \<and> er_ownership_token r = tok"

definition update_run ::
  "app_db \<Rightarrow> string \<Rightarrow> string \<Rightarrow> (eval_row \<Rightarrow> eval_row) \<Rightarrow> exc_class + (app_db \<times> bool)" where
  "update_run db run_id tok f =
     (if list_all (\<lambda>r. run_owned_by run_id tok r \<longrightarrow> eval_checks (f r)) (db_evals db)
      then Inr (db\<lparr> db_evals := tupdate (run_owned_by run_id tok) f (db_evals db) \<rparr>,
                tcount (run_owned_by run_id tok) (db_evals db) = 1)
      else Inl (OtherClass ''IntegrityError''))"

definition succeeded_run ::
  "real \<Rightarrow> bool \<Rightarrow> string \<Rightarrow> (string \<times> string) list \<Rightarrow> timestamp \<Rightarrow> eval_row \<Rightarrow> eval_row" where
  "succeeded_run aggregate passed hint versions at' r =
     r\<lparr> er_status := ''SUCCEEDED'', er_passed := Some passed, er_aggregate_score := Some aggregate,
        er_disposition_hint := Some hint, er_grader_versions := Some versions, er_finished_at := Some at' \<rparr>"

definition failed_run :: "(string \<times> string) list \<Rightarrow> timestamp \<Rightarrow> eval_row \<Rightarrow> eval_row" where
  "failed_run versions at' r =
     r\<lparr> er_status := ''FAILED'', er_finished_at := Some at', er_passed := None, er_aggregate_score := None,
        er_disposition_hint := Some ''terminal'', er_grader_versions := Some versions \<rparr>"

definition repo_finalize_success ::
  "app_db \<Rightarrow> string \<Rightarrow> string \<Rightarrow> real \<Rightarrow> bool \<Rightarrow> string \<Rightarrow> (string \<times> string) list \<Rightarrow> timestamp \<Rightarrow> exc_class + (app_db \<times> bool)" where
  "repo_finalize_success db run_id tok aggregate passed hint versions at' =
     update_run db run_id tok (succeeded_run aggregate passed hint versions at')"

definition repo_finalize_failure ::
  "app_db \<Rightarrow> string \<Rightarrow> string \<Rightarrow> timestamp \<Rightarrow> (string \<times> string) list \<Rightarrow> exc_class + (app_db \<times> bool)" where
  "repo_finalize_failure db run_id tok at' versions = update_run db run_id tok (failed_run versions at')"

definition list_dimensions :: "app_db \<Rightarrow> string \<Rightarrow> dimension_result list" where
  "list_dimensions db run_id =
     sort_key dr_name (map dm_result (filter (\<lambda>d. dm_evaluation_run_id d = run_id) (db_dims db)))"

record eval_result =
  ev_run_id :: string
  ev_research_job_id :: string
  ev_workflow_execution_id :: string
  ev_evaluation_profile :: string
  ev_evaluation_attempt :: int
  ev_status :: string
  ev_input_fingerprint :: string
  ev_passed :: "bool option"
  ev_aggregate_score :: "real option"
  ev_disposition_hint :: "string option"
  ev_dimensions :: "dimension_result list"
  ev_grader_versions :: "(string \<times> string) list"

definition to_result :: "app_db \<Rightarrow> eval_row \<Rightarrow> eval_result" where
  "to_result db r =
     \<lparr> ev_run_id = er_id r, ev_research_job_id = er_research_job_id r,
       ev_workflow_execution_id = er_workflow_execution_id r, ev_evaluation_profile = er_evaluation_profile r,
       ev_evaluation_attempt = er_evaluation_attempt r, ev_status = er_status r,
       ev_input_fingerprint = er_input_fingerprint r, ev_passed = er_passed r,
       ev_aggregate_score = er_aggregate_score r,
       ev_disposition_hint = (if er_disposition_hint r \<in> {Some ''complete'', Some ''terminal''}
                              then er_disposition_hint r else None),
       ev_dimensions = list_dimensions db (er_id r),
       ev_grader_versions = (case er_grader_versions r of None \<Rightarrow> [] | Some v \<Rightarrow> v) \<rparr>"

text \<open>\<open>ORDER BY started_at, evaluation_attempt\<close>, ascending, and descending with \<open>LIMIT 1\<close>.\<close>

definition list_for_job :: "app_db \<Rightarrow> string \<Rightarrow> eval_row list" where
  "list_for_job db job_id =
     sort_key er_started_at (sort_key er_evaluation_attempt
       (filter (\<lambda>r. er_research_job_id r = job_id) (db_evals db)))"

definition repo_get_latest_for_job :: "app_db \<Rightarrow> string \<Rightarrow> eval_row option" where
  "repo_get_latest_for_job db job_id =
     (case list_for_job db job_id of [] \<Rightarrow> None | rs \<Rightarrow> Some (last rs))"

section \<open>Service\<close>

definition fingerprint_job_claim_token :: "hashing \<Rightarrow> string \<Rightarrow> exc_class + string" where
  "fingerprint_job_claim_token h claim_token =
     (let cleaned = py_strip claim_token
      in if length cleaned = 64 \<and> list_all hex_lower cleaned then Inr (hs_sha256 h cleaned)
         else Inl EvaluationValidationError)"

definition assert_execution_belongs_to_job :: "app_db \<Rightarrow> string \<Rightarrow> string \<Rightarrow> exc_class + unit" where
  "assert_execution_belongs_to_job db execution_id job_id =
     (case get_execution (db_store db) execution_id of
        None \<Rightarrow> Inl EvaluationValidationError
      | Some x \<Rightarrow> if x_research_job_id x \<noteq> job_id then Inl EvaluationValidationError else Inr ())"

definition assert_holds_current_job_claim ::
  "hashing \<Rightarrow> app_db \<Rightarrow> string \<Rightarrow> string \<Rightarrow> timestamp \<Rightarrow> exc_class + string" where
  "assert_holds_current_job_claim h db job_id claim_token now =
     bindE (fingerprint_job_claim_token h claim_token) (\<lambda>presented.
       case tget r_id job_id (st_jobs (db_store db)) of
         None \<Rightarrow> Inl EvaluationValidationError
       | Some row \<Rightarrow>
           if r_status row = ''RUNNING'' \<and> r_claim_token row \<noteq> None \<and>
              (case r_lease_expires_at row of None \<Rightarrow> False | Some l \<Rightarrow> now < l) \<and>
              r_claim_token row = Some claim_token
           then Inr presented else Inl EvaluationValidationError)"

record begin_args =
  ba_execution_id :: string
  ba_profile :: string
  ba_attempt :: int
  ba_fingerprint :: string
  ba_job_id :: string
  ba_deadline :: timestamp
  ba_job_claim_token :: string
  ba_run_id :: string
  ba_new_token :: string

definition begin_or_resume ::
  "hashing \<Rightarrow> app_db \<Rightarrow> begin_args \<Rightarrow> timestamp \<Rightarrow> exc_class + (app_db \<times> string \<times> string \<times> eval_result option)" where
  "begin_or_resume h db a now =
     bindE (assert_execution_belongs_to_job db (ba_execution_id a) (ba_job_id a)) (\<lambda>_.
     case tget r_id (ba_job_id a) (st_jobs (db_store db)) of
       None \<Rightarrow> Inl EvaluationProfileMismatchError
     | Some job_row \<Rightarrow>
         if r_evaluation_profile job_row \<noteq> Some (ba_profile a) then Inl EvaluationProfileMismatchError
         else
           (let existing = get_by_execution_key db (ba_execution_id a) (ba_profile a) (ba_attempt a);
                reclaim = (\<lambda>ex claim_fingerprint.
                  if er_input_fingerprint ex \<noteq> ba_fingerprint a then Inl EvaluationConflictError
                  else bindE (reclaim_run db (er_id ex) (ba_new_token a) (ba_fingerprint a) claim_fingerprint
                                (ba_deadline a) now)
                         (\<lambda>db. Inr (db, er_id ex, ba_new_token a, None)));
                create = (\<lambda>claim_fingerprint.
                  bindE (on_store db (\<lambda>st. increment_evaluation_attempt_count st (ba_job_id a)
                                             (ba_job_claim_token a) now)) (\<lambda>(db, reserved).
                  if \<not> reserved then
                    (if MAX_EVALUATION_ATTEMPTS \<le> snd (snd (get_attempt_counts (db_store db) (ba_job_id a)))
                     then Inl EvaluationAttemptCapError else Inl ClaimOwnershipError)
                  else (case create_run db (new_run (ba_run_id a) (ba_job_id a) (ba_execution_id a) (ba_profile a)
                               (ba_attempt a) (ba_new_token a) (ba_fingerprint a) claim_fingerprint
                               (ba_deadline a) now) of
                          Inl _ \<Rightarrow> Inl EvaluationInProgressError
                        | Inr db \<Rightarrow> Inr (db, ba_run_id a, ba_new_token a, None))))
            in case existing of
                 Some ex \<Rightarrow>
                   if er_status ex = ''SUCCEEDED'' then
                     (if er_input_fingerprint ex \<noteq> ba_fingerprint a then Inl EvaluationConflictError
                      else Inr (db, er_id ex, [], Some (to_result db ex)))
                   else bindE (assert_holds_current_job_claim h db (ba_job_id a) (ba_job_claim_token a) now) (\<lambda>cf.
                     if er_status ex = ''IN_PROGRESS'' then
                       (if now \<le> er_deadline_at ex then Inl EvaluationInProgressError else reclaim ex cf)
                     else if er_status ex = ''FAILED'' then reclaim ex cf
                     else create cf)
               | None \<Rightarrow>
                   bindE (assert_holds_current_job_claim h db (ba_job_id a) (ba_job_claim_token a) now) create))"

definition KNOWN_HINTS :: "string list" where
  "KNOWN_HINTS = [''complete'', ''terminal'', ''repair'', ''await_review'', ''retry'']"

definition service_finalize_success ::
  "app_db \<Rightarrow> (nat \<Rightarrow> string) \<Rightarrow> string \<Rightarrow> string \<Rightarrow> real \<Rightarrow> bool \<Rightarrow> dimension_result list \<Rightarrow> string \<Rightarrow>
   (string \<times> string) list \<Rightarrow> timestamp \<Rightarrow> exc_class + (app_db \<times> eval_result)" where
  "service_finalize_success db uuids run_id tok aggregate passed dimensions disposition_hint versions now =
     (let hint = (if disposition_hint \<in> set KNOWN_HINTS then disposition_hint else ''terminal'')
      in case get_by_id db run_id of
           None \<Rightarrow> Inl EvaluationOwnershipLostError
         | Some r \<Rightarrow>
             if er_status r \<noteq> ''IN_PROGRESS'' \<or> er_ownership_token r \<noteq> tok then Inl EvaluationOwnershipLostError
             else bindE (replace_dimensions db uuids run_id dimensions) (\<lambda>db.
                  bindE (repo_finalize_success db run_id tok aggregate passed hint versions now) (\<lambda>(db, ok).
                  if \<not> ok then Inl EvaluationOwnershipLostError
                  else (case get_by_id db run_id of
                          None \<Rightarrow> Inl EvaluationNotFoundError
                        | Some refreshed \<Rightarrow> Inr (db, to_result db refreshed)))))"

definition py_isalnum :: "string \<Rightarrow> bool" where
  "py_isalnum s \<longleftrightarrow> s \<noteq> [] \<and>
     list_all (\<lambda>c. let k = (of_char c :: nat)
        in (48 \<le> k \<and> k \<le> 57) \<or> (65 \<le> k \<and> k \<le> 90) \<or> (97 \<le> k \<and> k \<le> 122) \<or> k \<in> {170, 178, 179, 181, 185, 186, 188, 189, 190} \<or>
           (192 \<le> k \<and> k \<noteq> 215 \<and> k \<noteq> 247)) s"

definition sanitized_error_class :: "string \<Rightarrow> string" where
  "sanitized_error_class error_class =
     (let s = (if py_strip error_class = [] then ''EvaluationUnexpectedError'' else py_strip error_class)
      in if list_ex py_isspace s \<or> \<not> py_isalnum (filter (\<lambda>c. c \<noteq> CHR ''_'') s)
         then ''EvaluationUnexpectedError'' else s)"

definition service_finalize_failure ::
  "app_db \<Rightarrow> string \<Rightarrow> string \<Rightarrow> string \<Rightarrow> timestamp \<Rightarrow> exc_class + (app_db \<times> unit)" where
  "service_finalize_failure db run_id tok error_class now =
     (case get_by_id db run_id of
        None \<Rightarrow> Inl EvaluationOwnershipLostError
      | Some r \<Rightarrow>
          if er_status r \<noteq> ''IN_PROGRESS'' \<or> er_ownership_token r \<noteq> tok then Inl EvaluationOwnershipLostError
          else bindE (repo_finalize_failure (clear_dimensions db run_id) run_id tok now
                        [(''error_class'', sanitized_error_class error_class)]) (\<lambda>(db, ok).
               if \<not> ok then Inl EvaluationOwnershipLostError else Inr (db, ())))"

definition get_latest_for_job :: "app_db \<Rightarrow> string \<Rightarrow> eval_result option" where
  "get_latest_for_job db job_id = map_option (to_result db) (repo_get_latest_for_job db job_id)"

definition get_by_job :: "app_db \<Rightarrow> string \<Rightarrow> eval_result list" where
  "get_by_job db job_id = map (to_result db) (list_for_job db job_id)"

section \<open>The owned run\<close>

text \<open>
  \<open>EvaluationRunner._run_owned\<close> after the grading snapshot was fingerprinted: \<open>graded\<close> is what
  \<open>_grade\<close> returns or raises, \<open>t1 t2 t3\<close> the clock readings of the service calls.
\<close>

definition finalize_owned_failure ::
  "app_db \<Rightarrow> string \<Rightarrow> string \<Rightarrow> string \<Rightarrow> timestamp \<Rightarrow> exc_class \<Rightarrow> app_db \<times> (exc_class + eval_result)" where
  "finalize_owned_failure db run_id tok error_class now exc =
     (case session_scope db (\<lambda>db. service_finalize_failure db run_id tok error_class now) of
        (db, Inl e) \<Rightarrow> (db, Inl e) | (db, Inr _) \<Rightarrow> (db, Inl exc))"

definition run_failed ::
  "app_db \<Rightarrow> string \<Rightarrow> string \<Rightarrow> timestamp \<Rightarrow> exc_class \<Rightarrow> app_db \<times> (exc_class + eval_result)" where
  "run_failed db run_id tok now exc =
     (if isinstance exc [EvaluationOwnershipLostError] then (db, Inl exc)
      else if isinstance exc [ModelError] then
        (if isinstance exc [ModelAttemptOwnershipLostError] then (db, Inl exc)
         else finalize_owned_failure db run_id tok (class_name exc) now exc)
      else if isinstance exc [EvaluationError] then finalize_owned_failure db run_id tok (class_name exc) now exc
      else finalize_owned_failure db run_id tok ''EvaluationUnexpectedError'' now EvaluationTerminalError)"

definition run_owned ::
  "hashing \<Rightarrow> rounding \<Rightarrow> (real list \<Rightarrow> real) \<Rightarrow> (nat \<Rightarrow> string) \<Rightarrow> app_db \<Rightarrow> begin_args \<Rightarrow>
   exc_class + (dimension_result list \<times> (string \<times> string) list) \<Rightarrow> timestamp \<Rightarrow> timestamp \<Rightarrow> timestamp \<Rightarrow>
   app_db \<times> (exc_class + eval_result)" where
  "run_owned h rnd fsum uuids db a graded t1 t2 t3 =
     (case session_scope db (\<lambda>db. begin_or_resume h db a t1) of
        (db, Inl e) \<Rightarrow> (db, Inl e)
      | (db, Inr (run_id, tok, Some replay)) \<Rightarrow> (db, Inr replay)
      | (db, Inr (run_id, tok, None)) \<Rightarrow>
          (case graded of
             Inl e \<Rightarrow> run_failed db run_id tok t3 e
           | Inr (dimensions, versions) \<Rightarrow>
               (let (aggregate, passed, stamped) = aggregate_dimensions rnd fsum dimensions
                in case session_scope db (\<lambda>db. service_finalize_success db uuids run_id tok aggregate passed stamped
                       (if passed then ''complete'' else ''terminal'') versions t2) of
                     (db, Inr res) \<Rightarrow> (db, Inr res)
                   | (db, Inl e) \<Rightarrow> run_failed db run_id tok t3 e)))"

end
