(* ===== verification/Specialists.thy ===== *)
theory Specialists
  imports Evaluation_Service "HOL-Library.Sublist"
begin

text \<open>
  The specialists behind the graph's nodes (\<open>src/src/atlas/specialists/*.py\<close>): the planner, the research
  and retrieval specialist, the report synthesizer and the citation verifier.

  They act on a world \<open>'w\<close> that holds whatever the services they call keep.  The services themselves
  (the model ports, the tool executor, the retriever, the evidence store) are arguments: actions on
  that world.  A contract of \<open>specialists/contracts.py\<close> is the check its pydantic model makes; a
  request the model rejects raises \<open>ValidationError\<close>.
\<close>

section \<open>Actions\<close>

text \<open>A call that may change the world and may raise.\<close>

type_synonym ('w, 'a) act = "'w \<Rightarrow> 'w \<times> (exc_class + 'a)"

definition ret :: "'a \<Rightarrow> ('w, 'a) act" where
  "ret v w = (w, Inr v)"

definition raising :: "exc_class \<Rightarrow> ('w, 'a) act" where
  "raising e w = (w, Inl e)"

definition bindA :: "('w, 'a) act \<Rightarrow> ('a \<Rightarrow> ('w, 'b) act) \<Rightarrow> ('w, 'b) act" where
  "bindA m f w = (case m w of (w', Inl e) \<Rightarrow> (w', Inl e) | (w', Inr v) \<Rightarrow> f v w')"

text \<open>\<open>try: m except Exception as exc: h(exc)\<close>.\<close>

definition catchA :: "('w, 'a) act \<Rightarrow> (exc_class \<Rightarrow> ('w, 'a) act) \<Rightarrow> ('w, 'a) act" where
  "catchA m h w = (case m w of (w', Inl e) \<Rightarrow> h e w' | (w', Inr v) \<Rightarrow> (w', Inr v))"

text \<open>A \<open>for\<close> loop whose body only checks.\<close>

fun eachA :: "('a \<Rightarrow> ('w, unit) act) \<Rightarrow> 'a list \<Rightarrow> ('w, unit) act" where
  "eachA f [] = ret ()"
| "eachA f (x # xs) = bindA (f x) (\<lambda>_. eachA f xs)"

lemma act_simps [simp]: "ret v w = (w, Inr v)" "raising e w = (w, Inl e)"
  by (simp_all add: ret_def raising_def)

lemma bindA_Inr [bind_simps]:
  "bindA m f w = (w', Inr v) \<longleftrightarrow> (\<exists>w1 x. m w = (w1, Inr x) \<and> f x w1 = (w', Inr v))"
  by (cases "m w") (auto simp: bindA_def split: sum.splits)

lemma catchA_Inr:
  "catchA m h w = (w', Inr v) \<longleftrightarrow> m w = (w', Inr v) \<or> (\<exists>w1 e. m w = (w1, Inl e) \<and> h e w1 = (w', Inr v))"
  by (cases "m w") (auto simp: catchA_def split: sum.splits)

section \<open>Planner\<close>

definition SPECIALIST_INVALID :: exc_class where
  "SPECIALIST_INVALID = OtherClass ''SpecialistValidationError''"

definition PYDANTIC_INVALID :: exc_class where
  "PYDANTIC_INVALID = OtherClass ''ValidationError''"

definition planner_output :: "string list \<Rightarrow> string list option" where
  "planner_output tasks =
     (let cleaned = map py_strip tasks
      in if length tasks = 3 \<and> list_all (\<lambda>t. t \<noteq> []) cleaned then Some cleaned else None)"

definition planner_run ::
  "(string \<Rightarrow> string \<Rightarrow> string \<Rightarrow> ('w, string list) act) \<Rightarrow> string \<Rightarrow> string \<Rightarrow> string \<Rightarrow> ('w, string list) act" where
  "planner_run plan job_id question prompt_version =
     (if py_strip job_id = [] \<or> py_strip question = [] then raising SPECIALIST_INVALID
      else bindA (plan (py_strip job_id) (py_strip question) prompt_version) (\<lambda>tasks.
        case planner_output tasks of None \<Rightarrow> raising SPECIALIST_INVALID | Some cleaned \<Rightarrow> ret cleaned))"

section \<open>Research and retrieval\<close>

definition MAX_RESEARCH_FINDINGS :: nat where "MAX_RESEARCH_FINDINGS = 6"

fun merge_loop :: "string list \<Rightarrow> string list \<Rightarrow> string list" where
  "merge_loop seen [] = []"
| "merge_loop seen (x # xs) = (if x \<in> set seen then merge_loop seen xs else x # merge_loop (x # seen) xs)"

definition merge_evidence_ids_preserving_order :: "string list \<Rightarrow> string list \<Rightarrow> string list" where
  "merge_evidence_ids_preserving_order tool_ids retrieved_ids = merge_loop [] (tool_ids @ retrieved_ids)"

record research_input =
  ri_job_id :: string
  ri_question :: string
  ri_plan :: "string list"
  ri_workflow_execution_id :: "string option"
  ri_workflow_node_attempt :: "int option"
  ri_retrieval_k :: int

definition research_input_ok :: "research_input \<Rightarrow> bool" where
  "research_input_ok r \<longleftrightarrow> length (ri_plan r) = 3 \<and> 1 \<le> ri_retrieval_k r \<and> ri_retrieval_k r \<le> 8"

text \<open>
  \<open>execute\<close> is the governed tool executor, \<open>retriever\<close> the optional pair of the evidence retriever (for
  a query and \<open>k\<close>) and the ingest service's link operation.
\<close>

definition research_run ::
  "(research_input \<Rightarrow> ('w, string list \<times> string list) act) \<Rightarrow>
   ((string \<Rightarrow> int \<Rightarrow> ('w, string list) act) \<times> (string \<Rightarrow> string list \<Rightarrow> string option \<Rightarrow> ('w, unit) act)) option \<Rightarrow>
   research_input \<Rightarrow> ('w, string list \<times> string list) act" where
  "research_run execute retriever r =
     (if length (ri_plan r) \<noteq> 3 \<or> list_ex (\<lambda>t. py_strip t = []) (ri_plan r) then raising SPECIALIST_INVALID
      else bindA (execute r) (\<lambda>(raw_findings, tool_ids).
        let findings = filter (\<lambda>f. f \<noteq> []) (map py_strip raw_findings)
        in if MAX_RESEARCH_FINDINGS < length findings then raising SPECIALIST_INVALID
           else bindA
             (case retriever of
                None \<Rightarrow> ret []
              | Some (retrieve, link) \<Rightarrow>
                  bindA (retrieve (py_join '' '' (ri_question r # ri_plan r)) (ri_retrieval_k r)) (\<lambda>ids.
                    if ids = [] then ret [] else bindA (link (ri_job_id r) ids (ri_workflow_execution_id r)) (\<lambda>_. ret ids)))
             (\<lambda>retrieved_ids. ret (findings, merge_evidence_ids_preserving_order tool_ids retrieved_ids))))"

section \<open>Synthesizer\<close>

record evidence_context_item =
  ei_evidence_item_id :: string
  ei_text :: string
  ei_source_display_uri :: string
  ei_strength :: string
  ei_trust_label :: string

record synthesizer_input =
  si_job_id :: string
  si_question :: string
  si_plan :: "string list"
  si_findings :: "string list"
  si_evidence_item_ids :: "string list"
  si_prompt_version :: string

definition MAX_CLAIMS_PER_DRAFT :: nat where "MAX_CLAIMS_PER_DRAFT = 20"

definition synthesizer_input_ok :: "synthesizer_input \<Rightarrow> bool" where
  "synthesizer_input_ok s \<longleftrightarrow> length (si_plan s) = 3 \<and> length (si_findings s) \<le> MAX_RESEARCH_FINDINGS"

definition claim_in_pack :: "evidence_context_item list \<Rightarrow> claim_structured \<Rightarrow> bool" where
  "claim_in_pack pack c \<longleftrightarrow> list_all (\<lambda>i. i \<in> set (map ei_evidence_item_id pack)) (cs_evidence_item_ids c)"

definition build_pack ::
  "(string list \<Rightarrow> ('w, evidence_context_item list) act) option \<Rightarrow> string list \<Rightarrow> ('w, evidence_context_item list) act" where
  "build_pack ingest ids =
     (case ingest of None \<Rightarrow> ret [] | Some pack_of \<Rightarrow> if ids = [] then ret [] else pack_of ids)"

definition synthesizer_run ::
  "(synthesizer_input \<Rightarrow> evidence_context_item list \<Rightarrow> ('w, string \<times> claim_structured list) act) \<Rightarrow>
   (string list \<Rightarrow> ('w, evidence_context_item list) act) option \<Rightarrow> synthesizer_input \<Rightarrow>
   ('w, string \<times> claim_structured list) act" where
  "synthesizer_run drafter ingest s =
     (if length (si_plan s) \<noteq> 3 then raising SPECIALIST_INVALID
      else bindA (build_pack ingest (si_evidence_item_ids s)) (\<lambda>pack.
        bindA (drafter s pack) (\<lambda>(raw_draft, claims).
          let draft = py_strip raw_draft
          in if draft = [] then raising SPECIALIST_INVALID
             else if pack = [] then (if claims \<noteq> [] then raising SPECIALIST_INVALID else ret (draft, []))
             else if \<not> list_all (claim_in_pack pack) claims then raising SPECIALIST_INVALID
             else if MAX_CLAIMS_PER_DRAFT < length claims then raising PYDANTIC_INVALID
             else ret (draft, claims))))"

section \<open>Citation verifier\<close>

text \<open>\<open>validate\<close> is \<open>CitationValidator.validate\<close>, \<open>get_item\<close> the document and source id of an item.\<close>

definition verify_item :: "(string \<Rightarrow> ('w, string \<times> string) act) \<Rightarrow> string \<Rightarrow> ('w, unit) act" where
  "verify_item get_item i =
     bindA (get_item i) (\<lambda>(document_id, source_id).
       if document_id = [] \<or> source_id = [] then raising (OtherClass ''SpecialistCitationError'') else ret ())"

definition citation_verifier_run ::
  "(string \<Rightarrow> claim_structured list \<Rightarrow> ('w, unit) act) \<Rightarrow> (string \<Rightarrow> ('w, string \<times> string) act) \<Rightarrow>
   string \<Rightarrow> claim_structured list \<Rightarrow> ('w, claim_structured list) act" where
  "citation_verifier_run validate get_item job_id claims =
     (if claims = [] then ret []
      else catchA
        (bindA (validate job_id claims) (\<lambda>_.
           bindA (eachA (\<lambda>c. eachA (verify_item get_item) (cs_evidence_item_ids c)) claims) (\<lambda>_. ret claims)))
        (\<lambda>e. if isinstance e [CitationIntegrityError, ClaimEvidenceRequiredError, EvidenceNotFoundError,
                               OtherClass ''SpecialistCitationError'']
             then raising (OtherClass ''SpecialistCitationError'') else raising e))"

section \<open>What they promise\<close>

lemma merge_loop_props:
  "distinct (merge_loop seen xs) \<and> set (merge_loop seen xs) = set xs - set seen \<and> subseq (merge_loop seen xs) xs"
proof (induction xs arbitrary: seen)
  case (Cons x xs)
  then show ?case
  proof (cases "x \<in> set seen")
    case True
    then show ?thesis using Cons[of seen] by (auto intro: list_emb_Cons)
  next
    case False
    then show ?thesis using Cons[of "x # seen"] by auto
  qed
qed simp

text \<open>The merged ids are those of both lists, once each, and those of the tools keep their order.\<close>

lemma merge_evidence_ids_spec:
  "distinct (merge_evidence_ids_preserving_order a b)"
  "set (merge_evidence_ids_preserving_order a b) = set a \<union> set b"
  "subseq (merge_evidence_ids_preserving_order a b) (a @ b)"
  using merge_loop_props[of "[]" "a @ b"] by (simp_all add: merge_evidence_ids_preserving_order_def)

lemma planner_run_three:
  "planner_run plan j q p w = (w', Inr tasks) \<Longrightarrow> length tasks = 3 \<and> list_all (\<lambda>t. t \<noteq> []) tasks"
  by (auto simp: planner_run_def planner_output_def Let_def bind_simps split: if_splits option.splits)

text \<open>A draft never cites evidence outside the pack the drafter was given.\<close>

lemma synthesizer_run_scope:
  assumes "synthesizer_run drafter ingest s w = (w', Inr (draft, claims))"
  shows "draft \<noteq> []" "length claims \<le> 20"
    "\<exists>pack w1. build_pack ingest (si_evidence_item_ids s) w = (w1, Inr pack) \<and> list_all (claim_in_pack pack) claims"
  using assms
  by (auto simp: synthesizer_run_def Let_def bind_simps MAX_CLAIMS_PER_DRAFT_def split: if_splits)

lemma citation_verifier_keeps_claims:
  "citation_verifier_run v g j cs w = (w', Inr cs') \<Longrightarrow> cs' = cs"
  by (auto simp: citation_verifier_run_def catchA_Inr bind_simps split: if_splits)

end
