(* ===== verification/Research_Graph.thy ===== *)
theory Research_Graph
  imports Specialists
begin

text \<open>
  The research workflow: the nodes of \<open>src/src/atlas/workflow/graph.py\<close>, the routing function, the audit
  wrapper \<open>_wrap_node\<close> and the edges \<open>build_research_graph\<close> declares.

  A node is an action on a world \<open>'w\<close>, reading the channels of the thread (\<open>graph_state\<close>) and the runtime
  context.  The context's collaborators are its fields, as in \<open>WorkflowRuntimeContext\<close>; the node
  counters and the metrics, which only tests and dashboards read, are left out.  Channels always hold
  values of their declared types, so the \<open>isinstance\<close> fallbacks of the source do not arise; the
  \<open>tool_summary\<close> the evaluate node looks for is not a channel, so it is always the empty list.

  LangGraph runs the graph.  What \<open>build_research_graph\<close> hands it is the table \<open>successor\<close>; \<open>superstep\<close> is one
  step of a compiled graph as LangGraph documents it: run the next node, merge what it returns into
  the channels, follow the edge.  \<open>walk\<close> repeats it up to a number of steps and stops at \<open>END\<close>, at an
  exception or after a node listed in \<open>interrupt_after\<close>.  Between two steps other processes may change
  the world: \<open>env k\<close> is what they do before step \<open>k\<close>.
\<close>

section \<open>Channels and runtime context\<close>

record graph_state =
  gs_job_id :: string
  gs_question :: string
  gs_plan :: "string list"
  gs_findings :: "string list"
  gs_evidence_item_ids :: "string list"
  gs_draft :: string
  gs_claims :: "claim_structured list"
  gs_result :: string
  gs_evaluation_passed :: bool
  gs_evaluation_run_id :: string
  gs_disposition :: string
  gs_repair_count :: int
  gs_evaluation_attempt :: int
  gs_evaluation_fingerprint :: string

definition initial_graph_state :: "string \<Rightarrow> string \<Rightarrow> graph_state" where
  "initial_graph_state job_id question =
     \<lparr> gs_job_id = job_id, gs_question = question, gs_plan = [], gs_findings = [], gs_evidence_item_ids = [],
       gs_draft = [], gs_claims = [], gs_result = [], gs_evaluation_passed = False, gs_evaluation_run_id = [],
       gs_disposition = [], gs_repair_count = 0, gs_evaluation_attempt = 0, gs_evaluation_fingerprint = [] \<rparr>"

text \<open>\<open>NodeAuditHooks\<close>, \<open>EvaluationNodeRunner\<close> and the context.\<close>

record 'w audit_hooks =
  hk_begin :: "string \<Rightarrow> ('w, int) act"
  hk_complete :: "string \<Rightarrow> int \<Rightarrow> ('w, unit) act"
  hk_fail :: "string \<Rightarrow> int \<Rightarrow> exc_class \<Rightarrow> ('w, unit) act"

record 'w evaluation_runner =
  rn_provenance :: "string \<Rightarrow> claim_structured list \<Rightarrow> ('w, bool) act"
  rn_run :: "evaluation_candidate \<Rightarrow> string \<Rightarrow> timestamp \<Rightarrow> string \<Rightarrow> bool \<Rightarrow> ('w, eval_result) act"

record 'w runtime_context =
  cx_planner :: "string \<Rightarrow> string \<Rightarrow> string \<Rightarrow> ('w, string list) act"
  cx_research :: "research_input \<Rightarrow> ('w, string list \<times> string list) act"
  cx_synthesizer :: "synthesizer_input \<Rightarrow> ('w, string \<times> claim_structured list) act"
  cx_citation_verifier :: "string \<Rightarrow> claim_structured list \<Rightarrow> ('w, claim_structured list) act"
  cx_plan_prompt_version :: string
  cx_draft_prompt_version :: string
  cx_workflow_execution_id :: "string option"
  cx_hooks :: "'w audit_hooks option"
  cx_persist_final :: "(string \<Rightarrow> string \<Rightarrow> string \<Rightarrow> claim_structured list \<Rightarrow> string \<Rightarrow> ('w, unit) act) option"
  cx_retrieval_k :: int
  cx_evaluation_runner :: "'w evaluation_runner option"
  cx_job_claim_token :: "string option"
  cx_policy_callback :: "(bool \<Rightarrow> string \<Rightarrow> int \<Rightarrow> int \<Rightarrow> ('w, string) act) option"
  cx_evaluation_profile :: string
  cx_completion_auth_checker :: "(string \<Rightarrow> string \<Rightarrow> string \<Rightarrow> ('w, bool) act) option"
  cx_now :: "'w \<Rightarrow> timestamp"

section \<open>Nodes\<close>

definition value_error :: exc_class where "value_error = OtherClass ''ValueError''"

definition validate_node :: "graph_state \<Rightarrow> ('w, graph_state) act" where
  "validate_node s =
     (let job_id = py_strip (gs_job_id s); question = py_strip (gs_question s)
      in if job_id = [] \<or> question = [] then raising value_error
         else ret (s\<lparr> gs_job_id := job_id, gs_question := question \<rparr>))"

definition plan_node :: "'w runtime_context \<Rightarrow> graph_state \<Rightarrow> ('w, graph_state) act" where
  "plan_node cx s =
     bindA (cx_planner cx (gs_job_id s) (gs_question s) (cx_plan_prompt_version cx)) (\<lambda>tasks.
       ret (s\<lparr> gs_plan := tasks \<rparr>))"

definition research_node :: "'w runtime_context \<Rightarrow> int option \<Rightarrow> graph_state \<Rightarrow> ('w, graph_state) act" where
  "research_node cx attempt s =
     (let r = \<lparr> ri_job_id = gs_job_id s, ri_question = gs_question s, ri_plan = gs_plan s,
                ri_workflow_execution_id = cx_workflow_execution_id cx, ri_workflow_node_attempt = attempt,
                ri_retrieval_k = cx_retrieval_k cx \<rparr>
      in if \<not> research_input_ok r then raising PYDANTIC_INVALID
         else bindA (cx_research cx r) (\<lambda>(findings, ids).
           ret (s\<lparr> gs_findings := findings, gs_evidence_item_ids := ids \<rparr>)))"

definition draft_node :: "'w runtime_context \<Rightarrow> graph_state \<Rightarrow> ('w, graph_state) act" where
  "draft_node cx s =
     (let r = \<lparr> si_job_id = gs_job_id s, si_question = gs_question s, si_plan = gs_plan s,
                si_findings = gs_findings s, si_evidence_item_ids = gs_evidence_item_ids s,
                si_prompt_version = (if 0 < gs_repair_count s then ''draft.repair.v1'' else cx_draft_prompt_version cx) \<rparr>
      in if \<not> synthesizer_input_ok r then raising PYDANTIC_INVALID
         else bindA (cx_synthesizer cx r) (\<lambda>(draft, claims). ret (s\<lparr> gs_draft := draft, gs_claims := claims \<rparr>)))"

definition verify_citations_node :: "'w runtime_context \<Rightarrow> graph_state \<Rightarrow> ('w, graph_state) act" where
  "verify_citations_node cx s =
     bindA (cx_citation_verifier cx (gs_job_id s) (gs_claims s)) (\<lambda>claims. ret (s\<lparr> gs_claims := claims \<rparr>))"

text \<open>
  The \<open>EvaluationCandidateInput\<close> of the channels, with the checks of its contract (\<open>repair_count\<close> and the
  attempt are never negative here).
\<close>

definition candidate_of :: "'w runtime_context \<Rightarrow> graph_state \<Rightarrow> evaluation_candidate option" where
  "candidate_of cx s =
     (if py_strip (gs_job_id s) = [] \<or> py_strip (gs_question s) = [] \<or>
         list_ex (\<lambda>i. py_strip i = []) (gs_evidence_item_ids s) \<or> gs_repair_count s < 0 \<or> gs_evaluation_attempt s < 0
      then None
      else Some \<lparr> ec_job_id = py_strip (gs_job_id s), ec_question = py_strip (gs_question s), ec_plan = gs_plan s,
                  ec_findings = gs_findings s, ec_draft = py_strip (gs_draft s), ec_claims = gs_claims s,
                  ec_evidence_item_ids = map py_strip (gs_evidence_item_ids s), ec_tool_summary = [],
                  ec_repair_count = gs_repair_count s, ec_evaluation_attempt = gs_evaluation_attempt s + 1,
                  ec_evaluation_profile = cx_evaluation_profile cx, ec_golden_facets_hit = None,
                  ec_golden_completeness_ratio = None \<rparr>)"

text \<open>The two \<open>try\<close> statements: evaluation and model errors pass, anything else is wrapped.\<close>

definition wrap_error :: "exc_class \<Rightarrow> ('w, 'a) act \<Rightarrow> ('w, 'a) act" where
  "wrap_error wrapper m = catchA m (\<lambda>e. raising (if isinstance e [EvaluationError, ModelError] then e else wrapper))"

definition evaluate_node :: "'w runtime_context \<Rightarrow> graph_state \<Rightarrow> ('w, graph_state) act" where
  "evaluate_node cx s =
     (case cx_evaluation_runner cx of
        None \<Rightarrow> raising EvaluationError
      | Some rn \<Rightarrow>
          (case candidate_of cx s of
             None \<Rightarrow> raising PYDANTIC_INVALID
           | Some candidate \<Rightarrow>
               bindA (wrap_error EvaluationTerminalError (rn_provenance rn (gs_job_id s) (gs_claims s))) (\<lambda>provenance_ok.
               let execution_id = (case cx_workflow_execution_id cx of None \<Rightarrow> [] | Some e \<Rightarrow> e)
               in case cx_job_claim_token cx of
                    None \<Rightarrow> raising EvaluationValidationError
                  | Some tok \<Rightarrow>
                      if tok = [] then raising EvaluationValidationError
                      else bindA (wrap_error EvaluationError
                             (\<lambda>w. rn_run rn candidate execution_id (cx_now cx w + timedelta_seconds 25) tok provenance_ok w))
                             (\<lambda>result.
                               ret (s\<lparr> gs_evaluation_passed := (ev_passed result = Some True),
                                       gs_evaluation_run_id := ev_run_id result,
                                       gs_evaluation_attempt := gs_evaluation_attempt s + 1,
                                       gs_evaluation_fingerprint := ev_input_fingerprint result \<rparr>)))))"

definition policy_node :: "'w runtime_context \<Rightarrow> graph_state \<Rightarrow> ('w, graph_state) act" where
  "policy_node cx s =
     (if gs_evaluation_passed s then ret (s\<lparr> gs_disposition := ''complete'' \<rparr>)
      else (case cx_policy_callback cx of
              None \<Rightarrow> ret (s\<lparr> gs_disposition := ''terminal'' \<rparr>)
            | Some callback \<Rightarrow>
                bindA (callback False (gs_evaluation_run_id s) (gs_repair_count s) (gs_evaluation_attempt s))
                  (\<lambda>disposition. ret (s\<lparr> gs_disposition := disposition \<rparr>))))"

definition route_after_policy :: "graph_state \<Rightarrow> string" where
  "route_after_policy s =
     (if gs_disposition s = ''complete'' then ''complete''
      else if gs_disposition s = ''repair'' then ''repair''
      else if gs_disposition s = ''await_review'' then ''await_review''
      else ''terminal'')"

definition repair_node :: "graph_state \<Rightarrow> ('w, graph_state) act" where
  "repair_node s = ret (s\<lparr> gs_repair_count := gs_repair_count s + 1 \<rparr>)"

definition await_review_node :: "graph_state \<Rightarrow> ('w, graph_state) act" where
  "await_review_node s = ret s"

definition terminal_node :: "graph_state \<Rightarrow> ('w, graph_state) act" where
  "terminal_node s = raising EvaluationTerminalError"

text \<open>The authorisation \<open>complete_node\<close> demands before it formats anything.\<close>

definition completion_authorised :: "'w runtime_context \<Rightarrow> graph_state \<Rightarrow> ('w, bool) act" where
  "completion_authorised cx s =
     (if gs_evaluation_passed s then ret True
      else case (cx_completion_auth_checker cx, cx_workflow_execution_id cx) of
        (Some checker, Some execution_id) \<Rightarrow> checker (gs_job_id s) execution_id (gs_evaluation_fingerprint s)
      | _ \<Rightarrow> ret False)"

definition report_of :: "graph_state \<Rightarrow> string" where
  "report_of s = format_research_report (gs_question s) (gs_plan s) (gs_findings s) (gs_draft s) (gs_claims s)"

definition complete_node :: "'w runtime_context \<Rightarrow> graph_state \<Rightarrow> ('w, graph_state) act" where
  "complete_node cx s =
     bindA (completion_authorised cx s) (\<lambda>authorised.
       if \<not> authorised then raising value_error
       else if py_strip (gs_draft s) = [] then raising value_error
       else
         let report = report_of s; done = ret (s\<lparr> gs_result := report \<rparr>)
         in case (cx_persist_final cx, cx_workflow_execution_id cx) of
              (Some persist_final, Some execution_id) \<Rightarrow>
                (case cx_job_claim_token cx of
                   None \<Rightarrow> raising value_error
                 | Some tok \<Rightarrow>
                     if tok = [] then raising value_error
                     else bindA (persist_final (gs_job_id s) execution_id report (gs_claims s) tok) (\<lambda>_. done))
            | _ \<Rightarrow> done)"

section \<open>The graph\<close>

definition NODE_NAMES :: "string list" where
  "NODE_NAMES = [''validate'', ''plan'', ''research'', ''draft'', ''verify_citations'', ''evaluate'', ''policy'',
     ''repair'', ''await_review'', ''complete'', ''terminal'']"

definition node_fn :: "'w runtime_context \<Rightarrow> string \<Rightarrow> int option \<Rightarrow> graph_state \<Rightarrow> ('w, graph_state) act" where
  "node_fn cx node attempt s =
     (if node = ''validate'' then validate_node s
      else if node = ''plan'' then plan_node cx s
      else if node = ''research'' then research_node cx attempt s
      else if node = ''draft'' then draft_node cx s
      else if node = ''verify_citations'' then verify_citations_node cx s
      else if node = ''evaluate'' then evaluate_node cx s
      else if node = ''policy'' then policy_node cx s
      else if node = ''repair'' then repair_node s
      else if node = ''await_review'' then await_review_node s
      else if node = ''complete'' then complete_node cx s
      else terminal_node s)"

definition wrap_node :: "'w runtime_context \<Rightarrow> string \<Rightarrow> graph_state \<Rightarrow> ('w, graph_state) act" where
  "wrap_node cx node s =
     (case cx_hooks cx of
        None \<Rightarrow> node_fn cx node None s
      | Some hooks \<Rightarrow>
          bindA (hk_begin hooks node) (\<lambda>attempt.
            bindA (catchA (node_fn cx node (Some attempt) s)
                     (\<lambda>e. bindA (hk_fail hooks node attempt e) (\<lambda>_. raising e)))
              (\<lambda>s'. bindA (hk_complete hooks node attempt) (\<lambda>_. ret s'))))"

text \<open>The edges; \<open>None\<close> is \<open>END\<close>.\<close>

definition successor :: "string \<Rightarrow> graph_state \<Rightarrow> string option" where
  "successor node s =
     (if node = ''validate'' then Some ''plan''
      else if node = ''plan'' then Some ''research''
      else if node = ''research'' then Some ''draft''
      else if node = ''draft'' then Some ''verify_citations''
      else if node = ''verify_citations'' then Some ''evaluate''
      else if node = ''evaluate'' then Some ''policy''
      else if node = ''policy'' then Some (route_after_policy s)
      else if node = ''repair'' then Some ''draft''
      else if node = ''await_review'' then Some ''complete''
      else None)"

definition DEFAULT_INTERRUPT_AFTER :: "string list" where "DEFAULT_INTERRUPT_AFTER = [''await_review'']"

definition superstep :: "'w runtime_context \<Rightarrow> string \<Rightarrow> graph_state \<Rightarrow> ('w, graph_state \<times> string option) act" where
  "superstep cx node s = bindA (wrap_node cx node s) (\<lambda>s'. ret (s', successor node s'))"

datatype walk_end =
    Ended graph_state
  | Interrupted graph_state string
  | Raised graph_state string exc_class

text \<open>
  \<open>Raised s node e\<close> keeps the checkpoint a later invocation resumes from: the channels before the node
  and the node itself.
\<close>

fun walk :: "'w runtime_context \<Rightarrow> string list \<Rightarrow> (nat \<Rightarrow> 'w \<Rightarrow> 'w) \<Rightarrow> nat \<Rightarrow> string \<Rightarrow> graph_state \<Rightarrow> 'w \<Rightarrow> 'w \<times> walk_end option" where
  "walk cx ia env 0 node s w = (w, None)"
| "walk cx ia env (Suc n) node s w =
     (case superstep cx node s (env n w) of
        (w', Inl e) \<Rightarrow> (w', Some (Raised s node e))
      | (w', Inr (s', None)) \<Rightarrow> (w', Some (Ended s'))
      | (w', Inr (s', Some node')) \<Rightarrow>
          if node \<in> set ia then (w', Some (Interrupted s' node')) else walk cx ia env n node' s' w')"

end
