(* ===== verification/Research_Processor.thy ===== *)
theory Research_Processor
  imports Research_Graph
begin

text \<open>
  The LangGraph research processor (\<open>src/src/atlas/workflow/processor.py\<close>): the call the worker makes for a
  claimed job, the transactions it runs and the runtime context it builds for the graph.

  The world is the application database and, beside it, everything else (\<open>'x\<close>): the clock, the uuid
  source, LangGraph's checkpoint tables, the evidence store and the model and tool ledgers.  What
  touches \<open>'x\<close> is a field of \<open>services\<close>.  \<open>sv_env\<close> is what other processes do before each
  transaction of this one: an arbitrary change of the world.

  Metrics, logging and tracing are left out.
\<close>

section \<open>Outcomes, settings and services\<close>

datatype processing_outcome =
    CompletedProcessing string string
  | PausedForReview string
  | RetryScheduled string timestamp int
  | TerminalFailed string "string option"

record settings =
  se_retry_base_seconds :: real
  se_retry_max_backoff_seconds :: real
  se_retry_jitter_max_seconds :: real
  se_evaluation_profile :: string
  se_plan_prompt_version :: string
  se_draft_prompt_version :: string
  se_retrieval_default_k :: int

text \<open>\<open>StateSnapshot\<close>: no values means that the thread has no checkpoint.\<close>

record snapshot =
  sn_values :: "graph_state option"
  sn_next :: "string list"

type_synonym 'x world = "app_db \<times> 'x"

record 'x services =
  sv_env :: "'x world \<Rightarrow> 'x world"
  sv_now :: "'x \<Rightarrow> 'x \<times> timestamp"
  sv_uuid :: "'x \<Rightarrow> 'x \<times> string"
  sv_randbelow :: "'x \<Rightarrow> int \<Rightarrow> int"
  sv_traceparent :: "'x \<Rightarrow> string option"
  sv_runtime_error :: "string \<Rightarrow> bool"
  sv_get_state :: "'x \<Rightarrow> string \<Rightarrow> snapshot"
  sv_invoke :: "'x world runtime_context \<Rightarrow> graph_state option \<Rightarrow> string \<Rightarrow> ('x world, graph_state option) act"
  sv_plan :: "string \<Rightarrow> string \<Rightarrow> string \<Rightarrow> ('x, string list) act"
  sv_execute :: "research_input \<Rightarrow> ('x, string list \<times> string list) act"
  sv_retrieve :: "string \<Rightarrow> int \<Rightarrow> ('x, string list) act"
  sv_link :: "string \<Rightarrow> string list \<Rightarrow> string option \<Rightarrow> ('x, unit) act"
  sv_draft :: "synthesizer_input \<Rightarrow> evidence_context_item list \<Rightarrow> ('x, string \<times> claim_structured list) act"
  sv_pack :: "string list \<Rightarrow> ('x, evidence_context_item list) act"
  sv_validate_citations :: "string \<Rightarrow> claim_structured list \<Rightarrow> ('x, unit) act"
  sv_get_item :: "string \<Rightarrow> ('x, string \<times> string \<times> string \<times> string) act"
  sv_persist_final :: "app_db \<Rightarrow> string \<Rightarrow> string \<Rightarrow> string \<Rightarrow> claim_structured list \<Rightarrow> string \<Rightarrow> ('x, unit) act"
  sv_evaluate :: "app_db \<Rightarrow> evaluation_candidate \<Rightarrow> string \<Rightarrow> timestamp \<Rightarrow> string \<Rightarrow> bool \<Rightarrow> ('x,
     begin_args \<times> (exc_class + (dimension_result list \<times> (string \<times> string) list)) \<times> (nat \<Rightarrow> string) \<times>
     timestamp \<times> timestamp \<times> timestamp) act"
  sv_hashing :: hashing
  sv_rounding :: rounding
  sv_fsum :: "real list \<Rightarrow> real"
  sv_outbox :: outbox_env

text \<open>
  \<open>sv_uuid\<close> is the source of fresh ids and tokens (\<open>uuid4\<close>, \<open>secrets.token_hex\<close>);
  \<open>sv_get_item\<close> returns the document id, source id, canonical URI and content hash of an item;
  \<open>sv_evaluate\<close> is the part of \<open>EvaluationRunner\<close> before and beside its transactions: it loads the
  linked ids and tool rows, fingerprints the snapshot and grades it.
\<close>

section \<open>Lifting\<close>

definition on_ext :: "('x, 'a) act \<Rightarrow> ('x world, 'a) act" where
  "on_ext a w = (case w of (db, x) \<Rightarrow> (case a x of (x', r) \<Rightarrow> ((db, x'), r)))"

definition nowA :: "'x services \<Rightarrow> ('x world, timestamp) act" where
  "nowA sv = on_ext (\<lambda>x. case sv_now sv x of (x', t) \<Rightarrow> (x', Inr t))"

definition uuidA :: "'x services \<Rightarrow> ('x world, string) act" where
  "uuidA sv = on_ext (\<lambda>x. case sv_uuid sv x of (x', u) \<Rightarrow> (x', Inr u))"

definition askA :: "('x \<Rightarrow> 'a) \<Rightarrow> ('x world, 'a) act" where
  "askA f w = (w, Inr (f (snd w)))"

text \<open>\<open>with session_scope(...) as session: body\<close>.\<close>

definition tx :: "'x services \<Rightarrow> (app_db \<Rightarrow> exc_class + (app_db \<times> 'a)) \<Rightarrow> ('x world, 'a) act" where
  "tx sv body w = (case sv_env sv w of (db, x) \<Rightarrow> (case session_scope db body of (db', r) \<Rightarrow> ((db', x), r)))"

definition read_tx :: "'x services \<Rightarrow> (app_db \<Rightarrow> 'a) \<Rightarrow> ('x world, 'a) act" where
  "read_tx sv f = tx sv (\<lambda>db. Inr (db, f db))"

definition RUNTIME_ERROR :: exc_class where "RUNTIME_ERROR = OtherClass ''RuntimeError''"

definition is_runtime_error :: "'x services \<Rightarrow> exc_class \<Rightarrow> bool" where
  "is_runtime_error sv e = (case e of OtherClass n \<Rightarrow> n = ''RuntimeError'' \<or> sv_runtime_error sv n | _ \<Rightarrow> False)"

section \<open>Transactions\<close>

text \<open>A repository call that reports whether the claim still held.\<close>

definition fenced :: "(store \<Rightarrow> store_error + (store \<times> bool)) \<Rightarrow> app_db \<Rightarrow> exc_class + (app_db \<times> unit)" where
  "fenced f db = bindE (on_store db f) (\<lambda>(db, ok). if ok then Inr (db, ()) else Inl ClaimOwnershipError)"

definition bind_fresh :: "string \<Rightarrow> string \<Rightarrow> string \<Rightarrow> timestamp \<Rightarrow> app_db \<Rightarrow> exc_class + (app_db \<times> string)" where
  "bind_fresh job_id claim_token uuid at' db =
     bindE (on_store db (\<lambda>st. abandon_unfinished_for_job st job_id at')) (\<lambda>(db, _).
     bindE (on_store db (\<lambda>st. create_execution st uuid job_id at' None)) (\<lambda>(db, execution_id).
     bindE (fenced (\<lambda>st. set_active_workflow_execution st job_id claim_token execution_id at') db) (\<lambda>(db, _).
     Inr (db, execution_id))))"

definition policy_row_of ::
  "hashing \<Rightarrow> string \<Rightarrow> string \<Rightarrow> string option \<Rightarrow> string option \<Rightarrow> policy_decision \<Rightarrow> attempt_counts \<Rightarrow> timestamp \<Rightarrow> policy_row" where
  "policy_row_of h decision_id job_id execution_id evaluation_run_id d counts at' =
     \<lparr> pl_id = decision_id, pl_research_job_id = job_id, pl_workflow_execution_id = execution_id,
       pl_evaluation_run_id = evaluation_run_id, pl_decision = pd_action d,
       pl_failure_category = category_value (pd_failure_category d), pl_reason_code = pd_reason_code d,
       pl_decision_fingerprint = fingerprint_policy_decision h job_id execution_id evaluation_run_id d counts,
       pl_created_at = at' \<rparr>"

definition counts_of :: "app_db \<Rightarrow> string \<Rightarrow> attempt_counts" where
  "counts_of db job_id =
     (case get_attempt_counts (db_store db) job_id of
        (rc, jrc, eac) \<Rightarrow> \<lparr> ac_repair_count = rc, ac_job_retry_count = jrc, ac_evaluation_attempt_count = eac \<rparr>)"

text \<open>The transaction that pauses a job for review.\<close>

definition await_review_decision :: policy_decision where
  "await_review_decision =
     \<lparr> pd_action = ''await_review'', pd_failure_category = NEEDS_HUMAN_REVIEW, pd_reason_code = ''AWAIT_REVIEW_POLICY'' \<rparr>"

definition await_review_tx ::
  "hashing \<Rightarrow> outbox_env \<Rightarrow> string option \<Rightarrow> string \<Rightarrow> string \<Rightarrow> string \<Rightarrow> string \<Rightarrow> string \<Rightarrow> uuid \<Rightarrow> timestamp \<Rightarrow>
   app_db \<Rightarrow> exc_class + (app_db \<times> unit)" where
  "await_review_tx h env tp job_id claim_token execution_id evaluation_run_id decision_id event_id at' db =
     bindE (insert_policy_decision db (policy_row_of h decision_id job_id (Some execution_id) (Some evaluation_run_id)
              await_review_decision (counts_of db job_id) at')) (\<lambda>(db, authoritative_id).
       if authoritative_id = decision_id then
         bindE (fenced (\<lambda>st. transition_awaiting_review st job_id claim_token at') db) (\<lambda>(db, _).
         bindE (enqueue_built env tp (build_research_job_awaiting_review event_id job_id execution_id (Aware at' 0)) db)
           (\<lambda>db. Inr (db, ())))
       else Inr (db, ()))"

text \<open>The transaction that schedules a retry; it returns the time and number of the attempt.\<close>

definition retry_tx ::
  "hashing \<Rightarrow> outbox_env \<Rightarrow> string option \<Rightarrow> string \<Rightarrow> string \<Rightarrow> string option \<Rightarrow> policy_decision \<Rightarrow> attempt_counts \<Rightarrow>
   string \<Rightarrow> string \<Rightarrow> uuid \<Rightarrow> timestamp \<Rightarrow> timestamp \<Rightarrow> app_db \<Rightarrow> exc_class + (app_db \<times> timestamp \<times> int)" where
  "retry_tx h env tp job_id claim_token execution_id d counts decision_id attempt_id event_id next_at at' db =
     (let attempt_number = ac_job_retry_count counts + 1
      in bindE (insert_policy_decision db (policy_row_of h decision_id job_id execution_id None d counts at'))
           (\<lambda>(db, authoritative_id).
         if authoritative_id = decision_id then
           bindE (case execution_id of
                    None \<Rightarrow> Inr db
                  | Some e \<Rightarrow>
                      if e = [] then Inr db
                      else insert_recovery_attempt db
                        \<lparr> ra_id = attempt_id, ra_research_job_id = job_id, ra_policy_decision_id = authoritative_id,
                          ra_abandoned_workflow_execution_id = e, ra_attempt_number = attempt_number,
                          ra_next_attempt_at = next_at, ra_created_at = at' \<rparr>) (\<lambda>db.
           bindE (fenced (\<lambda>st. schedule_retry st job_id claim_token next_at at' execution_id) db) (\<lambda>(db, _).
           bindE (enqueue_built env tp (build_research_job_retry_scheduled event_id job_id execution_id attempt_number
                    (Aware next_at 0) (Aware at' 0)) db) (\<lambda>db. Inr (db, next_at, attempt_number))))
         else
           bindE (get_recovery_attempt_by_policy db authoritative_id) (\<lambda>existing.
             case existing of
               None \<Rightarrow> Inr (db, next_at, attempt_number)
             | Some a \<Rightarrow> Inr (db, ra_next_attempt_at a, ra_attempt_number a))))"

text \<open>The transaction of the policy callback.\<close>

definition policy_tx ::
  "hashing \<Rightarrow> string \<Rightarrow> string \<Rightarrow> string \<Rightarrow> string \<Rightarrow> policy_decision \<Rightarrow> attempt_counts \<Rightarrow> string \<Rightarrow> timestamp \<Rightarrow>
   app_db \<Rightarrow> exc_class + (app_db \<times> unit)" where
  "policy_tx h job_id claim_token execution_id eval_run_id d counts proposed_id at' db =
     bindE (insert_policy_decision db (policy_row_of h proposed_id job_id (Some execution_id) (Some eval_run_id) d counts at'))
       (\<lambda>(db, authoritative_id).
         if authoritative_id = proposed_id \<and> pd_action d = ''repair''
         then fenced (\<lambda>st. increment_repair_count st job_id claim_token at') db
         else Inr (db, ()))"

section \<open>The runtime context\<close>

definition decision_counts :: "attempt_counts \<Rightarrow> int \<Rightarrow> int \<Rightarrow> attempt_counts" where
  "decision_counts c repair_count evaluation_attempt =
     c\<lparr> ac_repair_count := max (ac_repair_count c) repair_count,
        ac_evaluation_attempt_count := max (ac_evaluation_attempt_count c) evaluation_attempt \<rparr>"

definition policy_callback ::
  "'x services \<Rightarrow> string \<Rightarrow> string \<Rightarrow> string \<Rightarrow> bool \<Rightarrow> string \<Rightarrow> int \<Rightarrow> int \<Rightarrow> ('x world, string) act" where
  "policy_callback sv job_id execution_id claim_token passed eval_run_id repair_count evaluation_attempt =
     (if passed then ret ''complete''
      else if eval_run_id = [] then ret ''terminal''
      else bindA (read_tx sv (\<lambda>db. find (\<lambda>run. ev_run_id run = eval_run_id) (get_by_job db job_id))) (\<lambda>found.
        case found of
          None \<Rightarrow> ret ''terminal''
        | Some result \<Rightarrow>
            bindA (read_tx sv (\<lambda>db. counts_of db job_id)) (\<lambda>c.
            let counts = decision_counts c repair_count evaluation_attempt
            in case decide_for_evaluation (ev_passed result) (ev_dimensions result) counts of
                 Inl e \<Rightarrow> raising e
               | Inr d \<Rightarrow>
                   bindA (nowA sv) (\<lambda>at'.
                   bindA (uuidA sv) (\<lambda>proposed_id.
                   bindA (tx sv (policy_tx (sv_hashing sv) job_id claim_token execution_id eval_run_id d counts proposed_id at'))
                     (\<lambda>_. ret (pd_action d)))))))"

definition completion_auth_checker :: "'x services \<Rightarrow> string \<Rightarrow> string \<Rightarrow> string \<Rightarrow> ('x world, bool) act" where
  "completion_auth_checker sv job_id execution_id candidate_fingerprint =
     (if length candidate_fingerprint \<noteq> 64 then ret False
      else read_tx sv (\<lambda>db. case get_latest_approve_for_execution db job_id execution_id of
        None \<Rightarrow> False
      | Some decision \<Rightarrow> hr_candidate_fingerprint decision = candidate_fingerprint))"

text \<open>\<open>_BoundEvaluationRunner\<close>.\<close>

fun provenance_items :: "'x services \<Rightarrow> string list \<Rightarrow> ('x world, bool) act" where
  "provenance_items sv [] = ret True"
| "provenance_items sv (i # is) =
     bindA (on_ext (sv_get_item sv i)) (\<lambda>(document_id, source_id, uri, sha).
       if document_id = [] \<or> source_id = [] \<or> uri = [] \<or> sha = [] then ret False else provenance_items sv is)"

definition provenance_ok_for_claims :: "'x services \<Rightarrow> string \<Rightarrow> claim_structured list \<Rightarrow> ('x world, bool) act" where
  "provenance_ok_for_claims sv job_id claims =
     (if claims = [] then ret True
      else catchA (bindA (on_ext (sv_validate_citations sv job_id claims)) (\<lambda>_.
                     provenance_items sv (concat (map cs_evidence_item_ids claims))))
             (\<lambda>e. raising (if isinstance e [EvaluationError] then e else EvaluationTerminalError)))"

definition runner_run ::
  "'x services \<Rightarrow> evaluation_candidate \<Rightarrow> string \<Rightarrow> timestamp \<Rightarrow> string \<Rightarrow> bool \<Rightarrow> ('x world, eval_result) act" where
  "runner_run sv candidate execution_id deadline tok provenance_ok w =
     (case sv_env sv w of (db, x) \<Rightarrow>
        (case sv_evaluate sv db candidate execution_id deadline tok provenance_ok x of
           (x', Inl e) \<Rightarrow> ((db, x'), Inl e)
         | (x', Inr (a, graded, uuids, t1, t2, t3)) \<Rightarrow>
             (case run_owned (sv_hashing sv) (sv_rounding sv) (sv_fsum sv) uuids db
                     (a\<lparr> ba_execution_id := execution_id, ba_profile := ec_evaluation_profile candidate,
                         ba_attempt := ec_evaluation_attempt candidate, ba_job_id := ec_job_id candidate,
                         ba_deadline := deadline, ba_job_claim_token := tok \<rparr>) graded t1 t2 t3 of
                (db', r) \<Rightarrow> ((db', x'), r))))"

text \<open>\<open>RepositoryNodeAuditHooks\<close>.\<close>

definition sanitize_node_error :: "exc_class \<Rightarrow> string" where
  "sanitize_node_error e = class_name e @ '': node execution failed''"

definition on_nodes :: "app_db \<Rightarrow> store_error + (node_row list \<times> 'a) \<Rightarrow> exc_class + (app_db \<times> 'a)" where
  "on_nodes db r = (case r of Inl e \<Rightarrow> Inl (exc_of_store e) | Inr (nodes, v) \<Rightarrow> Inr (db\<lparr> db_nodes := nodes \<rparr>, v))"

definition hook_begin :: "'x services \<Rightarrow> string \<Rightarrow> string \<Rightarrow> ('x world, int) act" where
  "hook_begin sv execution_id node =
     bindA (nowA sv) (\<lambda>at'. bindA (uuidA sv) (\<lambda>u.
       tx sv (\<lambda>db. on_nodes db (begin_node_attempt (db_store db) (db_nodes db) u execution_id node at'))))"

definition hook_complete :: "'x services \<Rightarrow> string \<Rightarrow> string \<Rightarrow> int \<Rightarrow> ('x world, unit) act" where
  "hook_complete sv execution_id node attempt =
     bindA (nowA sv) (\<lambda>at'. tx sv (\<lambda>db. on_nodes db
       (bindE (complete_node_attempt (db_nodes db) execution_id node attempt at') (\<lambda>ns. Inr (ns, ())))))"

definition hook_fail :: "'x services \<Rightarrow> string \<Rightarrow> string \<Rightarrow> int \<Rightarrow> exc_class \<Rightarrow> ('x world, unit) act" where
  "hook_fail sv execution_id node attempt e =
     bindA (nowA sv) (\<lambda>at'. tx sv (\<lambda>db. on_nodes db
       (bindE (fail_node_attempt (db_nodes db) execution_id node attempt (sanitize_node_error e) at') (\<lambda>ns. Inr (ns, ())))))"

definition build_context :: "'x services \<Rightarrow> settings \<Rightarrow> string \<Rightarrow> string \<Rightarrow> string \<Rightarrow> string \<Rightarrow> 'x world runtime_context" where
  "build_context sv se execution_id claim_token job_id profile =
     \<lparr> cx_planner = planner_run (\<lambda>j q p. on_ext (sv_plan sv j q p)),
       cx_research = research_run (\<lambda>r. on_ext (sv_execute sv r))
         (Some (\<lambda>q k. on_ext (sv_retrieve sv q k), \<lambda>j ids e. on_ext (sv_link sv j ids e))),
       cx_synthesizer = synthesizer_run (\<lambda>s pack. on_ext (sv_draft sv s pack)) (Some (\<lambda>ids. on_ext (sv_pack sv ids))),
       cx_citation_verifier = citation_verifier_run (\<lambda>j cs. on_ext (sv_validate_citations sv j cs))
         (\<lambda>i. on_ext (\<lambda>x. case sv_get_item sv i x of
             (x', Inl e) \<Rightarrow> (x', Inl e) | (x', Inr (document_id, source_id, _, _)) \<Rightarrow> (x', Inr (document_id, source_id)))),
       cx_plan_prompt_version = se_plan_prompt_version se, cx_draft_prompt_version = se_draft_prompt_version se,
       cx_workflow_execution_id = Some execution_id,
       cx_hooks = Some \<lparr> hk_begin = hook_begin sv execution_id, hk_complete = hook_complete sv execution_id,
                         hk_fail = hook_fail sv execution_id \<rparr>,
       cx_persist_final = Some (\<lambda>j e body claims tok w.
         case sv_env sv w of (db, x) \<Rightarrow> (case sv_persist_final sv db j e body claims tok x of (x', r) \<Rightarrow> ((db, x'), r))),
       cx_retrieval_k = se_retrieval_default_k se,
       cx_evaluation_runner = Some \<lparr> rn_provenance = provenance_ok_for_claims sv, rn_run = runner_run sv \<rparr>,
       cx_job_claim_token = Some claim_token,
       cx_policy_callback = Some (policy_callback sv job_id execution_id claim_token),
       cx_evaluation_profile = profile,
       cx_completion_auth_checker = Some (completion_auth_checker sv),
       cx_now = (\<lambda>w. snd (sv_now sv (snd w))) \<rparr>"

section \<open>The call\<close>

definition require_bound_profile :: "'x services \<Rightarrow> settings \<Rightarrow> string \<Rightarrow> ('x world, string) act" where
  "require_bound_profile sv se job_id =
     bindA (read_tx sv (\<lambda>db. case tget r_id job_id (st_jobs (db_store db)) of None \<Rightarrow> None | Some m \<Rightarrow> r_evaluation_profile m))
       (\<lambda>stored. case stored of
          None \<Rightarrow> raising EvaluationProfileMismatchError
        | Some p \<Rightarrow>
            if p \<noteq> se_evaluation_profile se then raising EvaluationProfileMismatchError
            else if p = ''evaluation.v1'' then ret ''evaluation.v1''
            else if p = ''evaluation.candidate.fake.v1'' then ret ''evaluation.candidate.fake.v1''
            else ret ''evaluation.candidate.v1'')"

definition truthy :: "string option \<Rightarrow> bool" where
  "truthy v \<longleftrightarrow> (case v of None \<Rightarrow> False | Some s \<Rightarrow> s \<noteq> [])"

definition bind_execution ::
  "'x services \<Rightarrow> string \<Rightarrow> string \<Rightarrow> continuation_mode \<Rightarrow> string option \<Rightarrow> ('x world, string) act" where
  "bind_execution sv job_id claim_token mode active =
     bindA (nowA sv) (\<lambda>at'.
       let status_of_active = (\<lambda>db. case active of None \<Rightarrow> None | Some e \<Rightarrow> map_option x_status (get_execution (db_store db) e));
           fresh = bindA (uuidA sv) (\<lambda>u. tx sv (bind_fresh job_id claim_token u at'))
       in if mode = REVIEW_COMPLETE then
            (if \<not> truthy active then raising value_error
             else bindA (read_tx sv status_of_active) (\<lambda>status.
               if status \<noteq> Some ''RUNNING'' then raising RUNTIME_ERROR else ret (the active)))
          else if mode = NONE \<and> truthy active then
            bindA (read_tx sv status_of_active) (\<lambda>status.
              if status = Some ''RUNNING'' \<or> status = Some ''COMPLETED'' then ret (the active) else fresh)
          else fresh)"

definition completed_execution_result :: "'x services \<Rightarrow> string \<Rightarrow> string \<Rightarrow> ('x world, processing_outcome option) act" where
  "completed_execution_result sv execution_id job_id =
     bindA (read_tx sv (\<lambda>db. case get_execution (db_store db) execution_id of
              None \<Rightarrow> False | Some x \<Rightarrow> x_research_job_id x = job_id \<and> x_status x = ''COMPLETED'')) (\<lambda>finished.
       if \<not> finished then ret None
       else bindA (askA (\<lambda>x. sv_get_state sv x execution_id)) (\<lambda>snap.
         if sn_next snap \<noteq> [] then ret None
         else (case sn_values snap of
                 None \<Rightarrow> ret None
               | Some s \<Rightarrow>
                   if py_strip (gs_result s) = [] then ret None
                   else ret (Some (CompletedProcessing (gs_result s) execution_id)))))"

text \<open>\<open>complete_execution_for_claim\<close> and \<open>fail_execution_for_claim\<close> in a transaction of their own.\<close>

definition complete_tx :: "'x services \<Rightarrow> string \<Rightarrow> string \<Rightarrow> string \<Rightarrow> ('x world, unit) act" where
  "complete_tx sv job_id claim_token execution_id =
     bindA (nowA sv) (\<lambda>at'. tx sv (fenced (\<lambda>st. complete_execution_for_claim st execution_id job_id claim_token at')))"

definition fail_tx :: "'x services \<Rightarrow> string \<Rightarrow> string \<Rightarrow> string \<Rightarrow> ('x world, unit) act" where
  "fail_tx sv job_id claim_token execution_id =
     bindA (nowA sv) (\<lambda>at'. tx sv (fenced (\<lambda>st. fail_execution_for_claim st execution_id job_id claim_token at')))"

definition finish_completed ::
  "'x services \<Rightarrow> string \<Rightarrow> string \<Rightarrow> string \<Rightarrow> string \<Rightarrow> ('x world, processing_outcome) act" where
  "finish_completed sv job_id claim_token execution_id result =
     bindA (complete_tx sv job_id claim_token execution_id) (\<lambda>_. ret (CompletedProcessing result execution_id))"

definition invoke_review_complete ::
  "'x services \<Rightarrow> 'x world runtime_context \<Rightarrow> string \<Rightarrow> string \<Rightarrow> string \<Rightarrow> ('x world, processing_outcome) act" where
  "invoke_review_complete sv cx job_id claim_token execution_id =
     bindA (askA (\<lambda>x. sv_get_state sv x execution_id)) (\<lambda>snap.
       if sn_next snap \<noteq> [''complete''] then
         bindA (fail_tx sv job_id claim_token execution_id)
           (\<lambda>_. ret (TerminalFailed ''REVIEW_COMPLETE_BAD_CHECKPOINT'' (Some execution_id)))
       else bindA (sv_invoke sv cx None execution_id) (\<lambda>final.
         case final of
           None \<Rightarrow> raising RUNTIME_ERROR
         | Some s \<Rightarrow>
             bindA (askA (\<lambda>x. sv_get_state sv x execution_id)) (\<lambda>after.
               if sn_next after \<noteq> [] then raising RUNTIME_ERROR
               else if py_strip (gs_result s) = [] then raising RUNTIME_ERROR
               else finish_completed sv job_id claim_token execution_id (gs_result s))))"

definition handle_post_invoke ::
  "'x services \<Rightarrow> graph_state option \<Rightarrow> string \<Rightarrow> string \<Rightarrow> string \<Rightarrow> ('x world, processing_outcome) act" where
  "handle_post_invoke sv final job_id claim_token execution_id =
     (case final of
        None \<Rightarrow> raising RUNTIME_ERROR
      | Some s \<Rightarrow>
          bindA (askA (\<lambda>x. sv_get_state sv x execution_id)) (\<lambda>after.
            if sn_next after \<noteq> [] then
              (if sn_next after = [''complete''] \<and> gs_disposition s = ''await_review'' then
                 bindA (nowA sv) (\<lambda>at'. bindA (uuidA sv) (\<lambda>decision_id. bindA (uuidA sv) (\<lambda>event_id.
                 bindA (askA (sv_traceparent sv)) (\<lambda>tp.
                 bindA (tx sv (await_review_tx (sv_hashing sv) (sv_outbox sv) tp job_id claim_token execution_id
                          (gs_evaluation_run_id s) decision_id event_id at'))
                   (\<lambda>_. ret (PausedForReview execution_id))))))
               else bindA (fail_tx sv job_id claim_token execution_id) (\<lambda>_. raising RUNTIME_ERROR))
            else if py_strip (gs_result s) = [] then raising RUNTIME_ERROR
            else finish_completed sv job_id claim_token execution_id (gs_result s)))"

definition handle_exception ::
  "'x services \<Rightarrow> settings \<Rightarrow> exc_class \<Rightarrow> string \<Rightarrow> string \<Rightarrow> string option \<Rightarrow> ('x world, processing_outcome) act" where
  "handle_exception sv se exc job_id claim_token execution_id =
     (if isinstance exc [EvaluationTerminalError] then
        bindA (case execution_id of None \<Rightarrow> ret () | Some e \<Rightarrow> fail_tx sv job_id claim_token e)
          (\<lambda>_. ret (TerminalFailed ''EvaluationTerminalError'' execution_id))
      else bindA (read_tx sv (\<lambda>db. counts_of db job_id)) (\<lambda>counts.
        let d = decide_for_exception exc counts
        in if pd_action d = ''retry'' then
             bindA (nowA sv) (\<lambda>at'.
             bindA (askA (\<lambda>x. sv_randbelow sv x)) (\<lambda>randbelow.
             case schedule_next_attempt_at randbelow at' (ac_job_retry_count counts + 1) (se_retry_base_seconds se)
                    (se_retry_max_backoff_seconds se) (se_retry_jitter_max_seconds se) None of
               Inl e \<Rightarrow> raising e
             | Inr next_at \<Rightarrow>
                 bindA (uuidA sv) (\<lambda>decision_id. bindA (uuidA sv) (\<lambda>attempt_id. bindA (uuidA sv) (\<lambda>event_id.
                 bindA (askA (sv_traceparent sv)) (\<lambda>tp.
                 bindA (tx sv (retry_tx (sv_hashing sv) (sv_outbox sv) tp job_id claim_token execution_id d counts
                          decision_id attempt_id event_id next_at at')) (\<lambda>(next', number).
                 ret (RetryScheduled (case execution_id of None \<Rightarrow> [] | Some e \<Rightarrow> e) next' number))))))))
           else bindA (case execution_id of None \<Rightarrow> ret () | Some e \<Rightarrow> if e = [] then ret () else fail_tx sv job_id claim_token e)
                  (\<lambda>_. ret (TerminalFailed (pd_reason_code d) execution_id))))"

text \<open>The body of the \<open>try\<close> once the execution is bound.\<close>

definition run_bound ::
  "'x services \<Rightarrow> settings \<Rightarrow> string \<Rightarrow> string \<Rightarrow> string \<Rightarrow> continuation_mode \<Rightarrow> string \<Rightarrow> string \<Rightarrow> ('x world, processing_outcome) act" where
  "run_bound sv se question job_id claim_token mode profile execution_id =
     (let cx = build_context sv se execution_id claim_token job_id profile;
          post = (\<lambda>graph_input. bindA (sv_invoke sv cx graph_input execution_id) (\<lambda>final.
            handle_post_invoke sv final job_id claim_token execution_id));
          start = post (Some (initial_graph_state job_id question))
      in if mode = REVIEW_COMPLETE then invoke_review_complete sv cx job_id claim_token execution_id
         else bindA (askA (\<lambda>x. sv_get_state sv x execution_id)) (\<lambda>snap.
           case sn_values snap of
             None \<Rightarrow> start
           | Some s \<Rightarrow>
               if sn_next snap \<noteq> [] then post None
               else if py_strip (gs_result s) \<noteq> []
               then finish_completed sv job_id claim_token execution_id (gs_result s)
               else start))"

text \<open>\<open>ORDER BY finished_at DESC LIMIT 1\<close> over executions that are completed, so that have finished.\<close>

definition completed_id :: "app_db \<Rightarrow> job_row \<Rightarrow> string" where
  "completed_id db m =
     (case r_active_workflow_execution_id m of
        Some e \<Rightarrow> e
      | None \<Rightarrow>
          (case select_first (\<lambda>x. x_research_job_id x = r_id m \<and> x_status x = ''COMPLETED'')
                  (\<lambda>x. case x_finished_at x of None \<Rightarrow> 0 | Some f \<Rightarrow> - f) (st_execs (db_store db)) of
             Some x \<Rightarrow> x_id x | None \<Rightarrow> r_id m))"

text \<open>The first transaction: a replayed outcome, or the active execution to continue with.\<close>

definition replay_or_active ::
  "app_db \<Rightarrow> string \<Rightarrow> continuation_mode \<Rightarrow> string option \<Rightarrow> processing_outcome + string option" where
  "replay_or_active db job_id mode active =
     (case tget r_id job_id (st_jobs (db_store db)) of
        None \<Rightarrow> Inr active
      | Some m \<Rightarrow>
          (case (if mode = NONE \<and> r_status m = ''COMPLETED'' then r_result m else None) of
             Some result \<Rightarrow>
               if py_strip result \<noteq> [] then Inl (CompletedProcessing result (completed_id db m))
               else Inr (if active = None then r_active_workflow_execution_id m else active)
           | None \<Rightarrow> Inr (if active = None then r_active_workflow_execution_id m else active)))"

text \<open>
  The \<open>try\<close> statement: a \<open>RuntimeError\<close> passes, any other exception is handled with the execution that
  was bound when it was raised.
\<close>

definition recover ::
  "'x services \<Rightarrow> settings \<Rightarrow> string \<Rightarrow> string \<Rightarrow> string option \<Rightarrow> exc_class \<Rightarrow> ('x world, processing_outcome) act" where
  "recover sv se job_id claim_token execution_id e =
     (if is_runtime_error sv e then raising e else handle_exception sv se e job_id claim_token execution_id)"

definition bind_and_run ::
  "'x services \<Rightarrow> settings \<Rightarrow> string \<Rightarrow> string \<Rightarrow> string \<Rightarrow> continuation_mode \<Rightarrow> string \<Rightarrow> string option \<Rightarrow>
   ('x world, processing_outcome) act" where
  "bind_and_run sv se question job_id claim_token mode profile active w =
     (case bind_execution sv job_id claim_token mode active w of
        (w', Inl e) \<Rightarrow> recover sv se job_id claim_token None e w'
      | (w', Inr execution_id) \<Rightarrow>
          catchA (run_bound sv se question job_id claim_token mode profile execution_id)
            (recover sv se job_id claim_token (Some execution_id)) w')"

definition process ::
  "'x services \<Rightarrow> settings \<Rightarrow> string \<Rightarrow> string \<Rightarrow> string \<Rightarrow> continuation_mode \<Rightarrow> string option \<Rightarrow> ('x world, processing_outcome) act" where
  "process sv se question job_id claim_token mode active =
     (case fingerprint_job_claim_token (sv_hashing sv) claim_token of
        Inl e \<Rightarrow> raising e
      | Inr _ \<Rightarrow>
          bindA (read_tx sv (\<lambda>db. replay_or_active db job_id mode active)) (\<lambda>first.
          case first of
            Inl outcome \<Rightarrow> ret outcome
          | Inr active \<Rightarrow>
              bindA (require_bound_profile sv se job_id) (\<lambda>profile.
              bindA (if mode = NONE \<and> truthy active then completed_execution_result sv (the active) job_id else ret None)
                (\<lambda>short. case short of
                   Some outcome \<Rightarrow> ret outcome
                 | None \<Rightarrow>
                     bind_and_run sv se question job_id claim_token mode profile active))))"

end
