(* ===== verification/Job_Worker.thy ===== *)
theory Job_Worker
  imports Research_Processor
begin

text \<open>
  The worker (\<open>src/src/atlas/application/worker.py\<close>): claim a job, run the processor in the executor's
  thread, and finalise what it reports under the claim, with the event in the same transaction.

  \<open>concurrent.futures\<close> is a parameter: \<open>ex_wait\<close> is \<open>submit\<close> followed by \<open>future.result(timeout)\<close>.  On a time-out
  the processor may have done any part of its work and may go on afterwards, as another process
  would.  Heartbeats, spans, logs and metrics are left out.
\<close>

section \<open>The executor and the worker's state\<close>

datatype future_result =
    Returned processing_outcome
  | RaisedExc exc_class
  | TimedOut
  | SubmitFailed exc_class

record 'x executor =
  ex_wait :: "('x world, processing_outcome) act \<Rightarrow> 'x world \<Rightarrow> 'x world \<times> future_result"
  ex_timeout_error :: "string \<Rightarrow> bool"
  ex_done :: "'x \<Rightarrow> bool"
  ex_join_times_out :: "'x \<Rightarrow> bool"

text \<open>A result that arrives in time is the processor's.\<close>

definition executor_laws :: "'x executor \<Rightarrow> bool" where
  "executor_laws ex \<longleftrightarrow>
     (\<forall>p w w' out. ex_wait ex p w = (w', Returned out) \<longrightarrow> p w = (w', Inr out)) \<and>
     (\<forall>p w w' e. ex_wait ex p w = (w', RaisedExc e) \<longrightarrow> p w = (w', Inl e)) \<and>
     (\<forall>p w w' e. ex_wait ex p w = (w', SubmitFailed e) \<longrightarrow> w' = w)"

record worker =
  wk_shutdown :: bool
  wk_inflight :: bool
  wk_abandoned :: bool
  wk_closed :: bool
  wk_processor_wait_abandoned :: bool

text \<open>\<open>FuturesTimeoutError\<close> is the builtin \<open>TimeoutError\<close>, which the processor may raise itself.\<close>

definition is_timeout_error :: "'x executor \<Rightarrow> exc_class \<Rightarrow> bool" where
  "is_timeout_error ex e = (case e of OtherClass n \<Rightarrow> n = ''TimeoutError'' \<or> ex_timeout_error ex n | _ \<Rightarrow> False)"

section \<open>Transactions\<close>

definition finalize_completion_tx ::
  "outbox_env \<Rightarrow> string option \<Rightarrow> string \<Rightarrow> string \<Rightarrow> string \<Rightarrow> uuid \<Rightarrow> timestamp \<Rightarrow> app_db \<Rightarrow> exc_class + (app_db \<times> bool)" where
  "finalize_completion_tx env tp job_id claim_token result event_id at' db =
     bindE (on_store db (\<lambda>st. finalize_completion st job_id claim_token result at')) (\<lambda>(db, owned).
       if owned then bindE (enqueue_built env tp (build_research_job_completed event_id job_id (Aware at' 0)) db)
                       (\<lambda>db. Inr (db, True))
       else Inr (db, False))"

definition finalize_failure_tx ::
  "outbox_env \<Rightarrow> string option \<Rightarrow> string \<Rightarrow> string \<Rightarrow> string \<Rightarrow> string \<Rightarrow> uuid \<Rightarrow> timestamp \<Rightarrow> app_db \<Rightarrow> exc_class + (app_db \<times> bool)" where
  "finalize_failure_tx env tp job_id claim_token reason reason_class event_id at' db =
     bindE (on_store db (\<lambda>st. finalize_failure st job_id claim_token reason at')) (\<lambda>(db, owned).
       if owned then bindE (enqueue_built env tp (build_research_job_failed event_id job_id (Aware at' 0) reason_class) db)
                       (\<lambda>db. Inr (db, True))
       else Inr (db, False))"

definition claim_tx :: "string list \<Rightarrow> timestamp \<Rightarrow> timestamp \<Rightarrow> string \<Rightarrow> string option \<Rightarrow> app_db \<Rightarrow> exc_class + (app_db \<times> claimed_job option)" where
  "claim_tx locked now lease tok profile db = on_store db (\<lambda>st. claim_next st locked now lease tok profile)"

section \<open>Finalising\<close>

definition worker_finalize_completion :: "'x services \<Rightarrow> claimed_job \<Rightarrow> string \<Rightarrow> ('x world, bool) act" where
  "worker_finalize_completion sv c result =
     bindA (nowA sv) (\<lambda>at'. bindA (uuidA sv) (\<lambda>event_id. bindA (askA (sv_traceparent sv)) (\<lambda>tp.
       tx sv (finalize_completion_tx (sv_outbox sv) tp (rj_id (cl_job c)) (cl_claim_token c) result event_id at'))))"

definition worker_finalize_failure :: "'x services \<Rightarrow> claimed_job \<Rightarrow> string \<Rightarrow> string \<Rightarrow> ('x world, bool) act" where
  "worker_finalize_failure sv c reason reason_class =
     bindA (nowA sv) (\<lambda>at'. bindA (uuidA sv) (\<lambda>event_id. bindA (askA (sv_traceparent sv)) (\<lambda>tp.
       tx sv (finalize_failure_tx (sv_outbox sv) tp (rj_id (cl_job c)) (cl_claim_token c) reason reason_class event_id at'))))"

definition handle_outcome :: "'x services \<Rightarrow> claimed_job \<Rightarrow> processing_outcome \<Rightarrow> ('x world, unit) act" where
  "handle_outcome sv c outcome =
     (case outcome of
        CompletedProcessing result _ \<Rightarrow> bindA (worker_finalize_completion sv c result) (\<lambda>_. ret ())
      | TerminalFailed reason_code _ \<Rightarrow>
          bindA (worker_finalize_failure sv c (''Terminal: '' @ reason_code) reason_code) (\<lambda>_. ret ())
      | PausedForReview _ \<Rightarrow> ret ()
      | RetryScheduled _ _ _ \<Rightarrow> ret ())"

definition PROCESSING_TIMEOUT_REASON :: string where "PROCESSING_TIMEOUT_REASON = ''Processing timed out.''"
definition PROCESSING_TIMEOUT_REASON_CLASS :: string where "PROCESSING_TIMEOUT_REASON_CLASS = ''ProcessingTimeout''"
definition CLAIM_OWNERSHIP_LOST_REASON_CLASS :: string where "CLAIM_OWNERSHIP_LOST_REASON_CLASS = ''ClaimOwnershipLost''"

text \<open>\<open>_process_claimed\<close>; when finalising a failure raises, the future stays in flight.\<close>

definition process_claimed ::
  "'x services \<Rightarrow> settings \<Rightarrow> 'x executor \<Rightarrow> claimed_job \<Rightarrow> worker \<Rightarrow> 'x world \<Rightarrow> worker \<times> 'x world \<times> (exc_class + unit)" where
  "process_claimed sv se ex c wk w =
     (let idle = wk\<lparr> wk_inflight := False \<rparr>;
          failure = (\<lambda>reason reason_class after w'.
            case worker_finalize_failure sv c reason reason_class w' of
              (w'', Inl e) \<Rightarrow> (wk\<lparr> wk_inflight := True \<rparr>, w'', Inl e)
            | (w'', Inr _) \<Rightarrow> (after, w'', Inr ()));
          timed_out = failure PROCESSING_TIMEOUT_REASON PROCESSING_TIMEOUT_REASON_CLASS (idle\<lparr> wk_abandoned := True \<rparr>)
      in case ex_wait ex (process sv se (rj_question (cl_job c)) (rj_id (cl_job c)) (cl_claim_token c)
                            (cl_continuation_mode c) (cl_active_workflow_execution_id c)) w of
           (w', SubmitFailed e) \<Rightarrow> (wk, w', Inl e)
         | (w', TimedOut) \<Rightarrow> timed_out w'
         | (w', Returned outcome) \<Rightarrow> (case handle_outcome sv c outcome w' of (w'', r) \<Rightarrow> (idle, w'', r))
         | (w', RaisedExc e) \<Rightarrow>
             if is_timeout_error ex e then timed_out w'
             else if isinstance e [ClaimOwnershipError] then
               failure ''Claim ownership lost during processing.'' CLAIM_OWNERSHIP_LOST_REASON_CLASS idle w'
             else if isinstance e [EvaluationProfileMismatchError] then (idle, w', Inr ())
             else failure (''Processing failed: '' @ class_name e) (class_name e) idle w')"

section \<open>The loop\<close>

definition ready_for_new_claim :: "'x executor \<Rightarrow> 'x \<Rightarrow> worker \<Rightarrow> worker \<times> bool" where
  "ready_for_new_claim ex x wk =
     (if \<not> wk_abandoned wk then (wk, True)
      else if ex_done ex x then (wk\<lparr> wk_abandoned := False \<rparr>, True)
      else (wk, False))"

definition claim_next_job :: "'x services \<Rightarrow> string list \<Rightarrow> real \<Rightarrow> string option \<Rightarrow> ('x world, claimed_job option) act" where
  "claim_next_job sv locked lease_seconds profile =
     bindA (nowA sv) (\<lambda>now. bindA (uuidA sv) (\<lambda>tok.
       tx sv (claim_tx locked now (now + timedelta_seconds lease_seconds) tok profile)))"

definition run_once ::
  "'x services \<Rightarrow> settings \<Rightarrow> 'x executor \<Rightarrow> string list \<Rightarrow> real \<Rightarrow> string option \<Rightarrow> worker \<Rightarrow> 'x world \<Rightarrow>
   worker \<times> 'x world \<times> (exc_class + bool)" where
  "run_once sv se ex locked lease_seconds profile wk w =
     (if wk_shutdown wk then (wk, w, Inr False)
      else case ready_for_new_claim ex (snd w) wk of
        (wk, False) \<Rightarrow> (wk, w, Inr False)
      | (wk, True) \<Rightarrow>
          (case claim_next_job sv locked lease_seconds profile w of
             (w', Inl e) \<Rightarrow> (wk, w', Inl e)
           | (w', Inr None) \<Rightarrow> (wk, w', Inr False)
           | (w', Inr (Some c)) \<Rightarrow>
               (case process_claimed sv se ex c wk w' of
                  (wk, w'', Inl e) \<Rightarrow> (wk, w'', Inl e)
                | (wk, w'', Inr _) \<Rightarrow> (wk, w'', Inr True))))"

definition join_processor_bounded :: "'x executor \<Rightarrow> 'x \<Rightarrow> worker \<Rightarrow> worker" where
  "join_processor_bounded ex x wk =
     (let joined = wk\<lparr> wk_inflight := False, wk_abandoned := False \<rparr>
      in if (wk_inflight wk \<or> wk_abandoned wk) \<and> ex_join_times_out ex x
         then joined\<lparr> wk_processor_wait_abandoned := True, wk_abandoned := True \<rparr> else joined)"

definition close :: "'x executor \<Rightarrow> 'x \<Rightarrow> worker \<Rightarrow> worker" where
  "close ex x wk =
     (if wk_closed wk then wk else join_processor_bounded ex x (wk\<lparr> wk_closed := True, wk_shutdown := True \<rparr>))"

text \<open>
  \<open>run_forever\<close>: \<open>stop k\<close> tells whether shutdown was requested before poll \<open>k\<close>; \<open>None\<close> is a loop that has
  not stopped within the given number of polls.
\<close>

fun run_forever ::
  "'x services \<Rightarrow> settings \<Rightarrow> 'x executor \<Rightarrow> string list \<Rightarrow> real \<Rightarrow> string option \<Rightarrow> (nat \<Rightarrow> bool) \<Rightarrow> nat \<Rightarrow> nat \<Rightarrow> worker \<Rightarrow> 'x world \<Rightarrow>
   (worker \<times> 'x world \<times> (exc_class + unit)) option" where
  "run_forever sv se ex locked lease profile stop k 0 wk w = None"
| "run_forever sv se ex locked lease profile stop k (Suc n) wk w =
     (let wk = wk\<lparr> wk_shutdown := wk_shutdown wk \<or> stop k \<rparr>
      in if wk_shutdown wk then Some (close ex (snd w) wk, w, Inr ())
         else case run_once sv se ex locked lease profile wk w of
           (wk, w, Inl e) \<Rightarrow> Some (close ex (snd w) wk, w, Inl e)
         | (wk, w, Inr _) \<Rightarrow> run_forever sv se ex locked lease profile stop (Suc k) n wk w)"

end
