(* ===== verification/Graph_Safety.thy ===== *)
theory Graph_Safety
  imports Research_Graph
begin

text \<open>
  Every run of the research graph ends, and nothing reaches \<open>END\<close> without authorisation.
  \<open>checkpoint C next s\<close> are the states a thread can be in: started from \<open>initial_graph_state\<close> and stepped
  any number of times, each time by some worker with a runtime context in \<open>C\<close> and a world left in any
  state by the others.  It covers walks, interrupts, crashes and resumptions alike.
\<close>

section \<open>What a step does to the channels\<close>

lemma wrap_node_Inr:
  "wrap_node cx node s w = (w', Inr s') \<Longrightarrow> \<exists>a w1 w2. node_fn cx node a s w1 = (w2, Inr s')"
  by (auto simp: wrap_node_def bind_simps catchA_Inr split: option.splits)

lemma superstep_Inr:
  assumes "superstep cx node s w = (w', Inr (s', nxt))"
  shows "nxt = successor node s' \<and> (\<exists>a w1 w2. node_fn cx node a s w1 = (w2, Inr s'))"
  using assms by (auto simp: superstep_def bind_simps dest: wrap_node_Inr)

lemmas node_defs = validate_node_def plan_node_def research_node_def draft_node_def verify_citations_node_def
  repair_node_def await_review_node_def terminal_node_def

text \<open>The evaluate, policy and complete nodes, inverted once.\<close>

lemma wrap_error_Inr [bind_simps]: "wrap_error x m w = (w', Inr v) \<longleftrightarrow> m w = (w', Inr v)"
  by (auto simp: wrap_error_def catchA_Inr)

lemma evaluate_node_Inr:
  assumes "evaluate_node cx s w = (w', Inr s')"
  shows "\<exists>rn cand e d tok p w1 result.
     cx_evaluation_runner cx = Some rn \<and> candidate_of cx s = Some cand \<and>
     rn_run rn cand e d tok p w1 = (w', Inr result) \<and>
     s' = s\<lparr> gs_evaluation_passed := (ev_passed result = Some True), gs_evaluation_run_id := ev_run_id result,
             gs_evaluation_attempt := gs_evaluation_attempt s + 1,
             gs_evaluation_fingerprint := ev_input_fingerprint result \<rparr>"
proof -
  obtain rn cand tok where c: "cx_evaluation_runner cx = Some rn" "candidate_of cx s = Some cand"
    "cx_job_claim_token cx = Some tok"
    using assms by (auto simp: evaluate_node_def Let_def bind_simps split: option.splits)
  obtain e where e: "(case cx_workflow_execution_id cx of None \<Rightarrow> [] | Some e \<Rightarrow> e) = e" by blast
  from assms c e obtain d p w1 result where "rn_run rn cand e d tok p w1 = (w', Inr result)"
    "s' = s\<lparr> gs_evaluation_passed := (ev_passed result = Some True), gs_evaluation_run_id := ev_run_id result,
             gs_evaluation_attempt := gs_evaluation_attempt s + 1,
             gs_evaluation_fingerprint := ev_input_fingerprint result \<rparr>"
    by (auto simp: evaluate_node_def Let_def bind_simps split: if_splits)
  with c show ?thesis by blast
qed

lemma policy_node_Inr:
  assumes "policy_node cx s w = (w', Inr s')"
  shows "\<exists>d. s' = s\<lparr> gs_disposition := d \<rparr> \<and>
     (d = ''repair'' \<longrightarrow> \<not> gs_evaluation_passed s \<and> (\<exists>cb w1. cx_policy_callback cx = Some cb \<and>
        cb False (gs_evaluation_run_id s) (gs_repair_count s) (gs_evaluation_attempt s) w1 = (w', Inr ''repair'')))"
  using assms by (auto simp: policy_node_def bind_simps split: option.splits if_splits)

lemma complete_node_Inr:
  assumes "complete_node cx s w = (w', Inr s')"
  shows "s' = s\<lparr> gs_result := report_of s \<rparr>" "\<exists>w1. completion_authorised cx s w = (w1, Inr True)" "py_strip (gs_draft s) \<noteq> []"
  using assms by (auto simp: complete_node_def Let_def bind_simps split: if_splits option.splits)

lemma node_repair_count:
  assumes "node_fn cx node a s w = (w', Inr s')"
  shows "gs_repair_count s' = (if node = ''repair'' then gs_repair_count s + 1 else gs_repair_count s)"
  using assms
  by (auto simp: node_fn_def node_defs Let_def bind_simps split: if_splits
      dest!: evaluate_node_Inr policy_node_Inr complete_node_Inr(1))

section \<open>Termination\<close>

text \<open>The law the policy callback keeps: a repaired draft is never sent to repair again.\<close>

definition repairs_once :: "'w runtime_context \<Rightarrow> bool" where
  "repairs_once cx \<longleftrightarrow>
     (\<forall>cb passed run rc attempt w w'. cx_policy_callback cx = Some cb \<longrightarrow>
        cb passed run rc attempt w = (w', Inr ''repair'') \<longrightarrow> rc < 1)"

text \<open>How many steps are left at most, the repair round included.\<close>

definition steps_left :: "string \<Rightarrow> graph_state \<Rightarrow> nat" where
  "steps_left node s =
     (let fresh = gs_repair_count s < 1
      in if node = ''validate'' then 14 else if node = ''plan'' then 13 else if node = ''research'' then 12
         else if node = ''draft'' then (if fresh then 11 else 6)
         else if node = ''verify_citations'' then (if fresh then 10 else 5)
         else if node = ''evaluate'' then (if fresh then 9 else 4)
         else if node = ''policy'' then (if fresh then 8 else 3)
         else if node = ''repair'' then 7 else if node = ''await_review'' then 2 else 1)"

lemma superstep_decreases:
  assumes step: "superstep cx node s w = (w', Inr (s', Some node'))" and law: "repairs_once cx" and rc: "0 \<le> gs_repair_count s"
  shows "steps_left node' s' < steps_left node s" "0 \<le> gs_repair_count s'"
proof -
  from superstep_Inr[OF step] obtain a w1 w2 where n: "Some node' = successor node s'" "node_fn cx node a s w1 = (w2, Inr s')"
    by blast
  note count = node_repair_count[OF n(2)]
  then show "0 \<le> gs_repair_count s'" using rc by simp
  have once: "gs_repair_count s < 1" if "node = ''policy''" "gs_disposition s' = ''repair''"
  proof -
    from n(2) that(1) have "policy_node cx s w1 = (w2, Inr s')" by (simp add: node_fn_def)
    from policy_node_Inr[OF this] that(2) obtain cb w3 where "cx_policy_callback cx = Some cb"
      "cb False (gs_evaluation_run_id s) (gs_repair_count s) (gs_evaluation_attempt s) w3 = (w2, Inr ''repair'')" by auto
    with law show ?thesis unfolding repairs_once_def by blast
  qed
  show "steps_left node' s' < steps_left node s"
    using n(1) count rc once
    by (auto simp: successor_def steps_left_def Let_def route_after_policy_def split: if_splits)
qed

lemma walk_finishes:
  assumes "repairs_once cx" "0 \<le> gs_repair_count s" "steps_left node s \<le> n"
  shows "\<exists>w' r. walk cx ia env n node s w = (w', Some r)"
  using assms(2,3)
proof (induction n arbitrary: node s w)
  case 0
  then show ?case by (simp add: steps_left_def Let_def split: if_splits)
next
  case (Suc n)
  show ?case
  proof (cases "superstep cx node s (env n w)")
    case (Pair w' r)
    show ?thesis
    proof (cases r)
      case (Inr p)
      then obtain s' nxt where p: "r = Inr (s', nxt)" by (cases p) auto
      show ?thesis
      proof (cases nxt)
        case (Some node')
        then have "steps_left node' s' < steps_left node s" "0 \<le> gs_repair_count s'"
          using superstep_decreases[of cx node s "env n w" w' s' node'] Pair p assms(1) Suc.prems(1) by auto
        then have "\<exists>w'' r. walk cx ia env n node' s' w' = (w'', Some r)" using Suc.IH Suc.prems(2) by simp
        then show ?thesis using Pair p Some by simp
      qed (simp add: Pair p)
    qed (simp add: Pair)
  qed
qed

section \<open>Threads\<close>

text \<open>\<open>H\<close> lists the steps that were taken: context, node, channels and world before the node.\<close>

type_synonym 'w history = "('w runtime_context \<times> string \<times> graph_state \<times> 'w) list"

inductive checkpoint :: "('w runtime_context \<Rightarrow> bool) \<Rightarrow> 'w history \<Rightarrow> string option \<Rightarrow> graph_state \<Rightarrow> bool"
  for C :: "'w runtime_context \<Rightarrow> bool" where
  start: "checkpoint C [] (Some ''validate'') (initial_graph_state job_id question)"
| step: "checkpoint C H (Some node) s \<Longrightarrow> C cx \<Longrightarrow> superstep cx node s w = (w', Inr (s', nxt)) \<Longrightarrow>
         checkpoint C (H @ [(cx, node, s, w)]) nxt s'"

lemma checkpoint_repair_count: "checkpoint C H nxt s \<Longrightarrow> 0 \<le> gs_repair_count s"
proof (induction rule: checkpoint.induct)
  case start
  show ?case by (simp add: initial_graph_state_def)
next
  case (step H node s cx w w' s' nxt)
  then show ?case by (auto dest!: superstep_Inr node_repair_count)
qed

lemma walk_checkpoint:
  assumes "walk cx ia env n node s w = (w', Some r)" "checkpoint C H (Some node) s" "C cx"
  shows "\<exists>H'. case r of Ended s' \<Rightarrow> checkpoint C H' None s' | Interrupted s' node' \<Rightarrow> checkpoint C H' (Some node') s'
    | Raised s' node' e \<Rightarrow> checkpoint C H' (Some node') s'"
  using assms(1,2)
proof (induction n arbitrary: node s w H)
  case (Suc n)
  obtain w1 q where q: "superstep cx node s (env n w) = (w1, q)" by fastforce
  show ?case
  proof (cases q)
    case (Inl e)
    then show ?thesis using Suc.prems q by auto
  next
    case (Inr p)
    obtain s' nxt where p: "p = (s', nxt)" by fastforce
    have st: "checkpoint C (H @ [(cx, node, s, env n w)]) nxt s'"
      using checkpoint.step[OF Suc.prems(2) assms(3), of "env n w" w1 s' nxt] q Inr p by simp
    show ?thesis
    proof (cases nxt)
      case None
      then show ?thesis using Suc.prems(1) q Inr p st by auto
    next
      case (Some node')
      then show ?thesis using Suc.prems(1) q Inr p st Suc.IH[of node' s' w1] by (auto split: if_splits)
    qed
  qed
qed simp

text \<open>
  \<open>graded H s\<close>: the candidate and the verdict in the channels are those of an evaluate step that was
  taken; only the disposition and the result may have changed since.
\<close>

definition graded :: "'w history \<Rightarrow> graph_state \<Rightarrow> bool" where
  "graded H s \<longleftrightarrow>
     (\<exists>cx s0 w w' s1 d r. (cx, ''evaluate'', s0, w) \<in> set H \<and> superstep cx ''evaluate'' s0 w = (w', Inr (s1, Some ''policy'')) \<and>
        s = s1\<lparr> gs_disposition := d, gs_result := r \<rparr>)"

text \<open>\<open>authorised H s\<close>: the complete step that was taken was allowed to accept the candidate.\<close>

definition authorised :: "('w runtime_context \<Rightarrow> bool) \<Rightarrow> 'w history \<Rightarrow> graph_state \<Rightarrow> bool" where
  "authorised C H s \<longleftrightarrow>
     (\<exists>cx s0 w w'. C cx \<and> (cx, ''complete'', s0, w) \<in> set H \<and> superstep cx ''complete'' s0 w = (w', Inr (s, None)) \<and>
        graded H s0)"

lemma graded_more: "graded H s \<Longrightarrow> graded (H @ H') s"
  by (auto simp: graded_def) blast

lemma graded_cong:
  assumes "graded H s"
  shows "graded H (s\<lparr> gs_disposition := d \<rparr>)" "graded H (s\<lparr> gs_result := r \<rparr>)"
proof -
  from assms obtain cx s0 w w' s1 d0 r0 where
    g: "(cx, ''evaluate'', s0, w) \<in> set H" "superstep cx ''evaluate'' s0 w = (w', Inr (s1, Some ''policy''))"
    "s = s1\<lparr> gs_disposition := d0, gs_result := r0 \<rparr>" unfolding graded_def by blast
  have "s\<lparr> gs_disposition := d \<rparr> = s1\<lparr> gs_disposition := d, gs_result := r0 \<rparr>"
    "s\<lparr> gs_result := r \<rparr> = s1\<lparr> gs_disposition := d0, gs_result := r \<rparr>" by (simp_all add: g(3))
  with g(1,2) show "graded H (s\<lparr> gs_disposition := d \<rparr>)" "graded H (s\<lparr> gs_result := r \<rparr>)"
    unfolding graded_def by blast+
qed

text \<open>What holds when each node is about to run.\<close>

definition thread_inv :: "('w runtime_context \<Rightarrow> bool) \<Rightarrow> 'w history \<Rightarrow> string option \<Rightarrow> graph_state \<Rightarrow> bool" where
  "thread_inv C H nxt s \<longleftrightarrow>
     (nxt \<in> {Some ''policy'', Some ''await_review'', Some ''complete''} \<longrightarrow> graded H s) \<and>
     (nxt = None \<longrightarrow> authorised C H s)"

lemma thread_inv_step:
  assumes inv: "thread_inv C H (Some node) s" and cx: "C cx" and step: "superstep cx node s w = (w', Inr (s', nxt))"
  shows "thread_inv C (H @ [(cx, node, s, w)]) nxt s'"
proof -
  let ?H = "H @ [(cx, node, s, w)]"
  from superstep_Inr[OF step] obtain a w1 w2 where n: "nxt = successor node s'" "node_fn cx node a s w1 = (w2, Inr s')"
    by blast
  let ?rest = "\<lambda>v. v \<in> {''validate'', ''plan'', ''research'', ''draft'', ''verify_citations'', ''repair''}"
  consider "node = ''evaluate''" | "node = ''policy''" | "node = ''await_review''" | "node = ''complete''" | "?rest node"
    | "node \<noteq> ''evaluate''" "node \<noteq> ''policy''" "node \<noteq> ''await_review''" "node \<noteq> ''complete''" "\<not> ?rest node" by argo
  then show ?thesis
  proof cases
    case 1
    then have nxt: "nxt = Some ''policy''" using n(1) by (simp add: successor_def)
    have "s' = s'\<lparr> gs_disposition := gs_disposition s', gs_result := gs_result s' \<rparr>" by simp
    moreover have "(cx, ''evaluate'', s, w) \<in> set ?H" "superstep cx ''evaluate'' s w = (w', Inr (s', Some ''policy''))"
      using step 1 nxt by simp_all
    ultimately have "graded ?H s'" unfolding graded_def by blast
    then show ?thesis using nxt by (simp add: thread_inv_def)
  next
    case 2
    then have "policy_node cx s w1 = (w2, Inr s')" using n(2) by (simp add: node_fn_def)
    then obtain d where s': "s' = s\<lparr> gs_disposition := d \<rparr>" by (auto dest: policy_node_Inr)
    have "graded H s" using inv 2 by (simp add: thread_inv_def)
    then have "graded ?H s'" using graded_more[OF graded_cong(1)[of H s d]] s' by simp
    then show ?thesis using 2 n(1) by (simp add: successor_def thread_inv_def)
  next
    case 3
    then have "s' = s" "graded H s" using n inv by (simp_all add: node_fn_def await_review_node_def thread_inv_def)
    then show ?thesis using 3 n(1) graded_more[of H s] by (simp add: successor_def thread_inv_def)
  next
    case 4
    then have nxt: "nxt = None" using n(1) by (simp add: successor_def)
    have "graded ?H s" using inv 4 graded_more[of H s] by (simp add: thread_inv_def)
    moreover have "(cx, ''complete'', s, w) \<in> set ?H" "superstep cx ''complete'' s w = (w', Inr (s', None))"
      using step 4 nxt by simp_all
    ultimately have "authorised C ?H s'" using cx unfolding authorised_def by blast
    then show ?thesis using nxt by (simp add: thread_inv_def)
  next
    case 5
    then show ?thesis using n(1) by (auto simp: successor_def thread_inv_def)
  next
    case 6
    then show ?thesis using n(2) by (simp add: node_fn_def terminal_node_def)
  qed
qed

lemma checkpoint_inv: "checkpoint C H nxt s \<Longrightarrow> thread_inv C H nxt s"
proof (induction rule: checkpoint.induct)
  case start
  show ?case by (simp add: thread_inv_def)
next
  case (step H node s cx w w' s' nxt)
  show ?case by (rule thread_inv_step[OF step.IH step.hyps(2,3)])
qed

end
