(* ===== verification/Evaluation_Safety.thy ===== *)
theory Evaluation_Safety
  imports Evaluation_Service
begin

text \<open>
  What the evaluation service guarantees over every history: a job has at most four runs, a verdict
  once stored never changes, and an evaluator whose run was taken over can no longer finalise it
  (\<open>token_fence\<close>).
\<close>

section \<open>Invariant\<close>

definition attempts_of :: "store \<Rightarrow> string \<Rightarrow> nat" where
  "attempts_of st j = (case tget r_id j (st_jobs st) of None \<Rightarrow> 0 | Some m \<Rightarrow> nat (r_evaluation_attempt_count m))"

definition runs_of :: "app_db \<Rightarrow> string \<Rightarrow> eval_row list" where
  "runs_of db j = filter (\<lambda>r. er_research_job_id r = j) (db_evals db)"

definition evals_ok :: "app_db \<Rightarrow> bool" where
  "evals_ok db \<longleftrightarrow>
     distinct (map er_id (db_evals db)) \<and> distinct (map eval_key (db_evals db)) \<and> list_all eval_checks (db_evals db) \<and>
     (\<forall>j. length (runs_of db j) \<le> attempts_of (db_store db) j)"

text \<open>The token under which a run in progress may be finalised.\<close>

definition run_holder :: "eval_row \<Rightarrow> string option" where
  "run_holder r = (if er_status r = ''IN_PROGRESS'' then Some (er_ownership_token r) else None)"

definition run_granted :: "eval_row \<Rightarrow> string \<Rightarrow> timestamp \<Rightarrow> timestamp \<Rightarrow> eval_row \<Rightarrow> bool" where
  "run_granted r tok now deadline r' \<longleftrightarrow> (\<exists>fp cf. r' = reclaimed_run tok fp cf deadline now r)"

interpretation eval_runs: token_fence run_holder "\<lambda>r t at'. run_owned_by (er_id r) t r" run_granted
  by unfold_locales (auto simp: run_holder_def run_owned_by_def run_granted_def reclaimed_run_def)

lemma reclaimed_run_keeps [simp]:
  "er_id (reclaimed_run tok fp cf dl at' r) = er_id r" "eval_key (reclaimed_run tok fp cf dl at' r) = eval_key r"
  "er_research_job_id (reclaimed_run tok fp cf dl at' r) = er_research_job_id r"
  "er_status (reclaimed_run tok fp cf dl at' r) = ''IN_PROGRESS''"
  "er_ownership_token (reclaimed_run tok fp cf dl at' r) = tok"
  by (simp_all add: reclaimed_run_def eval_key_def)

lemma finished_run_keeps [simp]:
  "er_id (succeeded_run a p h v at' r) = er_id r" "eval_key (succeeded_run a p h v at' r) = eval_key r"
  "er_research_job_id (succeeded_run a p h v at' r) = er_research_job_id r"
  "er_id (failed_run v at' r) = er_id r" "eval_key (failed_run v at' r) = eval_key r"
  "er_research_job_id (failed_run v at' r) = er_research_job_id r"
  by (simp_all add: succeeded_run_def failed_run_def eval_key_def)

lemma clear_dimensions_simps [simp]:
  "db_evals (clear_dimensions db i) = db_evals db" "db_store (clear_dimensions db i) = db_store db"
  "get_by_id (clear_dimensions db i) = get_by_id db"
  by (simp_all add: clear_dimensions_def get_by_id_def fun_eq_iff)

lemma runs_of_map:
  assumes "\<And>r. er_research_job_id (f r) = er_research_job_id r"
  shows "length (filter (\<lambda>r. er_research_job_id r = j) (map f xs)) = length (filter (\<lambda>r. er_research_job_id r = j) xs)"
  by (induction xs) (simp_all add: assms)

lemma tput_as_map: "tput key r xs = map (\<lambda>x. if key x = key r then r else x) xs"
  by (simp add: tput_def)

section \<open>What the calls do\<close>

lemma reserve_attempt:
  assumes "increment_evaluation_attempt_count st j tok now = Inr (st', True)"
  shows "\<exists>m. tget r_id j (st_jobs st) = Some m \<and> r_evaluation_attempt_count m < 4 \<and> st_execs st' = st_execs st \<and>
     st_jobs st' = tput r_id (m\<lparr> r_evaluation_attempt_count := r_evaluation_attempt_count m + 1 \<rparr>) (st_jobs st)"
  using assms
  by (auto simp: increment_evaluation_attempt_count_def flush_job_def bind_simps Let_def split: if_splits option.splits)

text \<open>The three ways \<open>begin_or_resume\<close> can succeed.\<close>

lemma begin_cases:
  assumes "begin_or_resume h db a now = Inr (db', run_id, tok, replay)"
  obtains
    (replayed) ex where "get_by_execution_key db (ba_execution_id a) (ba_profile a) (ba_attempt a) = Some ex"
      "er_status ex = ''SUCCEEDED''" "er_input_fingerprint ex = ba_fingerprint a" "db' = db" "run_id = er_id ex"
      "replay = Some (to_result db ex)" "tok = []"
  | (reclaimed) ex cf where "get_by_execution_key db (ba_execution_id a) (ba_profile a) (ba_attempt a) = Some ex"
      "er_status ex \<noteq> ''SUCCEEDED''" "er_input_fingerprint ex = ba_fingerprint a" "run_id = er_id ex"
      "tok = ba_new_token a" "replay = None"
      "reclaim_run db (er_id ex) (ba_new_token a) (ba_fingerprint a) cf (ba_deadline a) now = Inr db'"
      "er_status ex = ''IN_PROGRESS'' \<Longrightarrow> er_deadline_at ex < now"
      "assert_holds_current_job_claim h db (ba_job_id a) (ba_job_claim_token a) now = Inr cf"
  | (created) st cf where "increment_evaluation_attempt_count (db_store db) (ba_job_id a) (ba_job_claim_token a) now =
        Inr (st, True)" "run_id = ba_run_id a" "tok = ba_new_token a" "replay = None"
      "create_run (db\<lparr> db_store := st \<rparr>) (new_run (ba_run_id a) (ba_job_id a) (ba_execution_id a) (ba_profile a)
         (ba_attempt a) (ba_new_token a) (ba_fingerprint a) cf (ba_deadline a) now) = Inr db'"
      "assert_holds_current_job_claim h db (ba_job_id a) (ba_job_claim_token a) now = Inr cf"
proof (cases "get_by_execution_key db (ba_execution_id a) (ba_profile a) (ba_attempt a)")
  case None
  with assms show ?thesis
    by (auto simp: begin_or_resume_def bind_simps Let_def split: option.splits if_splits sum.splits intro: created)
next
  case (Some ex)
  with assms show ?thesis
    by (auto simp: begin_or_resume_def bind_simps Let_def split: option.splits if_splits sum.splits
          intro: created replayed[OF Some] reclaimed[OF Some])
qed

lemma create_run_Inr:
  "create_run db r = Inr db' \<Longrightarrow>
   db' = db\<lparr> db_evals := db_evals db @ [r] \<rparr> \<and> eval_checks r \<and> er_id r \<notin> set (map er_id (db_evals db)) \<and>
   eval_key r \<notin> set (map eval_key (db_evals db))"
  by (auto simp: create_run_def tget_None_iff split: if_splits)

lemma reclaim_run_Inr:
  "reclaim_run db i tok fp cf dl at' = Inr db' \<Longrightarrow>
   \<exists>r. get_by_id db i = Some r \<and> eval_checks (reclaimed_run tok fp cf dl at' r) \<and>
       db' = clear_dimensions (db\<lparr> db_evals := tput er_id (reclaimed_run tok fp cf dl at' r) (db_evals db) \<rparr>) i"
  by (auto simp: reclaim_run_def Let_def split: option.splits if_splits)

abbreviation (input) dims_of :: "app_db \<Rightarrow> string \<Rightarrow> dim_row list" where
  "dims_of db k \<equiv> filter (\<lambda>d. dm_evaluation_run_id d = k) (db_dims db)"

lemma dims_of_clear: "k \<noteq> i \<Longrightarrow> dims_of (clear_dimensions db i) k = dims_of db k"
  by (auto simp: clear_dimensions_def intro!: filter_cong)

lemma replace_dimensions_Inr:
  assumes "replace_dimensions db uuids i ds = Inr db'"
  shows "db_evals db' = db_evals db" "db_store db' = db_store db" "k \<noteq> i \<Longrightarrow> dims_of db' k = dims_of db k"
proof -
  obtain rows where rows: "db' = (clear_dimensions db i)\<lparr> db_dims := db_dims (clear_dimensions db i) @ rows \<rparr>"
    and run: "\<forall>d \<in> set rows. dm_evaluation_run_id d = i"
    using assms by (fastforce simp: replace_dimensions_def Let_def split: if_splits)
  show "db_evals db' = db_evals db" "db_store db' = db_store db" by (simp_all add: rows)
  show "dims_of db' k = dims_of db k" if "k \<noteq> i"
    using run dims_of_clear[OF that, of db] that by (auto simp: rows filter_empty_conv)
qed

lemma update_run_Inr:
  "update_run db i tok f = Inr (db', ok) \<Longrightarrow>
   db' = db\<lparr> db_evals := tupdate (run_owned_by i tok) f (db_evals db) \<rparr> \<and>
   (\<forall>r \<in> set (db_evals db). run_owned_by i tok r \<longrightarrow> eval_checks (f r))"
  by (auto simp: update_run_def list_all_iff split: if_splits)

section \<open>Histories\<close>

text \<open>A committed call of the service, or any change of the job store by its repositories.\<close>

inductive eval_step :: "app_db \<Rightarrow> app_db \<Rightarrow> bool" where
  begun: "begin_or_resume h db a now = Inr (db', x) \<Longrightarrow> eval_step db db'"
| succeeded: "service_finalize_success db uuids i tok agg p ds hint vs now = Inr (db', x) \<Longrightarrow> eval_step db db'"
| failed: "service_finalize_failure db i tok cls now = Inr (db', x) \<Longrightarrow> eval_step db db'"
| job: "store_step (db_store db) st \<Longrightarrow> eval_step db (db\<lparr> db_store := st \<rparr>)"

lemma eval_step_store:
  assumes "eval_step db db'"
  shows "db_store db' = db_store db \<or> store_step (db_store db) (db_store db')"
  using assms
proof cases
  case (begun h a now x)
  obtain run_id tok replay where x: "x = (run_id, tok, replay)" by (cases x)
  from begun[unfolded x] show ?thesis
  proof (cases rule: begin_cases)
    case (reclaimed ex cf)
    then show ?thesis by (auto dest!: reclaim_run_Inr)
  next
    case (created st cf)
    then show ?thesis by (auto dest!: create_run_Inr intro: store_step.evaluated)
  qed auto
next
  case (succeeded uuids i tok agg p ds hint vs now x)
  then show ?thesis
    by (auto simp: service_finalize_success_def repo_finalize_success_def bind_simps Let_def
        dest!: replace_dimensions_Inr(2) update_run_Inr split: option.splits if_splits)
next
  case (failed i tok cls now x)
  then show ?thesis
    by (auto simp: service_finalize_failure_def repo_finalize_failure_def bind_simps Let_def
        dest!: update_run_Inr split: option.splits if_splits)
qed auto

lemma attempts_mono:
  assumes "store_ok st" "store_step st st'"
  shows "attempts_of st j \<le> attempts_of st' j"
  using store_step_evolves[OF assms(2,1)]
  by (fastforce simp: attempts_of_def store_evolves_def row_evolves_def split: option.splits)

lemma evals_ok_update:
  assumes ok: "evals_ok db" and st: "attempts_of (db_store db') = attempts_of (db_store db)"
    and ev: "db_evals db' = map f (db_evals db)"
    and f: "\<And>r. er_id (f r) = er_id r" "\<And>r. eval_key (f r) = eval_key r"
      "\<And>r. er_research_job_id (f r) = er_research_job_id r" "\<And>r. r \<in> set (db_evals db) \<Longrightarrow> eval_checks (f r)"
  shows "evals_ok db'"
proof -
  have maps: "map er_id (db_evals db') = map er_id (db_evals db)" "map eval_key (db_evals db') = map eval_key (db_evals db)"
    by (simp_all add: ev f comp_def)
  have len: "length (runs_of db' j) = length (runs_of db j)" for j
    unfolding runs_of_def ev by (rule runs_of_map) (rule f(3))
  have "list_all eval_checks (db_evals db')" using f(4) by (auto simp: ev list_all_iff)
  then show ?thesis using ok unfolding evals_ok_def st maps len by blast
qed

lemma evals_ok_reclaim:
  assumes ok: "evals_ok db" and re: "reclaim_run db i tok fp cf dl at' = Inr db'"
  shows "evals_ok db'"
proof -
  from reclaim_run_Inr[OF re] obtain r where r: "get_by_id db i = Some r"
      "eval_checks (reclaimed_run tok fp cf dl at' r)"
      "db' = clear_dimensions (db\<lparr> db_evals := tput er_id (reclaimed_run tok fp cf dl at' r) (db_evals db) \<rparr>) i" by blast
  have same: "x = r" if "x \<in> set (db_evals db)" "er_id x = er_id r" for x
  proof -
    have "distinct (map er_id (db_evals db))" using ok by (simp add: evals_ok_def)
    then have "tget er_id (er_id x) (db_evals db) = Some x" using that(1) by (rule tget_mem)
    moreover have "tget er_id (er_id r) (db_evals db) = Some r"
      using r(1) tget_Some_key[OF r(1)[unfolded get_by_id_def]] by (simp only: get_by_id_def)
    ultimately show ?thesis unfolding that(2) by (simp only: option.inject)
  qed
  let ?f = "\<lambda>x. if x = r then reclaimed_run tok fp cf dl at' r else x"
  have "tput er_id (reclaimed_run tok fp cf dl at' r) (db_evals db) = map ?f (db_evals db)"
    unfolding tput_as_map by (rule map_cong) (auto dest: same)
  then have "db_evals db' = map ?f (db_evals db)" by (simp add: r(3))
  with ok show ?thesis
    by (rule_tac f = ?f in evals_ok_update) (use ok r in \<open>auto simp: evals_ok_def list_all_iff\<close>)
qed

lemma evals_ok_finish:
  assumes ok: "evals_ok db" and up: "update_run db i tok f = Inr (db', b)"
    and f: "\<And>r. er_id (f r) = er_id r" "\<And>r. eval_key (f r) = eval_key r"
      "\<And>r. er_research_job_id (f r) = er_research_job_id r"
  shows "evals_ok db'"
proof -
  let ?f = "\<lambda>x. if run_owned_by i tok x then f x else x"
  have "db_evals db' = map ?f (db_evals db)" "db_store db' = db_store db"
    using update_run_Inr[OF up] by (simp_all add: tupdate_def)
  then show ?thesis
    using ok update_run_Inr[OF up]
    by (intro evals_ok_update[OF ok, of db' ?f]) (auto simp: f evals_ok_def list_all_iff)
qed

lemma evals_ok_cong: "db_evals db' = db_evals db \<Longrightarrow> db_store db' = db_store db \<Longrightarrow> evals_ok db' = evals_ok db"
  by (simp add: evals_ok_def runs_of_def)

lemma evals_ok_create:
  assumes ok: "evals_ok db" "store_ok (db_store db)"
    and inc: "increment_evaluation_attempt_count (db_store db) j tok now = Inr (st, True)"
    and cr: "create_run (db\<lparr> db_store := st \<rparr>) r = Inr db'" and j: "er_research_job_id r = j"
  shows "evals_ok db'"
proof -
  from reserve_attempt[OF inc] obtain m where m: "tget r_id j (st_jobs (db_store db)) = Some m"
    "st_jobs st = tput r_id (m\<lparr> r_evaluation_attempt_count := r_evaluation_attempt_count m + 1 \<rparr>) (st_jobs (db_store db))"
    by blast
  have "0 \<le> r_evaluation_attempt_count m"
    using store_okD(1)[OF ok(2) m(1)] by (simp add: row_ok_def row_checks_def ck_counters_def)
  then have att: "attempts_of st k = attempts_of (db_store db) k + (if k = j then 1 else 0)" for k
    unfolding attempts_of_def m(2) tget_tput using m(1) tget_Some_key[OF m(1)]
    by (cases "k = j") (simp_all add: nat_add_distrib)
  from create_run_Inr[OF cr] have db': "db' = db\<lparr> db_store := st, db_evals := db_evals db @ [r] \<rparr>"
    and r: "eval_checks r" "er_id r \<notin> set (map er_id (db_evals db))" "eval_key r \<notin> set (map eval_key (db_evals db))" by auto
  have "length (runs_of db' k) = length (runs_of db k) + (if k = j then 1 else 0)" for k
    by (simp add: runs_of_def db' j)
  moreover have "length (runs_of db k) \<le> attempts_of (db_store db) k" for k using ok(1) by (simp add: evals_ok_def)
  ultimately have "length (runs_of db' k) \<le> attempts_of (db_store db') k" for k using att[of k] by (simp add: db')
  with ok(1) r show ?thesis by (simp add: evals_ok_def db')
qed

lemma eval_step_ok:
  assumes step: "eval_step db db'" and ok: "evals_ok db" "store_ok (db_store db)"
  shows "evals_ok db' \<and> store_ok (db_store db')"
proof
  show "store_ok (db_store db')"
    using eval_step_store[OF step] ok(2) store_step_ok by metis
  show "evals_ok db'"
    using step
  proof cases
    case (begun h a now x)
    obtain run_id tok replay where x: "x = (run_id, tok, replay)" by (cases x)
    from begun[unfolded x] show ?thesis
    proof (cases rule: begin_cases)
      case (replayed ex) then show ?thesis using ok by simp
    next
      case (reclaimed ex cf) then show ?thesis using evals_ok_reclaim[OF ok(1)] by blast
    next
      case (created st cf)
      show ?thesis by (rule evals_ok_create[OF ok created(1,5)]) (simp add: new_run_def)
    qed
  next
    case (succeeded uuids i tok agg p ds hint vs now x)
    then obtain db1 b where "replace_dimensions db uuids i ds = Inr db1"
      "update_run db1 i tok (succeeded_run agg p (if hint \<in> set KNOWN_HINTS then hint else ''terminal'') vs now) = Inr (db', b)"
      by (auto simp: service_finalize_success_def repo_finalize_success_def bind_simps Let_def
          split: option.splits if_splits)
    then show ?thesis
      using evals_ok_finish[of db1] ok(1) replace_dimensions_Inr(1,2)[of db uuids i ds db1] evals_ok_cong[of db1 db]
      by auto
  next
    case (failed i tok cls now x)
    then obtain b where "update_run (clear_dimensions db i) i tok
        (failed_run [(''error_class'', sanitized_error_class cls)] now) = Inr (db', b)"
      by (auto simp: service_finalize_failure_def repo_finalize_failure_def bind_simps split: option.splits if_splits)
    then show ?thesis
      by (rule evals_ok_finish[rotated]) (use ok evals_ok_cong[of "clear_dimensions db i" db] in auto)
  next
    case (job st)
    have "attempts_of (db_store db) j \<le> attempts_of st j" for j using attempts_mono[OF ok(2) job(2)] .
    moreover have "length (runs_of db j) \<le> attempts_of (db_store db) j" for j using ok(1) by (simp add: evals_ok_def)
    ultimately have "length (runs_of db j) \<le> attempts_of st j" for j using le_trans by blast
    with ok(1) show ?thesis by (simp add: job(1) evals_ok_def runs_of_def)
  qed
qed

lemma eval_steps_ok:
  "eval_step\<^sup>*\<^sup>* db db' \<Longrightarrow> evals_ok db \<Longrightarrow> store_ok (db_store db) \<Longrightarrow> evals_ok db' \<and> store_ok (db_store db')"
  by (induction rule: rtranclp_induct) (auto dest: eval_step_ok)

section \<open>Verdicts are final\<close>

lemma get_by_id_unique:
  assumes "evals_ok db" "r \<in> set (db_evals db)"
  shows "get_by_id db (er_id r) = Some r"
  using assms unfolding get_by_id_def by (intro tget_mem) (simp_all add: evals_ok_def)

lemma update_run_other:
  assumes up: "update_run db i tok f = Inr (db', b)" and r: "get_by_id db k = Some r" "er_status r = ''SUCCEEDED''"
    and f: "\<And>x. er_id (f x) = er_id x"
  shows "get_by_id db' k = Some r" "db_dims db' = db_dims db"
proof -
  have db': "db' = db\<lparr> db_evals := tupdate (run_owned_by i tok) f (db_evals db) \<rparr>" using update_run_Inr[OF up] by simp
  show "db_dims db' = db_dims db" by (simp add: db')
  have "\<not> run_owned_by i tok r" using r(2) by (simp add: run_owned_by_def)
  with r(1) show "get_by_id db' k = Some r" by (simp add: db' get_by_id_def tget_tupdate f)
qed

lemma verdict_kept_by_step:
  assumes step: "eval_step db db'" and ok: "evals_ok db" and r: "get_by_id db k = Some r" "er_status r = ''SUCCEEDED''"
  shows "get_by_id db' k = Some r \<and> dims_of db' k = dims_of db k"
  using step
proof cases
  case (begun h a now x)
  obtain run_id tok replay where x: "x = (run_id, tok, replay)" by (cases x)
  from begun[unfolded x] show ?thesis
  proof (cases rule: begin_cases)
    case (replayed ex) then show ?thesis using r by simp
  next
    case (reclaimed ex cf)
    have ex: "get_by_id db (er_id ex) = Some ex"
      using get_by_id_unique[OF ok] tget_Some_mem[OF reclaimed(1)[unfolded get_by_execution_key_def]] .
    with r reclaimed(2) have ne: "k \<noteq> er_id ex" by auto
    have "tget er_id k (db_evals db) = Some r" using r(1) by (simp add: get_by_id_def)
    with reclaim_run_Inr[OF reclaimed(7)] ne ex dims_of_clear[OF ne] show ?thesis
      by (auto simp: get_by_id_def tget_tput clear_dimensions_def)
  next
    case (created st cf)
    from create_run_Inr[OF created(5)] r(1) show ?thesis by (simp add: get_by_id_def tget_append)
  qed
next
  case (succeeded uuids i tok agg p ds hint vs now x)
  then obtain db1 b q where 1: "replace_dimensions db uuids i ds = Inr db1" "get_by_id db i = Some q"
    "er_status q = ''IN_PROGRESS''"
    "update_run db1 i tok (succeeded_run agg p (if hint \<in> set KNOWN_HINTS then hint else ''terminal'') vs now) = Inr (db', b)"
    by (auto simp: service_finalize_success_def repo_finalize_success_def bind_simps Let_def
        split: option.splits if_splits)
  then have ne: "k \<noteq> i" using r by auto
  have "get_by_id db1 k = Some r" using r(1) replace_dimensions_Inr(1)[OF 1(1)] by (simp add: get_by_id_def)
  then show ?thesis
    using update_run_other[OF 1(4) _ r(2)] replace_dimensions_Inr(3)[OF 1(1) ne] by simp
next
  case (failed i tok cls now x)
  then obtain b q where 1: "get_by_id db i = Some q" "er_status q = ''IN_PROGRESS''"
    "update_run (clear_dimensions db i) i tok (failed_run [(''error_class'', sanitized_error_class cls)] now) = Inr (db', b)"
    by (auto simp: service_finalize_failure_def repo_finalize_failure_def bind_simps split: option.splits if_splits)
  then have ne: "k \<noteq> i" using r by auto
  have "get_by_id (clear_dimensions db i) k = Some r" using r(1) by simp
  then show ?thesis using update_run_other[OF 1(3) _ r(2)] dims_of_clear[OF ne, of db] by simp
next
  case (job st) then show ?thesis using r by (simp add: get_by_id_def)
qed

section \<open>Example\<close>

definition e_token :: string where "e_token = replicate 64 (CHR ''a'')"

definition e_hash :: hashing where
  "e_hash = \<lparr> hs_dumps = (\<lambda>_. []), hs_sha256 = (\<lambda>_. replicate 64 (CHR ''0'')) \<rparr>"

definition e_exec :: exec_row where
  "e_exec = \<lparr> x_id = ''x1'', x_research_job_id = ''job-1'', x_thread_id = ''x1'', x_status = ''RUNNING'',
     x_started_at = 20, x_finished_at = None \<rparr>"

definition e_row :: job_row where
  "e_row = \<lparr> r_id = ''job-1'', r_question = ''q'', r_status = ''RUNNING'', r_created_at = 10, r_updated_at = 20,
     r_started_at = Some 20, r_finished_at = None, r_result = None, r_failure_reason = None, r_idempotency_key = None,
     r_request_fingerprint = None, r_lease_expires_at = Some 100, r_claim_token = Some e_token, r_repair_count = 0,
     r_job_retry_count = 0, r_evaluation_attempt_count = 0, r_next_attempt_at = None, r_continuation_mode = ''NONE'',
     r_claimed_continuation_mode = ''NONE'', r_active_workflow_execution_id = Some ''x1'', r_traceparent = None,
     r_initial_traceparent_consumed_at = None, r_evaluation_profile = Some ''evaluation.candidate.v1'' \<rparr>"

definition e_db :: app_db where
  "e_db = \<lparr> db_store = \<lparr> st_jobs = [e_row], st_execs = [e_exec] \<rparr>, db_nodes = [],
     db_outbox = \<lparr> ob_rows = [], ob_next = 1 \<rparr>, db_policies = [], db_recoveries = [], db_reviews = [], db_evals = [],
     db_dims = [] \<rparr>"

definition e_args :: begin_args where
  "e_args = \<lparr> ba_execution_id = ''x1'', ba_profile = ''evaluation.candidate.v1'', ba_attempt = 1,
     ba_fingerprint = replicate 64 (CHR ''f''), ba_job_id = ''job-1'', ba_deadline = 50, ba_job_claim_token = e_token,
     ba_run_id = ''run-1'', ba_new_token = replicate 64 (CHR ''b'') \<rparr>"

definition e_run :: eval_row where
  "e_run = new_run ''run-1'' ''job-1'' ''x1'' ''evaluation.candidate.v1'' 1 (replicate 64 (CHR ''b''))
     (replicate 64 (CHR ''f'')) (replicate 64 (CHR ''0'')) 50 30"

definition e_db1 :: app_db where
  "e_db1 = e_db\<lparr> db_store := \<lparr> st_jobs = [e_row\<lparr> r_evaluation_attempt_count := 1 \<rparr>], st_execs = [e_exec] \<rparr>,
     db_evals := [e_run] \<rparr>"

lemma e_db_ok: "store_ok (db_store e_db)" "evals_ok e_db"
proof -
  show "store_ok (db_store e_db)" by code_simp
  show "evals_ok e_db" by (simp add: evals_ok_def e_db_def runs_of_def)
qed

lemma e_begin: "begin_or_resume e_hash e_db e_args 30 = Inr (e_db1, ''run-1'', replicate 64 (CHR ''b''), None)"
  by code_simp

lemma e_step: "eval_step\<^sup>*\<^sup>* e_db e_db1"
  using eval_step.begun[OF e_begin] by (rule r_into_rtranclp)

section \<open>Properties\<close>

text \<open>
  C19. However evaluation runs are begun, replayed, reclaimed and finalised, and whatever else happens
  to the job in between, a job never has more than four evaluation runs: the slot is reserved on the
  job row in the transaction that creates the run.
\<close>

theorem evaluation_runs_bounded:
  assumes "eval_step\<^sup>*\<^sup>* db db'" "evals_ok db" "store_ok (db_store db)"
  shows "length (runs_of db' j) \<le> 4"
proof -
  have ok: "evals_ok db'" "store_ok (db_store db')" using eval_steps_ok[OF assms] by auto
  have "attempts_of (db_store db') j \<le> 4"
    using store_okD(1)[OF ok(2), of j]
    by (cases "tget r_id j (st_jobs (db_store db'))")
       (auto simp: attempts_of_def row_ok_def row_checks_def ck_counters_def nat_le_iff)
  moreover have "length (runs_of db' j) \<le> attempts_of (db_store db') j" using ok(1) by (simp add: evals_ok_def)
  ultimately show ?thesis by simp
qed

theorem evaluation_runs_bounded_witness: "length (runs_of e_db1 ''job-1'') \<le> 4 \<and> runs_of e_db1 ''job-1'' = [e_run]"
  using evaluation_runs_bounded[OF e_step e_db_ok(2,1), of "''job-1''"]
  by (simp add: runs_of_def e_db1_def e_run_def new_run_def)

text \<open>
  C18. The verdict of an evaluation run is final: once a run has succeeded, its row and its graded
  dimensions are the same in every later state, so a replayed evaluation returns what was stored.
\<close>

theorem evaluation_verdict_is_final:
  assumes "eval_step\<^sup>*\<^sup>* db db'" "evals_ok db" "store_ok (db_store db)"
    and "get_by_id db k = Some r" "er_status r = ''SUCCEEDED''"
  shows "get_by_id db' k = Some r \<and> to_result db' r = to_result db r"
proof -
  have "get_by_id db' k = Some r \<and> dims_of db' k = dims_of db k"
    using assms
  proof (induction rule: rtranclp_induct)
    case (step y z)
    then have y: "evals_ok y" "get_by_id y k = Some r" "dims_of y k = dims_of db k"
      using eval_steps_ok[OF step.hyps(1)] by auto
    show ?case using verdict_kept_by_step[OF step.hyps(2) y(1,2) assms(5)] y(3) by simp
  qed simp
  moreover have "er_id r = k" using tget_Some_key assms(4) unfolding get_by_id_def by fast
  ultimately show ?thesis by (simp add: to_result_def list_dimensions_def)
qed

definition e_succeeded :: app_db where
  "e_succeeded = e_db1\<lparr> db_evals := [succeeded_run 1 True ''complete'' [] 40 e_run] \<rparr>"

lemma e_succeeded_ok: "evals_ok e_succeeded" "store_ok (db_store e_succeeded)"
proof -
  show "store_ok (db_store e_succeeded)" by code_simp
  have "eval_checks (succeeded_run 1 True ''complete'' [] 40 e_run)"
    by (simp add: eval_checks_def succeeded_run_def e_run_def new_run_def ALLOWED_EVALUATION_PROFILES_def)
  then show "evals_ok e_succeeded"
    by (simp add: evals_ok_def e_succeeded_def e_db1_def runs_of_def attempts_of_def e_row_def e_run_def new_run_def
        succeeded_run_def)
qed

definition e_two :: app_db where
  "e_two = e_succeeded\<lparr> db_store := \<lparr> st_jobs = [e_row\<lparr> r_evaluation_attempt_count := 2 \<rparr>], st_execs = [e_exec] \<rparr>,
     db_evals := db_evals e_succeeded @ [e_run\<lparr> er_id := ''run-2'', er_evaluation_attempt := 2, er_started_at := 45 \<rparr>] \<rparr>"

lemma e_second:
  "begin_or_resume e_hash e_succeeded (e_args\<lparr> ba_attempt := 2, ba_run_id := ''run-2'' \<rparr>) 45 =
     Inr (e_two, ''run-2'', replicate 64 (CHR ''b''), None)"
  by code_simp

lemma e_later: "eval_step\<^sup>*\<^sup>* e_succeeded e_two"
  using eval_step.begun[OF e_second] by (rule r_into_rtranclp)

theorem evaluation_verdict_is_final_witness:
  "get_by_id e_two ''run-1'' = Some (succeeded_run 1 True ''complete'' [] 40 e_run)"
proof -
  have "get_by_id e_succeeded ''run-1'' = Some (succeeded_run 1 True ''complete'' [] 40 e_run)"
    "er_status (succeeded_run 1 True ''complete'' [] 40 e_run) = ''SUCCEEDED''"
    by (simp_all add: get_by_id_def e_succeeded_def succeeded_run_def e_run_def new_run_def)
  from evaluation_verdict_is_final[OF e_later e_succeeded_ok this] show ?thesis by simp
qed

text \<open>
  C11. An evaluator that lost its run cannot finalise it: after \<open>begin_or_resume\<close> handed the run to a
  token, finalising under any other token raises and changes nothing, while the token itself can
  still record a failure at any later time.
\<close>

theorem stale_evaluator_cannot_finalize:
  assumes "begin_or_resume h db a now = Inr (db', run_id, tok, None)" "evals_ok db"
  shows "(\<forall>t \<noteq> tok. service_finalize_success db' uuids run_id t agg p ds hint vs now' = Inl EvaluationOwnershipLostError \<and>
            service_finalize_failure db' run_id t cls now' = Inl EvaluationOwnershipLostError) \<and>
         (now \<le> now' \<longrightarrow> (\<exists>db''. service_finalize_failure db' run_id tok cls now' = Inr (db'', ())))"
proof -
  obtain r where r: "get_by_id db' run_id = Some r" "er_status r = ''IN_PROGRESS''" "er_ownership_token r = tok"
    "er_started_at r = now" "eval_checks r"
    using assms(1)
  proof (cases rule: begin_cases)
    case (reclaimed ex cf)
    from reclaim_run_Inr[OF reclaimed(7)] obtain q where q: "get_by_id db (er_id ex) = Some q"
      "eval_checks (reclaimed_run (ba_new_token a) (ba_fingerprint a) cf (ba_deadline a) now q)"
      "db' = clear_dimensions (db\<lparr> db_evals := tput er_id (reclaimed_run (ba_new_token a) (ba_fingerprint a) cf
               (ba_deadline a) now q) (db_evals db) \<rparr>) (er_id ex)" by blast
    have "er_id q = er_id ex" using q(1) tget_Some_key unfolding get_by_id_def by fast
    then have "get_by_id db' run_id = Some (reclaimed_run (ba_new_token a) (ba_fingerprint a) cf (ba_deadline a) now q)"
      using q(1,3) reclaimed(4) by (simp add: get_by_id_def tget_tput)
    then show ?thesis by (rule that) (use q(2) reclaimed(5) in \<open>simp_all add: reclaimed_run_def\<close>)
  next
    case (created st cf)
    from create_run_Inr[OF created(5)] have c: "eval_checks (new_run (ba_run_id a) (ba_job_id a) (ba_execution_id a)
        (ba_profile a) (ba_attempt a) (ba_new_token a) (ba_fingerprint a) cf (ba_deadline a) now)"
      "tget er_id (ba_run_id a) (db_evals db) = None"
      "db' = db\<lparr> db_store := st, db_evals := db_evals db @ [new_run (ba_run_id a) (ba_job_id a) (ba_execution_id a)
        (ba_profile a) (ba_attempt a) (ba_new_token a) (ba_fingerprint a) cf (ba_deadline a) now] \<rparr>"
      unfolding tget_None_iff by (simp_all add: new_run_def)
    have "get_by_id db' run_id = Some (new_run (ba_run_id a) (ba_job_id a) (ba_execution_id a)
        (ba_profile a) (ba_attempt a) (ba_new_token a) (ba_fingerprint a) cf (ba_deadline a) now)"
      using c(2) created(2) by (simp add: c(3) get_by_id_def tget_append new_run_def)
    then show ?thesis by (rule that) (use c(1) created(3) in \<open>simp_all add: new_run_def\<close>)
  qed simp
  have refuse: "service_finalize_success db' uuids run_id t agg p ds hint vs now' = Inl EvaluationOwnershipLostError \<and>
      service_finalize_failure db' run_id t cls now' = Inl EvaluationOwnershipLostError" if "t \<noteq> tok" for t
    using r(1-3) that by (simp add: service_finalize_success_def service_finalize_failure_def)
  have "\<exists>db''. service_finalize_failure db' run_id tok cls now' = Inr (db'', ())" if "now \<le> now'"
  proof -
    let ?f = "failed_run [(''error_class'', sanitized_error_class cls)] now'"
    have keys: "distinct (map er_id (db_evals db'))"
      using assms(1)
    proof (cases rule: begin_cases)
      case (reclaimed ex cf) then show ?thesis using evals_ok_reclaim[OF assms(2)] by (simp add: evals_ok_def)
    next
      case (created st cf) then show ?thesis using create_run_Inr assms(2) by (fastforce simp: evals_ok_def)
    qed simp
    have only: "x = r" if "x \<in> set (db_evals db')" "run_owned_by run_id tok x" for x
      using tget_mem[OF keys that(1)] that(2) r(1) by (simp add: run_owned_by_def get_by_id_def)
    have mem: "r \<in> set (db_evals db')" "er_id r = run_id"
      using r(1) tget_Some_mem tget_Some_key unfolding get_by_id_def by fast+
    have "eval_checks (?f r)" using r(2,4,5) that by (simp add: eval_checks_def failed_run_def)
    then have "list_all (\<lambda>x. run_owned_by run_id tok x \<longrightarrow> eval_checks (?f x)) (db_evals db')"
      using only by (auto simp: list_all_iff)
    moreover have "tcount (run_owned_by run_id tok) (db_evals db') = 1"
    proof -
      have "0 < tcount (run_owned_by run_id tok) (db_evals db')"
        using mem r(2,3) by (auto simp: tcount_pos run_owned_by_def)
      moreover have "tcount (run_owned_by run_id tok) (db_evals db') \<le> 1"
        by (rule tcount_le_one[OF keys, of _ run_id]) (simp add: run_owned_by_def)
      ultimately show ?thesis by simp
    qed
    ultimately show ?thesis
      using r(1-3) by (simp add: service_finalize_failure_def repo_finalize_failure_def update_run_def)
  qed
  with refuse show ?thesis by blast
qed

theorem stale_evaluator_cannot_finalize_witness:
  "service_finalize_failure e_db1 ''run-1'' e_token ''X'' 60 = Inl EvaluationOwnershipLostError \<and>
   (\<exists>db''. service_finalize_failure e_db1 ''run-1'' (replicate 64 (CHR ''b'')) ''X'' 60 = Inr (db'', ()))"
proof -
  have "e_token \<noteq> replicate 64 (CHR ''b'')" by code_simp
  with stale_evaluator_cannot_finalize[OF e_begin e_db_ok(2), where cls = "''X''" and now' = 60] show ?thesis by auto
qed

end
