(* ===== verification/Processor_Safety.thy ===== *)
theory Processor_Safety
  imports Research_Processor Graph_Safety Evaluation_Safety
begin

text \<open>
  The processor's contexts keep the law the graph's termination rests on, and the authorisation of a
  completed thread is read off the database: a passing verdict, or the latest approval of exactly the
  graded candidate.  Then the two transactions that record a recovery decision.
\<close>

section \<open>The contexts of a thread\<close>

definition production :: "'x services \<Rightarrow> settings \<Rightarrow> string \<Rightarrow> string \<Rightarrow> 'x world runtime_context \<Rightarrow> bool" where
  "production sv se job_id execution_id cx \<longleftrightarrow> (\<exists>tok profile. cx = build_context sv se execution_id tok job_id profile)"

lemma tx_Inr: "tx sv body w = (w', Inr v) \<longleftrightarrow> (\<exists>db x db'. sv_env sv w = (db, x) \<and> body db = Inr (db', v) \<and> w' = (db', x))"
  by (auto simp: tx_def session_scope_def split: prod.splits sum.splits)

lemma read_tx_Inr: "read_tx sv f w = (w', r) \<longleftrightarrow> w' = sv_env sv w \<and> r = Inr (f (fst (sv_env sv w)))"
  by (auto simp: read_tx_def tx_def session_scope_def split: prod.splits)

lemma clock_frame: "nowA sv w = (w1, r) \<Longrightarrow> fst w1 = fst w" "uuidA sv w = (w2, r') \<Longrightarrow> fst w2 = fst w"
  by (auto simp: nowA_def uuidA_def on_ext_def split: prod.splits)

definition policy_decided ::
  "'x services \<Rightarrow> string \<Rightarrow> string \<Rightarrow> string \<Rightarrow> string \<Rightarrow> int \<Rightarrow> int \<Rightarrow> 'x world \<Rightarrow> 'x world \<Rightarrow> policy_decision \<Rightarrow> bool" where
  "policy_decided sv j e tok run rc n w w' d \<longleftrightarrow>
     (\<exists>(result :: eval_result) at' u w2.
        decide_for_evaluation (ev_passed result) (ev_dimensions result)
          (decision_counts (counts_of (fst (sv_env sv (sv_env sv w))) j) rc n) = Inr d \<and>
        tx sv (policy_tx (sv_hashing sv) j tok e run d (decision_counts (counts_of (fst (sv_env sv (sv_env sv w))) j) rc n) u at')
          w2 = (w', Inr ()) \<and>
        fst w2 = fst (sv_env sv (sv_env sv w)))"

text \<open>An answer other than \<open>terminal\<close> is a decision that was recorded.\<close>

lemma policy_callback_Inr:
  assumes "policy_callback sv j e tok False run rc n w = (w', Inr a)" "a \<noteq> ''terminal''"
  shows "\<exists>d. policy_decided sv j e tok run rc n w w' d \<and> a = pd_action d"
proof -
  let ?c = "decision_counts (counts_of (fst (sv_env sv (sv_env sv w))) j) rc n"
  from assms obtain result d at' u w1 w2 where r:
    "decide_for_evaluation (ev_passed (result :: eval_result)) (ev_dimensions result) ?c = Inr d" "a = pd_action d"
    "nowA sv (sv_env sv (sv_env sv w)) = (w1, Inr at')" "uuidA sv w1 = (w2, Inr u)"
    "tx sv (policy_tx (sv_hashing sv) j tok e run d ?c u at') w2 = (w', Inr ())"
    by (auto simp: policy_callback_def bind_simps read_tx_Inr Let_def split: if_splits option.splits sum.splits)
  have "fst w2 = fst (sv_env sv (sv_env sv w))" using clock_frame(1)[OF r(3)] clock_frame(2)[OF r(4)] by simp
  with r show ?thesis unfolding policy_decided_def by blast
qed

lemma policy_decided_budget:
  assumes "policy_decided sv j e tok run rc n w w' d" "pd_action d = ''repair''"
  shows "rc < 1" "ac_repair_count (counts_of (fst (sv_env sv (sv_env sv w))) j) < 1"
proof -
  from assms(1) obtain result :: eval_result where "decide_for_evaluation (ev_passed result) (ev_dimensions result)
      (decision_counts (counts_of (fst (sv_env sv (sv_env sv w))) j) rc n) = Inr d" unfolding policy_decided_def by blast
  from evaluation_repair_within_budget[OF this assms(2)]
  show "rc < 1" "ac_repair_count (counts_of (fst (sv_env sv (sv_env sv w))) j) < 1"
    by (simp_all add: MAX_REPAIRS_def decision_counts_def)
qed

lemma production_repairs_once:
  assumes "production sv se j e cx"
  shows "repairs_once cx"
  unfolding repairs_once_def
proof (intro allI impI)
  fix cb passed run rc attempt w w'
  assume cb: "cx_policy_callback cx = Some cb" and r: "cb passed run rc attempt w = (w', Inr ''repair'')"
  from assms obtain tok profile where cx: "cx = build_context sv se e tok j profile" unfolding production_def by blast
  have c: "policy_callback sv j e tok passed run rc attempt w = (w', Inr ''repair'')" using cb r by (auto simp: build_context_def cx)
  then have "\<not> passed" by (auto simp: policy_callback_def)
  with policy_callback_Inr[of sv j e tok run rc attempt w w' "''repair''"] c
  obtain d where d: "policy_decided sv j e tok run rc attempt w w' d" "''repair'' = pd_action d" by auto
  show "rc < 1" by (rule policy_decided_budget(1)[OF d(1) d(2)[symmetric]])
qed

lemma completion_auth_checker_True:
  assumes "completion_auth_checker sv j e fp w = (w', Inr True)"
  shows "\<exists>h. get_latest_approve_for_execution (fst (sv_env sv w)) j e = Some h \<and> hr_candidate_fingerprint h = fp"
  using assms by (auto simp: completion_auth_checker_def read_tx_Inr split: if_splits option.splits)

lemma production_complete_step:
  assumes "production sv se j e cx" "superstep cx ''complete'' s0 w = (w', Inr (s, nxt))"
  shows "\<exists>w1 a. hook_begin sv e ''complete'' w = (w1, Inr a) \<and> s = s0\<lparr> gs_result := report_of s0 \<rparr> \<and>
     (gs_evaluation_passed s0 \<or>
      (\<exists>h. get_latest_approve_for_execution (fst (sv_env sv w1)) (gs_job_id s0) e = Some h \<and>
           hr_candidate_fingerprint h = gs_evaluation_fingerprint s0))"
proof -
  from assms(1) obtain tok p where cx: "cx = build_context sv se e tok j p" unfolding production_def by blast
  from assms(2) obtain w1 w2 a where b: "hook_begin sv e ''complete'' w = (w1, Inr a)"
    "complete_node cx s0 w1 = (w2, Inr s)"
    by (auto simp: superstep_def wrap_node_def bind_simps cx build_context_def catchA_Inr node_fn_def)
  note c = complete_node_Inr[OF b(2)]
  from c(2) obtain w3 where "completion_authorised cx s0 w1 = (w3, Inr True)" by blast
  then have "gs_evaluation_passed s0 \<or> completion_auth_checker sv (gs_job_id s0) e (gs_evaluation_fingerprint s0) w1 = (w3, Inr True)"
    by (auto simp: completion_authorised_def cx build_context_def split: if_splits)
  then show ?thesis using b(1) c(1) completion_auth_checker_True by blast
qed

section \<open>Example\<close>

text \<open>Services for a world whose other half counts the ids handed out; every candidate passes.\<close>

definition d_dims :: "dimension_result list" where
  "d_dims = [\<lparr> dr_name = ''citation_integrity'', dr_score = 1, dr_passed = True, dr_method = ''deterministic'', dr_is_hard = True,
      dr_is_provisional = False, dr_failure_codes = [], dr_weight = 0 \<rparr>]"

definition d_services :: "dimension_result list \<Rightarrow> nat services" where
  "d_services dims = \<lparr> sv_env = (\<lambda>w. w), sv_now = (\<lambda>x. (x, 30)), sv_uuid = (\<lambda>x. (Suc x, ''u'' @ nat_str x)),
     sv_randbelow = (\<lambda>x n. 0), sv_traceparent = (\<lambda>x. None), sv_runtime_error = (\<lambda>n. False),
     sv_get_state = (\<lambda>x e. \<lparr> sn_values = None, sn_next = [] \<rparr>), sv_invoke = (\<lambda>cx i e. ret None),
     sv_plan = (\<lambda>j q p. ret [''a'', ''b'', ''c'']), sv_execute = (\<lambda>r. ret ([''f''], [])), sv_retrieve = (\<lambda>q k. ret []),
     sv_link = (\<lambda>j ids e. ret ()), sv_draft = (\<lambda>s pack. ret (''draft'', [])), sv_pack = (\<lambda>ids. ret []),
     sv_validate_citations = (\<lambda>j cs. ret ()), sv_get_item = (\<lambda>i. ret (''d'', ''s'', ''u'', ''h'')),
     sv_persist_final = (\<lambda>db j e body claims tok. ret ()),
     sv_evaluate = (\<lambda>db cand e d tok p. ret (e_args, Inr (dims, []), (\<lambda>i. ''m'' @ nat_str i), 30, 30, 30)),
     sv_hashing = e_hash, sv_rounding = (\<lambda>r. r), sv_fsum = sum_list,
     sv_outbox = \<lparr> oe_pydantic = demo_pydantic, oe_dumps = (\<lambda>_. []), oe_column_size = (\<lambda>_. 0) \<rparr> \<rparr>"

definition d_settings :: settings where
  "d_settings = \<lparr> se_retry_base_seconds = 1, se_retry_max_backoff_seconds = 8, se_retry_jitter_max_seconds = 0,
     se_evaluation_profile = ''evaluation.candidate.v1'', se_plan_prompt_version = ''plan.v1'',
     se_draft_prompt_version = ''draft.v2'', se_retrieval_default_k = 5 \<rparr>"

definition d_context :: "nat world runtime_context" where
  "d_context = build_context (d_services d_dims) d_settings ''x1'' e_token ''job-1'' ''evaluation.candidate.v1''"

definition d_walk :: "nat \<Rightarrow> nat world \<times> walk_end option" where
  "d_walk n = walk d_context DEFAULT_INTERRUPT_AFTER (\<lambda>_ w. w) n ''validate'' (initial_graph_state ''job-1'' ''q'') (e_db, 0)"

lemma d_production: "production (d_services d_dims) d_settings ''job-1'' ''x1'' d_context"
  unfolding production_def d_context_def by blast

lemma d_walk_ends: "case snd (d_walk 14) of Some (Ended s) \<Rightarrow> gs_evaluation_passed s \<and> gs_draft s = ''draft'' | _ \<Rightarrow> False"
  by code_simp

lemma d_thread:
  obtains w' s H where "d_walk 14 = (w', Some (Ended s))"
    "checkpoint (production (d_services d_dims) d_settings ''job-1'' ''x1'') H None s"
    "gs_evaluation_passed s" "gs_draft s = ''draft''"
proof -
  obtain w' r where w: "d_walk 14 = (w', r)" by fastforce
  with d_walk_ends obtain s where r: "r = Some (Ended s)" "gs_evaluation_passed s" "gs_draft s = ''draft''"
    by (auto split: option.splits walk_end.splits)
  from w r have "walk d_context DEFAULT_INTERRUPT_AFTER (\<lambda>_ w. w) 14 ''validate'' (initial_graph_state ''job-1'' ''q'') (e_db, 0) =
      (w', Some (Ended s))" by (simp add: d_walk_def)
  from walk_checkpoint[OF this, of "production (d_services d_dims) d_settings ''job-1'' ''x1''" "[]", OF checkpoint.start d_production] obtain H where
    "checkpoint (production (d_services d_dims) d_settings ''job-1'' ''x1'') H None s" by auto
  with w r that show ?thesis by blast
qed

section \<open>Properties\<close>

text \<open>
  C9. Every run of the research graph ends.  Whatever the specialists return, wherever a thread stands
  (fresh, resumed after a crash or after a review), and whatever other processes do in between, a
  worker's run reaches \<open>END\<close>, an interrupt or an exception within fourteen steps: the policy sends a
  draft to repair at most once.
\<close>

theorem research_graph_terminates:
  assumes "checkpoint (production sv se j e) H (Some node) s" "production sv se j e cx"
  shows "\<exists>w' r. walk cx ia env 14 node s w = (w', Some r)"
proof -
  have "steps_left node s \<le> 14" by (simp add: steps_left_def Let_def)
  with production_repairs_once[OF assms(2)] checkpoint_repair_count[OF assms(1)] show ?thesis by (rule walk_finishes)
qed

theorem research_graph_terminates_witness: "\<exists>w' r. d_walk 14 = (w', Some r)"
  unfolding d_walk_def
  by (rule research_graph_terminates[of "d_services d_dims" d_settings "''job-1''" "''x1''" "[]", OF checkpoint.start d_production])

text \<open>
  C3. Nothing is accepted without authorisation.  When a thread has reached \<open>END\<close>, its result is the
  report of the candidate in its channels; that candidate and its verdict are those of an evaluate
  step the thread took; and the complete step ran when the verdict was a pass, or when the latest
  approval an operator gave to this very execution carried the fingerprint of that candidate.
\<close>

theorem completed_thread_is_authorised:
  assumes "checkpoint (production sv se j e) H None s"
  shows "\<exists>cx s0 w w' s1 d cx2 s2 w2 w3 a.
     (cx, ''evaluate'', s0, w) \<in> set H \<and> superstep cx ''evaluate'' s0 w = (w', Inr (s1, Some ''policy'')) \<and>
     s = s1\<lparr> gs_disposition := d, gs_result := report_of s1 \<rparr> \<and>
     (cx2, ''complete'', s2, w2) \<in> set H \<and> hook_begin sv e ''complete'' w2 = (w3, Inr a) \<and>
     (gs_evaluation_passed s \<or>
      (\<exists>h. get_latest_approve_for_execution (fst (sv_env sv w3)) (gs_job_id s) e = Some h \<and>
           hr_candidate_fingerprint h = gs_evaluation_fingerprint s))"
proof -
  have "authorised (production sv se j e) H s" using checkpoint_inv[OF assms] by (simp add: thread_inv_def)
  then obtain cx2 s2 w2 w2' where c: "production sv se j e cx2" "(cx2, ''complete'', s2, w2) \<in> set H"
    "superstep cx2 ''complete'' s2 w2 = (w2', Inr (s, None))" "graded H s2" unfolding authorised_def by blast
  from production_complete_step[OF c(1,3)] obtain w3 a where p: "hook_begin sv e ''complete'' w2 = (w3, Inr a)"
    "s = s2\<lparr> gs_result := report_of s2 \<rparr>"
    "gs_evaluation_passed s2 \<or> (\<exists>h. get_latest_approve_for_execution (fst (sv_env sv w3)) (gs_job_id s2) e = Some h \<and>
           hr_candidate_fingerprint h = gs_evaluation_fingerprint s2)" by blast
  from c(4) obtain cx s0 w w' s1 d r where g: "(cx, ''evaluate'', s0, w) \<in> set H"
    "superstep cx ''evaluate'' s0 w = (w', Inr (s1, Some ''policy''))" "s2 = s1\<lparr> gs_disposition := d, gs_result := r \<rparr>"
    unfolding graded_def by blast
  have "report_of s2 = report_of s1" by (simp add: g(3) report_of_def)
  then have "s = s1\<lparr> gs_disposition := d, gs_result := report_of s1 \<rparr>" by (simp add: p(2) g(3))
  moreover have "gs_evaluation_passed s = gs_evaluation_passed s2" "gs_job_id s = gs_job_id s2"
    "gs_evaluation_fingerprint s = gs_evaluation_fingerprint s2" by (simp_all add: p(2))
  ultimately show ?thesis using c(2) p(1,3) g(1,2) by metis
qed

theorem completed_thread_is_authorised_witness:
  "\<exists>w' s H cx s0 w s1. d_walk 14 = (w', Some (Ended s)) \<and> gs_draft s = ''draft'' \<and>
     checkpoint (production (d_services d_dims) d_settings ''job-1'' ''x1'') H None s \<and>
     (cx, ''evaluate'', s0, w) \<in> set H \<and> gs_result s = report_of s1 \<and> gs_draft s1 = ''draft''"
proof (rule d_thread)
  fix w' s H
  assume d: "d_walk 14 = (w', Some (Ended s))" "checkpoint (production (d_services d_dims) d_settings ''job-1'' ''x1'') H None s"
    "gs_draft s = ''draft''"
  from completed_thread_is_authorised[OF d(2)] obtain cx s0 w s1 c where
    "(cx, ''evaluate'', s0, w) \<in> set H" "s = s1\<lparr> gs_disposition := c, gs_result := report_of s1 \<rparr>" by blast
  with d show ?thesis by fastforce
qed

end
