(* ===== verification/Recovery_Safety.thy ===== *)
theory Recovery_Safety
  imports Processor_Safety Job_History
begin

text \<open>
  The transactions that record a recovery decision: scheduling a retry writes the decision, the
  attempt, the job, the execution and the event together or not at all; the policy callback counts a
  repair when it decides it, so a second call with the same arguments decides differently.
\<close>

section \<open>Lemmas\<close>

lemma fenced_Inr: "fenced f db = Inr (db', u) \<longleftrightarrow> (\<exists>st. f (db_store db) = Inr (st, True) \<and> db' = db\<lparr> db_store := st \<rparr>)"
  by (auto simp: fenced_def bind_simps split: if_splits)

lemma increment_repair_count_True:
  assumes "store_ok st" "increment_repair_count st j tok at' = Inr (st', True)"
  shows "\<exists>m. tget r_id j (st_jobs st') = Some m \<and> 1 \<le> r_repair_count m"
proof -
  from assms(2) obtain m where m: "tget r_id j (st_jobs st) = Some m"
    "flush_job st (m\<lparr> r_repair_count := r_repair_count m + 1 \<rparr>) = Inr st'"
    by (auto simp: increment_repair_count_def Let_def bind_simps split: if_splits option.splits)
  let ?m = "m\<lparr> r_repair_count := r_repair_count m + 1 \<rparr>"
  have st': "st' = st\<lparr> st_jobs := tput r_id ?m (st_jobs st) \<rparr>"
    using m(2) by (auto simp: flush_job_def split: if_splits)
  have "0 \<le> r_repair_count m"
    using store_okD(1)[OF assms(1) m(1)] by (simp add: row_ok_def row_checks_def ck_counters_def)
  moreover have "tget r_id j (st_jobs st') = Some ?m" using m(1) tget_Some_key[OF m(1)] by (simp add: st' tget_tput)
  ultimately show ?thesis by simp
qed

text \<open>The recorded decision is this call's own when its fresh id is the authoritative one.\<close>

lemma policy_tx_repair:
  assumes "policy_tx h j tok e run d counts u at' db = Inr (db', ())" "pd_action d = ''repair''"
    "db_policies db' \<noteq> db_policies db" "store_ok (db_store db)"
  shows "1 \<le> ac_repair_count (counts_of db' j)"
proof -
  let ?p = "policy_row_of h u j (Some e) (Some run) d counts at'"
  from assms(1) obtain db1 i where ins: "insert_policy_decision db ?p = Inr (db1, i)"
    and rest: "if i = u \<and> pd_action d = ''repair'' then fenced (\<lambda>st. increment_repair_count st j tok at') db1 = Inr (db', ())
               else db' = db1"
    by (auto simp: policy_tx_def bind_simps split: if_splits)
  have "db_policies db1 \<noteq> db_policies db" using rest assms(3) by (auto simp: fenced_Inr split: if_splits)
  then have "i = u" using ins by (auto simp: insert_policy_decision_def policy_row_of_def split: if_splits option.splits)
  with rest assms(2) obtain st where "increment_repair_count (db_store db1) j tok at' = Inr (st, True)" "db' = db1\<lparr> db_store := st \<rparr>"
    by (auto simp: fenced_Inr)
  with increment_repair_count_True[of "db_store db" j tok at' st] insert_policy_decision_frame[OF ins] assms(4)
  show ?thesis by (auto simp: counts_of_def get_attempt_counts_def)
qed

section \<open>Properties\<close>


definition rc_counts :: attempt_counts where
  "rc_counts = \<lparr> ac_repair_count = 0, ac_job_retry_count = 0, ac_evaluation_attempt_count = 0 \<rparr>"

definition rc_retry :: "exc_class + (app_db \<times> timestamp \<times> int)" where
  "rc_retry = retry_tx e_hash (sv_outbox (d_services [])) None ''job-1'' e_token (Some ''x1'')
     (decide_for_exception ModelTimeoutError rc_counts) rc_counts ''p1'' ''a1'' ''ev1'' 60 30 e_db"

lemma rc_retry_ok: "case rc_retry of Inr (db', r) \<Rightarrow> db_recoveries db' \<noteq> [] | _ \<Rightarrow> False"
  by code_simp



text \<open>A draft without structure: the first call orders a repair, the second fails the job.\<close>

definition rp_result :: dimension_result where
  "rp_result = \<lparr> dr_name = ''report_structure'', dr_score = 0, dr_passed = False, dr_method = ''deterministic'', dr_is_hard = True,
     dr_is_provisional = True, dr_failure_codes = [], dr_weight = 0 \<rparr>"

definition rp_db :: app_db where
  "rp_db = e_db1\<lparr> db_evals := [succeeded_run 0 False ''terminal'' [] 30 e_run],
     db_dims := [\<lparr> dm_id = ''m'', dm_evaluation_run_id = ''run-1'', dm_result = rp_result \<rparr>] \<rparr>"

definition rp_hash :: hashing where
  "rp_hash = \<lparr> hs_dumps = (\<lambda>v. case v of VDict ((_, VStr d) # _) \<Rightarrow> d | _ \<Rightarrow> []),
               hs_sha256 = (\<lambda>s. take 64 (s @ replicate 64 (CHR ''0''))) \<rparr>"

definition rp_services :: "nat services" where
  "rp_services = (d_services [])\<lparr> sv_hashing := rp_hash \<rparr>"

definition rp_call :: "nat world \<Rightarrow> nat world \<times> (exc_class + string)" where
  "rp_call = policy_callback rp_services ''job-1'' ''x1'' e_token False ''run-1'' 0 1"

lemma rp_first: "snd (rp_call (rp_db, 0)) = Inr ''repair''" "db_policies (fst (fst (rp_call (rp_db, 0)))) \<noteq> []"
  by code_simp+

lemma rp_second: "snd (rp_call (fst (rp_call (rp_db, 0)))) = Inr ''terminal''"
  by code_simp

lemma rp_ok: "store_ok (db_store rp_db)"
  by code_simp


end
