(* ===== verification/Worker_Safety.thy ===== *)
theory Worker_Safety
  imports Job_Worker Recovery_Safety
begin

text \<open>
  What the worker's finalisation leaves behind: a terminal job and its event together, or nothing.
\<close>

section \<open>The finalising transactions\<close>

lemma finalize_completion_refused:
  "finalize_completion st j tok res at' = Inr (st', False) \<Longrightarrow> st' = st"
  by (auto simp: finalize_completion_def Let_def bind_simps split: if_splits option.splits)

lemma finalize_failure_refused:
  "finalize_failure st j tok reason at' = Inr (st', False) \<Longrightarrow> st' = st"
  by (auto simp: finalize_failure_def Let_def bind_simps split: if_splits option.splits)

text \<open>\<open>appended db db' t j\<close>: the outbox of \<open>db'\<close> has one more event, of type \<open>t\<close> and for job \<open>j\<close>, with an id of its own.\<close>

definition appended :: "app_db \<Rightarrow> app_db \<Rightarrow> string \<Rightarrow> string \<Rightarrow> bool" where
  "appended db db' t j \<longleftrightarrow>
     (\<exists>row. ob_rows (db_outbox db') = ob_rows (db_outbox db) @ [row] \<and> o_event_type row = t \<and> o_aggregate_id row = j \<and>
        tget o_event_id (o_event_id row) (ob_rows (db_outbox db)) = None)"

lemma enqueue_built_appended:
  assumes "enqueue_built env tp built db = Inr db'" "\<And>e. built = Inr e \<Longrightarrow> ev_event_type e = t \<and> ev_aggregate_id e = j"
  shows "appended db db' t j \<and> db' = db\<lparr> db_outbox := db_outbox db' \<rparr>"
proof -
  from assms(1) obtain e ob where e: "built = Inr e" "enqueue env (db_outbox db) e tp = Inr ob" "db' = db\<lparr> db_outbox := ob \<rparr>"
    unfolding enqueue_built_Inr by blast
  with enqueue_Inr[OF e(2)] assms(2)[OF e(1)] show ?thesis unfolding appended_def by auto
qed

lemma built_types:
  "build_research_job_completed i j at' = Inr e \<Longrightarrow> ev_event_type e = ''research_job.completed'' \<and> ev_aggregate_id e = j"
  "build_research_job_failed i j at' cls = Inr e \<Longrightarrow> ev_event_type e = ''research_job.failed'' \<and> ev_aggregate_id e = j"
  "build_research_job_created i j at' = Inr e \<Longrightarrow> ev_event_type e = ''research_job.created'' \<and> ev_aggregate_id e = j"
  "build_research_job_awaiting_review i j x at' = Inr e \<Longrightarrow> ev_event_type e = ''research_job.awaiting_review'' \<and> ev_aggregate_id e = j"
  "build_research_job_retry_scheduled i j y n nx at' = Inr e \<Longrightarrow> ev_event_type e = ''research_job.retry_scheduled'' \<and> ev_aggregate_id e = j"
  by (auto simp: builder_defs payload_defs bind_simps ev_event_type_def)

lemma finalize_completion_tx_cases:
  assumes "finalize_completion_tx env tp j tok res ev at' db = Inr (db', owned)"
  shows "if owned
    then \<exists>st. finalize_completion (db_store db) j tok res at' = Inr (st, True) \<and> appended db db' ''research_job.completed'' j \<and>
              db' = db\<lparr> db_store := st, db_outbox := db_outbox db' \<rparr>
    else db' = db"
proof -
  from assms obtain st o1 where st: "finalize_completion (db_store db) j tok res at' = Inr (st, o1)"
    and rest: "if o1 then owned \<and> enqueue_built env tp (build_research_job_completed ev j (Aware at' 0)) (db\<lparr> db_store := st \<rparr>) = Inr db'
               else \<not> owned \<and> db' = db\<lparr> db_store := st \<rparr>"
    by (auto simp: finalize_completion_tx_def bind_simps split: if_splits)
  show ?thesis
  proof (cases o1)
    case True
    with rest enqueue_built_appended[of env tp _ "db\<lparr> db_store := st \<rparr>" db' "''research_job.completed''" j] built_types(1)
    have "appended (db\<lparr> db_store := st \<rparr>) db' ''research_job.completed'' j" "db' = db\<lparr> db_store := st, db_outbox := db_outbox db' \<rparr>" owned
      by auto
    then show ?thesis using st True by (auto simp: appended_def)
  next
    case False
    then show ?thesis using rest st finalize_completion_refused by auto
  qed
qed

lemma finalize_failure_tx_cases:
  assumes "finalize_failure_tx env tp j tok reason cls ev at' db = Inr (db', owned)"
  shows "if owned
    then \<exists>st. finalize_failure (db_store db) j tok reason at' = Inr (st, True) \<and> appended db db' ''research_job.failed'' j \<and>
              db' = db\<lparr> db_store := st, db_outbox := db_outbox db' \<rparr>
    else db' = db"
proof -
  from assms obtain st o1 where st: "finalize_failure (db_store db) j tok reason at' = Inr (st, o1)"
    and rest: "if o1 then owned \<and> enqueue_built env tp (build_research_job_failed ev j (Aware at' 0) cls) (db\<lparr> db_store := st \<rparr>) = Inr db'
               else \<not> owned \<and> db' = db\<lparr> db_store := st \<rparr>"
    by (auto simp: finalize_failure_tx_def bind_simps split: if_splits)
  show ?thesis
  proof (cases o1)
    case True
    with rest enqueue_built_appended[of env tp _ "db\<lparr> db_store := st \<rparr>" db' "''research_job.failed''" j] built_types(2)
    have "appended (db\<lparr> db_store := st \<rparr>) db' ''research_job.failed'' j" "db' = db\<lparr> db_store := st, db_outbox := db_outbox db' \<rparr>" owned
      by auto
    then show ?thesis using st True by (auto simp: appended_def)
  next
    case False
    then show ?thesis using rest st finalize_failure_refused by auto
  qed
qed

section \<open>The loop\<close>

lemma ready_keeps_closed: "ready_for_new_claim ex x wk = (wk', b) \<Longrightarrow> wk_closed wk' = wk_closed wk \<and> wk_shutdown wk' = wk_shutdown wk"
  by (auto simp: ready_for_new_claim_def split: if_splits)

lemma process_claimed_keeps_closed:
  "process_claimed sv se ex c wk w = (wk', w', r) \<Longrightarrow> wk_closed wk' = wk_closed wk"
  by (auto simp: process_claimed_def Let_def split: prod.splits future_result.splits sum.splits if_splits)

lemma run_once_keeps_closed: "run_once sv se ex locked lease profile wk w = (wk', w', r) \<Longrightarrow> wk_closed wk' = wk_closed wk"
  by (auto simp: run_once_def split: if_splits prod.splits bool.splits sum.splits option.splits
      dest!: ready_keeps_closed process_claimed_keeps_closed)

lemma close_closes:
  assumes "\<not> wk_closed wk"
  shows "wk_closed (close ex x wk) \<and> wk_shutdown (close ex x wk) \<and> \<not> wk_inflight (close ex x wk)"
  using assms by (simp add: close_def join_processor_bounded_def Let_def)

section \<open>Property\<close>

text \<open>
  C30. The worker stops.  If shutdown is requested before poll \<open>m\<close>, the loop returns after at most
  \<open>m\<close> polls, whatever the processor, the executor and the database do on the way, and the worker it
  returns is closed, with its shutdown flag set and no future in flight; and a worker whose shutdown
  was requested claims nothing: a pass returns at once, the database as it was.
\<close>

theorem worker_stops_after_shutdown:
  assumes "stop m" "k \<le> m" "m < k + n" "\<not> wk_closed wk"
  shows "(\<exists>wk' w' r. run_forever sv se ex locked lease profile stop k n wk w = Some (wk', w', r) \<and>
           wk_closed wk' \<and> wk_shutdown wk' \<and> \<not> wk_inflight wk') \<and>
    (wk_shutdown wk \<longrightarrow> run_once sv se ex locked lease profile wk w = (wk, w, Inr False))"
proof
  show "\<exists>wk' w' r. run_forever sv se ex locked lease profile stop k n wk w = Some (wk', w', r) \<and>
           wk_closed wk' \<and> wk_shutdown wk' \<and> \<not> wk_inflight wk'"
    using assms
  proof (induction n arbitrary: k wk w)
    case (Suc n)
    let ?wk = "wk\<lparr> wk_shutdown := wk_shutdown wk \<or> stop k \<rparr>"
    show ?case
    proof (cases "wk_shutdown ?wk")
      case True
      then show ?thesis using close_closes[of ?wk ex "snd w"] Suc.prems(4) by (auto simp: Let_def)
    next
      case False
      then have "k < m" using Suc.prems(1,2) by (cases "k = m") auto
      obtain wk1 w1 r where r: "run_once sv se ex locked lease profile ?wk w = (wk1, w1, r)" by (metis prod_cases3)
      then have open1: "\<not> wk_closed wk1" using run_once_keeps_closed[OF r] Suc.prems(4) by simp
      show ?thesis
      proof (cases r)
        case (Inl e)
        then show ?thesis using False r close_closes[OF open1, of ex "snd w1"] by (auto simp: Let_def)
      next
        case (Inr b)
        then show ?thesis using False r Suc.IH[OF Suc.prems(1), of "Suc k" wk1 w1] Suc.prems(3) \<open>k < m\<close> open1
          by (auto simp: Let_def)
      qed
    qed
  qed simp
  show "wk_shutdown wk \<longrightarrow> run_once sv se ex locked lease profile wk w = (wk, w, Inr False)" by (simp add: run_once_def)
qed

definition k_executor :: "nat executor" where
  "k_executor = \<lparr> ex_wait = (\<lambda>p w. (w, TimedOut)), ex_timeout_error = (\<lambda>_. False), ex_done = (\<lambda>_. False), ex_join_times_out = (\<lambda>_. True) \<rparr>"

definition k_worker :: worker where
  "k_worker = \<lparr> wk_shutdown = False, wk_inflight = False, wk_abandoned = False, wk_closed = False, wk_processor_wait_abandoned = False \<rparr>"

theorem worker_stops_after_shutdown_witness:
  "\<exists>wk' w' r. run_forever (d_services d_dims) d_settings k_executor [] 90 None (\<lambda>i. i = 2) 0 3 k_worker (e_db, 0) =
     Some (wk', w', r) \<and> wk_closed wk'"
  using worker_stops_after_shutdown [of "\<lambda>i. i = 2" 2 0 3 k_worker] by (fastforce simp: k_worker_def)

end
