(* ===== verification/Review_Service.thy ===== *)
theory Review_Service
  imports Evaluation_Service
begin

text \<open>
  Operator review: \<open>ReviewService.submit_decision\<close> of \<open>src/src/atlas/application/review.py\<close>.  It runs two
  transactions with a read of the workflow checkpoint in between: \<open>review_check\<close> (the readiness
  transaction) and \<open>review_write\<close> (the durable write).  Other transactions may run between the two, so
  a decision is the two calls on two databases.  \<open>graph.get_state\<close> of LangGraph is a parameter: the
  nodes a stored checkpoint would run next.
\<close>

section \<open>The service\<close>

definition fingerprint_request :: "hashing \<Rightarrow> string \<Rightarrow> string \<Rightarrow> string option \<Rightarrow> string" where
  "fingerprint_request h decision actor_id evaluation_run_id =
     hs_sha256 h (hs_dumps h (VDict [(''actor_id'', VStr actor_id), (''decision'', VStr decision),
       (''evaluation_run_id'', VStr (case evaluation_run_id of None \<Rightarrow> [] | Some e \<Rightarrow> e))]))"

record review_request =
  rr_job_id :: string
  rr_decision :: string
  rr_actor_id :: string
  rr_idempotency_key :: string
  rr_evaluation_run_id :: "string option"

text \<open>What the readiness transaction leaves in local variables.\<close>

record review_target =
  rt_exec_id :: string
  rt_target_eval_id :: string
  rt_candidate_fingerprint :: string

datatype 'a review_result = Replayed string | Ready 'a

definition request_valid :: "review_request \<Rightarrow> exc_class + string" where
  "request_valid rq =
     (let cleaned_actor = py_strip (rr_actor_id rq)
      in if cleaned_actor = [] then Inl (OtherClass ''ValueError'')
         else if rr_decision rq \<notin> {''approve'', ''reject''} then Inl (OtherClass ''ValueError'')
         else Inr cleaned_actor)"

text \<open>The lookup by idempotency key both transactions start with.\<close>

definition check_replay :: "app_db \<Rightarrow> review_request \<Rightarrow> string \<Rightarrow> exc_class + string option" where
  "check_replay db rq fingerprint =
     (case get_review_decision_by_idempotency db (rr_job_id rq) (rr_idempotency_key rq) of
        None \<Rightarrow> Inr None
      | Some existing \<Rightarrow>
          if hr_request_fingerprint existing = fingerprint then Inr (Some (hr_id existing))
          else Inl (OtherClass ''ReviewConflictError''))"

definition failed_run_for :: "string \<Rightarrow> eval_result \<Rightarrow> bool" where
  "failed_run_for exec_id run \<longleftrightarrow>
     ev_status run = ''SUCCEEDED'' \<and> ev_passed run \<noteq> Some True \<and> ev_workflow_execution_id run = exec_id"

definition review_check ::
  "app_db \<Rightarrow> review_request \<Rightarrow> string \<Rightarrow> exc_class + review_target review_result" where
  "review_check db rq fingerprint =
     (let not_ready = OtherClass ''ReviewReadinessError''
      in case tget r_id (rr_job_id rq) (st_jobs (db_store db)) of
           None \<Rightarrow> Inl (OtherClass ''ReviewNotFoundError'')
         | Some job \<Rightarrow>
             bindE (check_replay db rq fingerprint) (\<lambda>replayed.
               case replayed of
                 Some i \<Rightarrow> Inr (Replayed i)
               | None \<Rightarrow>
                   if r_status job \<noteq> ''AWAITING_REVIEW'' then Inl not_ready
                   else (case r_active_workflow_execution_id job of
                     None \<Rightarrow> Inl not_ready
                   | Some exec_id \<Rightarrow>
                       if exec_id = [] then Inl not_ready
                       else (case get_execution (db_store db) exec_id of
                         None \<Rightarrow> Inl not_ready
                       | Some x \<Rightarrow>
                           if x_research_job_id x \<noteq> rr_job_id rq \<or> x_status x \<noteq> ''RUNNING'' then Inl not_ready
                           else
                             (let runs = get_by_job db (rr_job_id rq)
                              in case find (failed_run_for exec_id) (rev runs) of
                                   None \<Rightarrow> Inl not_ready
                                 | Some latest_failed \<Rightarrow>
                                     (let target = (case rr_evaluation_run_id rq of
                                            None \<Rightarrow> ev_run_id latest_failed
                                          | Some e \<Rightarrow> if e = [] then ev_run_id latest_failed else e);
                                          ready = (\<lambda>run. Inr (Ready \<lparr> rt_exec_id = exec_id, rt_target_eval_id = target,
                                             rt_candidate_fingerprint = ev_input_fingerprint run \<rparr>))
                                      in if target \<noteq> ev_run_id latest_failed then
                                           (case find (\<lambda>run. ev_run_id run = target) runs of
                                              None \<Rightarrow> Inl not_ready
                                            | Some matching \<Rightarrow>
                                                if ev_workflow_execution_id matching \<noteq> exec_id \<or>
                                                   ev_passed matching = Some True \<or> ev_status matching \<noteq> ''SUCCEEDED''
                                                then Inl not_ready else ready matching)
                                         else ready latest_failed))))))"

definition review_write ::
  "hashing \<Rightarrow> app_db \<Rightarrow> review_request \<Rightarrow> string \<Rightarrow> string \<Rightarrow> review_target \<Rightarrow> string \<Rightarrow> timestamp \<Rightarrow>
   exc_class + (app_db \<times> unit review_result)" where
  "review_write h db rq cleaned_actor fingerprint t decision_id at' =
     (let not_ready = OtherClass ''ReviewReadinessError''; conflict = OtherClass ''ReviewConflictError''
      in case tget r_id (rr_job_id rq) (st_jobs (db_store db)) of
           None \<Rightarrow> Inl (OtherClass ''ReviewNotFoundError'')
         | Some job \<Rightarrow>
             bindE (check_replay db rq fingerprint) (\<lambda>replayed.
               case replayed of
                 Some i \<Rightarrow> Inr (db, Replayed i)
               | None \<Rightarrow>
                   if r_status job \<noteq> ''AWAITING_REVIEW'' then Inl not_ready
                   else if r_active_workflow_execution_id job \<noteq> Some (rt_exec_id t) then Inl not_ready
                   else
                     bindE (insert_review_decision db
                       \<lparr> hr_id = decision_id, hr_research_job_id = rr_job_id rq, hr_workflow_execution_id = rt_exec_id t,
                         hr_evaluation_run_id = rt_target_eval_id t, hr_decision = rr_decision rq,
                         hr_candidate_fingerprint = rt_candidate_fingerprint t, hr_actor_id = cleaned_actor,
                         hr_idempotency_key = rr_idempotency_key rq, hr_request_fingerprint = fingerprint,
                         hr_created_at = at' \<rparr>) (\<lambda>db.
                     if rr_decision rq = ''approve'' then
                       bindE (on_store db (\<lambda>st. approve_review_to_pending st (rr_job_id rq) (rt_exec_id t) at' at'))
                         (\<lambda>(db, ok). if ok then Inr (db, Ready ()) else Inl conflict)
                     else
                       bindE (on_store db (\<lambda>st. fail_execution st (rt_exec_id t) at')) (\<lambda>(db, fail_ok).
                       if \<not> fail_ok then Inl conflict
                       else bindE (on_store db (\<lambda>st. fail_job_from_review st (rr_job_id rq)
                                                       ''Rejected by operator review'' at'))
                              (\<lambda>(db, ok). if ok then Inr (db, Ready ()) else Inl conflict)))))"

text \<open>
  The whole call: \<open>db\<close> is the database at the first transaction, \<open>db2\<close> the one the second sees.
\<close>

definition submit_decision ::
  "hashing \<Rightarrow> (string \<Rightarrow> string list) \<Rightarrow> app_db \<Rightarrow> app_db \<Rightarrow> review_request \<Rightarrow> string \<Rightarrow> timestamp \<Rightarrow>
   app_db \<times> (exc_class + (string \<times> string))" where
  "submit_decision h checkpoint_next db db2 rq decision_id at' =
     (case request_valid rq of
        Inl e \<Rightarrow> (db2, Inl e)
      | Inr cleaned_actor \<Rightarrow>
          (let fingerprint = fingerprint_request h (rr_decision rq) cleaned_actor (rr_evaluation_run_id rq)
           in case review_check db rq fingerprint of
                Inl e \<Rightarrow> (db2, Inl e)
              | Inr (Replayed i) \<Rightarrow> (db2, Inr (i, ''replayed''))
              | Inr (Ready t) \<Rightarrow>
                  if checkpoint_next (rt_exec_id t) \<noteq> [''complete''] then (db2, Inl (OtherClass ''ReviewReadinessError''))
                  else (case session_scope db2 (\<lambda>db. review_write h db rq cleaned_actor fingerprint t decision_id at') of
                          (db, Inl e) \<Rightarrow> (db, Inl e)
                        | (db, Inr (Replayed i)) \<Rightarrow> (db, Inr (i, ''replayed''))
                        | (db, Inr (Ready _)) \<Rightarrow> (db, Inr (decision_id, ''created'')))))"

end
