(* ===== verification/Review_Safety.thy ===== *)
theory Review_Safety
  imports Review_Service Evaluation_Safety
begin

text \<open>
  What an operator's decision does.  The readiness transaction runs on \<open>db\<close>, the write on \<open>db2\<close>: any
  transaction of another process may have run in between, and nothing is assumed of it but that the
  store it leaves is consistent.
\<close>

section \<open>The two transactions\<close>

lemma check_replay_None:
  "check_replay db rq fp = Inr None \<longleftrightarrow>
   get_review_decision_by_idempotency db (rr_job_id rq) (rr_idempotency_key rq) = None"
  by (auto simp: check_replay_def split: option.splits)

text \<open>A decision is ready only for a graded candidate of the execution under review that did not pass.\<close>

lemma review_check_ready:
  assumes "review_check db rq fp = Inr (Ready t)"
  shows "\<exists>run \<in> set (get_by_job db (rr_job_id rq)).
     failed_run_for (rt_exec_id t) run \<and> rt_target_eval_id t = ev_run_id run \<and>
     rt_candidate_fingerprint t = ev_input_fingerprint run"
proof -
  let ?runs = "get_by_job db (rr_job_id rq)"
  obtain e lf where e: "find (failed_run_for e) (rev ?runs) = Some lf" and t:
    "\<exists>target. (target = ev_run_id lf \<and> t = \<lparr> rt_exec_id = e, rt_target_eval_id = target,
         rt_candidate_fingerprint = ev_input_fingerprint lf \<rparr>) \<or>
       (\<exists>run. find (\<lambda>run. ev_run_id run = target) ?runs = Some run \<and> failed_run_for e run \<and>
         t = \<lparr> rt_exec_id = e, rt_target_eval_id = target, rt_candidate_fingerprint = ev_input_fingerprint run \<rparr>)"
    using assms
    by (auto simp: review_check_def Let_def bind_simps failed_run_for_def
        split: option.splits if_splits)
  have "lf \<in> set ?runs" "failed_run_for e lf" using e by (auto simp: find_Some_iff) (metis nth_mem set_rev length_rev)
  with t show ?thesis by (fastforce simp: find_Some_iff)
qed

definition decision_row :: "review_request \<Rightarrow> string \<Rightarrow> string \<Rightarrow> review_target \<Rightarrow> string \<Rightarrow> timestamp \<Rightarrow> review_row" where
  "decision_row rq actor fp t decision_id at' =
     \<lparr> hr_id = decision_id, hr_research_job_id = rr_job_id rq, hr_workflow_execution_id = rt_exec_id t,
       hr_evaluation_run_id = rt_target_eval_id t, hr_decision = rr_decision rq,
       hr_candidate_fingerprint = rt_candidate_fingerprint t, hr_actor_id = actor,
       hr_idempotency_key = rr_idempotency_key rq, hr_request_fingerprint = fp, hr_created_at = at' \<rparr>"

lemma insert_review_Inr:
  "insert_review_decision db h = Inr db' \<Longrightarrow> db' = db\<lparr> db_reviews := db_reviews db @ [h] \<rparr>"
  by (auto simp: insert_review_decision_def split: if_splits)

lemma review_write_ready:
  assumes "review_write h db rq actor fp t i at' = Inr (db', Ready ())"
  shows "\<exists>m db1. tget r_id (rr_job_id rq) (st_jobs (db_store db)) = Some m \<and> r_status m = ''AWAITING_REVIEW'' \<and>
     r_active_workflow_execution_id m = Some (rt_exec_id t) \<and>
     get_review_decision_by_idempotency db (rr_job_id rq) (rr_idempotency_key rq) = None \<and>
     insert_review_decision db (decision_row rq actor fp t i at') = Inr db1 \<and>
     (if rr_decision rq = ''approve''
      then \<exists>st. approve_review_to_pending (db_store db1) (rr_job_id rq) (rt_exec_id t) at' at' = Inr (st, True) \<and>
             db' = db1\<lparr> db_store := st \<rparr>
      else \<exists>st st'. fail_execution (db_store db1) (rt_exec_id t) at' = Inr (st, True) \<and>
             fail_job_from_review st (rr_job_id rq) ''Rejected by operator review'' at' = Inr (st', True) \<and>
             db' = db1\<lparr> db_store := st' \<rparr>)"
  using assms
  by (auto simp: review_write_def Let_def bind_simps check_replay_None decision_row_def
      split: option.splits if_splits prod.splits review_result.splits)

text \<open>The job's row after a decision, and the execution a rejection ends.\<close>

definition decided_row :: "review_request \<Rightarrow> string \<Rightarrow> timestamp \<Rightarrow> job_row \<Rightarrow> job_row" where
  "decided_row rq exec_id at' m =
     (if rr_decision rq = ''approve'' then approved_row exec_id at' at' m
      else failed_row ''Rejected by operator review'' at' m)"

lemma fail_execution_True:
  assumes "fail_execution st e at' = Inr (st', True)"
  shows "st' = st\<lparr> st_execs := tupdate (\<lambda>x. x_id x = e \<and> x_status x = ''RUNNING'')
             (\<lambda>x. x\<lparr> x_status := ''FAILED'', x_finished_at := Some at' \<rparr>) (st_execs st) \<rparr> \<and>
         (\<exists>x \<in> set (st_execs st). x_id x = e \<and> x_status x = ''RUNNING'')"
  using assms
  by (auto simp: fail_execution_def end_execution_def update_execs_def Let_def bind_simps tcount_pos split: if_splits)

lemma review_write_exact:
  assumes ok: "store_ok (db_store db)" and w: "review_write h db rq actor fp t i at' = Inr (db', Ready ())"
  shows "\<exists>m. tget r_id (rr_job_id rq) (st_jobs (db_store db)) = Some m \<and> r_status m = ''AWAITING_REVIEW'' \<and>
     r_active_workflow_execution_id m = Some (rt_exec_id t) \<and>
     tget r_id (rr_job_id rq) (st_jobs (db_store db')) = Some (decided_row rq (rt_exec_id t) at' m) \<and>
     db_reviews db' = db_reviews db @ [decision_row rq actor fp t i at'] \<and> db_outbox db' = db_outbox db \<and>
     get_review_decision_by_idempotency db (rr_job_id rq) (rr_idempotency_key rq) = None \<and>
     (\<forall>k. k \<noteq> rr_job_id rq \<longrightarrow> tget r_id k (st_jobs (db_store db')) = tget r_id k (st_jobs (db_store db))) \<and>
     (rr_decision rq \<noteq> ''approve'' \<longrightarrow>
        (\<exists>x. tget x_id (rt_exec_id t) (st_execs (db_store db')) = Some x \<and> x_status x = ''FAILED''))"
proof -
  from review_write_ready[OF w] obtain m db1 where m:
    "tget r_id (rr_job_id rq) (st_jobs (db_store db)) = Some m" "r_status m = ''AWAITING_REVIEW''"
    "r_active_workflow_execution_id m = Some (rt_exec_id t)"
    "get_review_decision_by_idempotency db (rr_job_id rq) (rr_idempotency_key rq) = None"
    and ins: "insert_review_decision db (decision_row rq actor fp t i at') = Inr db1"
    and rest: "if rr_decision rq = ''approve''
      then \<exists>st. approve_review_to_pending (db_store db1) (rr_job_id rq) (rt_exec_id t) at' at' = Inr (st, True) \<and>
             db' = db1\<lparr> db_store := st \<rparr>
      else \<exists>st st'. fail_execution (db_store db1) (rt_exec_id t) at' = Inr (st, True) \<and>
             fail_job_from_review st (rr_job_id rq) ''Rejected by operator review'' at' = Inr (st', True) \<and>
             db' = db1\<lparr> db_store := st' \<rparr>"
    by blast
  note db1 = insert_review_Inr[OF ins]
  have rid: "r_id m = rr_job_id rq" using tget_Some_key[OF m(1)] .
  show ?thesis
  proof (cases "rr_decision rq = ''approve''")
    case True
    then obtain st where st: "approve_review_to_pending (db_store db) (rr_job_id rq) (rt_exec_id t) at' at' = Inr (st, True)"
      "db' = db1\<lparr> db_store := st \<rparr>" using rest db1 by auto
    then have "st = (db_store db)\<lparr> st_jobs := tput r_id (approved_row (rt_exec_id t) at' at' m) (st_jobs (db_store db)) \<rparr>"
      using approve_review_to_pending_awaiting[OF ok m(1,2), of "rt_exec_id t" at' at'] by (simp split: if_splits)
    then show ?thesis using m st(2) db1 True rid by (auto simp: decided_row_def tget_tput approved_row_def)
  next
    case False
    then obtain st st' where st: "fail_execution (db_store db) (rt_exec_id t) at' = Inr (st, True)"
      "fail_job_from_review st (rr_job_id rq) ''Rejected by operator review'' at' = Inr (st', True)"
      "db' = db1\<lparr> db_store := st' \<rparr>" using rest db1 by auto
    note fe = fail_execution_True[OF st(1)]
    have ok': "store_ok st" using exec_ops_store_ok(2)[OF ok] st(1) by (simp add: fail_execution_def)
    have jobs: "st_jobs st = st_jobs (db_store db)" using fe by simp
    have m': "tget r_id (rr_job_id rq) (st_jobs st) = Some m" using jobs m(1) by simp
    have st': "st' = st\<lparr> st_jobs := tput r_id (failed_row ''Rejected by operator review'' at' m) (st_jobs st) \<rparr>"
      using st(2) fail_job_from_review_awaiting[OF ok' m' m(2), of "''Rejected by operator review''" at']
      by (simp split: if_splits)
    from fe obtain x where x: "x \<in> set (st_execs (db_store db))" "x_id x = rt_exec_id t" "x_status x = ''RUNNING''" by blast
    have "tget x_id (rt_exec_id t) (st_execs (db_store db)) = Some x"
      using tget_mem[of x_id "st_execs (db_store db)" x] x ok by (simp add: store_ok_def)
    then have "tget x_id (rt_exec_id t) (st_execs st') = Some (x\<lparr> x_status := ''FAILED'', x_finished_at := Some at' \<rparr>)"
      using fe st' x by (simp add: tget_tupdate)
    then show ?thesis using m st(3) db1 False rid m' st' jobs
      by (auto simp: decided_row_def tget_tput failed_row_def clear_claim_and_continuation_def)
  qed
qed

lemma submit_decision_created:
  assumes "submit_decision h nxt db db2 rq i at' = (db', Inr (i', ''created''))"
  shows "\<exists>actor t fp. request_valid rq = Inr actor \<and> fp = fingerprint_request h (rr_decision rq) actor (rr_evaluation_run_id rq) \<and>
     review_check db rq fp = Inr (Ready t) \<and> nxt (rt_exec_id t) = [''complete''] \<and> i' = i \<and>
     review_write h db2 rq actor fp t i at' = Inr (db', Ready ())"
  using assms
  by (auto simp: submit_decision_def Let_def session_scope_def
      split: sum.splits review_result.splits if_splits prod.splits)

section \<open>Example\<close>

text \<open>A job that awaits review of its only candidate.\<close>

definition r_db :: app_db where
  "r_db = e_db\<lparr> db_store := \<lparr> st_jobs = [awaiting_row 45 (e_row\<lparr> r_evaluation_attempt_count := 1 \<rparr>)], st_execs = [e_exec] \<rparr>,
     db_evals := [succeeded_run 0 False ''terminal'' [] 40 e_run] \<rparr>"

definition r_request :: "string \<Rightarrow> review_request" where
  "r_request decision = \<lparr> rr_job_id = ''job-1'', rr_decision = decision, rr_actor_id = '' op '', rr_idempotency_key = ''k'',
     rr_evaluation_run_id = None \<rparr>"

definition r_hash :: hashing where
  "r_hash = \<lparr> hs_dumps = (\<lambda>v. case v of VDict [_, (_, VStr d), _] \<Rightarrow> d | _ \<Rightarrow> []),
              hs_sha256 = (\<lambda>s. take 64 (s @ replicate 64 (CHR ''0''))) \<rparr>"

definition r_decide :: "string \<Rightarrow> app_db \<times> (exc_class + (string \<times> string))" where
  "r_decide decision = submit_decision r_hash (\<lambda>_. [''complete'']) r_db r_db (r_request decision) ''d1'' 60"

lemma r_db_ok: "store_ok (db_store r_db)"
  by code_simp

lemma r_decide_created: "snd (r_decide ''reject'') = Inr (''d1'', ''created'')" "snd (r_decide ''approve'') = Inr (''d1'', ''created'')"
  by code_simp+

section \<open>Properties\<close>

text \<open>
  C12. A decision is written only about the candidate that was reviewed.  If a decision is created, then
  the readiness check found a graded run of the job's active execution that did not pass, the
  stored checkpoint was waiting to run \<open>complete\<close>, and at the moment of the write the job still
  awaited review on that execution; the decision row carries the fingerprint of that run's candidate.
  An approval makes the job pending for that execution, a rejection fails both the execution and
  the job, and no other decision is touched.
\<close>

theorem review_decision_exact:
  assumes "store_ok (db_store db2)" "submit_decision h nxt db db2 rq i at' = (db', Inr (i', ''created''))"
  shows "\<exists>run m row exec.
     run \<in> set (get_by_job db (rr_job_id rq)) \<and> failed_run_for exec run \<and> nxt exec = [''complete''] \<and>
     tget r_id (rr_job_id rq) (st_jobs (db_store db2)) = Some m \<and> r_status m = ''AWAITING_REVIEW'' \<and>
     r_active_workflow_execution_id m = Some exec \<and>
     db_reviews db' = db_reviews db2 @ [row] \<and> hr_id row = i' \<and> hr_decision row = rr_decision rq \<and>
     hr_workflow_execution_id row = exec \<and> hr_evaluation_run_id row = ev_run_id run \<and>
     hr_candidate_fingerprint row = ev_input_fingerprint run \<and>
     tget r_id (rr_job_id rq) (st_jobs (db_store db')) =
       Some (if rr_decision rq = ''approve'' then approved_row exec at' at' m
             else failed_row ''Rejected by operator review'' at' m) \<and>
     (rr_decision rq = ''reject'' \<longrightarrow>
        (\<exists>x. tget x_id exec (st_execs (db_store db')) = Some x \<and> x_status x = ''FAILED''))"
proof -
  from submit_decision_created[OF assms(2)] obtain actor t fp where c:
    "review_check db rq fp = Inr (Ready t)" "nxt (rt_exec_id t) = [''complete'']" "i' = i"
    "review_write h db2 rq actor fp t i at' = Inr (db', Ready ())" by blast
  from review_check_ready[OF c(1)] obtain run where run: "run \<in> set (get_by_job db (rr_job_id rq))"
    "failed_run_for (rt_exec_id t) run" "rt_target_eval_id t = ev_run_id run"
    "rt_candidate_fingerprint t = ev_input_fingerprint run" by blast
  let ?row = "decision_row rq actor fp t i at'"
  have row: "hr_id ?row = i'" "hr_decision ?row = rr_decision rq" "hr_workflow_execution_id ?row = rt_exec_id t"
    "hr_evaluation_run_id ?row = ev_run_id run" "hr_candidate_fingerprint ?row = ev_input_fingerprint run"
    using run c(3) by (simp_all add: decision_row_def)
  from review_write_exact[OF assms(1) c(4)] obtain m where
    "tget r_id (rr_job_id rq) (st_jobs (db_store db2)) = Some m" "r_status m = ''AWAITING_REVIEW''"
    "r_active_workflow_execution_id m = Some (rt_exec_id t)"
    "tget r_id (rr_job_id rq) (st_jobs (db_store db')) = Some (decided_row rq (rt_exec_id t) at' m)"
    "db_reviews db' = db_reviews db2 @ [?row]"
    "rr_decision rq \<noteq> ''approve'' \<longrightarrow>
        (\<exists>x. tget x_id (rt_exec_id t) (st_execs (db_store db')) = Some x \<and> x_status x = ''FAILED'')" by blast
  moreover have "rr_decision rq \<noteq> ''approve''" if "rr_decision rq = ''reject''" using that by simp
  ultimately show ?thesis using run(1,2) c(2) row unfolding decided_row_def by blast
qed

theorem review_decision_exact_witness:
  "\<exists>db'. r_decide ''reject'' = (db', Inr (''d1'', ''created'')) \<and>
     map_option r_status (tget r_id ''job-1'' (st_jobs (db_store db'))) = Some ''FAILED'' \<and>
     map_option x_status (tget x_id ''x1'' (st_execs (db_store db'))) = Some ''FAILED''"
proof -
  obtain db' where d: "r_decide ''reject'' = (db', Inr (''d1'', ''created''))"
    using r_decide_created(1) by (metis prod.collapse)
  from review_decision_exact[OF r_db_ok d[unfolded r_decide_def]] obtain m exec x where
    "tget r_id ''job-1'' (st_jobs (db_store r_db)) = Some m" "r_active_workflow_execution_id m = Some exec"
    "tget r_id ''job-1'' (st_jobs (db_store db')) = Some (failed_row ''Rejected by operator review'' 60 m)"
    "tget x_id exec (st_execs (db_store db')) = Some x" "x_status x = ''FAILED''"
    by (auto simp: r_request_def)
  with d show ?thesis
    by (auto simp: r_db_def e_db_def awaiting_row_def e_row_def failed_row_def clear_claim_and_continuation_def)
qed

text \<open>
  C21. A decision is taken once.  However the rest of the database has changed since, submitting the
  same decision under the same key returns the first decision's id as a replay and writes nothing, and
  submitting a different one under that key raises \<open>ReviewConflictError\<close> and writes nothing.
\<close>

theorem review_decision_is_idempotent:
  assumes "submit_decision h nxt db db2 rq i at' = (db1, Inr (i', ''created''))" "store_ok (db_store db2)"
    and "db_reviews db3 = db_reviews db1 @ later" "job_exists db3 (rr_job_id rq)"
    and "rr_job_id rq2 = rr_job_id rq" "rr_idempotency_key rq2 = rr_idempotency_key rq"
    and "request_valid rq = Inr actor" "request_valid rq2 = Inr actor2"
  shows "submit_decision h nxt2 db3 db4 rq2 j at2 =
     (db4, if fingerprint_request h (rr_decision rq2) actor2 (rr_evaluation_run_id rq2) =
              fingerprint_request h (rr_decision rq) actor (rr_evaluation_run_id rq)
           then Inr (i', ''replayed'') else Inl (OtherClass ''ReviewConflictError''))"
proof -
  let ?fp = "fingerprint_request h (rr_decision rq) actor (rr_evaluation_run_id rq)"
  from submit_decision_created[OF assms(1)] assms(7) obtain t where c: "i' = i"
    "review_write h db2 rq actor ?fp t i at' = Inr (db1, Ready ())" by auto
  from review_write_exact[OF assms(2) c(2)] have
    r: "db_reviews db1 = db_reviews db2 @ [decision_row rq actor ?fp t i at']"
    "get_review_decision_by_idempotency db2 (rr_job_id rq) (rr_idempotency_key rq) = None" by blast+
  have "review_key (decision_row rq actor ?fp t i at') = (rr_job_id rq, rr_idempotency_key rq)"
    by (simp add: review_key_def decision_row_def)
  with r assms(3) have "get_review_decision_by_idempotency db3 (rr_job_id rq) (rr_idempotency_key rq) =
      Some (decision_row rq actor ?fp t i at')"
    by (simp add: get_review_decision_by_idempotency_def tget_append)
  then have "check_replay db3 rq2 fp = (if fp = ?fp then Inr (Some i) else Inl (OtherClass ''ReviewConflictError''))" for fp
    using assms(5,6) by (simp add: check_replay_def decision_row_def)
  with assms(4,5,8) c(1) show ?thesis
    by (auto simp: submit_decision_def Let_def review_check_def job_exists_def bindE_def split: sum.splits)
qed

theorem review_decision_is_idempotent_witness:
  "\<exists>db1. r_decide ''approve'' = (db1, Inr (''d1'', ''created'')) \<and>
     submit_decision r_hash (\<lambda>_. []) db1 db1 (r_request ''approve'') ''d2'' 70 = (db1, Inr (''d1'', ''replayed'')) \<and>
     submit_decision r_hash (\<lambda>_. []) db1 db1 (r_request ''reject'') ''d2'' 70 = (db1, Inl (OtherClass ''ReviewConflictError''))"
proof -
  let ?rq = "r_request ''approve''"
  obtain db1 where d: "r_decide ''approve'' = (db1, Inr (''d1'', ''created''))"
    using r_decide_created(2) by (metis prod.collapse)
  have job: "job_exists (fst (r_decide ''approve'')) ''job-1''" by code_simp
  have actor: "request_valid ?rq = Inr ''op''" "request_valid (r_request ''reject'') = Inr ''op''" by code_simp+
  have differ: "fingerprint_request r_hash ''reject'' ''op'' None \<noteq> fingerprint_request r_hash ''approve'' ''op'' None"
    by code_simp
  have ids: "rr_job_id (r_request z) = ''job-1''" "rr_idempotency_key (r_request z) = ''k''"
    "rr_decision (r_request z) = z" "rr_evaluation_run_id (r_request z) = None" for z
    by (simp_all add: r_request_def)
  note again = review_decision_is_idempotent[OF d[unfolded r_decide_def] r_db_ok, of db1 "[]" _ "''op''" "''op''"]
  show ?thesis
    using d again[of ?rq "\<lambda>_. []" db1 "''d2''" 70] again[of "r_request ''reject''" "\<lambda>_. []" db1 "''d2''" 70]
      job actor differ by (simp add: ids)
qed

end
