(* ===== verification/Job_Submission.thy ===== *)
theory Job_Submission
  imports Recovery_Store Job_History
begin

text \<open>
  Submitting a research job: \<open>ResearchJobService\<close> of \<open>src/src/atlas/application/research_jobs.py\<close> over
  the application database.  The id factory, the clock, the event id and the active traceparent are
  arguments.
\<close>

section \<open>The service\<close>

definition fingerprint_create_request :: "hashing \<Rightarrow> string \<Rightarrow> string" where
  "fingerprint_create_request h question = hs_sha256 h (hs_dumps h (VDict [(''question'', VStr question)]))"

definition replay_or_conflict :: "app_db \<Rightarrow> string \<Rightarrow> string \<Rightarrow> exc_class + research_job" where
  "replay_or_conflict db key fingerprint =
     (case get_by_idempotency_key (db_store db) key of
        Inl e \<Rightarrow> Inl (exc_of_store e)
      | Inr None \<Rightarrow> Inl (OtherClass ''IdempotencyConflictError'')
      | Inr (Some (job, fp)) \<Rightarrow>
          if fp \<noteq> fingerprint then Inl (OtherClass ''IdempotencyConflictError'') else Inr job)"

record submit_args =
  sa_job_id :: string
  sa_event_id :: uuid
  sa_now :: timestamp
  sa_traceparent :: "string option"
  sa_question :: string
  sa_idempotency_key :: string

definition submit :: "hashing \<Rightarrow> outbox_env \<Rightarrow> app_db \<Rightarrow> submit_args \<Rightarrow> app_db \<times> (exc_class + research_job)" where
  "submit h env db a =
     (case create_job (sa_now a) (PyStr (sa_job_id a)) (PyStr (sa_question a)) None of
        Inl _ \<Rightarrow> (db, Inl (OtherClass ''InvalidResearchJobError''))
      | Inr job \<Rightarrow>
          (let fingerprint = fingerprint_create_request h (rj_question job)
           in case session_scope db (\<lambda>db.
                bindE (on_store db (\<lambda>st. bindE (add_job st job (sa_idempotency_key a) fingerprint (sa_traceparent a))
                                           (\<lambda>st. Inr (st, ())))) (\<lambda>(db, _).
                bindE (enqueue_built env (sa_traceparent a)
                         (build_research_job_created (sa_event_id a) (rj_id job) (Aware (rj_created_at job) 0)) db)
                  (\<lambda>db. Inr (db, ())))) of
                (db, Inr _) \<Rightarrow> (db, Inr job)
              | (db, Inl e) \<Rightarrow>
                  if e = OtherClass ''IdempotencyKeyConflictError''
                  then (db, replay_or_conflict db (sa_idempotency_key a) fingerprint) else (db, Inl e)))"

definition get :: "app_db \<Rightarrow> string \<Rightarrow> exc_class + research_job" where
  "get db job_id =
     (case get_job (db_store db) job_id of
        Inl e \<Rightarrow> Inl (exc_of_store e)
      | Inr None \<Rightarrow> Inl (OtherClass ''ResearchJobLookupError'')
      | Inr (Some job) \<Rightarrow> Inr job)"

section \<open>Idempotency keys are unique\<close>

lemma flush_ids: "flush_job st r = Inr st' \<Longrightarrow> map r_id (st_jobs st') = map r_id (st_jobs st)"
  by (auto simp: flush_job_def tkeys_tput split: if_splits)

lemma finish_claim_ids:
  "finish_claim st tok b x = Inr (st', c) \<Longrightarrow> map r_id (st_jobs st') = map r_id (st_jobs st)"
  by (auto simp: finish_claim_def bindE_eq_Inr dest: flush_ids split: prod.splits)

lemma add_job_rows:
  "add_job st job key fp tp = Inr st' \<Longrightarrow>
   st' = st\<lparr> st_jobs := st_jobs st @ [(to_orm job)\<lparr> r_idempotency_key := Some key, r_request_fingerprint := Some fp,
               r_traceparent := tp \<rparr>] \<rparr> \<and>
   \<not> list_ex (\<lambda>r. r_idempotency_key r = Some key) (st_jobs st) \<and> tget r_id (rj_id job) (st_jobs st) = None"
  by (auto simp: add_job_def Let_def split: if_splits)

lemma step_ids:
  assumes "store_step st st'"
  shows "map r_id (st_jobs st') = map r_id (st_jobs st) \<or>
    (\<exists>m k. st_jobs st' = st_jobs st @ [m] \<and> r_idempotency_key m = Some k \<and>
       \<not> list_ex (\<lambda>r. r_idempotency_key r = Some k) (st_jobs st))"
  using assms
proof cases
  case (add now i q at' job key fp tp)
  then show ?thesis by (auto dest!: add_job_rows(1))
next
  case (claim locked now lease tok ep c)
  then show ?thesis
    by (auto simp: claim_next_def Let_def bindE_eq_Inr dest: finish_claim_ids split: option.splits prod.splits if_splits)
next
  case (retried jid tok n at' ab b)
  then show ?thesis
    by (auto simp: schedule_retry_def Let_def bindE_eq_Inr dest!: flush_ids split: option.splits prod.splits if_splits)
qed (auto simp: finalize_completion_def finalize_failure_def set_active_workflow_execution_def
      transition_awaiting_review_def increment_repair_count_def increment_evaluation_attempt_count_def
      approve_review_to_pending_def fail_job_from_review_def create_execution_def abandon_unfinished_for_job_def
      end_execution_def terminal_execution_for_claim_def Let_def bindE_eq_Inr dest!: flush_ids
      split: option.splits prod.splits if_splits)

text \<open>The only row that carries a key is the one it was submitted with.\<close>

definition sole_holder :: "store \<Rightarrow> string \<Rightarrow> string \<Rightarrow> bool" where
  "sole_holder st key i \<longleftrightarrow>
     (\<exists>m. tget r_id i (st_jobs st) = Some m \<and> r_idempotency_key m = Some key) \<and>
     (\<forall>r \<in> set (st_jobs st). r_idempotency_key r = Some key \<longrightarrow> r_id r = i)"

lemma sole_holder_step:
  assumes step: "store_step st st'" and ok: "store_ok st" and sole: "sole_holder st key i"
  shows "sole_holder st' key i"
proof -
  note ev = store_step_evolves[OF step ok]
  have ok': "store_ok st'" using store_step_ok[OF step ok] .
  obtain m where m: "tget r_id i (st_jobs st) = Some m" "r_idempotency_key m = Some key"
    using sole by (auto simp: sole_holder_def)
  with ev have 1: "\<exists>m'. tget r_id i (st_jobs st') = Some m' \<and> r_idempotency_key m' = Some key"
    by (fastforce simp: store_evolves_def row_evolves_def)
  have old: "r_id r = i" if r: "r \<in> set (st_jobs st')" "r_idempotency_key r = Some key"
      and known: "r_id r \<in> set (map r_id (st_jobs st))" for r
  proof -
    obtain q where q: "q \<in> set (st_jobs st)" "r_id q = r_id r" using known by auto
    have "tget r_id (r_id r) (st_jobs st) = Some q"
      using tget_mem[of r_id "st_jobs st" q] ok q by (simp add: store_ok_def)
    with ev obtain r' where r': "tget r_id (r_id r) (st_jobs st') = Some r'" "row_evolves q r'"
      by (auto simp: store_evolves_def)
    have "tget r_id (r_id r) (st_jobs st') = Some r"
      using tget_mem[of r_id "st_jobs st'" r] ok' r(1) by (simp add: store_ok_def)
    with r' r(2) have "r_idempotency_key q = Some key" by (simp add: row_evolves_def)
    with q sole show ?thesis by (auto simp: sole_holder_def)
  qed
  have "r_id r = i" if r: "r \<in> set (st_jobs st')" "r_idempotency_key r = Some key" for r
    using step_ids[OF step]
  proof
    assume "map r_id (st_jobs st') = map r_id (st_jobs st)"
    then have "r_id r \<in> set (map r_id (st_jobs st))" using r(1) by (metis image_eqI set_map)
    with old r show ?thesis by blast
  next
    assume "\<exists>m k. st_jobs st' = st_jobs st @ [m] \<and> r_idempotency_key m = Some k \<and>
       \<not> list_ex (\<lambda>r. r_idempotency_key r = Some k) (st_jobs st)"
    then obtain n k where n: "st_jobs st' = st_jobs st @ [n]" "r_idempotency_key n = Some k"
      "\<not> list_ex (\<lambda>r. r_idempotency_key r = Some k) (st_jobs st)" by blast
    have "k \<noteq> key" using n(3) m tget_Some_mem[OF m(1)] by (auto simp: list_ex_iff)
    with n r have "r \<in> set (st_jobs st)" by auto
    with sole r show ?thesis by (auto simp: sole_holder_def)
  qed
  with 1 show ?thesis by (simp add: sole_holder_def)
qed

lemma sole_holder_steps:
  assumes "store_step\<^sup>*\<^sup>* st st'" "store_ok st" "sole_holder st key i"
  shows "sole_holder st' key i"
  using assms
  by (induction rule: rtranclp_induct) (auto dest: sole_holder_step store_steps_evolve)

section \<open>What a submission does\<close>

definition submitted_row :: "research_job \<Rightarrow> string \<Rightarrow> string \<Rightarrow> string option \<Rightarrow> job_row" where
  "submitted_row job key fp tp =
     (to_orm job)\<lparr> r_idempotency_key := Some key, r_request_fingerprint := Some fp, r_traceparent := tp \<rparr>"

lemma sql_nonblank_stripped: "stripped s \<Longrightarrow> sql_nonblank s"
proof -
  assume "stripped s"
  then have "hd s \<in> set s" "\<not> py_isspace (hd s)" by (auto simp: stripped_def)
  moreover have "py_isspace (CHR '' '')" by code_simp
  ultimately show ?thesis unfolding sql_nonblank_def by metis
qed

lemma submitted_row_checks:
  assumes "create_job now i q at' = Inr job" "sql_nonblank key" "length fp = 64"
    "case tp of None \<Rightarrow> True | Some t \<Rightarrow> traceparent_format t"
  shows "row_checks (submitted_row job key fp tp)"
proof -
  have wf: "job_wf job" "rj_status job = PENDING" using create_job_wf[OF assms(1)] by auto
  have new: "rj_started_at job = None" "rj_finished_at job = None" "rj_result job = None" "rj_failure_reason job = None"
    using assms(1) by (auto simp: create_job_def bind_simps)
  have "sql_nonblank (rj_id job)" "sql_nonblank (rj_question job)" "rj_created_at job \<le> rj_updated_at job"
    using wf(1) by (auto simp: job_wf_def intro: sql_nonblank_stripped)
  then show ?thesis
    using assms(2-4) wf(2) new
    by (auto simp: submitted_row_def to_orm_def row_checks_def ck_status_def ck_texts_def ck_updated_after_created_def
        ck_status_fields_def ck_pending_fields_def no_claim_def ck_idempotency_pair_def ck_claim_lease_pair_def
        ck_counters_def ck_continuation_modes_def mode_of_def ck_traceparent_def ck_evaluation_profile_def)
qed

lemma add_job_known_key:
  assumes "create_job now i q at' = Inr job" "sql_nonblank key" "length fp = 64"
    "case tp of None \<Rightarrow> True | Some t \<Rightarrow> traceparent_format t" "tget r_id (rj_id job) (st_jobs st) = None"
    "list_ex (\<lambda>r. r_idempotency_key r = Some key) (st_jobs st)"
  shows "add_job st job key fp tp = Inl IdempotencyKeyConflictError"
  using submitted_row_checks[OF assms(1-4)] assms(5,6)
  by (simp add: add_job_def Let_def submitted_row_def)

text \<open>The transaction of a first submission.\<close>

lemma submit_created:
  assumes "submit h env db a = (db', Inr job)"
    and "\<not> list_ex (\<lambda>r. r_idempotency_key r = Some (sa_idempotency_key a)) (st_jobs (db_store db))"
  shows "create_job (sa_now a) (PyStr (sa_job_id a)) (PyStr (sa_question a)) None = Inr job"
    "add_job (db_store db) job (sa_idempotency_key a) (fingerprint_create_request h (rj_question job))
       (sa_traceparent a) = Inr (db_store db')"
    "\<exists>e. build_research_job_created (sa_event_id a) (rj_id job) (Aware (rj_created_at job) 0) = Inr e \<and>
         enqueue env (db_outbox db) e (sa_traceparent a) = Inr (db_outbox db')"
    "db' = db\<lparr> db_store := db_store db', db_outbox := db_outbox db' \<rparr>"
proof -
  have no_conflict: "add_job (db_store db) j (sa_idempotency_key a) fp tp \<noteq> Inl IdempotencyKeyConflictError" for j fp tp
    using assms(2) by (auto simp: add_job_def Let_def)
  obtain job0 where j0: "create_job (sa_now a) (PyStr (sa_job_id a)) (PyStr (sa_question a)) None = Inr job0"
    using assms(1) by (auto simp: submit_def split: sum.splits)
  let ?fp = "fingerprint_create_request h (rj_question job0)"
  obtain st where st: "add_job (db_store db) job0 (sa_idempotency_key a) ?fp (sa_traceparent a) = Inr st"
  proof (cases "add_job (db_store db) job0 (sa_idempotency_key a) ?fp (sa_traceparent a)")
    case (Inl e)
    then have "exc_of_store e \<noteq> OtherClass ''IdempotencyKeyConflictError''"
      using no_conflict by (cases e rule: exc_of_store.cases) auto
    with assms(1) j0 Inl show ?thesis by (simp add: submit_def Let_def session_scope_def on_store_def)
  qed
  have enq: "\<exists>db1. enqueue_built env (sa_traceparent a)
      (build_research_job_created (sa_event_id a) (rj_id job0) (Aware (rj_created_at job0) 0)) (db\<lparr> db_store := st \<rparr>) =
      Inr db1 \<and> db' = db1 \<and> job = job0"
    using assms(1) j0 st
    by (auto simp: submit_def Let_def session_scope_def on_store_def enqueue_built_def split: sum.splits if_splits)
  then obtain e ob where e: "build_research_job_created (sa_event_id a) (rj_id job0) (Aware (rj_created_at job0) 0) = Inr e"
    "enqueue env (db_outbox db) e (sa_traceparent a) = Inr ob" "db' = db\<lparr> db_store := st, db_outbox := ob \<rparr>" "job = job0"
    by (auto simp: enqueue_built_Inr)
  show "create_job (sa_now a) (PyStr (sa_job_id a)) (PyStr (sa_question a)) None = Inr job" using j0 e(4) by simp
  show "add_job (db_store db) job (sa_idempotency_key a) (fingerprint_create_request h (rj_question job))
       (sa_traceparent a) = Inr (db_store db')" using st e(3,4) by simp
  show "\<exists>e. build_research_job_created (sa_event_id a) (rj_id job) (Aware (rj_created_at job) 0) = Inr e \<and>
         enqueue env (db_outbox db) e (sa_traceparent a) = Inr (db_outbox db')" using e by auto
  show "db' = db\<lparr> db_store := db_store db', db_outbox := db_outbox db' \<rparr>" using e(3) by simp
qed

section \<open>Properties\<close>

text \<open>
  C13. Submitting under an idempotency key creates the job and its \<open>research_job.created\<close> event
  together, once.  Whatever happens to the job afterwards, submitting again under the same key changes
  nothing: with the same question it returns the job that was created, as it is now; with a
  question of another fingerprint it raises \<open>IdempotencyConflictError\<close>.
\<close>

theorem resubmission_is_idempotent:
  assumes "store_ok (db_store db)" "hashing_laws h"
    and "submit h env db a = (db1, Inr job)"
    and "\<not> list_ex (\<lambda>r. r_idempotency_key r = Some (sa_idempotency_key a)) (st_jobs (db_store db))"
    and "store_step\<^sup>*\<^sup>* (db_store db1) (db_store db2)"
    and "sa_idempotency_key b = sa_idempotency_key a"
    and "create_job (sa_now b) (PyStr (sa_job_id b)) (PyStr (sa_question b)) None = Inr job2"
    and "tget r_id (rj_id job2) (st_jobs (db_store db2)) = None"
    and "case sa_traceparent b of None \<Rightarrow> True | Some t \<Rightarrow> traceparent_format t"
  shows "(\<exists>row. ob_rows (db_outbox db1) = ob_rows (db_outbox db) @ [row] \<and> o_event_type row = ''research_job.created'' \<and>
            o_aggregate_id row = rj_id job) \<and>
         (\<exists>m. tget r_id (rj_id job) (st_jobs (db_store db2)) = Some m \<and>
            submit h env db2 b =
              (db2, if fingerprint_create_request h (rj_question job2) = fingerprint_create_request h (rj_question job)
                    then Inr (domain_of m) else Inl (OtherClass ''IdempotencyConflictError'')))"
proof
  note first = submit_created[OF assms(3,4)]
  let ?key = "sa_idempotency_key a"
  let ?fp = "fingerprint_create_request h (rj_question job)"
  note rows = add_job_rows[OF first(2)]
  from first(3) obtain e where e: "build_research_job_created (sa_event_id a) (rj_id job) (Aware (rj_created_at job) 0) = Inr e"
    "enqueue env (db_outbox db) e (sa_traceparent a) = Inr (db_outbox db1)" by blast
  have "ev_event_type e = ''research_job.created''" "ev_aggregate_id e = rj_id job"
    using e(1) by (auto simp: builder_defs payload_defs bind_simps ev_event_type_def)
  with enqueue_Inr[OF e(2)] show "\<exists>row. ob_rows (db_outbox db1) = ob_rows (db_outbox db) @ [row] \<and>
      o_event_type row = ''research_job.created'' \<and> o_aggregate_id row = rj_id job" by auto
  have step: "store_step (db_store db) (db_store db1)" using store_step.add[OF first(1,2)] .
  have ok1: "store_ok (db_store db1)" using store_step_ok[OF step assms(1)] .
  have m1: "tget r_id (rj_id job) (st_jobs (db_store db1)) = Some (submitted_row job ?key ?fp (sa_traceparent a))"
    using rows by (auto simp: tget_append submitted_row_def)
  have "sole_holder (db_store db1) ?key (rj_id job)"
    unfolding sole_holder_def using m1 rows by (auto simp: submitted_row_def list_ex_iff)
  then have sole: "sole_holder (db_store db2) ?key (rj_id job)" by (rule sole_holder_steps[OF assms(5) ok1])
  have ok2: "store_ok (db_store db2)" and "store_evolves (db_store db1) (db_store db2)"
    using store_steps_evolve[OF assms(5) ok1] by auto
  with m1 obtain m where m: "tget r_id (rj_id job) (st_jobs (db_store db2)) = Some m"
    "row_evolves (submitted_row job ?key ?fp (sa_traceparent a)) m" by (auto simp: store_evolves_def)
  have mk: "r_idempotency_key m = Some ?key" "r_request_fingerprint m = Some ?fp"
    using m(2) by (auto simp: row_evolves_def submitted_row_def)
  have found: "find (\<lambda>r. r_idempotency_key r = Some ?key) (st_jobs (db_store db2)) = Some m"
  proof -
    have "list_ex (\<lambda>r. r_idempotency_key r = Some ?key) (st_jobs (db_store db2))"
      using tget_Some_mem[OF m(1)] mk(1) by (auto simp: list_ex_iff)
    then obtain q where q: "find (\<lambda>r. r_idempotency_key r = Some ?key) (st_jobs (db_store db2)) = Some q"
      by (cases "find (\<lambda>r. r_idempotency_key r = Some ?key) (st_jobs (db_store db2))")
         (auto simp: find_None_iff list_ex_iff)
    then have "q \<in> set (st_jobs (db_store db2))" "r_idempotency_key q = Some ?key" by (auto simp: find_Some_iff)
    with sole have "r_id q = rj_id job" by (auto simp: sole_holder_def)
    with tget_mem[of r_id "st_jobs (db_store db2)" q] ok2 m(1) \<open>q \<in> _\<close> have "q = m" by (simp add: store_ok_def)
    with q show ?thesis by simp
  qed
  have "to_domain m = Inr (domain_of m)"
    using row_ok_to_domain[OF store_okD(1)[OF ok2 m(1)]] .
  then have get: "get_by_idempotency_key (db_store db2) ?key = Inr (Some (domain_of m, ?fp))"
    using found mk by (simp add: get_by_idempotency_key_def)
  have row1: "row_checks (submitted_row job ?key ?fp (sa_traceparent a))"
    using store_okD(1)[OF ok1 m1] by (simp add: row_ok_def)
  have "sql_nonblank ?key" "length (fingerprint_create_request h (rj_question job2)) = 64"
    using row1 assms(2)
    by (auto simp: row_checks_def ck_idempotency_pair_def submitted_row_def hashing_laws_def fingerprint_create_request_def)
  then have "add_job (db_store db2) job2 ?key (fingerprint_create_request h (rj_question job2)) (sa_traceparent b) =
      Inl IdempotencyKeyConflictError"
    using found assms(7-9)
    by (intro add_job_known_key) (auto simp: list_ex_iff find_Some_iff)
  then show "\<exists>m. tget r_id (rj_id job) (st_jobs (db_store db2)) = Some m \<and>
      submit h env db2 b =
        (db2, if fingerprint_create_request h (rj_question job2) = fingerprint_create_request h (rj_question job)
              then Inr (domain_of m) else Inl (OtherClass ''IdempotencyConflictError''))"
    using m(1) get assms(6,7)
    by (auto simp: submit_def Let_def session_scope_def on_store_def replay_or_conflict_def)
qed

definition s_hash :: hashing where
  "s_hash = \<lparr> hs_dumps = (\<lambda>v. case v of VDict [(_, VStr q)] \<Rightarrow> q | _ \<Rightarrow> []),
              hs_sha256 = (\<lambda>s. take 64 (s @ replicate 64 (CHR ''0''))) \<rparr>"

definition s_env :: outbox_env where
  "s_env = \<lparr> oe_pydantic = demo_pydantic, oe_dumps = (\<lambda>_. []), oe_column_size = (\<lambda>_. 0) \<rparr>"

definition s_db :: app_db where
  "s_db = \<lparr> db_store = \<lparr> st_jobs = [], st_execs = [] \<rparr>, db_nodes = [], db_outbox = \<lparr> ob_rows = [], ob_next = 1 \<rparr>,
     db_policies = [], db_recoveries = [], db_reviews = [], db_evals = [], db_dims = [] \<rparr>"

definition s_args :: "string \<Rightarrow> string \<Rightarrow> submit_args" where
  "s_args i q = \<lparr> sa_job_id = i, sa_event_id = i, sa_now = 10, sa_traceparent = None, sa_question = q,
                  sa_idempotency_key = ''k'' \<rparr>"

definition s_job :: research_job where
  "s_job = \<lparr> rj_id = ''j1'', rj_question = ''why'', rj_status = PENDING, rj_created_at = 10, rj_updated_at = 10,
     rj_started_at = None, rj_finished_at = None, rj_result = None, rj_failure_reason = None \<rparr>"

lemma s_hash_laws: "hashing_laws s_hash"
  by (auto simp: hashing_laws_def s_hash_def min_def)

lemma s_submit: "snd (submit s_hash s_env s_db (s_args ''j1'' ''why'')) = Inr s_job"
  by code_simp

lemma s_again:
  "create_job 10 (PyStr ''j2'') (PyStr ''  why '') None = Inr (s_job\<lparr> rj_id := ''j2'' \<rparr>)"
  "tget r_id ''j2'' (st_jobs (db_store (fst (submit s_hash s_env s_db (s_args ''j1'' ''why''))))) = None"
  by code_simp+

theorem resubmission_is_idempotent_witness:
  "\<exists>db1 j. submit s_hash s_env s_db (s_args ''j1'' ''why'') = (db1, Inr s_job) \<and>
     submit s_hash s_env db1 (s_args ''j2'' ''  why '') = (db1, Inr j) \<and> rj_id j = ''j1''"
proof -
  let ?a = "s_args ''j1'' ''why''" and ?b = "s_args ''j2'' ''  why ''"
  obtain db1 where s: "submit s_hash s_env s_db ?a = (db1, Inr s_job)"
    using s_submit by (metis prod.collapse)
  have "store_ok (db_store s_db)" "\<not> list_ex (\<lambda>r. r_idempotency_key r = Some (sa_idempotency_key ?a)) (st_jobs (db_store s_db))"
    by (simp_all add: store_ok_def s_db_def)
  moreover have "create_job (sa_now ?b) (PyStr (sa_job_id ?b)) (PyStr (sa_question ?b)) None = Inr (s_job\<lparr> rj_id := ''j2'' \<rparr>)"
    "tget r_id (rj_id (s_job\<lparr> rj_id := ''j2'' \<rparr>)) (st_jobs (db_store db1)) = None"
    using s_again s by (simp_all add: s_args_def)
  ultimately obtain m where "tget r_id (rj_id s_job) (st_jobs (db_store db1)) = Some m"
    "submit s_hash s_env db1 ?b = (db1, Inr (domain_of m))"
    using resubmission_is_idempotent[OF _ s_hash_laws s, of db1 ?b "s_job\<lparr> rj_id := ''j2'' \<rparr>"]
    by (auto simp: s_args_def)
  then show ?thesis using s tget_Some_key by (fastforce simp: s_job_def)
qed

end
