(* ===== verification/Application.thy ===== *)
theory Application
  imports Worker_Safety Review_Safety Job_Submission
begin

text \<open>
  The application as a whole: every transaction any of its processes commits on the application
  database (the API's submissions and reviews, the worker's claims and finalisations, the processor's
  bindings, recovery decisions and audit rows, the evaluation service, the relay) is a step of
  \<open>app_step\<close>, in any order and interleaving.
\<close>

section \<open>Steps\<close>

inductive app_step :: "app_db \<Rightarrow> app_db \<Rightarrow> bool" where
  submitted: "submit h env db a = (db', r) \<Longrightarrow> app_step db db'"
| claimed: "claim_tx locked now lease tok ep db = Inr (db', c) \<Longrightarrow> app_step db db'"
| bound: "bind_fresh j tok u at' db = Inr (db', e) \<Longrightarrow> app_step db db'"
| completed_execution: "fenced (\<lambda>st. complete_execution_for_claim st e j tok at') db = Inr (db', ()) \<Longrightarrow> app_step db db'"
| failed_execution: "fenced (\<lambda>st. fail_execution_for_claim st e j tok at') db = Inr (db', ()) \<Longrightarrow> app_step db db'"
| awaiting: "await_review_tx h env tp j tok e run did ev at' db = Inr (db', ()) \<Longrightarrow> app_step db db'"
| retried: "retry_tx h env tp j tok ex d counts did aid ev n at' db = Inr (db', r) \<Longrightarrow> app_step db db'"
| decided: "policy_tx h j tok e run d counts u at' db = Inr (db', ()) \<Longrightarrow> app_step db db'"
| audit_begun: "begin_node_attempt (db_store db) (db_nodes db) u e node at' = Inr (ns, k) \<Longrightarrow>
    app_step db (db\<lparr> db_nodes := ns \<rparr>)"
| audit_completed: "complete_node_attempt (db_nodes db) e node k at' = Inr ns \<Longrightarrow> app_step db (db\<lparr> db_nodes := ns \<rparr>)"
| audit_failed: "fail_node_attempt (db_nodes db) e node k err at' = Inr ns \<Longrightarrow> app_step db (db\<lparr> db_nodes := ns \<rparr>)"
| evaluated: "begin_or_resume h db ba now = Inr (db', x) \<Longrightarrow> app_step db db'"
| graded: "service_finalize_success db uuids i tok agg p ds hint vs now = Inr (db', y) \<Longrightarrow> app_step db db'"
| ungraded: "service_finalize_failure db i tok cls now = Inr (db', z) \<Longrightarrow> app_step db db'"
| completed: "finalize_completion_tx env tp j tok res ev at' db = Inr (db', b) \<Longrightarrow> app_step db db'"
| failed: "finalize_failure_tx env tp j tok reason cls ev at' db = Inr (db', b) \<Longrightarrow> app_step db db'"
| reviewed: "review_write h db rq actor fp t i at' = Inr (db', v) \<Longrightarrow> app_step db db'"
| relay_claimed: "claim_batch env (db_outbox db) locked tok at' lease n = Inr (ob, cs) \<Longrightarrow> app_step db (db\<lparr> db_outbox := ob \<rparr>)"
| relay_published: "mark_published (db_outbox db) i tok at' = (ob, b) \<Longrightarrow> app_step db (db\<lparr> db_outbox := ob \<rparr>)"
| relay_released: "release_failed_claim (db_outbox db) i tok at' err = (ob, b) \<Longrightarrow> app_step db (db\<lparr> db_outbox := ob \<rparr>)"

definition empty_db :: app_db where
  "empty_db = \<lparr> db_store = \<lparr> st_jobs = [], st_execs = [] \<rparr>, db_nodes = [], db_outbox = \<lparr> ob_rows = [], ob_next = 1 \<rparr>,
     db_policies = [], db_recoveries = [], db_reviews = [], db_evals = [], db_dims = [] \<rparr>"

section \<open>Refinement of the job store\<close>

text \<open>Whatever the application does to the job store, the repositories' steps could have done.\<close>

abbreviation (input) store_moves :: "app_db \<Rightarrow> app_db \<Rightarrow> bool" where
  "store_moves db db' \<equiv> store_step\<^sup>*\<^sup>* (db_store db) (db_store db')"

lemma moved:
  assumes "store_step (db_store db) st" "db' = db\<lparr> db_store := st, db_outbox := db_outbox db' \<rparr>"
  shows "store_moves db db'"
proof -
  have "db_store db' = db_store (db\<lparr> db_store := st, db_outbox := db_outbox db' \<rparr>)" by (rule arg_cong[OF assms(2)])
  then show ?thesis using assms(1) by auto
qed

lemma fenced_moves:
  assumes "fenced f db = Inr (db', u)" "\<And>st st' b. f st = Inr (st', b) \<Longrightarrow> store_step st st'"
  shows "store_moves db db'"
  using assms by (auto simp: fenced_Inr)

lemma submit_moves: "submit h env db a = (db', r) \<Longrightarrow> store_moves db db'"
  by (auto simp: submit_def Let_def session_scope_def on_store_def bind_simps enqueue_built_Inr
      split: sum.splits if_splits prod.splits dest: store_step.add)

lemma bind_fresh_moves:
  assumes "bind_fresh j tok u at' db = Inr (db', e)"
  shows "store_moves db db'"
proof -
  from assms obtain st1 st2 st3 n where s: "abandon_unfinished_for_job (db_store db) j at' = Inr (st1, n)"
    "create_execution st1 u j at' None = Inr (st2, e)" "set_active_workflow_execution st2 j tok e at' = Inr (st3, True)"
    "db' = db\<lparr> db_store := st3 \<rparr>"
    by (auto simp: bind_fresh_def bind_simps fenced_Inr)
  have "store_step (db_store db) st1" "store_step st1 st2" "store_step st2 st3"
    using s(1-3) by (auto intro: store_step.intros)
  then show ?thesis using s(4) by (auto intro: converse_rtranclp_into_rtranclp)
qed

lemma await_review_moves: "await_review_tx h env tp j tok e run did ev at' db = Inr (db', ()) \<Longrightarrow> store_moves db db'"
  by (auto simp: await_review_tx_def bind_simps fenced_Inr enqueue_built_Inr split: if_splits
      dest!: insert_policy_decision_frame store_step.awaiting)

lemma retry_tx_cases:
  assumes "retry_tx h env tp j tok ex d counts did aid ev n at' db = Inr (db', r)"
  shows "db_reviews db' = db_reviews db \<and> (db_store db' = db_store db \<and> db_outbox db' = db_outbox db \<or>
    (\<exists>st. schedule_retry (db_store db) j tok n at' ex = Inr (st, True) \<and> db_store db' = st \<and>
       appended db db' ''research_job.retry_scheduled'' j))"
proof -
  let ?p = "policy_row_of h did j ex None d counts at'"
  from assms obtain db1 i where ins: "insert_policy_decision db ?p = Inr (db1, i)"
    by (auto simp: retry_tx_def Let_def bind_simps)
  note f1 = insert_policy_decision_frame[OF ins]
  show ?thesis
  proof (cases "i = did")
    case False
    then have "db' = db1" using assms ins by (auto simp: retry_tx_def Let_def bind_simps split: option.splits)
    then show ?thesis using f1 by auto
  next
    case True
    have "\<exists>db2 st. db_store db2 = db_store db1 \<and> db_outbox db2 = db_outbox db1 \<and> db_reviews db2 = db_reviews db1 \<and>
      schedule_retry (db_store db2) j tok n at' ex = Inr (st, True) \<and>
      enqueue_built env tp (build_research_job_retry_scheduled ev j ex (ac_job_retry_count counts + 1) (Aware n 0) (Aware at' 0))
        (db2\<lparr> db_store := st \<rparr>) = Inr db'"
    proof (cases "ex = None \<or> ex = Some []")
      case True
      then show ?thesis using assms ins \<open>i = did\<close>
        by (auto simp: retry_tx_def Let_def bind_simps fenced_Inr)
    next
      case False
      then show ?thesis using assms ins \<open>i = did\<close>
        by (fastforce simp: retry_tx_def Let_def bind_simps fenced_Inr dest: insert_recovery_attempt_frame split: option.splits)
    qed
    then obtain db2 st where s: "db_store db2 = db_store db" "db_outbox db2 = db_outbox db" "db_reviews db2 = db_reviews db"
      "schedule_retry (db_store db) j tok n at' ex = Inr (st, True)"
      and enq: "enqueue_built env tp (build_research_job_retry_scheduled ev j ex (ac_job_retry_count counts + 1) (Aware n 0) (Aware at' 0))
        (db2\<lparr> db_store := st \<rparr>) = Inr db'"
      using f1 by auto
    from enqueue_built_appended[OF enq built_types(5)] have a: "appended (db2\<lparr> db_store := st \<rparr>) db' ''research_job.retry_scheduled'' j"
      and d: "db' = db2\<lparr> db_store := st, db_outbox := db_outbox db' \<rparr>" by auto
    have "db_store db' = st" "db_reviews db' = db_reviews db2" by (subst d, simp)+
    then show ?thesis using s a by (auto simp: appended_def)
  qed
qed

lemma policy_moves: "policy_tx h j tok e run d counts u at' db = Inr (db', ()) \<Longrightarrow> store_moves db db'"
  by (auto simp: policy_tx_def bind_simps fenced_Inr split: if_splits
      dest!: insert_policy_decision_frame store_step.repaired)

lemma review_moves:
  assumes "review_write h db rq actor fp t i at' = Inr (db', v)"
  shows "store_moves db db'"
proof (cases v)
  case (Replayed x)
  then show ?thesis using assms
    by (auto simp: review_write_def Let_def bind_simps split: option.splits if_splits prod.splits)
next
  case (Ready u)
  then have "review_write h db rq actor fp t i at' = Inr (db', Ready ())" using assms by simp
  from review_write_ready[OF this] obtain db1 where
    "insert_review_decision db (decision_row rq actor fp t i at') = Inr db1"
    "if rr_decision rq = ''approve''
      then \<exists>st. approve_review_to_pending (db_store db1) (rr_job_id rq) (rt_exec_id t) at' at' = Inr (st, True) \<and>
             db' = db1\<lparr> db_store := st \<rparr>
      else \<exists>st st'. fail_execution (db_store db1) (rt_exec_id t) at' = Inr (st, True) \<and>
             fail_job_from_review st (rr_job_id rq) ''Rejected by operator review'' at' = Inr (st', True) \<and>
             db' = db1\<lparr> db_store := st' \<rparr>" by blast
  then show ?thesis
    by (auto simp: fail_execution_def dest!: insert_review_Inr split: if_splits
        dest!: store_step.approved store_step.ended store_step.rejected intro: converse_rtranclp_into_rtranclp)
qed

lemma app_step_moves:
  assumes "app_step db db'"
  shows "store_moves db db'"
  using assms
proof cases
  case (submitted h env a r) then show ?thesis by (rule submit_moves)
next
  case (claimed locked now lease tok ep c)
  then show ?thesis by (auto simp: claim_tx_def bind_simps dest!: store_step.claim)
next
  case (bound j tok u at' e) then show ?thesis by (rule bind_fresh_moves)
next
  case (completed_execution e j tok at')
  then show ?thesis by (rule fenced_moves) (auto simp: complete_execution_for_claim_def intro: store_step.terminal)
next
  case (failed_execution e j tok at')
  then show ?thesis by (rule fenced_moves) (auto simp: fail_execution_for_claim_def intro: store_step.terminal)
next
  case (awaiting h env tp j tok e run did ev at') then show ?thesis by (rule await_review_moves)
next
  case (retried h env tp j tok ex d counts did aid ev n at' r) from retry_tx_cases[OF retried] show ?thesis by (auto dest!: store_step.retried)
next
  case (decided h j tok e run d counts u at') then show ?thesis by (rule policy_moves)
next
  case (evaluated h ba now x)
  then show ?thesis using eval_step_store[OF eval_step.begun[OF evaluated]] by auto
next
  case (graded uuids i tok agg p ds hint vs now y)
  then show ?thesis using eval_step_store[OF eval_step.succeeded[OF graded]] by auto
next
  case (ungraded i tok cls now z)
  then show ?thesis using eval_step_store[OF eval_step.failed[OF ungraded]] by auto
next
  case (completed env tp j tok res ev at' b)
  from finalize_completion_tx_cases[OF completed] show ?thesis
    by (cases b) (auto intro: moved store_step.completed)
next
  case (failed env tp j tok reason cls ev at' b)
  from finalize_failure_tx_cases[OF failed] show ?thesis
    by (cases b) (auto intro: moved store_step.failed)
next
  case (reviewed h rq actor fp t i at' v) then show ?thesis by (rule review_moves)
qed auto

lemma app_steps_move: "app_step\<^sup>*\<^sup>* db db' \<Longrightarrow> store_moves db db'"
proof (induction rule: rtranclp_induct)
  case (step y z)
  then show ?case using app_step_moves[of y z] by (meson rtranclp_trans)
qed simp

lemma store_moves_reachable: "store_step\<^sup>*\<^sup>* st st' \<Longrightarrow> store_reachable st \<Longrightarrow> store_reachable st'"
  by (induction rule: rtranclp_induct) (auto intro: store_reachable.step)

lemma app_reachable_store:
  assumes "app_step\<^sup>*\<^sup>* empty_db db"
  shows "store_reachable (db_store db)"
  using store_moves_reachable[OF app_steps_move[OF assms]] store_reachable.empty by (simp add: empty_db_def)

section \<open>Example\<close>

text \<open>A job submitted, claimed and completed by a worker.\<close>

definition a_row :: job_row where
  "a_row = (to_orm s_job)\<lparr> r_idempotency_key := Some ''k'',
     r_request_fingerprint := Some (''why'' @ replicate 61 (CHR ''0'')) \<rparr>"

definition a_event :: outbox_row where
  "a_event = \<lparr> o_event_id = ''j1'', o_outbox_position = 1, o_event_type = ''research_job.created'', o_event_version = 1,
     o_aggregate_type = ''research_job'', o_aggregate_id = ''j1'', o_occurred_at = 10,
     o_payload = VDict [(''created_at'', VStr ''+1111111111''), (''research_job_id'', VStr ''j1'')], o_created_at = 10,
     o_published_at = None, o_publish_claim_token = None, o_publish_lease_expires_at = None, o_publish_attempts = 0,
     o_last_publish_error_class = None, o_traceparent = None \<rparr>"

definition a_submitted :: app_db where
  "a_submitted = empty_db\<lparr> db_store := \<lparr> st_jobs = [a_row], st_execs = [] \<rparr>, db_outbox := \<lparr> ob_rows = [a_event], ob_next = 2 \<rparr> \<rparr>"

definition a_claimed :: app_db where
  "a_claimed = a_submitted\<lparr> db_store := \<lparr> st_jobs = [a_row\<lparr> r_status := ''RUNNING'', r_updated_at := 20, r_started_at := Some 20,
     r_lease_expires_at := Some 100, r_claim_token := Some w_token, r_evaluation_profile := Some EVALUATION_PROFILE_CANDIDATE \<rparr>],
     st_execs = [] \<rparr> \<rparr>"

definition a_completed :: app_db where
  "a_completed = (case finalize_completion_tx s_env None ''j1'' w_token ''because'' ''e2'' 30 a_claimed of
     Inr (db, _) \<Rightarrow> db | Inl _ \<Rightarrow> empty_db)"

lemma a_submit: "fst (submit s_hash s_env empty_db (s_args ''j1'' ''why'')) = a_submitted"
  by code_simp

lemma a_claim: "map_sum (\<lambda>_. ()) fst (claim_tx [] 20 100 w_token None a_submitted) = Inr a_claimed"
  by code_simp

lemma a_statuses: "map (\<lambda>m. (r_id m, r_status m)) (st_jobs (db_store a_completed)) = [(''j1'', ''COMPLETED'')]"
  by code_simp

lemma a_run: "app_step\<^sup>*\<^sup>* empty_db a_submitted" "app_step a_submitted a_claimed" "app_step a_claimed a_completed"
proof -
  show "app_step\<^sup>*\<^sup>* empty_db a_submitted"
    unfolding a_submit[symmetric] by (rule r_into_rtranclp, rule app_step.submitted) (rule prod.collapse[symmetric])
  show "app_step a_submitted a_claimed"
    using a_claim by (cases "claim_tx [] 20 100 w_token None a_submitted") (auto intro: app_step.claimed)
  show "app_step a_claimed a_completed"
    using a_statuses by (auto simp: a_completed_def empty_db_def split: sum.splits prod.splits intro: app_step.completed)
qed

section \<open>Properties\<close>

text \<open>
  C2. The application refines the job store.  Every transaction the API, the worker, the processor,
  the evaluation service and the relay commit, in any interleaving, acts on the job tables as a
  sequence of the repositories' own operations; so a database reached from the empty one has a job
  store that satisfies every invariant of the reachable stores, and a finished job is never changed
  again, by any process.
\<close>

theorem application_refines_job_store:
  assumes "app_step\<^sup>*\<^sup>* empty_db db" "app_step\<^sup>*\<^sup>* db db'"
  shows "store_step\<^sup>*\<^sup>* (db_store db) (db_store db') \<and> store_reachable (db_store db') \<and> store_ok (db_store db') \<and>
    (\<forall>j m. tget r_id j (st_jobs (db_store db)) = Some m \<longrightarrow> terminal_row m \<longrightarrow>
       tget r_id j (st_jobs (db_store db')) = Some m)"
proof -
  have r: "store_reachable (db_store db)" "store_reachable (db_store db')"
    using app_reachable_store assms by (meson rtranclp_trans)+
  have s: "store_step\<^sup>*\<^sup>* (db_store db) (db_store db')" by (rule app_steps_move[OF assms(2)])
  have "tget r_id j (st_jobs (db_store db')) = Some m"
    if "tget r_id j (st_jobs (db_store db)) = Some m" "terminal_row m" for j m
    using store_steps_evolve[OF s store_reachable_ok[OF r(1)]] that by (fastforce simp: store_evolves_def row_evolves_def)
  then show ?thesis using s r(2) store_reachable_ok by blast
qed

theorem application_refines_job_store_witness:
  "store_reachable (db_store a_completed) \<and> map r_status (st_jobs (db_store a_completed)) = [''COMPLETED'']"
proof -
  have "app_step\<^sup>*\<^sup>* empty_db a_claimed" "app_step\<^sup>*\<^sup>* a_claimed a_completed"
    using a_run by (auto intro: rtranclp.rtrancl_into_rtrancl)
  moreover have "map r_status (st_jobs (db_store a_completed)) = map snd [(''j1'', ''COMPLETED'')]"
    unfolding a_statuses[symmetric] by simp
  ultimately show ?thesis using application_refines_job_store [of a_claimed a_completed] by simp
qed

end
