(* ===== verification/Job_Phases.thy ===== *)
theory Job_Phases
  imports Job_History
begin

text \<open>
  How each operation of the job repository moves the status of every job: most keep a job among the
  unfinished states, and only a finalisation or a rejected review ends one.
\<close>

section \<open>Phases\<close>

definition phase :: "store \<Rightarrow> string \<Rightarrow> string option" where
  "phase st j = map_option r_status (tget r_id j (st_jobs st))"

definition unfinished :: "string option \<Rightarrow> bool" where
  "unfinished p \<longleftrightarrow> p \<noteq> None \<and> p \<noteq> Some ''COMPLETED'' \<and> p \<noteq> Some ''FAILED''"

text \<open>A quiet change creates, completes and fails no job.\<close>

definition quiet :: "store \<Rightarrow> store \<Rightarrow> bool" where
  "quiet st st' \<longleftrightarrow> (\<forall>j. phase st' j = phase st j \<or> unfinished (phase st j) \<and> unfinished (phase st' j))"

lemma quiet_same: "st_jobs st' = st_jobs st \<Longrightarrow> quiet st st'"
  by (simp add: quiet_def phase_def)

lemma quiet_trans: "quiet a b \<Longrightarrow> quiet b c \<Longrightarrow> quiet a c"
  unfolding quiet_def by metis

lemma phase_tput:
  assumes "tget r_id (r_id m) (st_jobs st) = Some r" "st_jobs st' = tput r_id m (st_jobs st)"
  shows "phase st' k = (if k = r_id m then Some (r_status m) else phase st k)"
  using assms by (auto simp: phase_def tget_tput)

lemma quiet_put:
  assumes "tget r_id j (st_jobs st) = Some r" "r_id m = j" "st_jobs st' = tput r_id m (st_jobs st)"
    "r_status m = r_status r \<or> unfinished (Some (r_status r)) \<and> unfinished (Some (r_status m))"
  shows "quiet st st'"
  using phase_tput[of m st r st'] assms by (auto simp: quiet_def phase_def)

lemma row_keeps_id [simp]:
  "r_id (completed_row res at' m) = r_id m" "r_id (failed_row reason at' m) = r_id m" "r_id (awaiting_row at' m) = r_id m"
  "r_id (retry_row n at' m) = r_id m" "r_id (approved_row e n at' m) = r_id m" "r_id (claimed_row now lease tok p m) = r_id m"
  "r_status (completed_row res at' m) = ''COMPLETED''" "r_status (failed_row reason at' m) = ''FAILED''"
  "r_status (awaiting_row at' m) = ''AWAITING_REVIEW''" "r_status (retry_row n at' m) = ''PENDING''"
  "r_status (approved_row e n at' m) = ''PENDING''"
  by (simp_all add: row_defs approved_row_def claimed_row_def Let_def)

section \<open>Operations\<close>

lemma exec_ops_quiet:
  "abandon_unfinished_for_job st j at' = Inr (st', n) \<Longrightarrow> quiet st st'"
  "end_execution s st e at' = Inr (st', b) \<Longrightarrow> quiet st st'"
  "terminal_execution_for_claim st e j tok at' s = Inr (st', b) \<Longrightarrow> quiet st st'"
  "create_execution st u j at' th = Inr (st', e') \<Longrightarrow> quiet st st'"
  by (auto simp: abandon_unfinished_for_job_def end_execution_def terminal_execution_for_claim_def
      create_execution_def Let_def bindE_eq_Inr split: if_splits intro!: quiet_same)

lemma flush_quiet:
  assumes "flush_job st m = Inr st'" "tget r_id j (st_jobs st) = Some r" "r_id m = r_id r" "r_status m = r_status r"
  shows "quiet st st'"
  using assms tget_Some_key[OF assms(2)] by (intro quiet_put[OF assms(2), of m]) (auto simp: bind_simps)

lemma plain_quiet:
  "set_active_workflow_execution st j tok e at' = Inr (st', b) \<Longrightarrow> quiet st st'"
  "increment_repair_count st j tok at' = Inr (st', b) \<Longrightarrow> quiet st st'"
  "increment_evaluation_attempt_count st j tok at' = Inr (st', b) \<Longrightarrow> quiet st st'"
  by (auto simp: set_active_workflow_execution_def increment_repair_count_def increment_evaluation_attempt_count_def
      Let_def bindE_eq_Inr split: if_splits option.splits intro: quiet_same elim!: flush_quiet)

lemma claim_next_quiet:
  assumes "store_ok st" "claim_next st locked now lease tok ep = Inr (st', c)"
  shows "quiet st st'"
  using assms
proof (cases rule: claim_next_cases)
  case idle
  then show ?thesis by (simp add: quiet_same)
next
  case (got m k)
  have "tget r_id (r_id m) (st_jobs st) = Some m"
    using got(4) assms(1) by (auto simp: store_ok_def intro: tget_mem)
  moreover have "st_jobs st' = tput r_id (claimed_row now lease tok (worker_profile_of ep) m) (st_jobs st)"
    using got(7) by (auto simp: bind_simps)
  ultimately show ?thesis
    using claim_eligible_status[OF got(3)]
    by (intro quiet_put[of "r_id m" st m "claimed_row now lease tok (worker_profile_of ep) m"])
       (auto simp: claimed_row_def Let_def unfinished_def)
qed

lemma transition_awaiting_review_quiet:
  assumes "store_ok st" "transition_awaiting_review st j tok at' = Inr (st', b)"
  shows "quiet st st'"
proof (cases "owns_running_claim (tget r_id j (st_jobs st)) tok at'")
  case True
  then obtain m where m: "tget r_id j (st_jobs st) = Some m" "owns_running_claim (Some m) tok at'"
    by (cases "tget r_id j (st_jobs st)") auto
  with assms transition_awaiting_review_owned[OF assms(1) m] tget_Some_key[OF m(1)] show ?thesis
    by (intro quiet_put[OF m(1), of "awaiting_row at' m"]) (auto simp: fence_simps unfinished_def split: if_splits)
next
  case False
  then show ?thesis using assms(2) by (auto simp: transition_awaiting_review_def Let_def intro: quiet_same)
qed

lemma approve_review_to_pending_quiet:
  assumes "store_ok st" "approve_review_to_pending st j e n at' = Inr (st', b)"
  shows "quiet st st'"
proof (cases "phase st j = Some ''AWAITING_REVIEW''")
  case True
  then obtain m where m: "tget r_id j (st_jobs st) = Some m" "r_status m = ''AWAITING_REVIEW''"
    by (auto simp: phase_def)
  with assms approve_review_to_pending_awaiting[OF assms(1) m, of e n at'] tget_Some_key[OF m(1)] show ?thesis
    by (intro quiet_put[OF m(1), of "approved_row e n at' m"]) (auto simp: unfinished_def split: if_splits)
next
  case False
  then show ?thesis using assms(2)
    by (auto simp: approve_review_to_pending_def phase_def intro: quiet_same split: option.splits if_splits)
qed

lemma schedule_retry_quiet:
  assumes "store_ok st" "schedule_retry st j tok n at' ab = Inr (st', b)"
  shows "quiet st st'"
  using assms(2,1)
proof (cases rule: schedule_retry_cases)
  case refused
  then show ?thesis by (simp add: quiet_same)
next
  case (moved m st1 job)
  have "rj_status job = PENDING" "rj_id job = r_id m" using moved(5)
    by (auto simp: return_to_pending_def bind_simps split: if_splits)
  then show ?thesis using moved abandon_step_ok(2)[OF assms(1) moved(4)] tget_Some_key[OF moved(2)]
    by (intro quiet_put[OF moved(2), of "(apply_domain_to_orm job m)\<lparr> r_job_retry_count := r_job_retry_count m + 1,
         r_claim_token := None, r_lease_expires_at := None, r_continuation_mode := ''JOB_RETRY'',
         r_claimed_continuation_mode := ''NONE'', r_next_attempt_at := Some n,
         r_active_workflow_execution_id := None \<rparr>"])
       (auto simp: bind_simps fence_simps unfinished_def apply_domain_to_orm_def)
qed

text \<open>The three ways a job ends, and the one way it begins; no other job moves.\<close>

definition moves_only :: "store \<Rightarrow> store \<Rightarrow> string \<Rightarrow> string option \<Rightarrow> string \<Rightarrow> bool" where
  "moves_only st st' j p q \<longleftrightarrow> phase st j = p \<and> (\<forall>k. phase st' k = (if k = j then Some q else phase st k))"

lemma moves_only_put:
  assumes "tget r_id j (st_jobs st) = Some m" "r_id r = j" "st' = st\<lparr> st_jobs := tput r_id r (st_jobs st) \<rparr>"
    "r_status m = p" "r_status r = q"
  shows "moves_only st st' j (Some p) q"
  using assms phase_tput[of r st m st'] by (auto simp: moves_only_def phase_def)

lemma finalize_moves:
  assumes "store_ok st"
  shows "finalize_completion st j tok res at' = Inr (st', True) \<Longrightarrow> moves_only st st' j (Some ''RUNNING'') ''COMPLETED''"
    and "finalize_failure st j tok reason at' = Inr (st', True) \<Longrightarrow> moves_only st st' j (Some ''RUNNING'') ''FAILED''"
proof -
  have own: "\<exists>m. tget r_id j (st_jobs st) = Some m \<and> owns_running_claim (Some m) tok at' \<and> r_id m = j"
    if "owns_running_claim (tget r_id j (st_jobs st)) tok at'"
    using that tget_Some_key by (cases "tget r_id j (st_jobs st)") fastforce+
  show "moves_only st st' j (Some ''RUNNING'') ''COMPLETED''" if f: "finalize_completion st j tok res at' = Inr (st', True)"
  proof -
    have "owns_running_claim (tget r_id j (st_jobs st)) tok at'"
      using f by (auto simp: finalize_completion_def Let_def split: if_splits)
    then obtain m where m: "tget r_id j (st_jobs st) = Some m" "owns_running_claim (Some m) tok at'" "r_id m = j" using own by blast
    with f finalize_completion_owned[OF assms m(1,2)] show ?thesis
      by (intro moves_only_put[OF m(1), of "completed_row res at' m"]) (auto simp: fence_simps split: if_splits)
  qed
  show "moves_only st st' j (Some ''RUNNING'') ''FAILED''" if f: "finalize_failure st j tok reason at' = Inr (st', True)"
  proof -
    have "owns_running_claim (tget r_id j (st_jobs st)) tok at'"
      using f by (auto simp: finalize_failure_def Let_def split: if_splits)
    then obtain m where m: "tget r_id j (st_jobs st) = Some m" "owns_running_claim (Some m) tok at'" "r_id m = j" using own by blast
    with f finalize_failure_owned[OF assms m(1,2)] show ?thesis
      by (intro moves_only_put[OF m(1), of "failed_row reason at' m"]) (auto simp: fence_simps split: if_splits)
  qed
qed

lemma add_job_moves:
  assumes "create_job now i q at' = Inr job" "add_job st job key fp tp = Inr st'"
  shows "moves_only st st' (rj_id job) None ''PENDING''"
proof -
  have new: "tget r_id (rj_id job) (st_jobs st) = None"
    and rows: "st_jobs st' = st_jobs st @ [(to_orm job)\<lparr> r_idempotency_key := Some key, r_request_fingerprint := Some fp, r_traceparent := tp \<rparr>]"
    using assms(2) by (auto simp: add_job_def Let_def split: if_splits)
  have "rj_status job = PENDING" using assms(1) by (auto simp: create_job_def bind_simps)
  then show ?thesis using new rows by (auto simp: moves_only_def phase_def tget_append to_orm_def split: option.splits)
qed

end
