(* ===== verification/Event_Ledger.thy ===== *)
theory Event_Ledger
  imports Application Job_Phases
begin

text \<open>
  The outbox as a ledger of the jobs: whatever the processes do and in whatever order, each job has
  exactly one created event, one completed event if and only if it is completed, and one failed event
  if and only if it failed in the worker rather than in a review.
\<close>

section \<open>The ledger\<close>

definition events :: "app_db \<Rightarrow> (string \<times> string) list" where
  "events db = map (\<lambda>r. (o_event_type r, o_aggregate_id r)) (ob_rows (db_outbox db))"

definition emitted :: "app_db \<Rightarrow> string \<Rightarrow> string \<Rightarrow> nat" where
  "emitted db t j = count_list (events db) (t, j)"

definition rejected :: "app_db \<Rightarrow> string \<Rightarrow> bool" where
  "rejected db j \<longleftrightarrow> list_ex (\<lambda>h. hr_research_job_id h = j \<and> hr_decision h = ''reject'') (db_reviews db)"

abbreviation (input) job_phase :: "app_db \<Rightarrow> string \<Rightarrow> string option" where
  "job_phase db \<equiv> phase (db_store db)"

definition ledger_types :: "string list" where
  "ledger_types = [''research_job.created'', ''research_job.completed'', ''research_job.failed'']"

text \<open>What one transaction does to the ledger.\<close>

inductive entry :: "app_db \<Rightarrow> app_db \<Rightarrow> bool" where
  quietly: "quiet (db_store db) (db_store db') \<Longrightarrow> events db' = events db @ es \<Longrightarrow>
    (\<forall>e \<in> set es. fst e \<notin> set ledger_types) \<Longrightarrow> rejected db' = rejected db \<Longrightarrow> entry db db'"
| creation: "moves_only (db_store db) (db_store db') j None ''PENDING'' \<Longrightarrow>
    events db' = events db @ [(''research_job.created'', j)] \<Longrightarrow> rejected db' = rejected db \<Longrightarrow> entry db db'"
| completion: "moves_only (db_store db) (db_store db') j (Some ''RUNNING'') ''COMPLETED'' \<Longrightarrow>
    events db' = events db @ [(''research_job.completed'', j)] \<Longrightarrow> rejected db' = rejected db \<Longrightarrow> entry db db'"
| failure: "moves_only (db_store db) (db_store db') j (Some ''RUNNING'') ''FAILED'' \<Longrightarrow>
    events db' = events db @ [(''research_job.failed'', j)] \<Longrightarrow> rejected db' = rejected db \<Longrightarrow> entry db db'"
| rejection: "moves_only (db_store db) (db_store db') j (Some ''AWAITING_REVIEW'') ''FAILED'' \<Longrightarrow>
    events db' = events db \<Longrightarrow> rejected db' = (rejected db)(j := True) \<Longrightarrow> entry db db'"

definition balanced :: "app_db \<Rightarrow> string \<Rightarrow> bool" where
  "balanced db j \<longleftrightarrow>
     emitted db ''research_job.created'' j = (if job_phase db j = None then 0 else 1) \<and>
     emitted db ''research_job.completed'' j = (if job_phase db j = Some ''COMPLETED'' then 1 else 0) \<and>
     emitted db ''research_job.failed'' j = (if job_phase db j = Some ''FAILED'' \<and> \<not> rejected db j then 1 else 0) \<and>
     (rejected db j \<longrightarrow> job_phase db j = Some ''FAILED'')"

lemma emitted_quiet:
  assumes "events db' = events db @ es" "\<forall>e \<in> set es. fst e \<notin> set ledger_types" "t \<in> set ledger_types"
  shows "emitted db' t j = emitted db t j"
proof -
  have "(t, j) \<notin> set es" using assms(2,3) by force
  then show ?thesis using assms(1) by (simp add: emitted_def)
qed

lemma emitted_append:
  "events db' = events db @ [(s, k)] \<Longrightarrow> emitted db' t j = emitted db t j + (if s = t \<and> k = j then 1 else 0)"
  by (simp add: emitted_def)

lemma entry_balanced: "entry db db' \<Longrightarrow> balanced db j \<Longrightarrow> balanced db' j"
proof (induction rule: entry.induct)
  case (quietly db db' es)
  then have "job_phase db' j = job_phase db j \<or> unfinished (job_phase db j) \<and> unfinished (job_phase db' j)"
    by (simp add: quiet_def)
  then show ?case using quietly emitted_quiet[OF quietly(2,3)]
    by (auto simp: balanced_def unfinished_def ledger_types_def)
next
  case (rejection db db' k)
  then have "emitted db' t j = emitted db t j" for t by (simp add: emitted_def)
  then show ?case using rejection by (auto simp: balanced_def moves_only_def)
qed (auto simp: balanced_def moves_only_def emitted_append)

section \<open>Every transaction is an entry\<close>

definition event_ids_distinct :: "app_db \<Rightarrow> bool" where
  "event_ids_distinct db \<longleftrightarrow> distinct (tkeys o_event_id (ob_rows (db_outbox db)))"

lemma entry_same:
  "db_outbox db' = db_outbox db \<Longrightarrow> db_reviews db' = db_reviews db \<Longrightarrow> quiet (db_store db) (db_store db') \<Longrightarrow> entry db db'"
  by (rule entry.quietly[where es = "[]"]) (auto simp: events_def rejected_def fun_eq_iff)

lemma appended_events: "appended db db' t j \<Longrightarrow> events db' = events db @ [(t, j)]"
  by (auto simp: appended_def events_def)

lemma rejected_same: "db_reviews db' = db_reviews db \<Longrightarrow> rejected db' = rejected db"
  by (simp add: rejected_def fun_eq_iff)

lemma entry_appended:
  "appended db db' t j \<Longrightarrow> t \<notin> set ledger_types \<Longrightarrow> db_reviews db' = db_reviews db \<Longrightarrow>
   quiet (db_store db) (db_store db') \<Longrightarrow> entry db db'"
  by (rule entry.quietly[where es = "[(t, j)]"]) (auto intro: appended_events rejected_same)

lemma relay_entry:
  assumes "events (db\<lparr> db_outbox := ob \<rparr>) = events db"
  shows "entry db (db\<lparr> db_outbox := ob \<rparr>)"
proof (rule entry.quietly[where es = "[]"])
  show "quiet (db_store db) (db_store (db\<lparr> db_outbox := ob \<rparr>))" by (rule quiet_same) simp
qed (auto simp: assms intro: rejected_same)

lemma select_first_mem: "select_first P f tbl = Some r \<Longrightarrow> r \<in> set tbl"
  unfolding select_first_def by (auto simp: find_Some_iff)

lemma rows_to_claim_mem: "set (rows_to_claim rows locked at' n) \<subseteq> set rows"
proof -
  have "set (claim_more rows locked at' k p) \<subseteq> set rows" for k p
    by (induction k arbitrary: p)
       (auto simp: next_unpublished_def dest: select_first_mem select_first_mem[OF sym] split: option.splits if_splits)
  then show ?thesis
    by (auto simp: rows_to_claim_def head_unpublished_def dest: select_first_mem select_first_mem[OF sym] split: option.splits if_splits)
qed

lemma claim_rows_table:
  "claim_rows pd tok lease rows rs = Inr (rows', cs) \<Longrightarrow>
   rows' = fold (\<lambda>r. tput o_event_id (claim_outbox_row tok lease r)) rs rows"
  by (induction rs arbitrary: rows cs) (auto simp: Let_def bind_simps)

lemma claim_batch_events:
  assumes "distinct (tkeys o_event_id (ob_rows ob))" "claim_batch env ob locked tok at' lease n = Inr (ob', cs)"
  shows "\<exists>P. ob_rows ob' = tupdate P (claim_outbox_row tok lease) (ob_rows ob)"
proof -
  let ?rs = "rows_to_claim (ob_rows ob) locked at' (nat n)"
  from assms(2) obtain rows where "claim_rows (oe_pydantic env) tok lease (ob_rows ob) ?rs = Inr (rows, cs)" "ob_rows ob' = rows"
    by (auto simp: claim_batch_def bind_simps split: if_splits)
  then have "ob_rows ob' = fold (\<lambda>r. tput o_event_id (claim_outbox_row tok lease r)) ?rs (ob_rows ob)"
    using claim_rows_table by blast
  also have "\<dots> = tupdate (\<lambda>r. r \<in> set ?rs) (claim_outbox_row tok lease) (ob_rows ob)"
    using assms(1) rows_to_claim_mem by (intro fold_tput_update) auto
  finally show ?thesis by blast
qed

lemma tupdate_keeps:
  "(\<And>r. g (f r) = g r) \<Longrightarrow> map g (tupdate P f rows) = map g rows"
  by (induction rows) (auto simp: tupdate_def)

lemma outbox_row_same [simp]:
  "o_event_type (claim_outbox_row tok lease r) = o_event_type r" "o_event_type (published_row at' r) = o_event_type r"
  "o_event_type (released_row err r) = o_event_type r"
  "o_aggregate_id (claim_outbox_row tok lease r) = o_aggregate_id r" "o_aggregate_id (published_row at' r) = o_aggregate_id r"
  "o_aggregate_id (released_row err r) = o_aggregate_id r"
  by (simp_all add: claim_outbox_row_def published_row_def released_row_def)

text \<open>The relay writes only its own columns.\<close>

lemma relay_row_writes:
  assumes "event_ids_distinct db" "ob_rows ob = tupdate P f (ob_rows (db_outbox db))"
    "\<And>r. o_event_type (f r) = o_event_type r" "\<And>r. o_aggregate_id (f r) = o_aggregate_id r" "\<And>r. o_event_id (f r) = o_event_id r"
  shows "entry db (db\<lparr> db_outbox := ob \<rparr>) \<and> event_ids_distinct (db\<lparr> db_outbox := ob \<rparr>)"
proof -
  have "events (db\<lparr> db_outbox := ob \<rparr>) = events db"
    using assms(3,4) by (simp add: events_def assms(2) tupdate_keeps)
  moreover have "event_ids_distinct (db\<lparr> db_outbox := ob \<rparr>)"
    using assms(1,5) by (simp add: event_ids_distinct_def assms(2) tupdate_keeps)
  ultimately show ?thesis using relay_entry by blast
qed

lemma appended_distinct: "appended db db' t j \<Longrightarrow> event_ids_distinct db \<Longrightarrow> event_ids_distinct db'"
  by (auto simp: appended_def event_ids_distinct_def tget_None_iff)

lemma submit_entry:
  assumes "submit h env db a = (db', r)" "event_ids_distinct db"
  shows "entry db db' \<and> event_ids_distinct db'"
proof (cases "db' = db")
  case True
  then show ?thesis using assms(2) entry_same[of db db] by (simp add: quiet_same)
next
  case False
  with assms(1) obtain job st where
    c: "create_job (sa_now a) (PyStr (sa_job_id a)) (PyStr (sa_question a)) None = Inr job"
    "add_job (db_store db) job (sa_idempotency_key a) (fingerprint_create_request h (rj_question job)) (sa_traceparent a) = Inr st"
    and enq: "enqueue_built env (sa_traceparent a) (build_research_job_created (sa_event_id a) (rj_id job)
       (Aware (rj_created_at job) 0)) (db\<lparr> db_store := st \<rparr>) = Inr db'"
    by (auto simp: submit_def Let_def session_scope_def on_store_def bind_simps split: sum.splits if_splits prod.splits)
  from enqueue_built_appended[OF enq built_types(3)] have a: "appended (db\<lparr> db_store := st \<rparr>) db' ''research_job.created'' (rj_id job)"
    and d: "db' = db\<lparr> db_store := st, db_outbox := db_outbox db' \<rparr>" by auto
  have f: "db_store db' = st" "db_reviews db' = db_reviews db" by (subst d, simp)+
  have ap: "appended db db' ''research_job.created'' (rj_id job)" using a by (simp add: appended_def)
  then have "entry db db'" using add_job_moves[OF c] f
    by (intro entry.creation appended_events rejected_same) auto
  then show ?thesis using appended_distinct[OF ap assms(2)] by blast
qed

lemma store_entry:
  assumes "db' = db\<lparr> db_store := st \<rparr>" "quiet (db_store db) st" "event_ids_distinct db"
  shows "entry db db' \<and> event_ids_distinct db'"
  using assms entry_same[of db' db] by (simp add: event_ids_distinct_def)

lemma fenced_entry:
  assumes "fenced f db = Inr (db', u)" "event_ids_distinct db" "\<And>st' b. f (db_store db) = Inr (st', b) \<Longrightarrow> quiet (db_store db) st'"
  shows "entry db db' \<and> event_ids_distinct db'"
  using assms store_entry by (auto simp: fenced_Inr)

lemma bind_fresh_entry:
  assumes "bind_fresh j tok u at' db = Inr (db', e)" "event_ids_distinct db"
  shows "entry db db' \<and> event_ids_distinct db'"
proof -
  from assms obtain st1 st2 st3 n where s: "abandon_unfinished_for_job (db_store db) j at' = Inr (st1, n)"
    "create_execution st1 u j at' None = Inr (st2, e)" "set_active_workflow_execution st2 j tok e at' = Inr (st3, True)"
    "db' = db\<lparr> db_store := st3 \<rparr>"
    by (auto simp: bind_fresh_def bind_simps fenced_Inr)
  then have "quiet (db_store db) st3"
    using exec_ops_quiet(1,4) plain_quiet(1) quiet_trans by metis
  then show ?thesis using store_entry[OF s(4)] assms(2) by blast
qed

lemma await_review_entry:
  assumes "await_review_tx h env tp j tok e run did ev at' db = Inr (db', ())" "event_ids_distinct db" "store_ok (db_store db)"
  shows "entry db db' \<and> event_ids_distinct db'"
proof -
  from assms(1) obtain db1 i where ins: "insert_policy_decision db (policy_row_of h did j (Some e) (Some run)
      await_review_decision (counts_of db j) at') = Inr (db1, i)"
    and rest: "if i = did
      then \<exists>st. transition_awaiting_review (db_store db1) j tok at' = Inr (st, True) \<and>
        enqueue_built env tp (build_research_job_awaiting_review ev j e (Aware at' 0)) (db1\<lparr> db_store := st \<rparr>) = Inr db'
      else db' = db1"
    by (auto simp: await_review_tx_def bind_simps fenced_Inr split: if_splits)
  note f = insert_policy_decision_frame[OF ins]
  show ?thesis
  proof (cases "i = did")
    case True
    with rest obtain st where st: "transition_awaiting_review (db_store db1) j tok at' = Inr (st, True)"
      and enq: "enqueue_built env tp (build_research_job_awaiting_review ev j e (Aware at' 0)) (db1\<lparr> db_store := st \<rparr>) = Inr db'"
      by auto
    from enqueue_built_appended[OF enq built_types(4)] have a: "appended (db1\<lparr> db_store := st \<rparr>) db' ''research_job.awaiting_review'' j"
      and d: "db' = db1\<lparr> db_store := st, db_outbox := db_outbox db' \<rparr>" by auto
    have g: "db_store db' = st" "db_reviews db' = db_reviews db1" by (subst d, simp)+
    have ap: "appended db db' ''research_job.awaiting_review'' j" using a f by (simp add: appended_def)
    have "quiet (db_store db) st" using transition_awaiting_review_quiet[OF assms(3)] st f by auto
    then show ?thesis using entry_appended[OF ap] g f appended_distinct[OF ap assms(2)] by (auto simp: ledger_types_def)
  next
    case False
    then show ?thesis using rest f assms(2) entry_same[of db' db] by (auto simp: event_ids_distinct_def quiet_same)
  qed
qed

lemma retry_entry:
  assumes "retry_tx h env tp j tok ex d counts did aid ev n at' db = Inr (db', r)" "event_ids_distinct db" "store_ok (db_store db)"
  shows "entry db db' \<and> event_ids_distinct db'"
  using retry_tx_cases[OF assms(1)]
proof (elim conjE disjE exE)
  assume "db_store db' = db_store db" "db_outbox db' = db_outbox db" "db_reviews db' = db_reviews db"
  then show ?thesis using assms(2) entry_same[of db' db] by (simp add: event_ids_distinct_def quiet_same)
next
  fix st assume a: "schedule_retry (db_store db) j tok n at' ex = Inr (st, True)" "db_store db' = st" "db_reviews db' = db_reviews db"
    and ap: "appended db db' ''research_job.retry_scheduled'' j"
  then show ?thesis
    using entry_appended[OF ap] schedule_retry_quiet[OF assms(3) a(1)] appended_distinct[OF ap assms(2)] by (auto simp: ledger_types_def)
qed

lemma policy_entry:
  assumes "policy_tx h j tok e run d counts u at' db = Inr (db', ())" "event_ids_distinct db"
  shows "entry db db' \<and> event_ids_distinct db'"
proof -
  from assms(1) obtain db1 i where ins: "insert_policy_decision db (policy_row_of h u j (Some e) (Some run) d counts at') = Inr (db1, i)"
    and rest: "db' = db1 \<or> (\<exists>st. increment_repair_count (db_store db1) j tok at' = Inr (st, True) \<and> db' = db1\<lparr> db_store := st \<rparr>)"
    by (auto simp: policy_tx_def bind_simps fenced_Inr split: if_splits)
  note f = insert_policy_decision_frame[OF ins]
  have "quiet (db_store db) (db_store db')" using rest plain_quiet(2) f by (auto simp: quiet_same)
  moreover have "db_outbox db' = db_outbox db" "db_reviews db' = db_reviews db" using rest f by auto
  ultimately show ?thesis using entry_same[of db' db] assms(2) by (simp add: event_ids_distinct_def)
qed

lemma review_entry:
  assumes "review_write h db rq actor fp t i at' = Inr (db', v)" "event_ids_distinct db" "store_ok (db_store db)"
  shows "entry db db' \<and> event_ids_distinct db'"
proof (cases v)
  case (Replayed x)
  then have "db' = db" using assms(1)
    by (auto simp: review_write_def Let_def bind_simps split: option.splits if_splits prod.splits)
  then show ?thesis using assms(2) entry_same[of db db] by (simp add: quiet_same)
next
  case (Ready u)
  then have w: "review_write h db rq actor fp t i at' = Inr (db', Ready ())" using assms by simp
  from review_write_ready[OF w] have "review_checks (decision_row rq actor fp t i at')"
    by (auto simp: insert_review_decision_def split: if_splits)
  then have d: "rr_decision rq = ''approve'' \<or> rr_decision rq = ''reject''" by (simp add: review_checks_def decision_row_def)
  from review_write_exact[OF assms(3) w] obtain m where m: "tget r_id (rr_job_id rq) (st_jobs (db_store db)) = Some m"
    "r_status m = ''AWAITING_REVIEW''" "tget r_id (rr_job_id rq) (st_jobs (db_store db')) = Some (decided_row rq (rt_exec_id t) at' m)"
    "db_reviews db' = db_reviews db @ [decision_row rq actor fp t i at']" "db_outbox db' = db_outbox db"
    "\<forall>k. k \<noteq> rr_job_id rq \<longrightarrow> tget r_id k (st_jobs (db_store db')) = tget r_id k (st_jobs (db_store db))" by blast
  have ev: "events db' = events db" and ids: "event_ids_distinct db'" using m(5) assms(2) by (simp_all add: events_def event_ids_distinct_def)
  have rj: "rejected db' = (if rr_decision rq = ''reject'' then (rejected db)(rr_job_id rq := True) else rejected db)"
    using m(4) by (auto simp: rejected_def decision_row_def fun_eq_iff)
  have ph: "job_phase db (rr_job_id rq) = Some ''AWAITING_REVIEW''"
    "job_phase db' k = (if k = rr_job_id rq then Some (if rr_decision rq = ''approve'' then ''PENDING'' else ''FAILED'') else job_phase db k)" for k
    using m by (auto simp: phase_def decided_row_def)
  have "entry db db'"
  proof (cases "rr_decision rq = ''approve''")
    case True
    then have "quiet (db_store db) (db_store db')" using ph by (simp add: quiet_def unfinished_def)
    then show ?thesis using True ev rj by (intro entry.quietly[where es = "[]"]) auto
  next
    case False
    then show ?thesis using d ph ev rj by (intro entry.rejection[where j = "rr_job_id rq"]) (auto simp: moves_only_def)
  qed
  then show ?thesis using ids by blast
qed

lemma replace_dimensions_frame:
  "replace_dimensions db uuids i ds = Inr db' \<Longrightarrow>
   db_store db' = db_store db \<and> db_outbox db' = db_outbox db \<and> db_reviews db' = db_reviews db"
  by (auto simp: replace_dimensions_def clear_dimensions_def Let_def split: if_splits)

lemma evaluation_frame:
  assumes "event_ids_distinct db"
  shows "begin_or_resume h db ba now = Inr (db', x) \<Longrightarrow> entry db db' \<and> event_ids_distinct db'"
    and "service_finalize_success db uuids i tok agg p ds hint vs now = Inr (db', y) \<Longrightarrow> entry db db' \<and> event_ids_distinct db'"
    and "service_finalize_failure db i tok cls now = Inr (db', z) \<Longrightarrow> entry db db' \<and> event_ids_distinct db'"
proof -
  have same: "entry db d \<and> event_ids_distinct d"
    if "quiet (db_store db) (db_store d)" "db_outbox d = db_outbox db" "db_reviews d = db_reviews db" for d
    using that assms entry_same[of d db] by (simp add: event_ids_distinct_def)
  show "entry db db' \<and> event_ids_distinct db'" if b: "begin_or_resume h db ba now = Inr (db', x)"
  proof -
    obtain run_id tok replay where x: "x = (run_id, tok, replay)" by (cases x)
    from b[unfolded x] show ?thesis
    proof (cases rule: begin_cases)
      case (reclaimed ex cf)
      from reclaimed(7) show ?thesis
        by (intro same) (auto simp: reclaim_run_def clear_dimensions_def Let_def quiet_same split: option.splits if_splits)
    next
      case (created st cf)
      from plain_quiet(3)[OF created(1)] created(5) show ?thesis
        by (intro same) (auto simp: create_run_def split: if_splits)
    qed (use same[OF quiet_same] in simp)
  qed
  show "entry db db' \<and> event_ids_distinct db'" if "service_finalize_success db uuids i tok agg p ds hint vs now = Inr (db', y)"
  proof -
    have "db_store db' = db_store db \<and> db_outbox db' = db_outbox db \<and> db_reviews db' = db_reviews db"
      using that by (auto simp: service_finalize_success_def repo_finalize_success_def bind_simps Let_def
          dest!: replace_dimensions_frame update_run_Inr split: option.splits if_splits)
    then show ?thesis by (intro same) (auto simp: quiet_same)
  qed
  show "entry db db' \<and> event_ids_distinct db'" if "service_finalize_failure db i tok cls now = Inr (db', z)"
  proof -
    have "db_store db' = db_store db \<and> db_outbox db' = db_outbox db \<and> db_reviews db' = db_reviews db"
      using that by (auto simp: service_finalize_failure_def repo_finalize_failure_def clear_dimensions_def bind_simps Let_def
          dest!: update_run_Inr split: option.splits if_splits)
    then show ?thesis by (intro same) (auto simp: quiet_same)
  qed
qed

lemma finalize_entry:
  assumes "event_ids_distinct db" "store_ok (db_store db)"
  shows "finalize_completion_tx env tp j tok res ev at' db = Inr (db', b) \<Longrightarrow> entry db db' \<and> event_ids_distinct db'"
    and "finalize_failure_tx env tp j tok reason cls ev at' db = Inr (db', b) \<Longrightarrow> entry db db' \<and> event_ids_distinct db'"
proof -
  have same: "entry db db \<and> event_ids_distinct db" using assms(1) entry_same[of db db] by (simp add: quiet_same)
  have fields: "db_store d = st \<and> db_reviews d = db_reviews db" if "d = db\<lparr> db_store := st, db_outbox := db_outbox d \<rparr>" for d st
    by (subst (1 2) that) simp
  show "entry db db' \<and> event_ids_distinct db'" if "finalize_completion_tx env tp j tok res ev at' db = Inr (db', b)"
    using finalize_completion_tx_cases[OF that] same
  proof (cases b)
    case True
    with finalize_completion_tx_cases[OF that] obtain st where st: "finalize_completion (db_store db) j tok res at' = Inr (st, True)"
      "appended db db' ''research_job.completed'' j" "db' = db\<lparr> db_store := st, db_outbox := db_outbox db' \<rparr>" by auto
    note f = fields[OF st(3)]
    show ?thesis using entry.completion[of db db' j] finalize_moves(1)[OF assms(2) st(1)] f appended_events[OF st(2)]
      rejected_same[of db' db] appended_distinct[OF st(2) assms(1)] by simp
  qed simp
  show "entry db db' \<and> event_ids_distinct db'" if "finalize_failure_tx env tp j tok reason cls ev at' db = Inr (db', b)"
    using finalize_failure_tx_cases[OF that] same
  proof (cases b)
    case True
    with finalize_failure_tx_cases[OF that] obtain st where st: "finalize_failure (db_store db) j tok reason at' = Inr (st, True)"
      "appended db db' ''research_job.failed'' j" "db' = db\<lparr> db_store := st, db_outbox := db_outbox db' \<rparr>" by auto
    note f = fields[OF st(3)]
    show ?thesis using entry.failure[of db db' j] finalize_moves(2)[OF assms(2) st(1)] f appended_events[OF st(2)]
      rejected_same[of db' db] appended_distinct[OF st(2) assms(1)] by simp
  qed simp
qed

lemma nodes_entry:
  "event_ids_distinct db \<Longrightarrow> entry db (db\<lparr> db_nodes := ns \<rparr>) \<and> event_ids_distinct (db\<lparr> db_nodes := ns \<rparr>)"
  using entry_same[of "db\<lparr> db_nodes := ns \<rparr>" db] by (simp add: event_ids_distinct_def quiet_same)

lemma app_step_entry:
  assumes "app_step db db'" "event_ids_distinct db" "store_ok (db_store db)"
  shows "entry db db' \<and> event_ids_distinct db'"
  using assms(1)
proof cases
  case (submitted h env a r) then show ?thesis using submit_entry assms(2) by blast
next
  case (claimed locked now lease tok ep c)
  then obtain st where st: "claim_next (db_store db) locked now lease tok ep = Inr (st, c)" "db' = db\<lparr> db_store := st \<rparr>"
    by (auto simp: claim_tx_def bind_simps)
  show ?thesis by (rule store_entry[OF st(2) claim_next_quiet[OF assms(3) st(1)] assms(2)])
next
  case (bound j tok u at' e) then show ?thesis using bind_fresh_entry assms(2) by blast
next
  case (completed_execution e j tok at')
  then show ?thesis using assms(2)
    by (rule fenced_entry) (auto simp: complete_execution_for_claim_def intro: exec_ops_quiet)
next
  case (failed_execution e j tok at')
  then show ?thesis using assms(2)
    by (rule fenced_entry) (auto simp: fail_execution_for_claim_def intro: exec_ops_quiet)
next
  case (awaiting h env tp j tok e run did ev at') then show ?thesis using await_review_entry assms by blast
next
  case (retried h env tp j tok ex d counts did aid ev n at' r) then show ?thesis using retry_entry assms by blast
next
  case (decided h j tok e run d counts u at') then show ?thesis using policy_entry assms by blast
next
  case (relay_claimed env locked tok at' lease n ob cs)
  from claim_batch_events[OF _ relay_claimed(2)] assms(2) obtain P where
    P: "ob_rows ob = tupdate P (claim_outbox_row tok lease) (ob_rows (db_outbox db))" by (auto simp: event_ids_distinct_def)
  show ?thesis unfolding relay_claimed(1) by (rule relay_row_writes[OF assms(2) P]) simp_all
next
  case (relay_published i tok at' ob b)
  then have P: "ob_rows ob = tupdate (\<lambda>r. o_event_id r = i \<and> owns_publish_claim r tok at') (published_row at') (ob_rows (db_outbox db))"
    by (auto simp: mark_published_def Let_def)
  show ?thesis unfolding relay_published(1) by (rule relay_row_writes[OF assms(2) P]) simp_all
next
  case (relay_released i tok at' err ob b)
  then have P: "ob_rows ob = tupdate (\<lambda>r. o_event_id r = i \<and> owns_publish_claim r tok at')
      (released_row (sanitize_error_class err)) (ob_rows (db_outbox db))"
    by (auto simp: release_failed_claim_def Let_def)
  show ?thesis unfolding relay_released(1) by (rule relay_row_writes[OF assms(2) P]) simp_all
next
  case (evaluated h ba now x) then show ?thesis by (rule evaluation_frame(1)[OF assms(2)])
next
  case (graded uuids i tok agg p ds hint vs now y) then show ?thesis by (rule evaluation_frame(2)[OF assms(2)])
next
  case (ungraded i tok cls now z) then show ?thesis by (rule evaluation_frame(3)[OF assms(2)])
next
  case (completed env tp j tok res ev at' b) then show ?thesis by (rule finalize_entry(1)[OF assms(2,3)])
next
  case (failed env tp j tok reason cls ev at' b) then show ?thesis by (rule finalize_entry(2)[OF assms(2,3)])
next
  case (reviewed h rq actor fp t i at' v) then show ?thesis by (rule review_entry[OF _ assms(2,3)])
qed (simp_all add: nodes_entry[OF assms(2)])

lemma app_reachable_balanced:
  assumes "app_step\<^sup>*\<^sup>* empty_db db"
  shows "event_ids_distinct db \<and> balanced db j"
  using assms
proof (induction rule: rtranclp_induct)
  case base
  show ?case by (simp add: event_ids_distinct_def balanced_def emitted_def events_def phase_def rejected_def empty_db_def)
next
  case (step y z)
  have "store_ok (db_store y)" using app_reachable_store[OF step(1)] store_reachable_ok by blast
  then show ?case using app_step_entry[OF step(2)] step(3) entry_balanced by blast
qed

section \<open>Property\<close>

text \<open>
  C1. The outbox tells the truth about the jobs, exactly once.  In every database the processes can
  reach, in any interleaving: each job has exactly one \<open>research_job.created\<close> event and no other id has
  one; there is one \<open>research_job.completed\<close> event for a job if it is completed and none otherwise;
  there is one \<open>research_job.failed\<close> event if the job failed without being rejected in a review, and none
  otherwise; only failed jobs were rejected; and the event ids are distinct.
\<close>

theorem terminal_events_exactly_once:
  assumes "app_step\<^sup>*\<^sup>* empty_db db"
  shows "distinct (map o_event_id (ob_rows (db_outbox db))) \<and>
    emitted db ''research_job.created'' j = (if job_phase db j = None then 0 else 1) \<and>
    emitted db ''research_job.completed'' j = (if job_phase db j = Some ''COMPLETED'' then 1 else 0) \<and>
    emitted db ''research_job.failed'' j = (if job_phase db j = Some ''FAILED'' \<and> \<not> rejected db j then 1 else 0) \<and>
    (rejected db j \<longrightarrow> job_phase db j = Some ''FAILED'')"
  using app_reachable_balanced[OF assms, of j] by (simp add: balanced_def event_ids_distinct_def)

theorem terminal_events_exactly_once_witness:
  "job_phase a_completed ''j1'' = Some ''COMPLETED'' \<and> emitted a_completed ''research_job.completed'' ''j1'' = 1 \<and>
   emitted a_completed ''research_job.failed'' ''j1'' = 0"
proof -
  have "app_step\<^sup>*\<^sup>* empty_db a_completed" using a_run by (auto intro: rtranclp.rtrancl_into_rtrancl)
  moreover obtain m where "st_jobs (db_store a_completed) = [m]" "r_id m = ''j1''" "r_status m = ''COMPLETED''"
    using a_statuses by (auto simp: map_eq_Cons_conv)
  then have "job_phase a_completed ''j1'' = Some ''COMPLETED''" by (simp add: phase_def)
  ultimately show ?thesis using terminal_events_exactly_once [of a_completed "''j1''"] by simp
qed

end
