(* ===== verification/Consumer_Decode.thy ===== *)
theory Consumer_Decode
  imports Eventing "HOL-Library.Countable" "HOL-Library.List_Lexorder" "HOL-Library.Char_ord"
begin

text \<open>
  The consumer's decode boundary: the poison classifications of
  \<open>src/src/atlas/consumer/errors.py\<close> and the strict decoder of \<open>consumer/deserialize.py\<close>, with the
  headers that \<open>outbox/kafka_producer.py\<close> writes.  A \<open>bytes\<close> value is a list of characters below
  256; UTF-8 and JSON text are parameters (\<open>codec\<close>), since the strings of the model hold the
  code points below 256 only.
\<close>

section \<open>Poison classifications\<close>

datatype poison_error =
    MissingHeadersError | UnexpectedHeadersShapeError | UnexpectedHeaderKeyTypeError | DuplicateHeaderKeyError
  | NullHeaderValueError | UndecodableHeaderValueError | UnexpectedHeaderValueTypeError | UnexpectedHeaderKeysError
  | EventTypeHeaderMismatchError | EventVersionHeaderMismatchError | AggregateTypeHeaderMismatchError
  | MissingValueError | ValueTooLargeError | UndecodableValueError | InvalidJsonError | ValueNotAnObjectError
  | SchemaValidationFailedError | LifecycleOrderViolationError

fun failure_code_for :: "poison_error \<Rightarrow> string" where
  "failure_code_for MissingHeadersError = ''missing_headers''"
| "failure_code_for UnexpectedHeadersShapeError = ''unexpected_headers_shape''"
| "failure_code_for UnexpectedHeaderKeyTypeError = ''unexpected_header_key_type''"
| "failure_code_for DuplicateHeaderKeyError = ''duplicate_header_key''"
| "failure_code_for NullHeaderValueError = ''null_header_value''"
| "failure_code_for UndecodableHeaderValueError = ''undecodable_header_value''"
| "failure_code_for UnexpectedHeaderValueTypeError = ''unexpected_header_value_type''"
| "failure_code_for UnexpectedHeaderKeysError = ''unexpected_header_keys''"
| "failure_code_for EventTypeHeaderMismatchError = ''event_type_header_mismatch''"
| "failure_code_for EventVersionHeaderMismatchError = ''event_version_header_mismatch''"
| "failure_code_for AggregateTypeHeaderMismatchError = ''aggregate_type_header_mismatch''"
| "failure_code_for MissingValueError = ''missing_value''"
| "failure_code_for ValueTooLargeError = ''value_too_large''"
| "failure_code_for UndecodableValueError = ''undecodable_value''"
| "failure_code_for InvalidJsonError = ''invalid_json''"
| "failure_code_for ValueNotAnObjectError = ''value_not_an_object''"
| "failure_code_for SchemaValidationFailedError = ''schema_validation_failed''"
| "failure_code_for LifecycleOrderViolationError = ''lifecycle_order_violation''"

definition TIER_A_ELIGIBLE_FAILURE_CODES :: "string list" where
  "TIER_A_ELIGIBLE_FAILURE_CODES = [''lifecycle_order_violation'']"

text \<open>The database's allowlist (\<open>ck_consumer_dead_letters_failure_code\<close>).\<close>

definition ALLOWED_FAILURE_CODES_SQL :: "string list" where
  "ALLOWED_FAILURE_CODES_SQL =
     [''missing_headers'', ''unexpected_headers_shape'', ''unexpected_header_key_type'', ''duplicate_header_key'',
      ''null_header_value'', ''undecodable_header_value'', ''unexpected_header_value_type'', ''unexpected_header_keys'',
      ''event_type_header_mismatch'', ''event_version_header_mismatch'', ''aggregate_type_header_mismatch'',
      ''missing_value'', ''value_too_large'', ''undecodable_value'', ''invalid_json'', ''value_not_an_object'',
      ''schema_validation_failed'', ''lifecycle_order_violation'']"

section \<open>Records\<close>

datatype header_value = HBytes string | HStr string | HNull | HOther
datatype header_key = KStr string | KOther
datatype header_item = HPair header_key header_value | HNotPair
datatype raw_headers =
    HeadersNone | HeadersDict "(header_key \<times> header_value) list" | HeadersList "header_item list" | HeadersOther

record kafka_message =
  km_value :: "string option"
  km_headers :: raw_headers

record codec =
  cd_encode :: "string \<Rightarrow> string"
  cd_decode :: "string \<Rightarrow> string option"
  cd_dumps :: "py_value \<Rightarrow> string"
  cd_loads :: "string \<Rightarrow> py_value option"

text \<open>The values a JSON text denotes: no \<open>UUID\<close>, \<open>datetime\<close> or float, and the entries of a mapping in
  strictly ascending key order.\<close>

fun json_doc :: "py_value \<Rightarrow> bool" where
  "json_doc (VList vs) \<longleftrightarrow> list_all json_doc vs"
| "json_doc (VDict kvs) \<longleftrightarrow> sorted_wrt (<) (map fst kvs) \<and> list_all (\<lambda>kv. json_doc (snd kv)) kvs"
| "json_doc (VUuid u) \<longleftrightarrow> False"
| "json_doc (VDatetime d) \<longleftrightarrow> False"
| "json_doc VFloat \<longleftrightarrow> False"
| "json_doc _ \<longleftrightarrow> True"

text \<open>Documented behaviour: UTF-8 decoding inverts encoding, and \<open>json.loads\<close> inverts
  \<open>json.dumps(..., sort_keys=True)\<close> on such values.\<close>

definition codec_laws :: "codec \<Rightarrow> bool" where
  "codec_laws cd \<longleftrightarrow>
     (\<forall>s. cd_decode cd (cd_encode cd s) = Some s) \<and> (\<forall>v. json_doc v \<longrightarrow> cd_loads cd (cd_dumps cd v) = Some v)"

section \<open>Headers\<close>

definition best_effort_header_text :: "codec \<Rightarrow> header_value \<Rightarrow> string option" where
  "best_effort_header_text cd v =
     (case v of HStr s \<Rightarrow> Some s | HBytes b \<Rightarrow> cd_decode cd b | _ \<Rightarrow> None)"

fun list_pairs :: "header_item list \<Rightarrow> (poison_error, (header_key \<times> header_value) list) sum" where
  "list_pairs [] = Inr []"
| "list_pairs (HNotPair # items) = Inl UnexpectedHeadersShapeError"
| "list_pairs (HPair k v # items) = bindE (list_pairs items) (\<lambda>ps. Inr ((k, v) # ps))"

definition header_pairs :: "raw_headers \<Rightarrow> poison_error + (header_key \<times> header_value) list" where
  "header_pairs h =
     (case h of
        HeadersNone \<Rightarrow> Inl MissingHeadersError
      | HeadersDict kvs \<Rightarrow> Inr kvs
      | HeadersList items \<Rightarrow> list_pairs items
      | HeadersOther \<Rightarrow> Inl UnexpectedHeadersShapeError)"

definition required_header_value :: "codec \<Rightarrow> header_value \<Rightarrow> poison_error + string" where
  "required_header_value cd v =
     (case v of
        HNull \<Rightarrow> Inl NullHeaderValueError
      | HBytes b \<Rightarrow> (case cd_decode cd b of None \<Rightarrow> Inl UndecodableHeaderValueError | Some s \<Rightarrow> Inr s)
      | HStr s \<Rightarrow> Inr s
      | HOther \<Rightarrow> Inl UnexpectedHeaderValueTypeError)"

text \<open>The loop over the pairs: \<open>mapping\<close>, \<open>traceparent\<close> and \<open>seen_keys\<close> are its locals.\<close>

fun headers_loop ::
  "codec \<Rightarrow> (string \<times> string) list \<Rightarrow> string option \<Rightarrow> string list \<Rightarrow> (header_key \<times> header_value) list \<Rightarrow>
   poison_error + ((string \<times> string) list \<times> string option)" where
  "headers_loop cd mapping tp seen [] = Inr (mapping, tp)"
| "headers_loop cd mapping tp seen ((KOther, v) # ps) = Inl UnexpectedHeaderKeyTypeError"
| "headers_loop cd mapping tp seen ((KStr k, v) # ps) =
     (if k \<in> set seen then Inl DuplicateHeaderKeyError
      else if k = ''traceparent''
      then headers_loop cd mapping (best_effort_header_text cd v) (k # seen) ps
      else bindE (required_header_value cd v) (\<lambda>s. headers_loop cd ((k, s) # mapping) tp (k # seen) ps))"

definition EXPECTED_HEADER_KEYS :: "string list" where
  "EXPECTED_HEADER_KEYS = [''event_type'', ''event_version'', ''aggregate_type'']"

definition headers_as_mapping ::
  "codec \<Rightarrow> kafka_message \<Rightarrow> poison_error + ((string \<times> string) list \<times> string option)" where
  "headers_as_mapping cd msg =
     bindE (header_pairs (km_headers msg)) (\<lambda>pairs.
     bindE (headers_loop cd [] None [] pairs) (\<lambda>(mapping, tp).
       if set (map fst mapping) \<noteq> set EXPECTED_HEADER_KEYS then Inl UnexpectedHeaderKeysError
       else Inr (mapping, tp)))"

section \<open>Decoding\<close>

definition MAX_MESSAGE_VALUE_BYTES :: nat where
  "MAX_MESSAGE_VALUE_BYTES = 32 * 1024"

definition decode_value :: "codec \<Rightarrow> pydantic \<Rightarrow> string option \<Rightarrow> poison_error + domain_event" where
  "decode_value cd pd v =
     (case v of
        None \<Rightarrow> Inl MissingValueError
      | Some b \<Rightarrow>
          if MAX_MESSAGE_VALUE_BYTES < length b then Inl ValueTooLargeError
          else case cd_decode cd b of
            None \<Rightarrow> Inl UndecodableValueError
          | Some text \<Rightarrow>
              (case cd_loads cd text of
                 None \<Rightarrow> Inl InvalidJsonError
               | Some (VDict kvs) \<Rightarrow> map_error (\<lambda>_. SchemaValidationFailedError) (parse_domain_event pd (VDict kvs))
               | Some _ \<Rightarrow> Inl ValueNotAnObjectError))"

definition decode_message ::
  "codec \<Rightarrow> pydantic \<Rightarrow> kafka_message \<Rightarrow> poison_error + (domain_event \<times> string option)" where
  "decode_message cd pd msg =
     bindE (headers_as_mapping cd msg) (\<lambda>(headers, tp).
     bindE (decode_value cd pd (km_value msg)) (\<lambda>event.
       if map_of headers ''event_type'' \<noteq> Some (ev_event_type event) then Inl EventTypeHeaderMismatchError
       else if map_of headers ''event_version'' \<noteq> Some (py_int_str (ev_event_version event))
       then Inl EventVersionHeaderMismatchError
       else if map_of headers ''aggregate_type'' \<noteq> Some (ev_aggregate_type event)
       then Inl AggregateTypeHeaderMismatchError
       else Inr (event, tp)))"

section \<open>What the producer sends\<close>

definition headers_for :: "codec \<Rightarrow> domain_event \<Rightarrow> string option \<Rightarrow> header_item list" where
  "headers_for cd e traceparent =
     [HPair (KStr ''event_type'') (HBytes (cd_encode cd (ev_event_type e))),
      HPair (KStr ''event_version'') (HBytes (cd_encode cd (py_int_str (ev_event_version e)))),
      HPair (KStr ''aggregate_type'') (HBytes (cd_encode cd (ev_aggregate_type e)))] @
     (case traceparent of None \<Rightarrow> [] | Some tp \<Rightarrow> [HPair (KStr ''traceparent'') (HBytes (cd_encode cd tp))])"

definition serialize_domain_event :: "codec \<Rightarrow> pydantic \<Rightarrow> domain_event \<Rightarrow> string" where
  "serialize_domain_event cd pd e = cd_dumps cd (domain_event_to_canonical_dict pd e)"

definition produced_message :: "codec \<Rightarrow> pydantic \<Rightarrow> domain_event \<Rightarrow> string option \<Rightarrow> kafka_message" where
  "produced_message cd pd e traceparent =
     \<lparr> km_value = Some (cd_encode cd (serialize_domain_event cd pd e)),
       km_headers = HeadersList (headers_for cd e traceparent) \<rparr>"

section \<open>Lemmas\<close>

lemma decode_value_ok: "decode_value cd pd v = Inr e \<Longrightarrow> event_ok e"
  by (auto simp: decode_value_def map_error_eq_Inr split: option.splits if_splits py_value.splits
      dest: parse_domain_event_ok)

lemma decode_message_Inr:
  "decode_message cd pd msg = Inr (e, tp) \<longleftrightarrow>
     (\<exists>headers. headers_as_mapping cd msg = Inr (headers, tp) \<and> decode_value cd pd (km_value msg) = Inr e \<and>
        map_of headers ''event_type'' = Some (ev_event_type e) \<and>
        map_of headers ''event_version'' = Some (py_int_str (ev_event_version e)) \<and>
        map_of headers ''aggregate_type'' = Some (ev_aggregate_type e))"
  by (auto simp: decode_message_def bindE_eq_Inr)

text \<open>The optional header is carried beside the loop: it changes the second component only.\<close>

definition without_traceparent :: "(header_key \<times> header_value) list \<Rightarrow> (header_key \<times> header_value) list" where
  "without_traceparent ps = filter (\<lambda>p. fst p \<noteq> KStr ''traceparent'') ps"

lemma headers_loop_traceparent:
  assumes "''traceparent'' \<in> set seen \<Longrightarrow> KStr ''traceparent'' \<notin> fst ` set ps"
    "length (filter (\<lambda>p. fst p = KStr ''traceparent'') ps) \<le> 1"
    "set seen' = set seen - {''traceparent''}"
  shows "bindE (headers_loop cd mapping tp seen ps) (\<lambda>(m, _). Inr m) =
         bindE (headers_loop cd mapping tp' seen' (without_traceparent ps)) (\<lambda>(m, _). Inr m)"
  using assms
proof (induction ps arbitrary: mapping tp seen tp' seen')
  case Nil
  then show ?case by (simp add: without_traceparent_def)
next
  case (Cons p ps)
  obtain key v where p: "p = (key, v)" by (cases p)
  show ?case
  proof (cases key)
    case KOther
    then show ?thesis by (simp add: p without_traceparent_def)
  next
    case (KStr k)
    show ?thesis
    proof (cases "k = ''traceparent''")
      case True
      then have "k \<notin> set seen" using Cons.prems(1) by (auto simp: p KStr)
      moreover have "KStr ''traceparent'' \<notin> fst ` set ps"
        using Cons.prems(2) True by (auto simp: p KStr filter_empty_conv)
      ultimately show ?thesis
        using Cons.IH[of "k # seen" seen' mapping "best_effort_header_text cd v" tp'] Cons.prems True
        by (simp add: p KStr without_traceparent_def Diff_insert_absorb filter_empty_conv)
    next
      case False
      have seen: "k \<in> set seen' \<longleftrightarrow> k \<in> set seen" using Cons.prems(3) False by auto
      have s1: "''traceparent'' \<in> set (k # seen) \<Longrightarrow> KStr ''traceparent'' \<notin> fst ` set ps"
        using Cons.prems(1) False by (auto simp: p KStr)
      have s2: "length (filter (\<lambda>p. fst p = KStr ''traceparent'') ps) \<le> 1"
        using Cons.prems(2) by (simp add: p split: if_splits)
      have s3: "set (k # seen') = set (k # seen) - {''traceparent''}" using Cons.prems(3) False by auto
      have "bindE (headers_loop cd ((k, s) # mapping) tp (k # seen) ps) (\<lambda>(m, _). Inr m) =
          bindE (headers_loop cd ((k, s) # mapping) tp' (k # seen') (without_traceparent ps)) (\<lambda>(m, _). Inr m)" for s
        using s1 s2 s3 by (rule Cons.IH)
      then show ?thesis using False seen
        by (cases "required_header_value cd v") (auto simp: p KStr without_traceparent_def)
    qed
  qed
qed

lemma header_pairs_dict: "header_pairs (HeadersDict kvs) = Inr kvs"
  by (simp add: header_pairs_def)

lemma decode_message_traceparent:
  assumes "header_pairs (km_headers msg) = Inr ps" "length (filter (\<lambda>p. fst p = KStr ''traceparent'') ps) \<le> 1"
  shows "bindE (decode_message cd pd msg) (\<lambda>(e, _). Inr e) =
    bindE (decode_message cd pd (msg\<lparr> km_headers := HeadersDict (without_traceparent ps) \<rparr>)) (\<lambda>(e, _). Inr e)"
proof -
  have "bindE (headers_loop cd [] None [] ps) (\<lambda>(m, _). Inr m) =
      bindE (headers_loop cd [] None [] (without_traceparent ps)) (\<lambda>(m, _). Inr m)"
    using assms(2) by (intro headers_loop_traceparent) auto
  then have "(\<exists>x. headers_loop cd [] None [] ps = Inl x \<and> headers_loop cd [] None [] (without_traceparent ps) = Inl x) \<or>
      (\<exists>m t t'. headers_loop cd [] None [] ps = Inr (m, t) \<and> headers_loop cd [] None [] (without_traceparent ps) = Inr (m, t'))"
    by (cases "headers_loop cd [] None [] ps"; cases "headers_loop cd [] None [] (without_traceparent ps)") auto
  then show ?thesis
    by (elim disjE exE conjE; cases "decode_value cd pd (km_value msg)")
       (simp_all add: decode_message_def headers_as_mapping_def assms(1) header_pairs_dict)
qed

lemma produced_headers:
  assumes "codec_laws cd" "event_ok e"
  shows "\<exists>m. headers_as_mapping cd (produced_message cd pd e tp) = Inr (m, tp) \<and>
    map_of m ''event_type'' = Some (ev_event_type e) \<and>
    map_of m ''event_version'' = Some (py_int_str (ev_event_version e)) \<and>
    map_of m ''aggregate_type'' = Some (ev_aggregate_type e)"
  using assms(1)
  by (cases tp)
     (auto simp: headers_as_mapping_def produced_message_def header_pairs_def headers_for_def required_header_value_def
        best_effort_header_text_def codec_laws_def EXPECTED_HEADER_KEYS_def)

lemma key_order:
  "sorted_wrt (<) [''created_at'', ''research_job_id'']" "sorted_wrt (<) [''completed_at'', ''research_job_id'']"
  "sorted_wrt (<) [''failed_at'', ''reason_class'', ''research_job_id'']"
  "sorted_wrt (<) [''entered_review_at'', ''research_job_id'', ''workflow_execution_id'']"
  "sorted_wrt (<) [''abandoned_workflow_execution_id'', ''job_retry_count'', ''next_attempt_at'', ''research_job_id'']"
  "sorted_wrt (<) [''aggregate_id'', ''aggregate_type'', ''event_id'', ''event_type'', ''event_version'',
     ''occurred_at'', ''payload'']"
  by code_simp+

lemma payload_json_doc: "json_doc (payload_dump pd p)"
  by (cases p) (use key_order in \<open>simp_all add: opt_str_def split: option.split\<close>)

lemma canonical_json_doc: "json_doc (domain_event_to_canonical_dict pd e)"
  using key_order(6) payload_json_doc[of pd "ev_payload e"] by (simp add: domain_event_to_canonical_dict_def)

lemma produced_value:
  assumes "codec_laws cd" "pydantic_laws pd" "event_ok e"
    "length (cd_encode cd (serialize_domain_event cd pd e)) \<le> MAX_MESSAGE_VALUE_BYTES"
  shows "decode_value cd pd (km_value (produced_message cd pd e tp)) = Inr e"
  using assms(1,4) event_round_trip[OF assms(2,3)] canonical_json_doc[of pd e]
  by (simp add: decode_value_def produced_message_def serialize_domain_event_def codec_laws_def)
     (simp add: domain_event_to_canonical_dict_def)

section \<open>A concrete codec\<close>

text \<open>Identity encoding, the empty text for one event and a numbering of all values for the rest:
  not JSON, but it satisfies the laws.\<close>

instance py_datetime :: countable
  by countable_datatype

instance py_value :: countable
  by countable_datatype

definition demo_codec :: codec where
  "demo_codec =
     (let v0 = domain_event_to_canonical_dict demo_pydantic w_event
      in \<lparr> cd_encode = (\<lambda>s. s), cd_decode = Some,
           cd_dumps = (\<lambda>v. if v = v0 then [] else replicate (Suc (to_nat v)) (CHR ''x'')),
           cd_loads = (\<lambda>s. if s = [] then Some v0 else Some (from_nat (length s - 1))) \<rparr>)"

lemma demo_codec_laws: "codec_laws demo_codec"
  by (simp add: codec_laws_def demo_codec_def Let_def)

lemma demo_serialize: "cd_encode demo_codec (serialize_domain_event demo_codec demo_pydantic w_event) = []"
  by (simp add: demo_codec_def serialize_domain_event_def Let_def)

section \<open>Properties\<close>

text \<open>
  C33. What the relay's producer sends the consumer decodes: for every valid event whose
  serialisation fits the 32 KiB bound, \<open>decode_message\<close> on the record the producer writes
  returns exactly that event and the traceparent header.
\<close>

theorem produced_record_decodes:
  assumes "codec_laws cd" "pydantic_laws pd" "event_ok e"
    "length (cd_encode cd (serialize_domain_event cd pd e)) \<le> MAX_MESSAGE_VALUE_BYTES"
  shows "decode_message cd pd (produced_message cd pd e tp) = Inr (e, tp)"
  using produced_headers[OF assms(1,3), of pd tp] produced_value[OF assms, of tp]
  by (auto simp: decode_message_Inr)

theorem produced_record_decodes_witness:
  "decode_message demo_codec demo_pydantic (produced_message demo_codec demo_pydantic w_event (Some ''tp'')) =
     Inr (w_event, Some ''tp'')"
  by (rule produced_record_decodes [OF demo_codec_laws demo_pydantic_laws w_event_ok])
     (simp add: demo_serialize)


text \<open>
  Optional telemetry never dead-letters a record: with at most one \<open>traceparent\<close> header, of
  whatever type or bytes, the event or the failure that \<open>decode_message\<close> produces is the one it
  produces with that header removed.
\<close>

lemma traceparent_header_is_harmless:
  assumes "header_pairs (km_headers msg) = Inr ps" "length (filter (\<lambda>p. fst p = KStr ''traceparent'') ps) \<le> 1"
  shows "bindE (decode_message cd pd msg) (\<lambda>(e, _). Inr e) =
    bindE (decode_message cd pd (msg\<lparr> km_headers := HeadersDict (without_traceparent ps) \<rparr>)) (\<lambda>(e, _). Inr e)"
  by (rule decode_message_traceparent[OF assms])

lemma traceparent_header_is_harmless_witness:
  "bindE (decode_message demo_codec demo_pydantic
       \<lparr> km_value = None, km_headers = HeadersDict [(KStr ''traceparent'', HOther)] \<rparr>) (\<lambda>(e, _). Inr e) =
   bindE (decode_message demo_codec demo_pydantic \<lparr> km_value = None, km_headers = HeadersDict [] \<rparr>) (\<lambda>(e, _). Inr e)"
  using traceparent_header_is_harmless [of "\<lparr> km_value = None, km_headers = HeadersDict [(KStr ''traceparent'', HOther)] \<rparr>"
      "[(KStr ''traceparent'', HOther)]" demo_codec demo_pydantic]
  by (simp add: header_pairs_def without_traceparent_def)

end
