(* ===== verification/Consumer_Store.thy ===== *)
theory Consumer_Store
  imports Consumer_Decode Job_Store
begin

text \<open>
  What the consumer keeps in PostgreSQL: the columns and constraints of
  \<open>src/src/atlas/persistence/models/consumer.py\<close> (inbox, lifecycle projection, dead letters), the inbox's
  \<open>record_and_apply\<close>, the projection's \<open>apply\<close>, the dead-letter \<open>upsert\<close>, the payload retention of
  \<open>consumer/retention.py\<close> and the error classification of \<open>consumer/db_classify.py\<close>.  The theorems say
  that redelivery has no effect (exactly-once effect over at-least-once delivery) and that the
  projection shows each job's last event up to its first terminal one.  SHA-256 is a parameter.
\<close>

section \<open>Exceptions\<close>

text \<open>What an attempt may raise.  \<open>DBAPIError inv sqlstate\<close> has SQLAlchemy's \<open>connection_invalidated\<close>
  flag and the driver's SQLSTATE.\<close>

datatype consumer_exc =
    PoisonEventError poison_error
  | IntegrityError
  | DBAPIError bool "string option"
  | ConsumerInboxConflictError
  | OtherException string

datatype database_error_class = TRANSIENT | FATAL_DB

definition APPROVED_TRANSIENT_SQLSTATES :: "string list" where
  "APPROVED_TRANSIENT_SQLSTATES = [''40001'', ''40P01'']"

fun classify_database_error :: "consumer_exc \<Rightarrow> database_error_class" where
  "classify_database_error (DBAPIError connection_invalidated sqlstate) =
     (if connection_invalidated then TRANSIENT
      else case sqlstate of
        None \<Rightarrow> FATAL_DB
      | Some s \<Rightarrow> if take 2 s = ''08'' then TRANSIENT
                  else if s \<in> set APPROVED_TRANSIENT_SQLSTATES then TRANSIENT else FATAL_DB)"
| "classify_database_error _ = FATAL_DB"

text \<open>A value too long for its \<open>varchar\<close>: PostgreSQL raises \<open>string_data_right_truncation\<close>.\<close>

definition StringDataRightTruncation :: consumer_exc where
  "StringDataRightTruncation = DBAPIError False (Some ''22001'')"

section \<open>Inbox and projection\<close>

definition RESEARCH_JOB_PROJECTION_CONSUMER_GROUP_V1 :: string where
  "RESEARCH_JOB_PROJECTION_CONSUMER_GROUP_V1 = ''atlas.research-job-projection.v1''"

record inbox_row =
  i_consumer_id :: string
  i_event_id :: uuid
  i_event_type :: string
  i_received_at :: timestamp
  i_kafka_partition :: int
  i_kafka_offset :: int

definition inbox_checks :: "inbox_row \<Rightarrow> bool" where
  "inbox_checks r \<longleftrightarrow>
     i_consumer_id r = RESEARCH_JOB_PROJECTION_CONSUMER_GROUP_V1 \<and>
     i_event_type r \<in> set SUPPORTED_EVENT_TYPES \<and> 0 \<le> i_kafka_partition r \<and> 0 \<le> i_kafka_offset r"

record projection_row =
  p_research_job_id :: string
  p_last_event_id :: uuid
  p_last_event_type :: string
  p_last_event_at :: timestamp
  p_updated_at :: timestamp

definition flush_projection :: "projection_row \<Rightarrow> consumer_exc + unit" where
  "flush_projection r =
     (if 128 < length (p_research_job_id r) then Inl StringDataRightTruncation
      else if p_last_event_type r \<notin> set SUPPORTED_EVENT_TYPES then Inl IntegrityError
      else Inr ())"

section \<open>Dead letters\<close>

record dead_letter_retention =
  dr_event_id :: "uuid option"
  dr_event_type :: "string option"
  dr_event_version :: "int option"
  dr_aggregate_type :: "string option"
  dr_aggregate_id :: "string option"
  dr_payload_sha256 :: string
  dr_payload_byte_length :: int
  dr_retained_canonical_value :: "string option"
  dr_retained_header_event_type :: "string option"
  dr_retained_header_event_version :: "string option"
  dr_retained_header_aggregate_type :: "string option"
  dr_replay_eligible :: bool

text \<open>The twelve columns that \<open>upsert\<close> copies from the retention record are kept together.\<close>

record dead_letter_row =
  d_id :: uuid
  d_consumer_id :: string
  d_kafka_partition :: int
  d_kafka_offset :: int
  d_failure_code :: string
  d_processing_attempt_count :: int
  d_dead_letter_delivery_count :: int
  d_first_failed_at :: timestamp
  d_last_failed_at :: timestamp
  d_retention :: dead_letter_retention
  d_replay_state :: string
  d_replay_claim_token :: "string option"
  d_replay_lease_expires_at :: "timestamp option"
  d_created_at :: timestamp
  d_updated_at :: timestamp

record replay_attempt =
  a_id :: uuid
  a_dead_letter_id :: uuid
  a_idempotency_key :: string
  a_actor_id :: string
  a_operator_reason :: string
  a_request_fingerprint :: string
  a_ownership_token :: string
  a_status :: string
  a_created_at :: timestamp
  a_finished_at :: "timestamp option"

record consumer_db =
  c_inbox :: "inbox_row list"
  c_projection :: "projection_row list"
  c_dead_letters :: "dead_letter_row list"
  c_attempts :: "replay_attempt list"

definition hex64 :: "string \<Rightarrow> bool" where
  "hex64 s \<longleftrightarrow> length s = 64 \<and> list_all hex_lower s"

definition MAX_RETAINED_CANONICAL_VALUE_BYTES :: nat where
  "MAX_RETAINED_CANONICAL_VALUE_BYTES = MAX_MESSAGE_VALUE_BYTES"

definition REPLAY_STATES :: "string list" where
  "REPLAY_STATES = [''PENDING'', ''REPLAYING'', ''REPLAY_FAILED'', ''REPLAYED_APPLIED'', ''REPLAYED_DUPLICATE'']"

text \<open>\<open>octet_length\<close> is the length of the UTF-8 encoding.\<close>

definition retention_checks :: "codec \<Rightarrow> dead_letter_retention \<Rightarrow> bool" where
  "retention_checks cd r \<longleftrightarrow>
     (case dr_event_type r of None \<Rightarrow> True | Some t \<Rightarrow> t \<in> set SUPPORTED_EVENT_TYPES) \<and>
     hex64 (dr_payload_sha256 r) \<and> 0 \<le> dr_payload_byte_length r \<and>
     ((dr_event_id r = None \<and> dr_event_type r = None \<and> dr_event_version r = None \<and>
       dr_aggregate_type r = None \<and> dr_aggregate_id r = None) \<or>
      (dr_event_id r \<noteq> None \<and> dr_event_type r \<noteq> None \<and> dr_event_version r \<noteq> None \<and>
       dr_aggregate_type r \<noteq> None \<and> dr_aggregate_id r \<noteq> None)) \<and>
     ((\<not> dr_replay_eligible r \<and> dr_retained_canonical_value r = None \<and> dr_retained_header_event_type r = None \<and>
       dr_retained_header_event_version r = None \<and> dr_retained_header_aggregate_type r = None) \<or>
      (dr_replay_eligible r \<and> dr_retained_canonical_value r \<noteq> None \<and> dr_retained_header_event_type r \<noteq> None \<and>
       dr_retained_header_event_version r \<noteq> None \<and> dr_retained_header_aggregate_type r \<noteq> None \<and>
       dr_event_id r \<noteq> None)) \<and>
     (case dr_retained_canonical_value r of
        None \<Rightarrow> True | Some v \<Rightarrow> length (cd_encode cd v) \<le> 32768)"

definition replay_claim_checks :: "dead_letter_row \<Rightarrow> bool" where
  "replay_claim_checks r \<longleftrightarrow>
     d_replay_state r \<in> set REPLAY_STATES \<and>
     ((d_replay_claim_token r = None \<and> d_replay_lease_expires_at r = None) \<or>
      (d_replay_claim_token r \<noteq> None \<and> d_replay_lease_expires_at r \<noteq> None)) \<and>
     ((d_replay_state r = ''REPLAYING'' \<and> d_replay_claim_token r \<noteq> None) \<or>
      (d_replay_state r \<noteq> ''REPLAYING'' \<and> d_replay_claim_token r = None)) \<and>
     (case d_replay_claim_token r of None \<Rightarrow> True | Some t \<Rightarrow> hex64 t)"

definition dead_letter_checks :: "codec \<Rightarrow> dead_letter_row \<Rightarrow> bool" where
  "dead_letter_checks cd r \<longleftrightarrow>
     d_consumer_id r = RESEARCH_JOB_PROJECTION_CONSUMER_GROUP_V1 \<and>
     0 \<le> d_kafka_partition r \<and> 0 \<le> d_kafka_offset r \<and>
     d_failure_code r \<in> set ALLOWED_FAILURE_CODES_SQL \<and>
     1 \<le> d_processing_attempt_count r \<and> 1 \<le> d_dead_letter_delivery_count r \<and>
     retention_checks cd (d_retention r) \<and> replay_claim_checks r \<and>
     d_first_failed_at r \<le> d_last_failed_at r \<and> d_created_at r \<le> d_updated_at r"

section \<open>Applying an event\<close>

definition TERMINAL_EVENT_TYPES :: "string list" where
  "TERMINAL_EVENT_TYPES = [''research_job.completed'', ''research_job.failed'']"

definition projected_row :: "domain_event \<Rightarrow> timestamp \<Rightarrow> projection_row" where
  "projected_row event at' =
     \<lparr> p_research_job_id = ev_aggregate_id event, p_last_event_id = ev_event_id event,
       p_last_event_type = ev_event_type event, p_last_event_at = ev_occurred_at event, p_updated_at = at' \<rparr>"

definition apply_projection :: "consumer_db \<Rightarrow> domain_event \<Rightarrow> timestamp \<Rightarrow> consumer_exc + consumer_db" where
  "apply_projection db event at' =
     (case tget p_research_job_id (ev_aggregate_id event) (c_projection db) of
        Some existing \<Rightarrow>
          if p_last_event_type existing \<in> set TERMINAL_EVENT_TYPES
          then Inl (PoisonEventError LifecycleOrderViolationError)
          else
            let row = existing\<lparr> p_last_event_id := ev_event_id event, p_last_event_type := ev_event_type event,
                                p_last_event_at := ev_occurred_at event, p_updated_at := at' \<rparr>
            in bindE (flush_projection row) (\<lambda>_.
                 Inr (db\<lparr> c_projection := tput p_research_job_id row (c_projection db) \<rparr>))
      | None \<Rightarrow>
          bindE (flush_projection (projected_row event at')) (\<lambda>_.
            Inr (db\<lparr> c_projection := c_projection db @ [projected_row event at'] \<rparr>)))"

definition get_projection :: "consumer_db \<Rightarrow> string \<Rightarrow> projection_row option" where
  "get_projection db research_job_id = tget p_research_job_id research_job_id (c_projection db)"

datatype inbox_outcome = APPLIED | DUPLICATE

definition inbox_key :: "inbox_row \<Rightarrow> string \<times> uuid" where
  "inbox_key r = (i_consumer_id r, i_event_id r)"

text \<open>\<open>apply_effect\<close> is the callback: a function on the state of the open transaction.\<close>

definition record_and_apply ::
  "consumer_db \<Rightarrow> string \<Rightarrow> domain_event \<Rightarrow> int \<Rightarrow> int \<Rightarrow> timestamp \<Rightarrow>
   (consumer_db \<Rightarrow> domain_event \<Rightarrow> consumer_exc + consumer_db) \<Rightarrow> consumer_exc + (consumer_db \<times> inbox_outcome)" where
  "record_and_apply db consumer_id event kafka_partition kafka_offset at' apply_effect =
     (case tget inbox_key (consumer_id, ev_event_id event) (c_inbox db) of
        Some _ \<Rightarrow> Inr (db, DUPLICATE)
      | None \<Rightarrow>
          bindE (apply_effect db event) (\<lambda>db.
            let row = \<lparr> i_consumer_id = consumer_id, i_event_id = ev_event_id event, i_event_type = ev_event_type event,
                        i_received_at = at', i_kafka_partition = kafka_partition, i_kafka_offset = kafka_offset \<rparr>
            in if inbox_checks row then Inr (db\<lparr> c_inbox := c_inbox db @ [row] \<rparr>, APPLIED)
               else Inl ConsumerInboxConflictError))"

section \<open>Dead-lettering\<close>

text \<open>\<open>build_retention\<close>; the \<open>ValueError\<close> of a mismatched argument is \<open>None\<close>.\<close>

definition build_retention ::
  "codec \<Rightarrow> pydantic \<Rightarrow> (string \<Rightarrow> string) \<Rightarrow> string \<Rightarrow> string option \<Rightarrow> domain_event option \<Rightarrow>
   dead_letter_retention option" where
  "build_retention cd pd sha256_hex failure_code raw_value decoded_event =
     (let tier_a = (failure_code \<in> set TIER_A_ELIGIBLE_FAILURE_CODES);
          raw_bytes = (case raw_value of None \<Rightarrow> [] | Some b \<Rightarrow> b);
          untrusted = \<lparr> dr_event_id = None, dr_event_type = None, dr_event_version = None, dr_aggregate_type = None,
             dr_aggregate_id = None, dr_payload_sha256 = sha256_hex raw_bytes,
             dr_payload_byte_length = int (length raw_bytes), dr_retained_canonical_value = None,
             dr_retained_header_event_type = None, dr_retained_header_event_version = None,
             dr_retained_header_aggregate_type = None, dr_replay_eligible = False \<rparr>
      in if tier_a \<noteq> (decoded_event \<noteq> None) then None
         else case decoded_event of
           None \<Rightarrow> Some untrusted
         | Some e \<Rightarrow>
             let canonical_value = serialize_domain_event cd pd e;
                 identified = untrusted\<lparr> dr_event_id := Some (ev_event_id e), dr_event_type := Some (ev_event_type e),
                    dr_event_version := Some (ev_event_version e), dr_aggregate_type := Some (ev_aggregate_type e),
                    dr_aggregate_id := Some (ev_aggregate_id e) \<rparr>
             in if MAX_RETAINED_CANONICAL_VALUE_BYTES < length (cd_encode cd canonical_value) then Some identified
                else Some (identified\<lparr> dr_retained_canonical_value := Some canonical_value,
                       dr_retained_header_event_type := Some (ev_event_type e),
                       dr_retained_header_event_version := Some (py_int_str (ev_event_version e)),
                       dr_retained_header_aggregate_type := Some (ev_aggregate_type e), dr_replay_eligible := True \<rparr>))"

definition dead_letter_key :: "dead_letter_row \<Rightarrow> string \<times> int \<times> int" where
  "dead_letter_key r = (d_consumer_id r, d_kafka_partition r, d_kafka_offset r)"

text \<open>\<open>INSERT ... ON CONFLICT DO UPDATE\<close>: PostgreSQL evaluates the proposed row's types and checks first,
  then looks for a row with the same identity, then checks the row it writes.\<close>

definition upsert ::
  "codec \<Rightarrow> consumer_db \<Rightarrow> uuid \<Rightarrow> string \<Rightarrow> int \<Rightarrow> int \<Rightarrow> string \<Rightarrow> int \<Rightarrow> timestamp \<Rightarrow> dead_letter_retention \<Rightarrow>
   consumer_exc + (consumer_db \<times> uuid)" where
  "upsert cd db new_id consumer_id kafka_partition kafka_offset failure_code processing_attempt_count at' retention =
     (let row = \<lparr> d_id = new_id, d_consumer_id = consumer_id, d_kafka_partition = kafka_partition,
                  d_kafka_offset = kafka_offset, d_failure_code = failure_code,
                  d_processing_attempt_count = processing_attempt_count, d_dead_letter_delivery_count = 1,
                  d_first_failed_at = at', d_last_failed_at = at', d_retention = retention,
                  d_replay_state = ''PENDING'', d_replay_claim_token = None, d_replay_lease_expires_at = None,
                  d_created_at = at', d_updated_at = at' \<rparr>
      in if (case dr_aggregate_id retention of None \<Rightarrow> False | Some a \<Rightarrow> 128 < length a)
         then Inl StringDataRightTruncation
         else if \<not> dead_letter_checks cd row then Inl IntegrityError
         else case tget dead_letter_key (dead_letter_key row) (c_dead_letters db) of
           Some r \<Rightarrow>
             let r' = r\<lparr> d_dead_letter_delivery_count := d_dead_letter_delivery_count r + 1,
                         d_last_failed_at := at', d_updated_at := at' \<rparr>
             in if dead_letter_checks cd r'
                then Inr (db\<lparr> c_dead_letters := tput dead_letter_key r' (c_dead_letters db) \<rparr>, d_id r)
                else Inl IntegrityError
         | None \<Rightarrow>
             if tget d_id new_id (c_dead_letters db) \<noteq> None then Inl IntegrityError
             else Inr (db\<lparr> c_dead_letters := c_dead_letters db @ [row] \<rparr>, new_id))"

end
