(* ===== verification/Consumer_Exactly_Once.thy ===== *)
theory Consumer_Exactly_Once
  imports Consumer_Store
begin

text \<open>
  Exactly-once effect over at-least-once delivery.  The contract between the inbox and the effect it
  records (\<open>ApplyEffect\<close> and \<open>ProjectionPort\<close> of \<open>consumer/ports.py\<close>) is the locale \<open>inbox_effect\<close>;
  the redelivery theorem is proved from the contract and instantiated for the lifecycle projection.
\<close>

section \<open>One delivery\<close>

record delivery =
  dl_event :: domain_event
  dl_partition :: int
  dl_offset :: int
  dl_at :: timestamp

text \<open>One transaction of the runner, for a given effect: an exception rolls it back.\<close>

definition deliver_with ::
  "(consumer_db \<Rightarrow> domain_event \<Rightarrow> timestamp \<Rightarrow> consumer_exc + consumer_db) \<Rightarrow> consumer_db \<Rightarrow> delivery \<Rightarrow> consumer_db" where
  "deliver_with effect db x =
     (case record_and_apply db RESEARCH_JOB_PROJECTION_CONSUMER_GROUP_V1 (dl_event x) (dl_partition x) (dl_offset x)
             (dl_at x) (\<lambda>s e. effect s e (dl_at x)) of
        Inl _ \<Rightarrow> db | Inr (db', _) \<Rightarrow> db')"

text \<open>What decoding and Kafka guarantee of a delivery.\<close>

definition delivery_ok :: "delivery \<Rightarrow> bool" where
  "delivery_ok x \<longleftrightarrow> event_ok (dl_event x) \<and> 0 \<le> dl_partition x \<and> 0 \<le> dl_offset x"

definition recorded :: "consumer_db \<Rightarrow> domain_event \<Rightarrow> bool" where
  "recorded db e \<longleftrightarrow> (RESEARCH_JOB_PROJECTION_CONSUMER_GROUP_V1, ev_event_id e) \<in> set (map inbox_key (c_inbox db))"

text \<open>The first delivery of each event; \<open>seen\<close> are the ids delivered before.\<close>

fun first_deliveries :: "uuid list \<Rightarrow> delivery list \<Rightarrow> delivery list" where
  "first_deliveries seen [] = []"
| "first_deliveries seen (x # xs) =
     (if ev_event_id (dl_event x) \<in> set seen then first_deliveries seen xs
      else x # first_deliveries (ev_event_id (dl_event x) # seen) xs)"

definition same_ids_same_events :: "delivery list \<Rightarrow> bool" where
  "same_ids_same_events xs \<longleftrightarrow>
     list_all (\<lambda>x. list_all (\<lambda>y. ev_event_id (dl_event x) = ev_event_id (dl_event y) \<longrightarrow> dl_event x = dl_event y) xs) xs"

section \<open>The contract of an effect\<close>

locale inbox_effect =
  fixes effect :: "consumer_db \<Rightarrow> domain_event \<Rightarrow> timestamp \<Rightarrow> consumer_exc + consumer_db"
    and ok :: "consumer_db \<Rightarrow> bool"
    and refused :: "consumer_db \<Rightarrow> domain_event \<Rightarrow> bool"
  assumes effect_inbox: "effect db e t = Inr db' \<Longrightarrow> c_inbox db' = c_inbox db"
    and effect_Inl_iff: "ok db \<Longrightarrow> event_ok e \<Longrightarrow> (\<exists>x. effect db e t = Inl x) \<longleftrightarrow> refused db e"
    and effect_ok: "ok db \<Longrightarrow> event_ok e \<Longrightarrow> effect db e t = Inr db' \<Longrightarrow> ok db'"
    and refused_stable: "ok db \<Longrightarrow> event_ok e' \<Longrightarrow> effect db e' t = Inr db' \<Longrightarrow> refused db e \<Longrightarrow> refused db' e"
    and ok_inbox: "ok (db\<lparr> c_inbox := rows \<rparr>) = ok db"
    and refused_inbox: "refused (db\<lparr> c_inbox := rows \<rparr>) e = refused db e"
begin

lemma deliver_cases:
  assumes "ok db" "delivery_ok x"
  obtains (again) "recorded db (dl_event x)" "deliver_with effect db x = db"
  | (rejected) "\<not> recorded db (dl_event x)" "refused db (dl_event x)" "deliver_with effect db x = db"
  | (applied) db' row where "\<not> recorded db (dl_event x)" "\<not> refused db (dl_event x)"
      "effect db (dl_event x) (dl_at x) = Inr db'" "deliver_with effect db x = db'\<lparr> c_inbox := c_inbox db @ [row] \<rparr>"
      "inbox_key row = (RESEARCH_JOB_PROJECTION_CONSUMER_GROUP_V1, ev_event_id (dl_event x))" "inbox_checks row"
proof (cases "recorded db (dl_event x)")
  case True
  then have "tget inbox_key (RESEARCH_JOB_PROJECTION_CONSUMER_GROUP_V1, ev_event_id (dl_event x)) (c_inbox db) \<noteq> None"
    by (simp add: recorded_def tget_None_iff)
  then have "deliver_with effect db x = db" by (auto simp: deliver_with_def record_and_apply_def)
  with True show ?thesis by (rule again)
next
  case False
  then have none: "tget inbox_key (RESEARCH_JOB_PROJECTION_CONSUMER_GROUP_V1, ev_event_id (dl_event x)) (c_inbox db) = None"
    by (simp add: recorded_def tget_None_iff)
  show ?thesis
  proof (cases "effect db (dl_event x) (dl_at x)")
    case (Inl err)
    then have "refused db (dl_event x)" using effect_Inl_iff[of db "dl_event x" "dl_at x"] assms by (auto simp: delivery_ok_def)
    moreover have "deliver_with effect db x = db" using none Inl by (simp add: deliver_with_def record_and_apply_def)
    ultimately show ?thesis using False by (intro rejected)
  next
    case (Inr db')
    then have "\<not> refused db (dl_event x)"
      using effect_Inl_iff[of db "dl_event x" "dl_at x"] assms by (auto simp: delivery_ok_def)
    moreover have "inbox_checks \<lparr> i_consumer_id = RESEARCH_JOB_PROJECTION_CONSUMER_GROUP_V1,
        i_event_id = ev_event_id (dl_event x), i_event_type = ev_event_type (dl_event x), i_received_at = dl_at x,
        i_kafka_partition = dl_partition x, i_kafka_offset = dl_offset x \<rparr>"
      using assms(2) payload_type_supported by (simp add: inbox_checks_def delivery_ok_def ev_event_type_def)
    ultimately show ?thesis
      using False none Inr effect_inbox[OF Inr]
      by (intro applied) (simp_all add: deliver_with_def record_and_apply_def inbox_key_def)
  qed
qed

definition settled :: "consumer_db \<Rightarrow> domain_event \<Rightarrow> bool" where
  "settled db e \<longleftrightarrow> recorded db e \<or> refused db e"

lemma deliver_ok: "ok db \<Longrightarrow> delivery_ok x \<Longrightarrow> ok (deliver_with effect db x)"
  by (rule deliver_cases[of db x]) (auto simp: ok_inbox delivery_ok_def intro: effect_ok)

lemma deliver_settles: "ok db \<Longrightarrow> delivery_ok x \<Longrightarrow> settled (deliver_with effect db x) (dl_event x)"
  by (rule deliver_cases[of db x]) (auto simp: settled_def recorded_def)

lemma deliver_keeps_settled:
  "ok db \<Longrightarrow> delivery_ok x \<Longrightarrow> settled db e \<Longrightarrow> settled (deliver_with effect db x) e"
  by (rule deliver_cases[of db x]) (auto simp: settled_def recorded_def refused_inbox delivery_ok_def dest: refused_stable)

lemma deliver_settled:
  "ok db \<Longrightarrow> delivery_ok x \<Longrightarrow> settled db (dl_event x) \<Longrightarrow> deliver_with effect db x = db"
  by (rule deliver_cases[of db x]) (auto simp: settled_def)

lemma deliveries_ok: "ok db \<Longrightarrow> list_all delivery_ok xs \<Longrightarrow> ok (fold (\<lambda>x d. deliver_with effect d x) xs db)"
  by (induction xs arbitrary: db) (auto intro: deliver_ok)

text \<open>Redelivering has no effect: only first deliveries count.\<close>

lemma redelivery_drops:
  assumes "ok db" "list_all delivery_ok xs" "same_ids_same_events xs"
    "\<And>x. x \<in> set xs \<Longrightarrow> ev_event_id (dl_event x) \<in> set seen \<Longrightarrow> settled db (dl_event x)"
  shows "fold (\<lambda>x d. deliver_with effect d x) xs db =
    fold (\<lambda>x d. deliver_with effect d x) (first_deliveries seen xs) db"
  using assms
proof (induction xs arbitrary: db seen)
  case (Cons x xs)
  have same: "same_ids_same_events xs" using Cons.prems(3) by (auto simp: same_ids_same_events_def list_all_iff)
  have xs: "list_all delivery_ok xs" and x: "delivery_ok x" using Cons.prems(2) by auto
  show ?case
  proof (cases "ev_event_id (dl_event x) \<in> set seen")
    case True
    then have "deliver_with effect db x = db"
      using deliver_settled[OF Cons.prems(1) x] Cons.prems(4)[of x] by simp
    then show ?thesis using True Cons.IH[OF Cons.prems(1) xs same, of seen] Cons.prems(4) by simp
  next
    case False
    have later: "settled (deliver_with effect db x) (dl_event y)"
      if y: "y \<in> set xs" "ev_event_id (dl_event y) \<in> set (ev_event_id (dl_event x) # seen)" for y
    proof (cases "ev_event_id (dl_event y) = ev_event_id (dl_event x)")
      case True
      then have "dl_event y = dl_event x"
        using Cons.prems(3) y(1) by (auto simp: same_ids_same_events_def list_all_iff)
      then show ?thesis using deliver_settles[OF Cons.prems(1) x] by simp
    next
      case False
      then show ?thesis using y Cons.prems(4)[of y] by (intro deliver_keeps_settled[OF Cons.prems(1) x]) simp
    qed
    have "fold (\<lambda>x d. deliver_with effect d x) xs (deliver_with effect db x) = fold (\<lambda>x d. deliver_with effect d x)
        (first_deliveries (ev_event_id (dl_event x) # seen) xs) (deliver_with effect db x)"
      by (rule Cons.IH[OF deliver_ok[OF Cons.prems(1) x] xs same later])
    then show ?thesis using False by simp
  qed
qed simp

end

section \<open>The lifecycle projection keeps the contract\<close>

definition projection_ok :: "consumer_db \<Rightarrow> bool" where
  "projection_ok db \<longleftrightarrow>
     distinct (map p_research_job_id (c_projection db)) \<and>
     list_all (\<lambda>r. flush_projection r = Inr ()) (c_projection db)"

definition lifecycle_refuses :: "consumer_db \<Rightarrow> domain_event \<Rightarrow> bool" where
  "lifecycle_refuses db e \<longleftrightarrow>
     128 < length (ev_aggregate_id e) \<or>
     (case get_projection db (ev_aggregate_id e) of
        None \<Rightarrow> False | Some r \<Rightarrow> p_last_event_type r \<in> set TERMINAL_EVENT_TYPES)"

lemma flush_projection_Inr [bind_simps]:
  "flush_projection r = Inr u \<longleftrightarrow>
     length (p_research_job_id r) \<le> 128 \<and> p_last_event_type r \<in> set SUPPORTED_EVENT_TYPES"
  by (auto simp: flush_projection_def)

lemma projected_row_sel [simp]:
  "p_research_job_id (projected_row e t) = ev_aggregate_id e" "p_last_event_id (projected_row e t) = ev_event_id e"
  "p_last_event_type (projected_row e t) = ev_event_type e" "p_last_event_at (projected_row e t) = ev_occurred_at e"
  by (simp_all add: projected_row_def)

lemma updated_is_projected:
  "p_research_job_id r = ev_aggregate_id e \<Longrightarrow>
   r\<lparr> p_last_event_id := ev_event_id e, p_last_event_type := ev_event_type e,
      p_last_event_at := ev_occurred_at e, p_updated_at := t \<rparr> = projected_row e t"
  by (cases r) (simp add: projected_row_def)

text \<open>A successful application writes the event's row over the job's row or adds it.\<close>

lemma apply_projection_cases:
  assumes e: "event_ok e" and app: "apply_projection db e t = Inr db'"
  shows "case get_projection db (ev_aggregate_id e) of
       None \<Rightarrow> length (ev_aggregate_id e) \<le> 128 \<and> db' = db\<lparr> c_projection := c_projection db @ [projected_row e t] \<rparr>
     | Some r \<Rightarrow> p_last_event_type r \<notin> set TERMINAL_EVENT_TYPES \<and> length (ev_aggregate_id e) \<le> 128 \<and>
         db' = db\<lparr> c_projection := tput p_research_job_id (projected_row e t) (c_projection db) \<rparr>"
proof (cases "get_projection db (ev_aggregate_id e)")
  case None
  with app show ?thesis by (simp add: apply_projection_def get_projection_def bind_simps)
next
  case (Some r)
  then have key: "p_research_job_id r = ev_aggregate_id e" by (auto simp: get_projection_def dest: tget_Some_key)
  from app Some show ?thesis
    by (simp add: apply_projection_def get_projection_def bind_simps Let_def updated_is_projected[OF key] split: if_splits)
qed

lemma get_projection_mem:
  assumes "projection_ok db" "get_projection db j = Some r"
  shows "p_research_job_id r = j \<and> length j \<le> 128 \<and> p_last_event_type r \<in> set SUPPORTED_EVENT_TYPES"
  using assms tget_Some_key[of p_research_job_id j "c_projection db" r] tget_Some_mem[of p_research_job_id j "c_projection db" r]
  by (auto simp: projection_ok_def get_projection_def list_all_iff bind_simps)

lemma projected_row_flushes:
  "length (ev_aggregate_id e) \<le> 128 \<Longrightarrow> flush_projection (projected_row e t) = Inr ()"
  using payload_type_supported by (simp add: bind_simps projected_row_def ev_event_type_def)

lemma apply_projection_ok:
  assumes "projection_ok db" "event_ok e" "apply_projection db e t = Inr db'"
  shows "projection_ok db'"
  using apply_projection_cases[OF assms(2,3)] assms(1)
  by (auto simp: projection_ok_def get_projection_def list_all_iff tkeys_tput tget_None_iff bind_simps
      ev_event_type_def payload_type_supported dest!: tput_mem_cases split: option.splits)

lemma get_projection_applied:
  assumes "event_ok e" "apply_projection db e t = Inr db'"
  shows "get_projection db' j = (if j = ev_aggregate_id e then Some (projected_row e t) else get_projection db j)"
proof (cases "get_projection db (ev_aggregate_id e)")
  case None
  with apply_projection_cases[OF assms] show ?thesis
    by (auto simp: get_projection_def tget_append split: option.split)
next
  case (Some r)
  with apply_projection_cases[OF assms] show ?thesis by (auto simp: get_projection_def tget_tput)
qed

lemma lifecycle_refuses_iff:
  assumes "projection_ok db" "event_ok e"
  shows "(\<exists>x. apply_projection db e t = Inl x) \<longleftrightarrow> lifecycle_refuses db e"
proof
  assume "\<exists>x. apply_projection db e t = Inl x"
  then show "lifecycle_refuses db e"
    using get_projection_mem[OF assms(1), of "ev_aggregate_id e"] payload_type_supported[of "ev_payload e"]
    by (auto simp: lifecycle_refuses_def apply_projection_def get_projection_def flush_projection_def Let_def
        bind_simps projected_row_def ev_event_type_def split: option.splits if_splits)
next
  assume r: "lifecycle_refuses db e"
  show "\<exists>x. apply_projection db e t = Inl x"
  proof (cases "apply_projection db e t")
    case (Inr db')
    with r apply_projection_cases[OF assms(2) this] show ?thesis
      by (auto simp: lifecycle_refuses_def split: option.splits)
  qed simp
qed

interpretation projection_effect: inbox_effect apply_projection projection_ok lifecycle_refuses
proof unfold_locales
  fix db db' e e' t and rows :: "inbox_row list"
  show "c_inbox db' = c_inbox db" if "apply_projection db e t = Inr db'"
    using that by (auto simp: apply_projection_def bind_simps Let_def split: option.splits if_splits)
  show "projection_ok db \<Longrightarrow> event_ok e \<Longrightarrow> (\<exists>x. apply_projection db e t = Inl x) \<longleftrightarrow> lifecycle_refuses db e"
    by (rule lifecycle_refuses_iff)
  show "projection_ok db \<Longrightarrow> event_ok e \<Longrightarrow> apply_projection db e t = Inr db' \<Longrightarrow> projection_ok db'"
    by (rule apply_projection_ok)
  show "lifecycle_refuses db' e"
    if "projection_ok db" "event_ok e'" "apply_projection db e' t = Inr db'" "lifecycle_refuses db e"
    using that(4) apply_projection_cases[OF that(2,3)] get_projection_applied[OF that(2,3), of "ev_aggregate_id e"]
    by (auto simp: lifecycle_refuses_def split: option.splits if_splits)
  show "projection_ok (db\<lparr> c_inbox := rows \<rparr>) = projection_ok db" by (simp add: projection_ok_def)
  show "lifecycle_refuses (db\<lparr> c_inbox := rows \<rparr>) e = lifecycle_refuses db e"
    by (simp add: lifecycle_refuses_def get_projection_def)
qed

section \<open>What the projection shows\<close>

definition deliver :: "consumer_db \<Rightarrow> delivery \<Rightarrow> consumer_db" where
  "deliver = deliver_with apply_projection"

definition deliver_all :: "delivery list \<Rightarrow> consumer_db \<Rightarrow> consumer_db" where
  "deliver_all xs db = fold (\<lambda>x d. deliver d x) xs db"

definition empty_db :: consumer_db where
  "empty_db = \<lparr> c_inbox = [], c_projection = [], c_dead_letters = [], c_attempts = [] \<rparr>"

text \<open>The specification: of a job's events, in order, those up to and including the first terminal
  one are visible, and the last visible one is shown.\<close>

definition terminal_event :: "domain_event \<Rightarrow> bool" where
  "terminal_event e \<longleftrightarrow> ev_event_type e \<in> set TERMINAL_EVENT_TYPES"

fun until_terminal :: "domain_event list \<Rightarrow> domain_event list" where
  "until_terminal [] = []"
| "until_terminal (e # es) = (if terminal_event e then [e] else e # until_terminal es)"

definition shown_event :: "domain_event list \<Rightarrow> domain_event option" where
  "shown_event es = (if until_terminal es = [] then None else Some (last (until_terminal es)))"

definition job_events :: "string \<Rightarrow> delivery list \<Rightarrow> domain_event list" where
  "job_events j xs = filter (\<lambda>e. ev_aggregate_id e = j) (map dl_event xs)"

definition shows_event :: "projection_row \<Rightarrow> domain_event \<Rightarrow> bool" where
  "shows_event r e \<longleftrightarrow>
     p_research_job_id r = ev_aggregate_id e \<and> p_last_event_id r = ev_event_id e \<and>
     p_last_event_type r = ev_event_type e \<and> p_last_event_at r = ev_occurred_at e"

definition projection_shows :: "consumer_db \<Rightarrow> string \<Rightarrow> domain_event list \<Rightarrow> bool" where
  "projection_shows db j es =
     (case get_projection db j of None \<Rightarrow> shown_event es = None
      | Some r \<Rightarrow> (case shown_event es of None \<Rightarrow> False | Some e \<Rightarrow> shows_event r e))"

lemma until_terminal_eq_Nil [simp]: "until_terminal es = [] \<longleftrightarrow> es = []"
  by (cases es) auto

lemma shown_event_snoc:
  "shown_event (es @ [e]) =
     (case shown_event es of None \<Rightarrow> Some e | Some e' \<Rightarrow> if terminal_event e' then Some e' else Some e)"
  by (induction es) (auto simp: shown_event_def)

lemma shows_event_terminal:
  "shows_event r e \<Longrightarrow> p_last_event_type r \<in> set TERMINAL_EVENT_TYPES \<longleftrightarrow> terminal_event e"
  by (simp add: shows_event_def terminal_event_def)

lemma shows_projected [simp]: "shows_event (projected_row e t) e"
  by (simp add: shows_event_def)

lemma job_events_snoc [simp]:
  "job_events j (xs @ [x]) = job_events j xs @ (if ev_aggregate_id (dl_event x) = j then [dl_event x] else [])"
  by (simp add: job_events_def)

lemma get_projection_inbox [simp]: "get_projection (db\<lparr> c_inbox := rows \<rparr>) j = get_projection db j"
  by (simp add: get_projection_def)

lemma projection_shows_inbox [simp]: "projection_shows (db\<lparr> c_inbox := rows \<rparr>) j es = projection_shows db j es"
  by (simp add: projection_shows_def)

lemma projection_shows_cong:
  "shown_event es = shown_event es' \<Longrightarrow> projection_shows db j es = projection_shows db j es'"
  by (simp only: projection_shows_def)

lemma projection_shows_step:
  assumes "projection_ok db" "delivery_ok x" "\<not> recorded db (dl_event x)" "length j \<le> 128"
    "projection_shows db j es"
  shows "projection_shows (deliver db x) j (es @ (if ev_aggregate_id (dl_event x) = j then [dl_event x] else []))"
  using assms(1,2)
proof (rule projection_effect.deliver_cases)
  assume r: "lifecycle_refuses db (dl_event x)" and same: "deliver_with apply_projection db x = db"
  have "shown_event (es @ [dl_event x]) = shown_event es" if "ev_aggregate_id (dl_event x) = j"
    using r that assms(4,5) shows_event_terminal
    by (auto simp: lifecycle_refuses_def projection_shows_def shown_event_snoc split: option.splits)
  then show ?thesis using same assms(5) projection_shows_cong[of "es @ [dl_event x]" es db j]
    by (cases "ev_aggregate_id (dl_event x) = j") (simp_all add: deliver_def)
next
  fix db' row
  assume nr: "\<not> lifecycle_refuses db (dl_event x)" and app: "apply_projection db (dl_event x) (dl_at x) = Inr db'"
    and eq: "deliver_with apply_projection db x = db'\<lparr> c_inbox := c_inbox db @ [row] \<rparr>"
  have e: "event_ok (dl_event x)" using assms(2) by (simp add: delivery_ok_def)
  show ?thesis
  proof (cases "ev_aggregate_id (dl_event x) = j")
    case True
    then have "shown_event (es @ [dl_event x]) = Some (dl_event x)"
      using nr assms(5) shows_event_terminal
      by (auto simp: lifecycle_refuses_def projection_shows_def shown_event_snoc split: option.splits)
    then show ?thesis using True eq get_projection_applied[OF e app, of j] by (simp add: deliver_def projection_shows_def)
  next
    case False
    then show ?thesis using assms(5) eq get_projection_applied[OF e app, of j] by (simp add: deliver_def projection_shows_def)
  qed
qed (use assms(3) in simp)

lemma recorded_deliver:
  assumes "projection_ok db" "delivery_ok x" "recorded (deliver db x) e"
  shows "recorded db e \<or> ev_event_id e = ev_event_id (dl_event x)"
  by (rule projection_effect.deliver_cases[OF assms(1,2)]) (use assms(3) in \<open>auto simp: deliver_def recorded_def\<close>)

lemma distinct_deliveries_shown:
  assumes "list_all delivery_ok xs" "distinct (map (ev_event_id \<circ> dl_event) xs)" "length j \<le> 128"
  shows "projection_shows (deliver_all xs empty_db) j (job_events j xs)"
proof -
  have "projection_ok (deliver_all xs empty_db) \<and>
      (\<forall>e. recorded (deliver_all xs empty_db) e \<longrightarrow> ev_event_id e \<in> set (map (ev_event_id \<circ> dl_event) xs)) \<and>
      projection_shows (deliver_all xs empty_db) j (job_events j xs)"
    using assms(1,2)
  proof (induction xs rule: rev_induct)
    case Nil
    then show ?case
      by (simp add: deliver_all_def empty_db_def projection_ok_def recorded_def projection_shows_def get_projection_def
          job_events_def shown_event_def)
  next
    case (snoc x xs)
    let ?db = "deliver_all xs empty_db"
    have IH: "projection_ok ?db" "\<forall>e. recorded ?db e \<longrightarrow> ev_event_id e \<in> set (map (ev_event_id \<circ> dl_event) xs)"
      "projection_shows ?db j (job_events j xs)" and x: "delivery_ok x" using snoc by auto
    have step: "deliver_all (xs @ [x]) empty_db = deliver ?db x" by (simp add: deliver_all_def)
    have new: "\<not> recorded ?db (dl_event x)" using IH(2) snoc.prems(2) by auto
    show ?case
      using projection_shows_step[OF IH(1) x new assms(3) IH(3)] projection_effect.deliver_ok[OF IH(1) x]
        recorded_deliver[OF IH(1) x] IH(2) by (auto simp: step deliver_def)
  qed
  then show ?thesis by blast
qed

lemma first_deliveries_props:
  "distinct (map (ev_event_id \<circ> dl_event) (first_deliveries seen xs))"
  "set (first_deliveries seen xs) \<subseteq> set xs"
  "set (map (ev_event_id \<circ> dl_event) (first_deliveries seen xs)) \<inter> set seen = {}"
  by (induction seen xs rule: first_deliveries.induct) auto

lemma deliver_all_first:
  assumes "projection_ok db" "list_all delivery_ok xs" "same_ids_same_events xs"
  shows "deliver_all xs db = deliver_all (first_deliveries [] xs) db"
  using projection_effect.redelivery_drops[OF assms, of "[]"] by (simp add: deliver_all_def deliver_def)

section \<open>Properties\<close>


definition w_created :: domain_event where
  "w_created = \<lparr> ev_event_id = ''u0'', ev_event_version = 1, ev_aggregate_type = ''research_job'',
     ev_aggregate_id = ''job-1'', ev_occurred_at = 40, ev_payload = ResearchJobCreatedPayload ''job-1'' 40 \<rparr>"

definition w_deliveries :: "delivery list" where
  "w_deliveries =
     [\<lparr> dl_event = w_created, dl_partition = 0, dl_offset = 0, dl_at = 60 \<rparr>,
      \<lparr> dl_event = w_event, dl_partition = 0, dl_offset = 1, dl_at = 61 \<rparr>,
      \<lparr> dl_event = w_created, dl_partition = 0, dl_offset = 0, dl_at = 62 \<rparr>,
      \<lparr> dl_event = w_event, dl_partition = 0, dl_offset = 1, dl_at = 63 \<rparr>]"

lemma w_deliveries_ok:
  "projection_ok empty_db" "list_all delivery_ok w_deliveries" "same_ids_same_events w_deliveries"
  by code_simp+


text \<open>
  C7. The projection refines the abstract history: starting from empty tables, after any sequence
  of deliveries with redeliveries, a job's row shows exactly the last of its events up to and
  including the first terminal one (and there is no row before its first event), so a terminal
  state is never overwritten and nothing is lost before it.
\<close>

theorem projection_shows_last_visible_event:
  assumes "list_all delivery_ok xs" "same_ids_same_events xs" "length j \<le> 128"
  shows "projection_shows (deliver_all xs empty_db) j (job_events j (first_deliveries [] xs))"
proof -
  have "list_all delivery_ok (first_deliveries [] xs)"
    using assms(1) first_deliveries_props(2)[of "[]" xs] by (auto simp: list_all_iff)
  then have "projection_shows (deliver_all (first_deliveries [] xs) empty_db) j (job_events j (first_deliveries [] xs))"
    using first_deliveries_props(1) assms(3) by (rule distinct_deliveries_shown)
  then show ?thesis using deliver_all_first[OF w_deliveries_ok(1) assms(1,2)] by simp
qed

theorem projection_shows_last_visible_event_witness:
  "\<exists>r. get_projection (deliver_all w_deliveries empty_db) ''job-1'' = Some r \<and> p_last_event_type r = ''research_job.failed''"
proof -
  have s: "shown_event (job_events ''job-1'' (first_deliveries [] w_deliveries)) = Some w_event" by code_simp
  have t: "ev_event_type w_event = ''research_job.failed''" by code_simp
  show ?thesis
    using projection_shows_last_visible_event [OF w_deliveries_ok(2,3), of "''job-1''"]
    by (auto simp: projection_shows_def s t shows_event_def split: option.splits)
qed

end
