(* ===== verification/Dead_Letters.thy ===== *)
theory Dead_Letters
  imports Consumer_Exactly_Once Lease_Fence
begin

text \<open>
  Dead letters and their operator replay: what \<open>consumer/retention.py\<close> retains, the dead-letter
  \<open>upsert\<close>, and the three transactions of \<open>DeadLetterReplayService\<close> in
  \<open>src/src/atlas/persistence/repositories/consumer_dead_letter.py\<close> (TX1 claim, TX2 apply, TX3 record
  failure).  Each transaction is a function from the committed tables to the committed tables and the
  value it returns or the exception it raises; the transactions of different operators interleave
  freely (\<open>replay_step\<close>).
\<close>

section \<open>Requests and results\<close>

record replay_request =
  rq_dead_letter_id :: uuid
  rq_idempotency_key :: string
  rq_actor_id :: string
  rq_operator_reason :: string
  rq_request_fingerprint :: string

datatype replay_outcome =
  OUTCOME_IN_PROGRESS | OUTCOME_APPLIED | OUTCOME_DUPLICATE | OUTCOME_FAILED | OUTCOME_LOST_OWNERSHIP

fun outcome_value :: "replay_outcome \<Rightarrow> string" where
  "outcome_value OUTCOME_IN_PROGRESS = ''IN_PROGRESS''"
| "outcome_value OUTCOME_APPLIED = ''APPLIED''"
| "outcome_value OUTCOME_DUPLICATE = ''DUPLICATE''"
| "outcome_value OUTCOME_FAILED = ''FAILED''"
| "outcome_value OUTCOME_LOST_OWNERSHIP = ''LOST_OWNERSHIP''"

text \<open>\<open>ReplayOutcome(status.lower())\<close>; \<open>None\<close> is the enum's \<open>ValueError\<close>.\<close>

definition outcome_of :: "string \<Rightarrow> replay_outcome option" where
  "outcome_of s = find (\<lambda>v. outcome_value v = s)
     [OUTCOME_IN_PROGRESS, OUTCOME_APPLIED, OUTCOME_DUPLICATE, OUTCOME_FAILED, OUTCOME_LOST_OWNERSHIP]"

definition ATTEMPT_STATUSES :: "string list" where
  "ATTEMPT_STATUSES = [''IN_PROGRESS'', ''APPLIED'', ''DUPLICATE'', ''FAILED'', ''LOST_OWNERSHIP'']"

record replay_claim =
  cl_dead_letter_id :: uuid
  cl_attempt_id :: uuid
  cl_ownership_token :: string

datatype replay_error =
    ReplayNotFoundError | ReplayConflictError | ReplayNotEligibleError | ReplayAlreadyClaimedError
  | ReplayExpiredAttemptError | ReplayOwnershipLostError | ReplayUnexpected consumer_exc

text \<open>\<open>ReplayResult\<close> holds the attempt and the outcome.\<close>

datatype claim_result = Claimed replay_claim | Finished uuid replay_outcome

definition attempt_checks :: "replay_attempt \<Rightarrow> bool" where
  "attempt_checks a \<longleftrightarrow>
     a_status a \<in> set ATTEMPT_STATUSES \<and> (a_status a = ''IN_PROGRESS'' \<longleftrightarrow> a_finished_at a = None) \<and>
     sql_nonblank (a_actor_id a) \<and>
     sql_nonblank (a_operator_reason a) \<and> length (a_operator_reason a) \<le> 512 \<and>
     sql_nonblank (a_idempotency_key a) \<and> length (a_idempotency_key a) \<le> 256 \<and>
     hex64 (a_request_fingerprint a) \<and> hex64 (a_ownership_token a) \<and>
     (case a_finished_at a of None \<Rightarrow> True | Some f \<Rightarrow> a_created_at a \<le> f)"

section \<open>Claims\<close>

definition UNCLAIMED_REPLAYABLE_STATES :: "string list" where
  "UNCLAIMED_REPLAYABLE_STATES = [''PENDING'', ''REPLAY_FAILED'']"

definition replay_lease_expired :: "dead_letter_row \<Rightarrow> timestamp \<Rightarrow> bool" where
  "replay_lease_expired r now \<longleftrightarrow>
     d_replay_state r = ''REPLAYING'' \<and> d_replay_claim_token r \<noteq> None \<and>
     (case d_replay_lease_expires_at r of None \<Rightarrow> False | Some l \<Rightarrow> l < now)"

definition replay_claimable :: "dead_letter_row \<Rightarrow> timestamp \<Rightarrow> bool" where
  "replay_claimable r now \<longleftrightarrow>
     dr_replay_eligible (d_retention r) \<and>
     (d_replay_state r \<in> set UNCLAIMED_REPLAYABLE_STATES \<or> replay_lease_expired r now)"

definition owns_replay :: "dead_letter_row \<Rightarrow> string \<Rightarrow> timestamp \<Rightarrow> bool" where
  "owns_replay r tok now \<longleftrightarrow>
     d_replay_state r = ''REPLAYING'' \<and> d_replay_claim_token r = Some tok \<and>
     (case d_replay_lease_expires_at r of None \<Rightarrow> False | Some l \<Rightarrow> now \<le> l)"

definition finish_attempt :: "string \<Rightarrow> timestamp \<Rightarrow> replay_attempt \<Rightarrow> replay_attempt" where
  "finish_attempt status now a = a\<lparr> a_status := status, a_finished_at := Some now \<rparr>"

definition claimed_letter :: "string \<Rightarrow> timestamp \<Rightarrow> timestamp \<Rightarrow> dead_letter_row \<Rightarrow> dead_letter_row" where
  "claimed_letter tok lease now r =
     r\<lparr> d_replay_claim_token := Some tok, d_replay_lease_expires_at := Some lease,
        d_replay_state := ''REPLAYING'', d_updated_at := now \<rparr>"

definition released_letter :: "string \<Rightarrow> timestamp \<Rightarrow> dead_letter_row \<Rightarrow> dead_letter_row" where
  "released_letter state now r =
     r\<lparr> d_replay_state := state, d_replay_claim_token := None, d_replay_lease_expires_at := None, d_updated_at := now \<rparr>"

definition attempt_key :: "replay_attempt \<Rightarrow> uuid \<times> string" where
  "attempt_key a = (a_dead_letter_id a, a_idempotency_key a)"

text \<open>Commit of a transaction: a row that breaks a constraint raises \<open>IntegrityError\<close> and rolls back.\<close>

definition commit_letter :: "codec \<Rightarrow> dead_letter_row \<Rightarrow> consumer_db \<Rightarrow> consumer_exc + consumer_db" where
  "commit_letter cd r db =
     (if dead_letter_checks cd r then Inr (db\<lparr> c_dead_letters := tput d_id r (c_dead_letters db) \<rparr>) else Inl IntegrityError)"

definition commit_attempt :: "replay_attempt \<Rightarrow> consumer_db \<Rightarrow> consumer_exc + consumer_db" where
  "commit_attempt a db =
     (if attempt_checks a then Inr (db\<lparr> c_attempts := tput a_id a (c_attempts db) \<rparr>) else Inl IntegrityError)"

text \<open>The bulk \<open>UPDATE\<close> of TX1 on the previous token's attempts.\<close>

definition lose_attempts :: "uuid \<Rightarrow> string option \<Rightarrow> timestamp \<Rightarrow> consumer_db \<Rightarrow> consumer_exc + consumer_db" where
  "lose_attempts dead_letter_id previous_token now db =
     (let P = (\<lambda>a. a_dead_letter_id a = dead_letter_id \<and> Some (a_ownership_token a) = previous_token \<and>
                   a_status a = ''IN_PROGRESS'')
      in if list_all (\<lambda>a. P a \<longrightarrow> attempt_checks (finish_attempt ''LOST_OWNERSHIP'' now a)) (c_attempts db)
         then Inr (db\<lparr> c_attempts := tupdate P (finish_attempt ''LOST_OWNERSHIP'' now) (c_attempts db) \<rparr>)
         else Inl IntegrityError)"

definition insert_attempt :: "replay_attempt \<Rightarrow> consumer_db \<Rightarrow> consumer_exc + consumer_db" where
  "insert_attempt a db =
     (if 128 < length (a_actor_id a) then Inl StringDataRightTruncation
      else if \<not> attempt_checks a \<or> tget a_id (a_id a) (c_attempts db) \<noteq> None \<or>
              tget attempt_key (attempt_key a) (c_attempts db) \<noteq> None
      then Inl IntegrityError
      else Inr (db\<lparr> c_attempts := c_attempts db @ [a] \<rparr>))"

definition new_attempt :: "replay_request \<Rightarrow> uuid \<Rightarrow> string \<Rightarrow> timestamp \<Rightarrow> replay_attempt" where
  "new_attempt rq attempt_id tok now =
     \<lparr> a_id = attempt_id, a_dead_letter_id = rq_dead_letter_id rq, a_idempotency_key = rq_idempotency_key rq,
       a_actor_id = rq_actor_id rq, a_operator_reason = rq_operator_reason rq,
       a_request_fingerprint = rq_request_fingerprint rq, a_ownership_token = tok, a_status = ''IN_PROGRESS'',
       a_created_at = now, a_finished_at = None \<rparr>"

section \<open>TX1\<close>

definition grant_claim ::
  "codec \<Rightarrow> consumer_db \<Rightarrow> replay_request \<Rightarrow> dead_letter_row \<Rightarrow> real \<Rightarrow> timestamp \<Rightarrow> string \<Rightarrow> uuid \<Rightarrow> consumer_exc + consumer_db" where
  "grant_claim cd db rq row lease_seconds now new_token attempt_id =
     bindE (lose_attempts (rq_dead_letter_id rq) (d_replay_claim_token row) now db) (\<lambda>db.
     bindE (insert_attempt (new_attempt rq attempt_id new_token now) db) (\<lambda>db.
       commit_letter cd (claimed_letter new_token (now + timedelta_seconds lease_seconds) now row) db))"

text \<open>\<open>_claim\<close>, with the error that \<open>_finish_claim\<close> raises after the commit; \<open>now\<close> is the clock read under
  the row lock.  An unexpected exception leaves the tables as they were.\<close>

definition claim ::
  "codec \<Rightarrow> consumer_db \<Rightarrow> replay_request \<Rightarrow> real \<Rightarrow> timestamp \<Rightarrow> string \<Rightarrow> uuid \<Rightarrow>
   consumer_db \<times> (replay_error + claim_result)" where
  "claim cd db rq lease_seconds now new_token attempt_id =
     (case tget d_id (rq_dead_letter_id rq) (c_dead_letters db) of
        None \<Rightarrow> (db, Inl ReplayNotFoundError)
      | Some row \<Rightarrow>
          let eligible = replay_claimable row now
          in (case tget attempt_key (rq_dead_letter_id rq, rq_idempotency_key rq) (c_attempts db) of
                Some a \<Rightarrow>
                  if a_request_fingerprint a \<noteq> rq_request_fingerprint rq then (db, Inl ReplayConflictError)
                  else if a_status a \<noteq> ''IN_PROGRESS'' then
                    (db, case outcome_of (a_status a) of
                           None \<Rightarrow> Inl (ReplayUnexpected (OtherException ''ValueError''))
                         | Some v \<Rightarrow> Inr (Finished (a_id a) v))
                  else if \<not> eligible then (db, Inr (Finished (a_id a) OUTCOME_IN_PROGRESS))
                  else (case commit_attempt (finish_attempt ''LOST_OWNERSHIP'' now a) db of
                          Inl err \<Rightarrow> (db, Inl (ReplayUnexpected err))
                        | Inr db' \<Rightarrow> (db', Inl ReplayExpiredAttemptError))
              | None \<Rightarrow>
                  if \<not> eligible then
                    (db, Inl (if d_replay_state row = ''REPLAYING'' then ReplayAlreadyClaimedError
                              else ReplayNotEligibleError))
                  else (case grant_claim cd db rq row lease_seconds now new_token attempt_id of
                          Inl err \<Rightarrow> (db, Inl (ReplayUnexpected err))
                        | Inr db' \<Rightarrow> (db', Inr (Claimed \<lparr> cl_dead_letter_id = rq_dead_letter_id rq,
                                      cl_attempt_id = attempt_id, cl_ownership_token = new_token \<rparr>)))))"

section \<open>TX2 and TX3\<close>

definition owned_claim :: "consumer_db \<Rightarrow> replay_claim \<Rightarrow> timestamp \<Rightarrow> (dead_letter_row \<times> replay_attempt) option" where
  "owned_claim db cl now =
     (case (tget d_id (cl_dead_letter_id cl) (c_dead_letters db), tget a_id (cl_attempt_id cl) (c_attempts db)) of
        (Some row, Some a) \<Rightarrow>
          if owns_replay row (cl_ownership_token cl) now \<and> a_status a = ''IN_PROGRESS'' then Some (row, a) else None
      | _ \<Rightarrow> None)"

text \<open>The branch of a lost claim: only the claim's own attempt is touched, if it is still in progress.\<close>

definition lose_own_attempt :: "consumer_db \<Rightarrow> replay_claim \<Rightarrow> timestamp \<Rightarrow> consumer_exc + consumer_db" where
  "lose_own_attempt db cl now =
     (case tget a_id (cl_attempt_id cl) (c_attempts db) of
        None \<Rightarrow> Inr db
      | Some a \<Rightarrow> if a_status a = ''IN_PROGRESS'' then commit_attempt (finish_attempt ''LOST_OWNERSHIP'' now a) db
                 else Inr db)"

text \<open>What TX2 may raise: a \<open>DomainEventError\<close> of the retained value, or an exception of the inbox, the
  projection or the database.\<close>

datatype apply_exc = ApplyDomainEventError | ApplyExc consumer_exc

fun expected_apply_failure :: "apply_exc \<Rightarrow> bool" where
  "expected_apply_failure ApplyDomainEventError = True"
| "expected_apply_failure (ApplyExc (PoisonEventError p)) = (p = LifecycleOrderViolationError)"
| "expected_apply_failure (ApplyExc IntegrityError) = True"
| "expected_apply_failure (ApplyExc (DBAPIError ci st)) = True"
| "expected_apply_failure (ApplyExc ConsumerInboxConflictError) = True"
| "expected_apply_failure (ApplyExc (OtherException n)) = False"

definition retained_event :: "codec \<Rightarrow> pydantic \<Rightarrow> dead_letter_row \<Rightarrow> apply_exc + domain_event" where
  "retained_event cd pd row =
     (case dr_retained_canonical_value (d_retention row) of
        None \<Rightarrow> Inl (ApplyExc (OtherException ''AssertionError''))
      | Some text \<Rightarrow>
          (case cd_loads cd text of
             None \<Rightarrow> Inl (ApplyExc (OtherException ''JSONDecodeError''))
           | Some v \<Rightarrow> map_error (\<lambda>_. ApplyDomainEventError) (parse_domain_event pd v)))"

definition replay_effect ::
  "codec \<Rightarrow> pydantic \<Rightarrow> consumer_db \<Rightarrow> dead_letter_row \<Rightarrow> replay_attempt \<Rightarrow> timestamp \<Rightarrow> apply_exc + (consumer_db \<times> inbox_outcome)" where
  "replay_effect cd pd db row a now =
     bindE (retained_event cd pd row) (\<lambda>event.
     bindE (map_error ApplyExc (record_and_apply db (d_consumer_id row) event (d_kafka_partition row) (d_kafka_offset row)
              now (\<lambda>s e. apply_projection s e now))) (\<lambda>(db, inbox_outcome).
     bindE (map_error ApplyExc (commit_attempt (finish_attempt
              (if inbox_outcome = APPLIED then ''APPLIED'' else ''DUPLICATE'') now a) db)) (\<lambda>db.
     bindE (map_error ApplyExc (commit_letter cd (released_letter
              (if inbox_outcome = APPLIED then ''REPLAYED_APPLIED'' else ''REPLAYED_DUPLICATE'') now row) db)) (\<lambda>db.
       Inr (db, inbox_outcome)))))"

text \<open>\<open>_record_failure\<close>\<close>

definition record_failure ::
  "codec \<Rightarrow> consumer_db \<Rightarrow> replay_claim \<Rightarrow> timestamp \<Rightarrow> consumer_db \<times> (replay_error + replay_outcome)" where
  "record_failure cd db cl now =
     (case owned_claim db cl now of
        Some (row, a) \<Rightarrow>
          (case bindE (commit_attempt (finish_attempt ''FAILED'' now a) db)
                  (commit_letter cd (released_letter ''REPLAY_FAILED'' now row)) of
             Inl err \<Rightarrow> (db, Inl (ReplayUnexpected err))
           | Inr db' \<Rightarrow> (db', Inr OUTCOME_FAILED))
      | None \<Rightarrow>
          (case lose_own_attempt db cl now of
             Inl err \<Rightarrow> (db, Inl (ReplayUnexpected err))
           | Inr db' \<Rightarrow> (db', Inl ReplayOwnershipLostError)))"

text \<open>\<open>_apply\<close>: \<open>fault\<close> is an exception of the database that ends TX2 before it commits, \<open>now3\<close> the clock
  of TX3.\<close>

definition apply_claim ::
  "codec \<Rightarrow> pydantic \<Rightarrow> consumer_db \<Rightarrow> replay_claim \<Rightarrow> timestamp \<Rightarrow> consumer_exc option \<Rightarrow> timestamp \<Rightarrow>
   consumer_db \<times> (replay_error + replay_outcome)" where
  "apply_claim cd pd db cl now fault now3 =
     (let fail = (\<lambda>err. if expected_apply_failure err then record_failure cd db cl now3
                        else (db, Inl (ReplayUnexpected (case err of ApplyExc x \<Rightarrow> x
                                                         | ApplyDomainEventError \<Rightarrow> OtherException ''DomainEventError''))))
      in case fault of
        Some x \<Rightarrow> fail (ApplyExc x)
      | None \<Rightarrow>
          (case owned_claim db cl now of
             None \<Rightarrow> (case lose_own_attempt db cl now of
                        Inl err \<Rightarrow> fail (ApplyExc err)
                      | Inr db' \<Rightarrow> (db', Inl ReplayOwnershipLostError))
           | Some (row, a) \<Rightarrow>
               (case replay_effect cd pd db row a now of
                  Inl err \<Rightarrow> fail err
                | Inr (db', inbox_outcome) \<Rightarrow>
                    (db', Inr (if inbox_outcome = APPLIED then OUTCOME_APPLIED else OUTCOME_DUPLICATE)))))"

text \<open>\<open>replay\<close> run without interleaving.\<close>

definition replay ::
  "codec \<Rightarrow> pydantic \<Rightarrow> consumer_db \<Rightarrow> replay_request \<Rightarrow> real \<Rightarrow> string \<Rightarrow> uuid \<Rightarrow> timestamp \<Rightarrow> timestamp \<Rightarrow>
   consumer_exc option \<Rightarrow> timestamp \<Rightarrow> consumer_db \<times> (replay_error + uuid \<times> replay_outcome)" where
  "replay cd pd db rq lease_seconds new_token attempt_id now1 now2 fault now3 =
     (case claim cd db rq lease_seconds now1 new_token attempt_id of
        (db', Inl err) \<Rightarrow> (db', Inl err)
      | (db', Inr (Finished i v)) \<Rightarrow> (db', Inr (i, v))
      | (db', Inr (Claimed cl)) \<Rightarrow>
          (case apply_claim cd pd db' cl now2 fault now3 of
             (db'', Inl err) \<Rightarrow> (db'', Inl err)
           | (db'', Inr v) \<Rightarrow> (db'', Inr (cl_attempt_id cl, v))))"

section \<open>The claim protocol\<close>

definition replay_granted :: "dead_letter_row \<Rightarrow> string \<Rightarrow> timestamp \<Rightarrow> timestamp \<Rightarrow> dead_letter_row \<Rightarrow> bool" where
  "replay_granted r tok now lease r' \<longleftrightarrow> replay_claimable r now \<and> r' = claimed_letter tok lease now r"

interpretation replay_claims: lease_fence d_replay_claim_token owns_replay replay_granted replay_claimable
proof unfold_locales
  fix r t and at' now :: timestamp
  show "owns_replay r t at' \<Longrightarrow> d_replay_claim_token r = Some t" by (simp add: owns_replay_def)
  show "owns_replay r t at' \<Longrightarrow> now \<le> at' \<Longrightarrow> owns_replay r t now"
    by (auto simp: owns_replay_def split: option.splits)
  show "replay_claimable r now \<Longrightarrow> \<not> owns_replay r t now"
    by (auto simp: owns_replay_def replay_claimable_def replay_lease_expired_def UNCLAIMED_REPLAYABLE_STATES_def
        split: option.splits)
next
  fix r t now e r' assume g: "replay_granted r t now e r'"
  then show "replay_claimable r now" by (simp add: replay_granted_def)
  show "d_replay_claim_token r' = Some t" using g by (simp add: replay_granted_def claimed_letter_def)
  show "owns_replay r' t now" if "now < e"
    using g that by (simp add: replay_granted_def claimed_letter_def owns_replay_def)
qed

section \<open>The invariant of dead letters and attempts\<close>

abbreviation in_progress :: "replay_attempt \<Rightarrow> bool" where
  "in_progress a \<equiv> a_status a = ''IN_PROGRESS''"

definition letters_ok :: "codec \<Rightarrow> dead_letter_row list \<Rightarrow> bool" where
  "letters_ok cd L \<longleftrightarrow>
     distinct (map d_id L) \<and> distinct (map dead_letter_key L) \<and> list_all (dead_letter_checks cd) L"

definition attempts_ok :: "replay_attempt list \<Rightarrow> bool" where
  "attempts_ok A \<longleftrightarrow> distinct (map a_id A) \<and> distinct (map attempt_key A) \<and> list_all attempt_checks A"

text \<open>An attempt in progress holds the live token of its dead letter, and it is the only one.\<close>

definition bound_ok :: "dead_letter_row list \<Rightarrow> replay_attempt list \<Rightarrow> bool" where
  "bound_ok L A \<longleftrightarrow>
     list_all (\<lambda>a. in_progress a \<longrightarrow>
       (\<exists>row. tget d_id (a_dead_letter_id a) L = Some row \<and> d_replay_claim_token row = Some (a_ownership_token a))) A \<and>
     list_all (\<lambda>a. list_all (\<lambda>b. in_progress a \<and> in_progress b \<and> a_dead_letter_id a = a_dead_letter_id b \<longrightarrow> a = b) A) A"

definition replay_ok :: "codec \<Rightarrow> consumer_db \<Rightarrow> bool" where
  "replay_ok cd db \<longleftrightarrow>
     letters_ok cd (c_dead_letters db) \<and> attempts_ok (c_attempts db) \<and> bound_ok (c_dead_letters db) (c_attempts db)"

lemma finish_attempt_sel [simp]:
  "a_id (finish_attempt st now a) = a_id a" "a_dead_letter_id (finish_attempt st now a) = a_dead_letter_id a"
  "attempt_key (finish_attempt st now a) = attempt_key a" "a_status (finish_attempt st now a) = st"
  "a_ownership_token (finish_attempt st now a) = a_ownership_token a"
  by (simp_all add: finish_attempt_def attempt_key_def)

lemma letter_update_sel [simp]:
  "d_id (claimed_letter tok lease now r) = d_id r" "dead_letter_key (claimed_letter tok lease now r) = dead_letter_key r"
  "d_id (released_letter st now r) = d_id r" "dead_letter_key (released_letter st now r) = dead_letter_key r"
  "d_replay_claim_token (claimed_letter tok lease now r) = Some tok"
  by (simp_all add: claimed_letter_def released_letter_def dead_letter_key_def)

text \<open>Writing back a row with its keys unchanged keeps every key distinct.\<close>

lemma map_tput_same:
  assumes "distinct (map key tbl)" "r \<in> set tbl" "key r' = key r" "f r' = f r"
  shows "map f (tput key r' tbl) = map f tbl"
proof -
  have "f (if key x = key r' then r' else x) = f x" if "x \<in> set tbl" for x
  proof (cases "key x = key r'")
    case True
    then have "x = r" using assms(1,2,3) that by (simp add: distinct_map inj_on_def)
    then show ?thesis using assms(4) True by simp
  qed simp
  then show ?thesis unfolding tput_def by simp
qed

lemma letters_ok_put:
  assumes "letters_ok cd L" "r \<in> set L" "d_id r' = d_id r" "dead_letter_key r' = dead_letter_key r" "dead_letter_checks cd r'"
  shows "letters_ok cd (tput d_id r' L)"
  using assms map_tput_same[of d_id L r r' d_id] map_tput_same[of d_id L r r' dead_letter_key] set_tput[of d_id r' L]
  by (auto simp: letters_ok_def list_all_iff)

lemma attempts_ok_put:
  assumes "attempts_ok A" "a \<in> set A" "attempt_checks (finish_attempt st now a)"
  shows "attempts_ok (tput a_id (finish_attempt st now a) A)"
  using assms map_tput_same[of a_id A a "finish_attempt st now a" a_id]
    map_tput_same[of a_id A a "finish_attempt st now a" attempt_key] set_tput[of a_id "finish_attempt st now a" A]
  by (auto simp: attempts_ok_def list_all_iff)

lemma bound_ok_finish:
  assumes "bound_ok L A" "st \<noteq> ''IN_PROGRESS''"
  shows "bound_ok L (tput a_id (finish_attempt st now a) A)"
proof -
  have "x \<in> set A" if "x \<in> set (tput a_id (finish_attempt st now a) A)" "in_progress x" for x
    using tput_mem_cases[OF that(1)] that(2) assms(2) by auto
  then show ?thesis using assms(1) unfolding bound_ok_def list_all_iff by (meson assms(1))
qed

lemma finished_letter_free:
  assumes "attempts_ok A" "bound_ok L A" "a \<in> set A" "in_progress a" "st \<noteq> ''IN_PROGRESS''"
    "b \<in> set (tput a_id (finish_attempt st now a) A)" "in_progress b"
  shows "a_dead_letter_id b \<noteq> a_dead_letter_id a"
proof
  assume same: "a_dead_letter_id b = a_dead_letter_id a"
  have "b \<in> set A" "a_id b \<noteq> a_id a" using tput_mem_cases[OF assms(6)] assms(5,7) by auto
  moreover from this have "a = b" using assms(2,3,4,7) same by (auto simp: bound_ok_def list_all_iff)
  ultimately show False by simp
qed

text \<open>A letter may change if every attempt in progress on it holds the new token.\<close>

lemma bound_ok_letter:
  assumes "bound_ok L A"
    "\<And>b. b \<in> set A \<Longrightarrow> in_progress b \<Longrightarrow> a_dead_letter_id b = d_id r' \<Longrightarrow> d_replay_claim_token r' = Some (a_ownership_token b)"
  shows "bound_ok (tput d_id r' L) A"
proof -
  have "\<exists>row. tget d_id (a_dead_letter_id b) (tput d_id r' L) = Some row \<and> d_replay_claim_token row = Some (a_ownership_token b)"
    if b: "b \<in> set A" "in_progress b" for b
  proof -
    obtain row where "tget d_id (a_dead_letter_id b) L = Some row" "d_replay_claim_token row = Some (a_ownership_token b)"
      using assms(1) b by (auto simp: bound_ok_def list_all_iff)
    then show ?thesis using assms(2)[OF b] by (cases "d_id r' = a_dead_letter_id b") (simp_all add: tget_tput)
  qed
  with assms(1) show ?thesis unfolding bound_ok_def list_all_iff by blast
qed

lemma commit_attempt_Inr [bind_simps]:
  "commit_attempt a db = Inr db' \<longleftrightarrow> attempt_checks a \<and> db' = db\<lparr> c_attempts := tput a_id a (c_attempts db) \<rparr>"
  by (auto simp: commit_attempt_def)

lemma commit_letter_Inr [bind_simps]:
  "commit_letter cd r db = Inr db' \<longleftrightarrow> dead_letter_checks cd r \<and> db' = db\<lparr> c_dead_letters := tput d_id r (c_dead_letters db) \<rparr>"
  by (auto simp: commit_letter_def)

lemma replay_ok_lose:
  assumes "replay_ok cd db" "tget a_id i (c_attempts db) = Some a" "commit_attempt (finish_attempt ''LOST_OWNERSHIP'' now a) db = Inr db'"
  shows "replay_ok cd db'"
  using assms tget_Some_mem[OF assms(2)] by (auto simp: replay_ok_def bind_simps intro: attempts_ok_put bound_ok_finish)

lemma replay_ok_finish:
  assumes ok: "replay_ok cd db" and a: "a \<in> set (c_attempts db)" "in_progress a" and r: "row \<in> set (c_dead_letters db)"
    and dl: "a_dead_letter_id a = d_id row" and st: "st \<noteq> ''IN_PROGRESS''"
    and at': "commit_attempt (finish_attempt st now a) db = Inr db1"
    and lt: "commit_letter cd (released_letter state now row) db1 = Inr db2"
  shows "replay_ok cd db2"
proof -
  let ?A = "tput a_id (finish_attempt st now a) (c_attempts db)"
  have eq: "c_attempts db2 = ?A" "c_dead_letters db2 = tput d_id (released_letter state now row) (c_dead_letters db)"
    and ck: "attempt_checks (finish_attempt st now a)" "dead_letter_checks cd (released_letter state now row)"
    using at' lt by (auto simp: bind_simps)
  have oks: "letters_ok cd (c_dead_letters db)" "attempts_ok (c_attempts db)" "bound_ok (c_dead_letters db) (c_attempts db)"
    using ok by (simp_all add: replay_ok_def)
  have "bound_ok (tput d_id (released_letter state now row) (c_dead_letters db)) ?A"
    using finished_letter_free[OF oks(2,3) a st] dl by (intro bound_ok_letter bound_ok_finish[OF oks(3) st]) auto
  then show ?thesis
    using letters_ok_put[OF oks(1) r _ _ ck(2)] attempts_ok_put[OF oks(2) a(1) ck(1)] by (simp add: replay_ok_def eq)
qed

text \<open>TX1 on an eligible letter: the previous owner's attempt is lost, the new one is the only one.\<close>

lemma lose_attempts_all:
  assumes "replay_ok cd db" "tget d_id i (c_dead_letters db) = Some row" "lose_attempts i (d_replay_claim_token row) now db = Inr db1"
  shows "replay_ok cd db1" "c_dead_letters db1 = c_dead_letters db"
    "\<And>b. b \<in> set (c_attempts db1) \<Longrightarrow> in_progress b \<Longrightarrow> a_dead_letter_id b \<noteq> i"
    "\<And>b. b \<in> set (c_attempts db1) \<Longrightarrow> in_progress b \<Longrightarrow> b \<in> set (c_attempts db)"
proof -
  let ?P = "\<lambda>a. a_dead_letter_id a = i \<and> Some (a_ownership_token a) = d_replay_claim_token row \<and> in_progress a"
  let ?f = "finish_attempt ''LOST_OWNERSHIP'' now"
  have A: "c_attempts db1 = tupdate ?P ?f (c_attempts db)" and ck: "\<forall>a \<in> set (c_attempts db). ?P a \<longrightarrow> attempt_checks (?f a)"
    and L: "c_dead_letters db1 = c_dead_letters db"
    using assms(3) by (auto simp: lose_attempts_def list_all_iff Let_def split: if_splits)
  show "c_dead_letters db1 = c_dead_letters db" by (rule L)
  show kept: "b \<in> set (c_attempts db)" if "b \<in> set (c_attempts db1)" "in_progress b" for b
    using that by (auto simp: A tupdate_mem split: if_splits)
  show "a_dead_letter_id b \<noteq> i" if b: "b \<in> set (c_attempts db1)" "in_progress b" for b
  proof
    assume i: "a_dead_letter_id b = i"
    obtain r where "tget d_id (a_dead_letter_id b) (c_dead_letters db) = Some r" "d_replay_claim_token r = Some (a_ownership_token b)"
      using assms(1) kept[OF b] b(2) unfolding replay_ok_def bound_ok_def list_all_iff by blast
    then have "?P b" using assms(2) i b(2) by simp
    moreover obtain y where "b = (if ?P y then ?f y else y)" using b(1) unfolding A tupdate_mem by blast
    ultimately have "b = ?f y" by metis
    then show False using b(2) by simp
  qed
  have keys: "map a_id (c_attempts db1) = map a_id (c_attempts db)" "map attempt_key (c_attempts db1) = map attempt_key (c_attempts db)"
    unfolding A by (rule tkeys_tupdate; simp)+
  have "list_all attempt_checks (c_attempts db1)"
    using assms(1) ck by (auto simp: replay_ok_def attempts_ok_def A list_all_iff tupdate_mem)
  then have "attempts_ok (c_attempts db1)"
    using assms(1) keys by (simp add: replay_ok_def attempts_ok_def)
  moreover have "bound_ok (c_dead_letters db) (c_attempts db1)"
    using assms(1) kept unfolding replay_ok_def bound_ok_def list_all_iff by blast
  ultimately show "replay_ok cd db1" using assms(1) L by (simp add: replay_ok_def)
qed

lemma lose_attempts_letters: "lose_attempts i tok now db = Inr db1 \<Longrightarrow> c_dead_letters db1 = c_dead_letters db"
  by (auto simp: lose_attempts_def Let_def split: if_splits)

lemma grant_claimE:
  assumes "grant_claim cd db rq row ls now tok i = Inr db'"
  obtains db1 where "lose_attempts (rq_dead_letter_id rq) (d_replay_claim_token row) now db = Inr db1"
    "attempt_checks (new_attempt rq i tok now)" "tget a_id i (c_attempts db1) = None"
    "tget attempt_key (attempt_key (new_attempt rq i tok now)) (c_attempts db1) = None"
    "dead_letter_checks cd (claimed_letter tok (now + timedelta_seconds ls) now row)"
    "c_attempts db' = c_attempts db1 @ [new_attempt rq i tok now]"
    "c_dead_letters db' = tput d_id (claimed_letter tok (now + timedelta_seconds ls) now row) (c_dead_letters db)"
  using assms
  by (auto simp: grant_claim_def bind_simps insert_attempt_def new_attempt_def lose_attempts_letters split: if_splits)

lemma grant_claim_ok:
  assumes "replay_ok cd db" "tget d_id (rq_dead_letter_id rq) (c_dead_letters db) = Some row"
    "grant_claim cd db rq row ls now tok i = Inr db'"
  shows "replay_ok cd db'"
proof -
  let ?a = "new_attempt rq i tok now" and ?r = "claimed_letter tok (now + timedelta_seconds ls) now row"
  obtain db1 where lose: "lose_attempts (rq_dead_letter_id rq) (d_replay_claim_token row) now db = Inr db1"
    and ck: "attempt_checks ?a" "tget a_id i (c_attempts db1) = None" "tget attempt_key (attempt_key ?a) (c_attempts db1) = None"
      "dead_letter_checks cd ?r"
    and db': "c_attempts db' = c_attempts db1 @ [?a]" "c_dead_letters db' = tput d_id ?r (c_dead_letters db)"
    using assms(3) by (rule grant_claimE)
  note l = lose_attempts_all[OF assms(1,2) lose]
  have id: "d_id row = rq_dead_letter_id rq" and row: "row \<in> set (c_dead_letters db1)"
    using assms(2) tget_Some_key[OF assms(2)] tget_Some_mem[OF assms(2)] l(2) by auto
  have "attempts_ok (c_attempts db1 @ [?a])"
    using l(1) ck by (auto simp: replay_ok_def attempts_ok_def tget_None_iff new_attempt_def)
  moreover have "letters_ok cd (tput d_id ?r (c_dead_letters db1))"
    using l(1) row ck(4) by (intro letters_ok_put) (auto simp: replay_ok_def)
  moreover have "bound_ok (tput d_id ?r (c_dead_letters db1)) (c_attempts db1 @ [?a])"
  proof -
    have "bound_ok (tput d_id ?r (c_dead_letters db1)) (c_attempts db1)"
      using l(1,3) id by (intro bound_ok_letter) (auto simp: replay_ok_def)
    moreover have "tget d_id (rq_dead_letter_id rq) (tput d_id ?r (c_dead_letters db1)) = Some ?r"
      using assms(2) l(2) id by (simp add: tget_tput)
    moreover have "\<forall>b \<in> set (c_attempts db1). in_progress b \<longrightarrow> a_dead_letter_id b \<noteq> rq_dead_letter_id rq"
      using l(3) by blast
    ultimately show ?thesis by (auto simp: bound_ok_def list_all_iff new_attempt_def)
  qed
  ultimately show ?thesis by (simp add: replay_ok_def db' l(2))
qed

lemma claim_ok:
  assumes "replay_ok cd db" "claim cd db rq ls now tok i = (db', res)"
  shows "replay_ok cd db'"
proof (cases "tget d_id (rq_dead_letter_id rq) (c_dead_letters db)")
  case None
  with assms show ?thesis by (simp add: claim_def)
next
  case (Some row)
  show ?thesis
  proof (cases "tget attempt_key (rq_dead_letter_id rq, rq_idempotency_key rq) (c_attempts db)")
    case None
    with Some assms show ?thesis
      by (auto simp: claim_def Let_def split: if_splits sum.splits dest: grant_claim_ok)
  next
    case (Some a)
    then have "tget a_id (a_id a) (c_attempts db) = Some a"
      using assms(1) tget_Some_mem[OF Some] by (intro tget_mem) (auto simp: replay_ok_def attempts_ok_def)
    then show ?thesis
      using Some assms \<open>tget d_id _ _ = Some row\<close>
      by (auto simp: claim_def Let_def split: if_splits sum.splits dest: replay_ok_lose)
  qed
qed

lemma owned_claim_Some [bind_simps]:
  "owned_claim db cl now = Some (row, a) \<longleftrightarrow>
     tget d_id (cl_dead_letter_id cl) (c_dead_letters db) = Some row \<and> tget a_id (cl_attempt_id cl) (c_attempts db) = Some a \<and>
     owns_replay row (cl_ownership_token cl) now \<and> in_progress a"
  by (auto simp: owned_claim_def split: option.splits if_splits)

text \<open>The claims handed out by TX1.\<close>

definition claim_issued :: "consumer_db \<Rightarrow> replay_claim \<Rightarrow> bool" where
  "claim_issued db cl \<longleftrightarrow>
     (\<exists>a. tget a_id (cl_attempt_id cl) (c_attempts db) = Some a \<and> a_dead_letter_id a = cl_dead_letter_id cl \<and>
          a_ownership_token a = cl_ownership_token cl)"

text \<open>Attempts are append-only: an attempt changes once, from in progress to a final status.\<close>

definition attempt_evolves :: "replay_attempt \<Rightarrow> replay_attempt \<Rightarrow> bool" where
  "attempt_evolves a a' \<longleftrightarrow>
     a' = a \<or> (in_progress a \<and> (\<exists>st f. st \<noteq> ''IN_PROGRESS'' \<and> a' = a\<lparr> a_status := st, a_finished_at := f \<rparr>))"

definition attempts_evolve :: "consumer_db \<Rightarrow> consumer_db \<Rightarrow> bool" where
  "attempts_evolve db db' \<longleftrightarrow>
     (\<forall>i a. tget a_id i (c_attempts db) = Some a \<longrightarrow> (\<exists>a'. tget a_id i (c_attempts db') = Some a' \<and> attempt_evolves a a'))"

lemma attempt_evolves_refl [simp]: "attempt_evolves a a"
  by (simp add: attempt_evolves_def)

lemma attempt_evolves_finish: "in_progress a \<Longrightarrow> st \<noteq> ''IN_PROGRESS'' \<Longrightarrow> attempt_evolves a (finish_attempt st now a)"
  by (auto simp: attempt_evolves_def finish_attempt_def)

lemma attempt_evolves_trans: "attempt_evolves a b \<Longrightarrow> attempt_evolves b c \<Longrightarrow> attempt_evolves a c"
  by (auto simp: attempt_evolves_def)

lemma attempts_evolve_same: "c_attempts db' = c_attempts db \<Longrightarrow> attempts_evolve db db'"
  by (simp add: attempts_evolve_def)

lemma attempts_evolve_trans: "attempts_evolve a b \<Longrightarrow> attempts_evolve b c \<Longrightarrow> attempts_evolve a c"
  unfolding attempts_evolve_def by (meson attempt_evolves_trans)

lemma attempts_evolve_commit:
  assumes "tget a_id (a_id a) (c_attempts db) = Some a" "in_progress a" "st \<noteq> ''IN_PROGRESS''"
    "commit_attempt (finish_attempt st now a) db = Inr db'"
  shows "attempts_evolve db db'"
  using assms attempt_evolves_finish[OF assms(2,3), of now]
  by (auto simp: attempts_evolve_def bind_simps tget_tput)

lemma claim_issued_evolves: "claim_issued db cl \<Longrightarrow> attempts_evolve db db' \<Longrightarrow> claim_issued db' cl"
  unfolding claim_issued_def attempts_evolve_def attempt_evolves_def by fastforce

lemma record_and_apply_frame:
  assumes "record_and_apply db cid e part off t (\<lambda>s e. apply_projection s e t) = Inr (db', out)"
  shows "c_dead_letters db' = c_dead_letters db" "c_attempts db' = c_attempts db"
  using assms
  by (auto simp: record_and_apply_def apply_projection_def bind_simps Let_def split: option.splits if_splits)

lemma deliver_frame [simp]:
  "c_dead_letters (deliver db x) = c_dead_letters db" "c_attempts (deliver db x) = c_attempts db"
  using record_and_apply_frame[of db RESEARCH_JOB_PROJECTION_CONSUMER_GROUP_V1 "dl_event x" "dl_partition x" "dl_offset x" "dl_at x"]
  by (auto simp: deliver_def deliver_with_def split: sum.splits prod.splits)

text \<open>Finishing an owned claim.\<close>

lemma finish_claim_ok:
  assumes ok: "replay_ok cd db" and iss: "claim_issued db cl" and own: "owned_claim db cl now = Some (row, a)"
    and st: "st \<noteq> ''IN_PROGRESS''" and same: "c_dead_letters db0 = c_dead_letters db" "c_attempts db0 = c_attempts db"
    and at': "commit_attempt (finish_attempt st now a) db0 = Inr db1"
    and lt: "commit_letter cd (released_letter state now row) db1 = Inr db2"
  shows "replay_ok cd db2 \<and> attempts_evolve db db2"
proof
  have t: "tget d_id (cl_dead_letter_id cl) (c_dead_letters db) = Some row" "tget a_id (cl_attempt_id cl) (c_attempts db) = Some a"
    and ip: "in_progress a" using own by (auto simp: bind_simps)
  have "a_dead_letter_id a = d_id row" using iss t tget_Some_key[OF t(1)] by (auto simp: claim_issued_def)
  moreover have "replay_ok cd db0" using ok same by (simp add: replay_ok_def)
  ultimately show "replay_ok cd db2"
    using replay_ok_finish[OF _ _ ip _ _ st at' lt] tget_Some_mem[OF t(1)] tget_Some_mem[OF t(2)] same by simp
  have "tget a_id (a_id a) (c_attempts db0) = Some a" using t(2) tget_Some_key[OF t(2)] same by simp
  then have "attempts_evolve db0 db1" using ip st at' by (rule attempts_evolve_commit)
  then show "attempts_evolve db db2" using lt same by (auto simp: attempts_evolve_def bind_simps)
qed

lemma lose_own_attempt_ok:
  assumes "replay_ok cd db" "lose_own_attempt db cl now = Inr db'"
  shows "replay_ok cd db' \<and> attempts_evolve db db'"
proof (cases "tget a_id (cl_attempt_id cl) (c_attempts db)")
  case None
  with assms show ?thesis by (simp add: lose_own_attempt_def attempts_evolve_same)
next
  case (Some a)
  with assms tget_Some_key[OF Some] replay_ok_lose[OF assms(1) Some] attempts_evolve_commit[of a db "''LOST_OWNERSHIP''" now db']
  show ?thesis by (auto simp: lose_own_attempt_def attempts_evolve_same split: if_splits)
qed

lemma record_failure_ok:
  assumes "replay_ok cd db" "claim_issued db cl" "record_failure cd db cl now = (db', res)"
  shows "replay_ok cd db' \<and> attempts_evolve db db'"
proof (cases "owned_claim db cl now")
  case None
  with assms lose_own_attempt_ok[OF assms(1)] show ?thesis
    by (auto simp: record_failure_def attempts_evolve_same split: sum.splits)
next
  case (Some ra)
  obtain row a where ra: "ra = (row, a)" by (cases ra)
  show ?thesis
  proof (cases "bindE (commit_attempt (finish_attempt ''FAILED'' now a) db) (commit_letter cd (released_letter ''REPLAY_FAILED'' now row))")
    case (Inl err)
    with assms Some ra show ?thesis by (simp add: record_failure_def attempts_evolve_same)
  next
    case (Inr db2)
    then obtain db1 where c: "commit_attempt (finish_attempt ''FAILED'' now a) db = Inr db1"
      "commit_letter cd (released_letter ''REPLAY_FAILED'' now row) db1 = Inr db2" by (rule bindE_InrE)
    have "replay_ok cd db2 \<and> attempts_evolve db db2"
      using finish_claim_ok[OF assms(1,2) Some[unfolded ra] _ refl refl c] by simp
    then show ?thesis using assms(3) Some ra Inr by (simp add: record_failure_def)
  qed
qed

lemma replay_effect_Inr:
  "replay_effect cd pd db row a now = Inr (db', out) \<longleftrightarrow>
     (\<exists>event db0 db1. retained_event cd pd row = Inr event \<and>
        record_and_apply db (d_consumer_id row) event (d_kafka_partition row) (d_kafka_offset row) now
          (\<lambda>s e. apply_projection s e now) = Inr (db0, out) \<and>
        commit_attempt (finish_attempt (if out = APPLIED then ''APPLIED'' else ''DUPLICATE'') now a) db0 = Inr db1 \<and>
        commit_letter cd (released_letter (if out = APPLIED then ''REPLAYED_APPLIED'' else ''REPLAYED_DUPLICATE'') now row) db1 = Inr db')"
  unfolding replay_effect_def by (auto simp only: bindE_eq_Inr map_error_eq_Inr prod.case split: prod.splits) blast+

lemma apply_claim_ok:
  assumes "replay_ok cd db" "claim_issued db cl" "apply_claim cd pd db cl now fault now3 = (db', res)"
  shows "replay_ok cd db' \<and> attempts_evolve db db'"
proof -
  note fail = record_failure_ok[OF assms(1,2), of now3]
  consider (fault) x where "fault = Some x" | (lost) "fault = None" "owned_claim db cl now = None"
    | (own) row a where "fault = None" "owned_claim db cl now = Some (row, a)" by (cases fault; cases "owned_claim db cl now") auto
  then show ?thesis
  proof cases
    case fault
    with assms fail show ?thesis by (auto simp: apply_claim_def Let_def attempts_evolve_same split: if_splits)
  next
    case lost
    with assms fail lose_own_attempt_ok[OF assms(1)] show ?thesis
      by (auto simp: apply_claim_def Let_def attempts_evolve_same split: if_splits sum.splits)
  next
    case own
    show ?thesis
    proof (cases "replay_effect cd pd db row a now")
      case (Inl err)
      with own assms fail show ?thesis by (auto simp: apply_claim_def Let_def attempts_evolve_same split: if_splits)
    next
      case (Inr r)
      then obtain out where r: "replay_effect cd pd db row a now = Inr (db', out)"
        using own assms(3) by (auto simp: apply_claim_def Let_def split: prod.splits)
      then obtain event db0 db1 where e:
        "record_and_apply db (d_consumer_id row) event (d_kafka_partition row) (d_kafka_offset row) now
           (\<lambda>s e. apply_projection s e now) = Inr (db0, out)"
        "commit_attempt (finish_attempt (if out = APPLIED then ''APPLIED'' else ''DUPLICATE'') now a) db0 = Inr db1"
        "commit_letter cd (released_letter (if out = APPLIED then ''REPLAYED_APPLIED'' else ''REPLAYED_DUPLICATE'') now row) db1 = Inr db'"
        unfolding replay_effect_Inr by blast
      then have same: "c_dead_letters db0 = c_dead_letters db" "c_attempts db0 = c_attempts db"
        using record_and_apply_frame by blast+
      show ?thesis using finish_claim_ok[OF assms(1,2) own(2) _ same e(2,3)] by simp
    qed
  qed
qed

lemma grant_claim_evolves:
  assumes "grant_claim cd db rq row ls now tok i = Inr db'"
  shows "attempts_evolve db db'"
    "claim_issued db' \<lparr> cl_dead_letter_id = rq_dead_letter_id rq, cl_attempt_id = i, cl_ownership_token = tok \<rparr>"
proof -
  obtain db1 where lose: "lose_attempts (rq_dead_letter_id rq) (d_replay_claim_token row) now db = Inr db1"
    and new: "tget a_id i (c_attempts db1) = None" and A: "c_attempts db' = c_attempts db1 @ [new_attempt rq i tok now]"
    using assms by (rule grant_claimE)
  have "\<exists>a'. tget a_id k (c_attempts db1) = Some a' \<and> attempt_evolves a a'" if "tget a_id k (c_attempts db) = Some a" for k a
    using lose that
    by (auto simp: lose_attempts_def Let_def tget_tupdate attempt_evolves_finish split: if_splits)
  then show "attempts_evolve db db'" unfolding attempts_evolve_def A tget_append by (metis option.simps(5))
  show "claim_issued db' \<lparr> cl_dead_letter_id = rq_dead_letter_id rq, cl_attempt_id = i, cl_ownership_token = tok \<rparr>"
    using new by (simp add: claim_issued_def A tget_append new_attempt_def)
qed

lemma claim_evolves:
  assumes "replay_ok cd db" "claim cd db rq ls now tok i = (db', res)"
  shows "attempts_evolve db db' \<and> (case res of Inr (Claimed cl) \<Rightarrow> claim_issued db' cl | _ \<Rightarrow> True)"
proof (cases "tget d_id (rq_dead_letter_id rq) (c_dead_letters db)")
  case None
  with assms show ?thesis by (auto simp: claim_def attempts_evolve_same)
next
  case row: (Some row)
  show ?thesis
  proof (cases "tget attempt_key (rq_dead_letter_id rq, rq_idempotency_key rq) (c_attempts db)")
    case None
    with row assms(2) show ?thesis
      by (auto simp: claim_def Let_def attempts_evolve_same split: if_splits sum.splits dest: grant_claim_evolves)
  next
    case (Some a)
    then have "tget a_id (a_id a) (c_attempts db) = Some a"
      using assms(1) tget_Some_mem[OF Some] by (intro tget_mem) (auto simp: replay_ok_def attempts_ok_def)
    then have "commit_attempt (finish_attempt ''LOST_OWNERSHIP'' now a) db = Inr d \<Longrightarrow> in_progress a \<Longrightarrow> attempts_evolve db d" for d
      by (intro attempts_evolve_commit) auto
    with Some row assms(2) show ?thesis
      by (auto simp: claim_def Let_def attempts_evolve_same split: if_splits sum.splits option.splits)
  qed
qed

text \<open>The runner's \<open>upsert\<close> keeps the invariant: redelivery of a dead-lettered record touches the
  delivery count and two timestamps, never a claim.\<close>

lemma tput_other_key:
  assumes "distinct (map f L)" "distinct (map g L)" "r \<in> set L" "f r' = f r" "g r' = g r"
  shows "tput f r' L = tput g r' L"
proof -
  have "f x = f r' \<longleftrightarrow> g x = g r'" if "x \<in> set L" for x
    using assms that by (auto simp: distinct_map inj_on_def)
  then show ?thesis by (simp add: tput_def)
qed

lemma upsert_cases:
  assumes "upsert cd db new_id cid part off code n t ret = Inr (db', i)"
  obtains (bump) r where "tget dead_letter_key (cid, part, off) (c_dead_letters db) = Some r" "i = d_id r"
      "db' = db\<lparr> c_dead_letters := tput dead_letter_key
         (r\<lparr> d_dead_letter_delivery_count := d_dead_letter_delivery_count r + 1, d_last_failed_at := t, d_updated_at := t \<rparr>)
         (c_dead_letters db) \<rparr>"
      "dead_letter_checks cd (r\<lparr> d_dead_letter_delivery_count := d_dead_letter_delivery_count r + 1, d_last_failed_at := t, d_updated_at := t \<rparr>)"
  | (add) r where "tget dead_letter_key (cid, part, off) (c_dead_letters db) = None" "i = new_id"
      "tget d_id new_id (c_dead_letters db) = None" "dead_letter_checks cd r" "d_id r = new_id"
      "dead_letter_key r = (cid, part, off)" "d_failure_code r = code" "d_retention r = ret"
      "db' = db\<lparr> c_dead_letters := c_dead_letters db @ [r] \<rparr>"
  using assms by (auto simp: upsert_def Let_def dead_letter_key_def split: if_splits option.splits)

lemma upsert_ok:
  assumes "replay_ok cd db" "upsert cd db new_id cid part off code n t ret = Inr (db', i)"
  shows "replay_ok cd db'"
  using assms(2)
proof (cases rule: upsert_cases)
  case (bump r)
  let ?r = "r\<lparr> d_dead_letter_delivery_count := d_dead_letter_delivery_count r + 1, d_last_failed_at := t, d_updated_at := t \<rparr>"
  have r: "r \<in> set (c_dead_letters db)" using bump(1) by (rule tget_Some_mem)
  have L: "letters_ok cd (c_dead_letters db)" using assms(1) by (simp add: replay_ok_def)
  have put: "tput dead_letter_key ?r (c_dead_letters db) = tput d_id ?r (c_dead_letters db)"
    using L r by (intro tput_other_key) (auto simp: letters_ok_def dead_letter_key_def)
  have "tget d_id (d_id r) (c_dead_letters db) = Some r" using L r by (simp add: letters_ok_def tget_mem)
  then have "bound_ok (tput d_id ?r (c_dead_letters db)) (c_attempts db)"
    using assms(1) by (intro bound_ok_letter) (auto simp: replay_ok_def bound_ok_def list_all_iff)
  moreover have "letters_ok cd (tput d_id ?r (c_dead_letters db))"
    using L r bump(4) by (intro letters_ok_put) (auto simp: dead_letter_key_def)
  ultimately show ?thesis using assms(1) bump(3) by (simp add: replay_ok_def put)
next
  case (add r)
  have "bound_ok (c_dead_letters db @ [r]) (c_attempts db)"
    using assms(1) unfolding replay_ok_def bound_ok_def list_all_iff tget_append by fastforce
  then show ?thesis using assms(1) add by (auto simp: replay_ok_def letters_ok_def tget_None_iff)
qed

section \<open>Interleaved transactions\<close>

text \<open>The committed tables with the claims handed out so far; operators run their transactions in any
  order and at any clock, the consumer delivers and dead-letters records in between.\<close>

inductive replay_step ::
  "codec \<Rightarrow> pydantic \<Rightarrow> consumer_db \<times> replay_claim list \<Rightarrow> consumer_db \<times> replay_claim list \<Rightarrow> bool" for cd pd where
  tx1: "claim cd db rq ls now tok i = (db', res) \<Longrightarrow>
        replay_step cd pd (db, cs) (db', case res of Inr (Claimed cl) \<Rightarrow> cl # cs | _ \<Rightarrow> cs)"
| tx2: "cl \<in> set cs \<Longrightarrow> apply_claim cd pd db cl now fault now3 = (db', res) \<Longrightarrow> replay_step cd pd (db, cs) (db', cs)"
| tx3: "cl \<in> set cs \<Longrightarrow> record_failure cd db cl now = (db', res) \<Longrightarrow> replay_step cd pd (db, cs) (db', cs)"
| deliver: "replay_step cd pd (db, cs) (Consumer_Exactly_Once.deliver db x, cs)"
| dead_letter: "upsert cd db new_id cid part off code n t ret = Inr (db', i) \<Longrightarrow> replay_step cd pd (db, cs) (db', cs)"

inductive_cases replay_stepE: "replay_step cd pd s s'"

definition replay_inv :: "codec \<Rightarrow> consumer_db \<times> replay_claim list \<Rightarrow> bool" where
  "replay_inv cd s \<longleftrightarrow> replay_ok cd (fst s) \<and> list_all (claim_issued (fst s)) (snd s)"

lemma replay_inv_evolves:
  "list_all (claim_issued db) cs \<Longrightarrow> attempts_evolve db db' \<Longrightarrow> list_all (claim_issued db') cs"
  by (auto simp: list_all_iff dest: claim_issued_evolves)

lemma upsert_attempts: "upsert cd db new_id cid part off code n t ret = Inr (db', i) \<Longrightarrow> c_attempts db' = c_attempts db"
  by (erule upsert_cases) auto

lemma replay_step_inv:
  assumes "replay_step cd pd s s'" "replay_inv cd s"
  shows "replay_inv cd s' \<and> attempts_evolve (fst s) (fst s')"
  using assms
proof (induction rule: replay_step.induct)
  case (tx1 db rq ls now tok i db' res cs)
  then have ok: "replay_ok cd db" "list_all (claim_issued db) cs" by (simp_all add: replay_inv_def)
  have ev: "attempts_evolve db db'" and new: "case res of Inr (Claimed cl) \<Rightarrow> claim_issued db' cl | _ \<Rightarrow> True"
    using claim_evolves[OF ok(1) tx1(1)] by auto
  show ?case
    using claim_ok[OF ok(1) tx1(1)] new replay_inv_evolves[OF ok(2) ev] ev
    by (auto simp: replay_inv_def split: sum.splits claim_result.splits)
next
  case (tx2 cl cs db now fault now3 db' res)
  then have "replay_ok cd db' \<and> attempts_evolve db db'"
    by (intro apply_claim_ok[OF _ _ tx2(2)]) (auto simp: replay_inv_def list_all_iff)
  with tx2 replay_inv_evolves show ?case by (auto simp: replay_inv_def)
next
  case (tx3 cl cs db now db' res)
  then have "replay_ok cd db' \<and> attempts_evolve db db'"
    by (intro record_failure_ok[OF _ _ tx3(2)]) (auto simp: replay_inv_def list_all_iff)
  with tx3 replay_inv_evolves show ?case by (auto simp: replay_inv_def)
next
  case (deliver db cs x)
  have ev: "attempts_evolve db (Consumer_Exactly_Once.deliver db x)" by (simp add: attempts_evolve_same)
  with deliver replay_inv_evolves[OF _ ev] show ?case by (auto simp: replay_inv_def replay_ok_def)
next
  case (dead_letter db new_id cid part off code n t ret db' i cs)
  then have ev: "attempts_evolve db db'" by (intro attempts_evolve_same upsert_attempts)
  with dead_letter replay_inv_evolves[OF _ ev] show ?case by (auto simp: replay_inv_def dest: upsert_ok)
qed

lemma replay_steps_inv:
  assumes "(replay_step cd pd)\<^sup>*\<^sup>* s s'" "replay_inv cd s"
  shows "replay_inv cd s' \<and> attempts_evolve (fst s) (fst s')"
  using assms
proof (induction rule: rtranclp_induct)
  case base
  then show ?case by (simp add: attempts_evolve_same)
next
  case (step y z)
  then show ?case using replay_step_inv attempts_evolve_trans by blast
qed

section \<open>Idempotency keys\<close>

lemma outcome_of_value [simp]: "outcome_of (outcome_value v) = Some v"
  by (cases v) (simp_all add: outcome_of_def)

lemma outcome_of_Some: "outcome_of s = Some v \<Longrightarrow> outcome_value v = s"
  by (auto simp: outcome_of_def split: if_splits)

text \<open>A request whose key already has a finished attempt with the same fingerprint.\<close>

definition answered :: "consumer_db \<Rightarrow> replay_request \<Rightarrow> uuid \<Rightarrow> replay_outcome \<Rightarrow> bool" where
  "answered db rq i v \<longleftrightarrow>
     tget d_id (rq_dead_letter_id rq) (c_dead_letters db) \<noteq> None \<and>
     (\<exists>a. tget attempt_key (rq_dead_letter_id rq, rq_idempotency_key rq) (c_attempts db) = Some a \<and> a_id a = i \<and>
          a_request_fingerprint a = rq_request_fingerprint rq \<and> a_status a = outcome_value v \<and> v \<noteq> OUTCOME_IN_PROGRESS)"

lemma answered_replay:
  assumes "answered db rq i v"
  shows "replay cd pd db rq ls tok k now1 now2 fault now3 = (db, Inr (i, v))"
proof -
  have "outcome_value v \<noteq> ''IN_PROGRESS''" using assms by (cases v) (auto simp: answered_def)
  then show ?thesis using assms by (auto simp: answered_def replay_def claim_def Let_def)
qed

lemma tget_attempt_key:
  assumes "attempts_ok A" "tget a_id i A = Some a"
  shows "tget attempt_key (attempt_key a) A = Some a"
  using assms tget_Some_mem[OF assms(2)] by (intro tget_mem) (auto simp: attempts_ok_def)

lemma finished_claim_answers:
  assumes ok: "replay_ok cd db" and a: "tget a_id (cl_attempt_id cl) (c_attempts db) = Some a" and v: "v \<noteq> OUTCOME_IN_PROGRESS"
    and key: "attempt_key a = (rq_dead_letter_id rq, rq_idempotency_key rq)" "a_request_fingerprint a = rq_request_fingerprint rq"
    and same: "c_dead_letters db0 = c_dead_letters db" "c_attempts db0 = c_attempts db"
    and row: "tget d_id (rq_dead_letter_id rq) (c_dead_letters db) = Some row"
    and at': "commit_attempt (finish_attempt (outcome_value v) now a) db0 = Inr db1"
    and lt: "commit_letter cd (released_letter state now row) db1 = Inr db2"
  shows "answered db2 rq (cl_attempt_id cl) v"
proof -
  let ?f = "finish_attempt (outcome_value v) now a"
  have A: "c_attempts db2 = tput a_id ?f (c_attempts db)" and L: "c_dead_letters db2 = tput d_id (released_letter state now row) (c_dead_letters db)"
    and ck: "attempt_checks ?f" using at' lt same by (auto simp: bind_simps)
  have id: "a_id a = cl_attempt_id cl" using tget_Some_key[OF a] .
  have "attempts_ok (tput a_id ?f (c_attempts db))"
    using ok ck tget_Some_mem[OF a] by (intro attempts_ok_put) (auto simp: replay_ok_def)
  moreover have "tget a_id (cl_attempt_id cl) (tput a_id ?f (c_attempts db)) = Some ?f" using a id by (simp add: tget_tput)
  ultimately have "tget attempt_key (attempt_key ?f) (tput a_id ?f (c_attempts db)) = Some ?f" by (rule tget_attempt_key)
  then show ?thesis
    using key v id row tget_Some_key[OF row]
    by (auto simp: answered_def A L tget_tput finish_attempt_def attempt_key_def split: option.splits)
qed

lemma claimed_attempt:
  assumes "claim cd db rq ls now tok i = (db', Inr (Claimed cl))"
  shows "\<exists>a row. tget a_id (cl_attempt_id cl) (c_attempts db') = Some a \<and>
      attempt_key a = (rq_dead_letter_id rq, rq_idempotency_key rq) \<and> a_request_fingerprint a = rq_request_fingerprint rq \<and>
      cl_dead_letter_id cl = rq_dead_letter_id rq \<and> tget d_id (rq_dead_letter_id rq) (c_dead_letters db) = Some row \<and>
      replay_claimable row now \<and> cl_ownership_token cl = tok \<and>
      c_dead_letters db' = tput d_id (claimed_letter tok (now + timedelta_seconds ls) now row) (c_dead_letters db)"
proof -
  obtain row where row: "tget d_id (rq_dead_letter_id rq) (c_dead_letters db) = Some row" "replay_claimable row now"
    and g: "grant_claim cd db rq row ls now tok i = Inr db'"
    and cl: "cl = \<lparr> cl_dead_letter_id = rq_dead_letter_id rq, cl_attempt_id = i, cl_ownership_token = tok \<rparr>"
    using assms by (auto simp: claim_def Let_def split: option.splits if_splits sum.splits)
  obtain db1 where "lose_attempts (rq_dead_letter_id rq) (d_replay_claim_token row) now db = Inr db1"
    and db1: "tget a_id i (c_attempts db1) = None" "c_attempts db' = c_attempts db1 @ [new_attempt rq i tok now]"
    "c_dead_letters db' = tput d_id (claimed_letter tok (now + timedelta_seconds ls) now row) (c_dead_letters db)"
    using g by (rule grant_claimE)
  then show ?thesis using row cl db1 by (auto simp: tget_append new_attempt_def attempt_key_def)
qed

lemma replay_answers:
  assumes ok: "replay_ok cd db" and run: "replay cd pd db rq ls tok k now1 now2 fault now3 = (db', Inr (i, v))"
    and v: "v \<noteq> OUTCOME_IN_PROGRESS"
  shows "answered db' rq i v"
proof (cases "claim cd db rq ls now1 tok k")
  case (Pair db1 res)
  show ?thesis
  proof (cases "\<exists>cl. res = Inr (Claimed cl)")
    case False
    then have "claim cd db rq ls now1 tok k = (db', Inr (Finished i v))"
      using run Pair by (auto simp: replay_def split: sum.splits claim_result.splits prod.splits)
    then show ?thesis using v
      by (auto simp: claim_def answered_def Let_def split: option.splits if_splits sum.splits dest: outcome_of_Some)
  next
    case True
    then obtain cl where cl: "claim cd db rq ls now1 tok k = (db1, Inr (Claimed cl))" using Pair by auto
    then have ap: "apply_claim cd pd db1 cl now2 fault now3 = (db', Inr v)" "i = cl_attempt_id cl"
      using run by (auto simp: replay_def split: prod.splits sum.splits)
    obtain a where a: "tget a_id (cl_attempt_id cl) (c_attempts db1) = Some a"
      "attempt_key a = (rq_dead_letter_id rq, rq_idempotency_key rq)" "a_request_fingerprint a = rq_request_fingerprint rq"
      "cl_dead_letter_id cl = rq_dead_letter_id rq" using claimed_attempt[OF cl] by blast
    have ok1: "replay_ok cd db1" using claim_ok[OF ok cl] .
    have fail: "answered d rq (cl_attempt_id cl) w" if rf: "record_failure cd db1 cl t = (d, Inr w)" for d w t
    proof -
      obtain row b db2 where own: "owned_claim db1 cl t = Some (row, b)" and w: "w = OUTCOME_FAILED"
        and c: "commit_attempt (finish_attempt ''FAILED'' t b) db1 = Inr db2" "commit_letter cd (released_letter ''REPLAY_FAILED'' t row) db2 = Inr d"
        using rf by (auto simp: record_failure_def bindE_eq_Inr split: option.splits sum.splits)
      then have "b = a" "tget d_id (rq_dead_letter_id rq) (c_dead_letters db1) = Some row" using a by (auto simp: bind_simps)
      then show ?thesis using finished_claim_answers[OF ok1 a(1) _ a(2,3) refl refl _ _ c(2), where v = OUTCOME_FAILED] c w by simp
    qed
    show ?thesis
    proof (cases "fault = None \<and> (\<exists>out. v = (if out = APPLIED then OUTCOME_APPLIED else OUTCOME_DUPLICATE) \<and>
        (\<exists>row b. owned_claim db1 cl now2 = Some (row, b) \<and> replay_effect cd pd db1 row b now2 = Inr (db', out)))")
      case False
      then have "record_failure cd db1 cl now3 = (db', Inr v)"
        using ap(1) by (auto simp: apply_claim_def Let_def split: option.splits sum.splits if_splits) blast
      then show ?thesis using fail ap(2) by simp
    next
      case True
      then obtain out row b where out: "v = (if out = APPLIED then OUTCOME_APPLIED else OUTCOME_DUPLICATE)"
        "owned_claim db1 cl now2 = Some (row, b)" "replay_effect cd pd db1 row b now2 = Inr (db', out)" by blast
      obtain event db0 db2 where e:
        "record_and_apply db1 (d_consumer_id row) event (d_kafka_partition row) (d_kafka_offset row) now2
           (\<lambda>s e. apply_projection s e now2) = Inr (db0, out)"
        "commit_attempt (finish_attempt (if out = APPLIED then ''APPLIED'' else ''DUPLICATE'') now2 b) db0 = Inr db2"
        "commit_letter cd (released_letter (if out = APPLIED then ''REPLAYED_APPLIED'' else ''REPLAYED_DUPLICATE'') now2 row) db2 = Inr db'"
        using out(3) unfolding replay_effect_Inr by blast
      have "b = a" "tget d_id (rq_dead_letter_id rq) (c_dead_letters db1) = Some row" using out(2) a by (auto simp: bind_simps)
      moreover have "outcome_value v = (if out = APPLIED then ''APPLIED'' else ''DUPLICATE'')" using out(1) by simp
      ultimately show ?thesis
        using finished_claim_answers[OF ok1 a(1) v a(2,3) record_and_apply_frame[OF e(1)] _ _ e(3)] e(2) ap(2) by simp
    qed
  qed
qed

section \<open>Retention\<close>

definition sha256_law :: "(string \<Rightarrow> string) \<Rightarrow> bool" where
  "sha256_law sha256_hex \<longleftrightarrow> (\<forall>b. hex64 (sha256_hex b))"

lemma tier_a_iff: "failure_code_for err \<in> set TIER_A_ELIGIBLE_FAILURE_CODES \<longleftrightarrow> err = LifecycleOrderViolationError"
  by (cases err) (simp_all add: TIER_A_ELIGIBLE_FAILURE_CODES_def)

lemma headers_loop_no_lifecycle: "headers_loop cd m tp seen ps \<noteq> Inl LifecycleOrderViolationError"
  by (induction cd m tp seen ps rule: headers_loop.induct)
     (auto simp: bind_simps required_header_value_def split: header_value.splits option.splits)

lemma decode_no_lifecycle: "decode_message cd pd msg \<noteq> Inl LifecycleOrderViolationError"
proof -
  have "list_pairs ps \<noteq> Inl LifecycleOrderViolationError" for ps
    by (induction ps rule: list_pairs.induct) (auto simp: bind_simps)
  then have "headers_as_mapping cd msg \<noteq> Inl LifecycleOrderViolationError"
    using headers_loop_no_lifecycle
    by (auto simp: headers_as_mapping_def header_pairs_def bind_simps split: raw_headers.splits if_splits)
  moreover have "decode_value cd pd v \<noteq> Inl LifecycleOrderViolationError" for v
    by (auto simp: decode_value_def map_error_def split: option.splits if_splits py_value.splits sum.splits)
  ultimately show ?thesis by (auto simp: decode_message_def bind_simps split: if_splits)
qed

lemma untrusted_retention:
  assumes "sha256_law sha" "err \<noteq> LifecycleOrderViolationError"
  shows "\<exists>ret. build_retention cd pd sha (failure_code_for err) raw None = Some ret \<and> retention_checks cd ret \<and>
    \<not> dr_replay_eligible ret \<and> dr_retained_canonical_value ret = None \<and> dr_event_id ret = None"
  using assms tier_a_iff[of err]
  by (simp add: build_retention_def Let_def retention_checks_def sha256_law_def)

lemma trusted_retention:
  assumes "sha256_law sha"
  shows "\<exists>ret. build_retention cd pd sha (failure_code_for LifecycleOrderViolationError) raw (Some e) = Some ret \<and>
    retention_checks cd ret \<and> dr_event_id ret = Some (ev_event_id e) \<and> dr_aggregate_id ret = Some (ev_aggregate_id e) \<and>
    (dr_replay_eligible ret \<longleftrightarrow> length (cd_encode cd (serialize_domain_event cd pd e)) \<le> 32768) \<and>
    (dr_replay_eligible ret \<longrightarrow> dr_retained_canonical_value ret = Some (serialize_domain_event cd pd e))"
  using assms payload_type_supported[of "ev_payload e"]
  by (simp add: build_retention_def Let_def retention_checks_def sha256_law_def TIER_A_ELIGIBLE_FAILURE_CODES_def
      MAX_RETAINED_CANONICAL_VALUE_BYTES_def MAX_MESSAGE_VALUE_BYTES_def ev_event_type_def)

lemma retained_event_round_trip:
  assumes "codec_laws cd" "pydantic_laws pd" "event_ok e"
    "dr_retained_canonical_value (d_retention row) = Some (serialize_domain_event cd pd e)"
  shows "retained_event cd pd row = Inr e"
  using assms canonical_json_doc[of pd e] event_round_trip[OF assms(2,3)]
  by (simp add: retained_event_def serialize_domain_event_def codec_laws_def)

section \<open>A concrete dead letter\<close>

definition w_codec :: codec where
  "w_codec = \<lparr> cd_encode = (\<lambda>s. s), cd_decode = Some, cd_dumps = (\<lambda>_. []),
     cd_loads = (\<lambda>_. Some (domain_event_to_canonical_dict demo_pydantic w_event)) \<rparr>"

definition w_hex :: "char \<Rightarrow> string" where "w_hex c = replicate 64 c"

definition w_retention :: dead_letter_retention where
  "w_retention =
     \<lparr> dr_event_id = Some ''u1'', dr_event_type = Some ''research_job.failed'', dr_event_version = Some 1,
       dr_aggregate_type = Some ''research_job'', dr_aggregate_id = Some ''job-1'', dr_payload_sha256 = w_hex (CHR ''a''),
       dr_payload_byte_length = 0, dr_retained_canonical_value = Some [],
       dr_retained_header_event_type = Some ''research_job.failed'', dr_retained_header_event_version = Some ''1'',
       dr_retained_header_aggregate_type = Some ''research_job'', dr_replay_eligible = True \<rparr>"

definition w_letter :: dead_letter_row where
  "w_letter =
     \<lparr> d_id = ''d1'', d_consumer_id = RESEARCH_JOB_PROJECTION_CONSUMER_GROUP_V1, d_kafka_partition = 0, d_kafka_offset = 7,
       d_failure_code = ''lifecycle_order_violation'', d_processing_attempt_count = 1, d_dead_letter_delivery_count = 1,
       d_first_failed_at = 100, d_last_failed_at = 100, d_retention = w_retention, d_replay_state = ''PENDING'',
       d_replay_claim_token = None, d_replay_lease_expires_at = None, d_created_at = 100, d_updated_at = 100 \<rparr>"

definition w_letters_db :: consumer_db where
  "w_letters_db = empty_db\<lparr> c_dead_letters := [w_letter] \<rparr>"

definition w_request :: "string \<Rightarrow> replay_request" where
  "w_request key = \<lparr> rq_dead_letter_id = ''d1'', rq_idempotency_key = key, rq_actor_id = ''ops'',
     rq_operator_reason = ''fixed'', rq_request_fingerprint = w_hex (CHR ''b'') \<rparr>"

definition w_claimed_db :: consumer_db where
  "w_claimed_db = empty_db\<lparr> c_dead_letters := [claimed_letter (w_hex (CHR ''c'')) 10000200 200 w_letter],
     c_attempts := [new_attempt (w_request ''k1'') ''a1'' (w_hex (CHR ''c'')) 200] \<rparr>"

definition w_reclaimed_db :: consumer_db where
  "w_reclaimed_db = empty_db\<lparr> c_dead_letters := [claimed_letter (w_hex (CHR ''d'')) 30000000 20000000 w_letter],
     c_attempts := [finish_attempt ''LOST_OWNERSHIP'' 20000000 (new_attempt (w_request ''k1'') ''a1'' (w_hex (CHR ''c'')) 200),
                    new_attempt (w_request ''k2'') ''a2'' (w_hex (CHR ''d'')) 20000000] \<rparr>"

definition w_claim :: "uuid \<Rightarrow> char \<Rightarrow> replay_claim" where
  "w_claim i c = \<lparr> cl_dead_letter_id = ''d1'', cl_attempt_id = i, cl_ownership_token = w_hex c \<rparr>"

lemma hex64_w_hex [simp]: "hex64 (w_hex c) = hex_lower c" "(w_hex c = w_hex d) = (c = d)"
  by (auto simp: hex64_def w_hex_def list_all_iff)

lemma hex_lower_chars [simp]: "hex_lower (CHR ''a'')" "hex_lower (CHR ''b'')" "hex_lower (CHR ''c'')" "hex_lower (CHR ''d'')"
  by code_simp+

lemma w_texts [simp]: "sql_nonblank ''ops''" "sql_nonblank ''fixed''" "sql_nonblank ''k1''" "sql_nonblank ''k2''"
  by (auto simp: sql_nonblank_def)

lemmas w_defs = w_letter_def w_letters_db_def w_claimed_db_def w_reclaimed_db_def w_request_def w_retention_def w_codec_def
  empty_db_def claimed_letter_def released_letter_def new_attempt_def finish_attempt_def attempt_key_def

lemmas w_checks = dead_letter_checks_def retention_checks_def replay_claim_checks_def attempt_checks_def REPLAY_STATES_def
  ATTEMPT_STATUSES_def SUPPORTED_EVENT_TYPES_def ALLOWED_FAILURE_CODES_SQL_def

lemmas w_ops = replay_claimable_def replay_lease_expired_def UNCLAIMED_REPLAYABLE_STATES_def lose_attempts_def insert_attempt_def
  commit_letter_def commit_attempt_def upsert_def dead_letter_key_def

lemma claim_grants:
  assumes "tget d_id (rq_dead_letter_id rq) (c_dead_letters db) = Some row"
    "tget attempt_key (rq_dead_letter_id rq, rq_idempotency_key rq) (c_attempts db) = None" "replay_claimable row now"
    "lose_attempts (rq_dead_letter_id rq) (d_replay_claim_token row) now db = Inr db1"
    "insert_attempt (new_attempt rq i tok now) db1 = Inr db2" "now + timedelta_seconds ls = lease"
    "commit_letter cd (claimed_letter tok lease now row) db2 = Inr db3"
  shows "claim cd db rq ls now tok i =
    (db3, Inr (Claimed \<lparr> cl_dead_letter_id = rq_dead_letter_id rq, cl_attempt_id = i, cl_ownership_token = tok \<rparr>))"
  using assms by (simp add: claim_def grant_claim_def)

lemma w_upsert:
  "upsert w_codec empty_db ''d1'' RESEARCH_JOB_PROJECTION_CONSUMER_GROUP_V1 0 7 ''lifecycle_order_violation'' 1 100 w_retention =
     Inr (w_letters_db, ''d1'')"
  by (simp add: w_defs w_checks w_ops)

lemma w_first_claim:
  "claim w_codec w_letters_db (w_request ''k1'') 10 200 (w_hex (CHR ''c'')) ''a1'' =
     (w_claimed_db, Inr (Claimed (w_claim ''a1'' (CHR ''c''))))"
proof -
  let ?rq = "w_request ''k1''"
  have "claim w_codec w_letters_db ?rq 10 200 (w_hex (CHR ''c'')) ''a1'' =
    (w_claimed_db, Inr (Claimed \<lparr> cl_dead_letter_id = rq_dead_letter_id ?rq, cl_attempt_id = ''a1'',
       cl_ownership_token = w_hex (CHR ''c'') \<rparr>))"
  proof (rule claim_grants)
    show "tget d_id (rq_dead_letter_id ?rq) (c_dead_letters w_letters_db) = Some w_letter" by (simp add: w_defs w_checks w_ops)
    show "tget attempt_key (rq_dead_letter_id ?rq, rq_idempotency_key ?rq) (c_attempts w_letters_db) = None" by (simp add: w_defs w_checks w_ops)
    show "replay_claimable w_letter 200" by (simp add: w_defs w_checks w_ops)
    show "lose_attempts (rq_dead_letter_id ?rq) (d_replay_claim_token w_letter) 200 w_letters_db = Inr w_letters_db"
      by (simp add: w_defs w_checks w_ops)
    show "insert_attempt (new_attempt ?rq ''a1'' (w_hex (CHR ''c'')) 200) w_letters_db =
        Inr (w_letters_db\<lparr> c_attempts := c_attempts w_claimed_db \<rparr>)" by (simp add: w_defs w_checks w_ops)
    show "200 + timedelta_seconds 10 = 10000200" by simp
    show "commit_letter w_codec (claimed_letter (w_hex (CHR ''c'')) 10000200 200 w_letter)
        (w_letters_db\<lparr> c_attempts := c_attempts w_claimed_db \<rparr>) = Inr w_claimed_db" by (simp add: w_defs w_checks w_ops)
  qed
  then show ?thesis by (simp add: w_request_def w_claim_def)
qed

lemma w_second_claim:
  "claim w_codec w_claimed_db (w_request ''k2'') 10 20000000 (w_hex (CHR ''d'')) ''a2'' =
     (w_reclaimed_db, Inr (Claimed (w_claim ''a2'' (CHR ''d''))))"
proof -
  let ?rq = "w_request ''k2''" and ?r = "claimed_letter (w_hex (CHR ''c'')) 10000200 200 w_letter"
  let ?db1 = "w_claimed_db\<lparr> c_attempts := [finish_attempt ''LOST_OWNERSHIP'' 20000000
    (new_attempt (w_request ''k1'') ''a1'' (w_hex (CHR ''c'')) 200)] \<rparr>"
  have "claim w_codec w_claimed_db ?rq 10 20000000 (w_hex (CHR ''d'')) ''a2'' =
    (w_reclaimed_db, Inr (Claimed \<lparr> cl_dead_letter_id = rq_dead_letter_id ?rq, cl_attempt_id = ''a2'',
       cl_ownership_token = w_hex (CHR ''d'') \<rparr>))"
  proof (rule claim_grants)
    show "tget d_id (rq_dead_letter_id ?rq) (c_dead_letters w_claimed_db) = Some ?r" by (simp add: w_defs w_checks w_ops)
    show "tget attempt_key (rq_dead_letter_id ?rq, rq_idempotency_key ?rq) (c_attempts w_claimed_db) = None" by (simp add: w_defs w_checks w_ops)
    show "replay_claimable ?r 20000000" by (simp add: w_defs w_checks w_ops)
    show "lose_attempts (rq_dead_letter_id ?rq) (d_replay_claim_token ?r) 20000000 w_claimed_db = Inr ?db1" by (simp add: w_defs w_checks w_ops)
    show "insert_attempt (new_attempt ?rq ''a2'' (w_hex (CHR ''d'')) 20000000) ?db1 =
        Inr (?db1\<lparr> c_attempts := c_attempts w_reclaimed_db \<rparr>)" by (simp add: w_defs w_checks w_ops)
    show "20000000 + timedelta_seconds 10 = 30000000" by simp
    show "commit_letter w_codec (claimed_letter (w_hex (CHR ''d'')) 30000000 20000000 ?r)
        (?db1\<lparr> c_attempts := c_attempts w_reclaimed_db \<rparr>) = Inr w_reclaimed_db" by (simp add: w_defs w_checks w_ops)
  qed
  then show ?thesis by (simp add: w_request_def w_claim_def)
qed

lemma empty_replay_ok: "replay_ok cd empty_db"
  by (simp add: replay_ok_def letters_ok_def attempts_ok_def bound_ok_def empty_db_def)

lemma w_dbs_ok: "replay_ok w_codec w_letters_db" "replay_ok w_codec w_claimed_db"
  using upsert_ok[OF empty_replay_ok w_upsert] claim_ok[OF _ w_first_claim] by blast+

end
