(* ===== verification/Replay_Safety.thy ===== *)
theory Replay_Safety
  imports Dead_Letters
begin

text \<open>
  The properties of dead-lettering and operator replay: the invariant of interleaved replays, the
  fence against superseded and expired operators, idempotent requests, and what is retained.
\<close>

lemma replay_inv_reachable:
  assumes "(replay_step cd pd)\<^sup>*\<^sup>* (empty_db, []) (db, cs)"
  shows "replay_inv cd (db, cs)"
  using replay_steps_inv[OF assms] by (simp add: replay_inv_def empty_replay_ok)

text \<open>A transaction of a claim that is not live leaves everything but its own attempt alone.\<close>

lemma lost_claim_inert:
  assumes "owned_claim db cl now = None" "owned_claim db cl now3 = None"
    "apply_claim cd pd db cl now fault now3 = (db', res)"
  shows "c_inbox db' = c_inbox db \<and> c_projection db' = c_projection db \<and> c_dead_letters db' = c_dead_letters db \<and>
    (\<forall>i. i \<noteq> cl_attempt_id cl \<longrightarrow> tget a_id i (c_attempts db') = tget a_id i (c_attempts db)) \<and> (\<exists>err. res = Inl err)"
proof -
  let ?inert = "\<lambda>d. c_inbox d = c_inbox db \<and> c_projection d = c_projection db \<and> c_dead_letters d = c_dead_letters db \<and>
    (\<forall>i. i \<noteq> cl_attempt_id cl \<longrightarrow> tget a_id i (c_attempts d) = tget a_id i (c_attempts db))"
  have lose: "?inert d" if "lose_own_attempt db cl t = Inr d" for d t
    using that by (auto simp: lose_own_attempt_def bind_simps tget_tput dest: tget_Some_key split: option.splits if_splits)
  have fail: "?inert d \<and> (\<exists>err. r = Inl err)" if "record_failure cd db cl now3 = (d, r)" for d r
    using that assms(2) lose by (auto simp: record_failure_def split: sum.splits)
  show ?thesis
  proof (cases fault)
    case (Some x)
    with assms(3) fail show ?thesis by (auto simp: apply_claim_def Let_def split: if_splits)
  next
    case None
    with assms(1,3) fail lose show ?thesis by (auto simp: apply_claim_def Let_def split: if_splits sum.splits)
  qed
qed

section \<open>Properties\<close>

text \<open>
  C28. Interleaved replays: whatever transactions of whatever operators run in whatever order and at
  whatever clock, between deliveries and dead-letterings, at most one attempt per dead letter is in
  progress, it holds the letter's live token and the letter is in state \<open>REPLAYING\<close>; every row
  satisfies the constraints of its table; and no attempt's audit fields or final status ever change.
\<close>

theorem replay_attempts_bound:
  assumes "(replay_step cd pd)\<^sup>*\<^sup>* (empty_db, []) (db, cs)" "(replay_step cd pd)\<^sup>*\<^sup>* (db, cs) (db', cs')"
  shows "(\<forall>a \<in> set (c_attempts db). in_progress a \<longrightarrow>
      (\<exists>row \<in> set (c_dead_letters db). d_id row = a_dead_letter_id a \<and> d_replay_state row = ''REPLAYING'' \<and>
         d_replay_claim_token row = Some (a_ownership_token a)) \<and>
      (\<forall>b \<in> set (c_attempts db). in_progress b \<and> a_dead_letter_id b = a_dead_letter_id a \<longrightarrow> b = a)) \<and>
    list_all (dead_letter_checks cd) (c_dead_letters db) \<and> list_all attempt_checks (c_attempts db) \<and> attempts_evolve db db'"
proof -
  have inv: "replay_inv cd (db, cs)" by (rule replay_inv_reachable[OF assms(1)])
  then have ok: "letters_ok cd (c_dead_letters db)" "attempts_ok (c_attempts db)" "bound_ok (c_dead_letters db) (c_attempts db)"
    by (simp_all add: replay_inv_def replay_ok_def)
  have letters: "list_all (dead_letter_checks cd) (c_dead_letters db)" and attempts: "list_all attempt_checks (c_attempts db)"
    using ok(1,2) by (simp_all add: letters_ok_def attempts_ok_def)
  have "\<exists>row \<in> set (c_dead_letters db). d_id row = a_dead_letter_id a \<and> d_replay_state row = ''REPLAYING'' \<and>
      d_replay_claim_token row = Some (a_ownership_token a)" if a: "a \<in> set (c_attempts db)" "in_progress a" for a
  proof -
    obtain row where row: "tget d_id (a_dead_letter_id a) (c_dead_letters db) = Some row"
      "d_replay_claim_token row = Some (a_ownership_token a)" using ok(3) a unfolding bound_ok_def list_all_iff by blast
    have mem: "row \<in> set (c_dead_letters db)" using row(1) by (rule tget_Some_mem)
    then have "replay_claim_checks row" using letters by (simp add: list_all_iff dead_letter_checks_def)
    then have "d_replay_state row = ''REPLAYING''" using row(2) by (simp add: replay_claim_checks_def)
    then show ?thesis using mem row tget_Some_key[OF row(1)] by blast
  qed
  moreover have uniq: "\<forall>a \<in> set (c_attempts db). \<forall>b \<in> set (c_attempts db).
      in_progress a \<and> in_progress b \<and> a_dead_letter_id a = a_dead_letter_id b \<longrightarrow> a = b"
    using ok(3) unfolding bound_ok_def list_all_iff by (rule conjunct2)
  moreover have "b = a" if "a \<in> set (c_attempts db)" "in_progress a" "b \<in> set (c_attempts db)" "in_progress b"
      "a_dead_letter_id b = a_dead_letter_id a" for a b
    using bspec[OF bspec[OF uniq that(1)] that(3)] that(2,4,5) by simp
  moreover have "attempts_evolve db db'" using replay_steps_inv[OF assms(2) inv] by simp
  ultimately show ?thesis using letters attempts by blast
qed

theorem replay_attempts_bound_witness:
  "\<exists>row. row \<in> set (c_dead_letters w_reclaimed_db) \<and> d_id row = ''d1'' \<and> d_replay_state row = ''REPLAYING'' \<and>
     d_replay_claim_token row = Some (w_hex (CHR ''d''))"
proof -
  have up: "replay_step w_codec demo_pydantic (empty_db, []) (w_letters_db, [])" by (rule replay_step.dead_letter[OF w_upsert])
  have c1: "replay_step w_codec demo_pydantic (w_letters_db, []) (w_claimed_db, [w_claim ''a1'' (CHR ''c'')])"
    using replay_step.tx1[OF w_first_claim, of demo_pydantic "[]"] by simp
  have c2: "replay_step w_codec demo_pydantic (w_claimed_db, [w_claim ''a1'' (CHR ''c'')])
      (w_reclaimed_db, [w_claim ''a2'' (CHR ''d''), w_claim ''a1'' (CHR ''c'')])"
    using replay_step.tx1[OF w_second_claim, of demo_pydantic "[w_claim ''a1'' (CHR ''c'')]"] by simp
  have a2: "new_attempt (w_request ''k2'') ''a2'' (w_hex (CHR ''d'')) 20000000 \<in> set (c_attempts w_reclaimed_db)"
    by (simp add: w_reclaimed_db_def)
  have "(replay_step w_codec demo_pydantic)\<^sup>*\<^sup>* (empty_db, []) (w_letters_db, [])" by (rule r_into_rtranclp) (rule up)
  then have "(replay_step w_codec demo_pydantic)\<^sup>*\<^sup>* (empty_db, []) (w_claimed_db, [w_claim ''a1'' (CHR ''c'')])"
    using c1 by (rule rtranclp.rtrancl_into_rtrancl)
  then have reach: "(replay_step w_codec demo_pydantic)\<^sup>*\<^sup>* (empty_db, [])
      (w_reclaimed_db, [w_claim ''a2'' (CHR ''d''), w_claim ''a1'' (CHR ''c'')])"
    using c2 by (rule rtranclp.rtrancl_into_rtrancl)
  show ?thesis
    using replay_attempts_bound [OF reach rtranclp.rtrancl_refl, THEN conjunct1, THEN bspec, OF a2]
    by (auto simp: new_attempt_def w_request_def)
qed

text \<open>
  C15. The replay fence: when a second operator is granted a claim on a dead letter, nobody owned it
  any more, and from then on no transaction of an earlier claim with another token, whatever its
  clock and whatever the database does, applies the event, touches the projection, the inbox, any
  dead letter or any attempt but its own, and it reports an error.
\<close>

theorem replay_claim_fences_earlier_owner:
  assumes "claim cd db rq ls now tok i = (db1, Inr (Claimed cl))"
    "cl_dead_letter_id old = rq_dead_letter_id rq" "cl_ownership_token old \<noteq> tok"
    "apply_claim cd pd db1 old t2 fault t3 = (db2, res)"
  shows "(\<exists>row. tget d_id (rq_dead_letter_id rq) (c_dead_letters db) = Some row \<and> (\<forall>tok' t. now \<le> t \<longrightarrow> \<not> owns_replay row tok' t)) \<and>
    c_inbox db2 = c_inbox db1 \<and> c_projection db2 = c_projection db1 \<and> c_dead_letters db2 = c_dead_letters db1 \<and>
    (\<forall>k. k \<noteq> cl_attempt_id old \<longrightarrow> tget a_id k (c_attempts db2) = tget a_id k (c_attempts db1)) \<and> (\<exists>err. res = Inl err)"
proof -
  obtain row where row: "tget d_id (rq_dead_letter_id rq) (c_dead_letters db) = Some row" "replay_claimable row now"
    "c_dead_letters db1 = tput d_id (claimed_letter tok (now + timedelta_seconds ls) now row) (c_dead_letters db)"
    using claimed_attempt[OF assms(1)] by blast
  let ?r = "claimed_letter tok (now + timedelta_seconds ls) now row"
  have g: "replay_granted row tok now (now + timedelta_seconds ls) ?r" using row(2) by (simp add: replay_granted_def)
  have "\<not> owns_replay ?r (cl_ownership_token old) t" for t
    by (rule replay_claims.granted_fences_others[OF g assms(3)])
  moreover have "tget d_id (cl_dead_letter_id old) (c_dead_letters db1) = Some ?r"
    using row assms(2) tget_Some_key[OF row(1)] by (simp add: tget_tput)
  ultimately have none: "owned_claim db1 old t = None" for t by (auto simp: owned_claim_def split: option.splits)
  have "\<forall>tok' t. now \<le> t \<longrightarrow> \<not> owns_replay row tok' t"
    using replay_claims.claimable_fences_owner[OF row(2)] by simp
  then show ?thesis using lost_claim_inert[OF none none assms(4)] row(1) by (intro conjI) auto
qed

theorem replay_claim_fences_earlier_owner_witness:
  "c_projection (fst (apply_claim w_codec demo_pydantic w_reclaimed_db (w_claim ''a1'' (CHR ''c'')) 20000001 None 20000002)) = []"
proof -
  obtain d r where "apply_claim w_codec demo_pydantic w_reclaimed_db (w_claim ''a1'' (CHR ''c'')) 20000001 None 20000002 = (d, r)"
    by fastforce
  moreover have "cl_ownership_token (w_claim ''a1'' (CHR ''c'')) \<noteq> w_hex (CHR ''d'')" by (simp add: w_claim_def)
  ultimately show ?thesis
    using replay_claim_fences_earlier_owner [OF w_second_claim, of "w_claim ''a1'' (CHR ''c'')" demo_pydantic 20000001 None 20000002 d r]
    by (simp add: w_claim_def w_request_def) (simp add: w_reclaimed_db_def empty_db_def)
qed

text \<open>
  C29. Replay requests are idempotent: once a request has been answered with a final outcome, sending
  it again, at whatever time and with whatever fresh token and id, returns the same attempt and
  outcome and changes nothing.
\<close>

theorem replay_is_idempotent:
  assumes "replay_ok cd db" "replay cd pd db rq ls tok k n1 n2 fault n3 = (db', Inr (i, v))" "v \<noteq> OUTCOME_IN_PROGRESS"
  shows "replay cd pd db' rq ls' tok' k' m1 m2 fault' m3 = (db', Inr (i, v))"
  by (rule answered_replay[OF replay_answers[OF assms]])

lemma w_replay:
  "\<exists>db'. replay w_codec demo_pydantic w_letters_db (w_request ''k1'') 10 (w_hex (CHR ''c'')) ''a1'' 200 300 None 400 =
     (db', Inr (''a1'', OUTCOME_APPLIED)) \<and> length (c_inbox db') = 1"
proof -
  let ?r = "claimed_letter (w_hex (CHR ''c'')) 10000200 200 w_letter"
  let ?a = "new_attempt (w_request ''k1'') ''a1'' (w_hex (CHR ''c'')) 200"
  let ?d0 = "w_claimed_db\<lparr> c_projection := [projected_row w_event 300],
     c_inbox := [\<lparr> i_consumer_id = RESEARCH_JOB_PROJECTION_CONSUMER_GROUP_V1, i_event_id = ''u1'',
       i_event_type = ''research_job.failed'', i_received_at = 300, i_kafka_partition = 0, i_kafka_offset = 7 \<rparr>] \<rparr>"
  let ?d1 = "?d0\<lparr> c_attempts := [finish_attempt ''APPLIED'' 300 ?a] \<rparr>"
  let ?d2 = "?d1\<lparr> c_dead_letters := [released_letter ''REPLAYED_APPLIED'' 300 ?r] \<rparr>"
  have "retained_event w_codec demo_pydantic ?r = Inr w_event"
    using event_round_trip[OF demo_pydantic_laws w_event_ok]
    by (simp add: retained_event_def w_codec_def claimed_letter_def w_letter_def w_retention_def)
  moreover have "record_and_apply w_claimed_db (d_consumer_id ?r) w_event (d_kafka_partition ?r) (d_kafka_offset ?r) 300
      (\<lambda>s e. apply_projection s e 300) = Inr (?d0, APPLIED)"
    by (simp add: record_and_apply_def apply_projection_def flush_projection_def inbox_checks_def projected_row_def w_event_def
        ev_event_type_def w_defs SUPPORTED_EVENT_TYPES_def)
  moreover have "commit_attempt (finish_attempt ''APPLIED'' 300 ?a) ?d0 = Inr ?d1" by (simp add: w_defs w_checks w_ops)
  moreover have "commit_letter w_codec (released_letter ''REPLAYED_APPLIED'' 300 ?r) ?d1 = Inr ?d2" by (simp add: w_defs w_checks w_ops)
  ultimately have "replay_effect w_codec demo_pydantic w_claimed_db ?r ?a 300 = Inr (?d2, APPLIED)"
    unfolding replay_effect_Inr by (intro exI conjI) simp_all
  moreover have "owned_claim w_claimed_db (w_claim ''a1'' (CHR ''c'')) 300 = Some (?r, ?a)"
    by (simp add: owned_claim_def owns_replay_def w_claim_def w_defs)
  ultimately have "apply_claim w_codec demo_pydantic w_claimed_db (w_claim ''a1'' (CHR ''c'')) 300 None 400 = (?d2, Inr OUTCOME_APPLIED)"
    by (simp add: apply_claim_def)
  then show ?thesis by (simp add: replay_def w_first_claim w_claim_def)
qed

theorem replay_is_idempotent_witness:
  "\<exists>db'. replay w_codec demo_pydantic db' (w_request ''k1'') 10 (w_hex (CHR ''d'')) ''a2'' 500 600 None 700 =
     (db', Inr (''a1'', OUTCOME_APPLIED)) \<and> length (c_inbox db') = 1"
  using w_replay replay_is_idempotent [OF w_dbs_ok(1), of demo_pydantic "w_request ''k1''" 10 "w_hex (CHR ''c'')" "''a1''" 200 300 None 400
      _ "''a1''" OUTCOME_APPLIED] by blast



section \<open>The live token without an attempt\<close>

text \<open>
  An expired attempt that is retried with its own key is marked \<open>LOST_OWNERSHIP\<close> while the dead letter
  keeps its token: the letter's live token then belongs to no attempt in progress.
\<close>

theorem expired_attempt_keeps_live_token:
  "\<exists>db'. claim w_codec w_claimed_db (w_request ''k1'') 10 20000000 (w_hex (CHR ''d'')) ''a2'' = (db', Inl ReplayExpiredAttemptError) \<and>
     (\<exists>row \<in> set (c_dead_letters db'). d_replay_claim_token row = Some (w_hex (CHR ''c''))) \<and>
     list_all (\<lambda>a. \<not> in_progress a) (c_attempts db')"
proof -
  let ?a = "new_attempt (w_request ''k1'') ''a1'' (w_hex (CHR ''c'')) 200"
  let ?r = "claimed_letter (w_hex (CHR ''c'')) 10000200 200 w_letter"
  let ?db = "w_claimed_db\<lparr> c_attempts := [finish_attempt ''LOST_OWNERSHIP'' 20000000 ?a] \<rparr>"
  have "tget d_id ''d1'' (c_dead_letters w_claimed_db) = Some ?r" by (simp add: w_defs w_checks w_ops)
  moreover have "tget attempt_key (''d1'', ''k1'') (c_attempts w_claimed_db) = Some ?a" by (simp add: w_defs w_checks w_ops)
  moreover have "replay_claimable ?r 20000000" by (simp add: w_defs w_checks w_ops)
  moreover have "commit_attempt (finish_attempt ''LOST_OWNERSHIP'' 20000000 ?a) w_claimed_db = Inr ?db" by (simp add: w_defs w_checks w_ops)
  ultimately have "claim w_codec w_claimed_db (w_request ''k1'') 10 20000000 (w_hex (CHR ''d'')) ''a2'' = (?db, Inl ReplayExpiredAttemptError)"
    by (simp add: claim_def new_attempt_def w_request_def)
  then show ?thesis by (simp add: w_claimed_db_def)
qed

end
