(* ===== verification/Consumer_Timing.thy ===== *)
theory Consumer_Timing
  imports Prelude
begin

text \<open>
  The consumer's timing: \<open>src/src/atlas/config/timeout_math.py\<close>, \<open>consumer/timing.py\<close>, the two
  timing validators of \<open>config/settings.py\<close> and the shutdown-aware waiter of \<open>consumer/wait.py\<close>.
  Durations are reals of seconds; rounding of IEEE floats is not modelled.
\<close>

section \<open>Effective timeouts\<close>

definition effective_connect_timeout_seconds :: "real \<Rightarrow> int" where
  "effective_connect_timeout_seconds s = max 1 \<lceil>s\<rceil>"

definition effective_statement_timeout_ms :: "real \<Rightarrow> int" where
  "effective_statement_timeout_ms s = max 1 \<lceil>s * 1000\<rceil>"

definition effective_statement_timeout_seconds :: "real \<Rightarrow> real" where
  "effective_statement_timeout_seconds s = of_int (effective_statement_timeout_ms s) / 1000"

section \<open>Worst-case bounds\<close>

record retry_timing =
  rt_max_attempts :: nat
  rt_base_seconds :: real
  rt_max_backoff_seconds :: real
  rt_jitter_max_seconds :: real
  rt_safety_margin_seconds :: real
  rt_db_connect_timeout_seconds :: real
  rt_db_pool_timeout_seconds :: real
  rt_db_statement_timeout_seconds :: real
  rt_processing_overhead_seconds :: real
  rt_max_db_round_trips_per_attempt :: nat

definition worst_case_attempt_seconds :: "retry_timing \<Rightarrow> real" where
  "worst_case_attempt_seconds p =
     rt_db_pool_timeout_seconds p + of_int (effective_connect_timeout_seconds (rt_db_connect_timeout_seconds p))
     + of_nat (rt_max_db_round_trips_per_attempt p)
       * effective_statement_timeout_seconds (rt_db_statement_timeout_seconds p)
     + rt_processing_overhead_seconds p"

definition backoff_delay_seconds :: "retry_timing \<Rightarrow> nat \<Rightarrow> real" where
  "backoff_delay_seconds p attempt_index =
     min (rt_base_seconds p * 2 ^ attempt_index) (rt_max_backoff_seconds p) + rt_jitter_max_seconds p"

definition deterministic_backoff_sum_seconds :: "retry_timing \<Rightarrow> real" where
  "deterministic_backoff_sum_seconds p =
     sum_list (map (backoff_delay_seconds p) [0 ..< rt_max_attempts p - 1])"

definition worst_case_total_processing_seconds :: "retry_timing \<Rightarrow> real" where
  "worst_case_total_processing_seconds p =
     of_nat (rt_max_attempts p) * worst_case_attempt_seconds p + deterministic_backoff_sum_seconds p
     + rt_safety_margin_seconds p"

section \<open>The processing deadline\<close>

definition deadline_at :: "retry_timing \<Rightarrow> real \<Rightarrow> timestamp \<Rightarrow> timestamp" where
  "deadline_at p max_poll_interval_seconds message_received_at =
     message_received_at + timedelta_seconds (max_poll_interval_seconds - rt_safety_margin_seconds p)"

definition can_start_attempt :: "retry_timing \<Rightarrow> timestamp \<Rightarrow> timestamp \<Rightarrow> bool" where
  "can_start_attempt p deadline now \<longleftrightarrow> now + timedelta_seconds (worst_case_attempt_seconds p) \<le> deadline"

definition can_afford_backoff :: "retry_timing \<Rightarrow> timestamp \<Rightarrow> timestamp \<Rightarrow> real \<Rightarrow> bool" where
  "can_afford_backoff p deadline now backoff_seconds \<longleftrightarrow>
     now + timedelta_seconds (backoff_seconds + worst_case_attempt_seconds p) \<le> deadline"

section \<open>The settings' validators\<close>

text \<open>\<open>_validate_consumer_retry_timing_margin\<close>: the fields of \<open>Settings\<close> it reads are those of
  \<open>retry_timing\<close>, as \<open>_timing_params_from_settings\<close> copies them.\<close>

definition settings_backoff_sum :: "retry_timing \<Rightarrow> real" where
  "settings_backoff_sum p =
     sum_list (map (\<lambda>k. min (rt_base_seconds p * 2 ^ k) (rt_max_backoff_seconds p)) [0 ..< rt_max_attempts p - 1])"

definition settings_worst_case_total :: "retry_timing \<Rightarrow> real" where
  "settings_worst_case_total p =
     of_nat (rt_max_attempts p) *
       (rt_db_pool_timeout_seconds p + of_int (effective_connect_timeout_seconds (rt_db_connect_timeout_seconds p))
        + of_nat (rt_max_db_round_trips_per_attempt p)
          * effective_statement_timeout_seconds (rt_db_statement_timeout_seconds p)
        + rt_processing_overhead_seconds p)
     + settings_backoff_sum p + rt_safety_margin_seconds p"

definition validate_consumer_retry_timing_margin :: "retry_timing \<Rightarrow> real \<Rightarrow> bool" where
  "validate_consumer_retry_timing_margin p max_poll_interval_seconds \<longleftrightarrow>
     \<not> settings_worst_case_total p \<ge> max_poll_interval_seconds"

definition validate_kafka_delivery_timeout_margin :: "real \<Rightarrow> real \<Rightarrow> real \<Rightarrow> bool" where
  "validate_kafka_delivery_timeout_margin delivery_timeout margin publish_lease \<longleftrightarrow>
     \<not> delivery_timeout + margin > publish_lease"

section \<open>The waiter\<close>

text \<open>\<open>_wait\<close> with the shutdown predicate sampled once before and once after each slice
  (\<open>shutdown k\<close> is the sample after \<open>k\<close> slices); the result is whether shutdown was seen and the
  slices slept.\<close>

function wait_loop :: "(nat \<Rightarrow> bool) \<Rightarrow> real \<Rightarrow> nat \<Rightarrow> real \<Rightarrow> bool \<times> real list" where
  "wait_loop shutdown slice k remaining =
     (if slice \<le> 0 \<or> remaining \<le> 0 then (False, [])
      else let this_slice = (if slice < remaining then slice else remaining)
           in if shutdown (Suc k) then (True, [this_slice])
              else let (seen, slept) = wait_loop shutdown slice (Suc k) (remaining - this_slice)
                   in (seen, this_slice # slept))"
  by pat_completeness auto
termination
proof (relation "measure (\<lambda>(_, slice, _, remaining). nat \<lceil>remaining / slice\<rceil>)", goal_cases)
  case (2 shutdown slice k remaining this_slice)
  then have s: "0 < slice" "0 < remaining" by auto
  have "\<lceil>(remaining - this_slice) / slice\<rceil> < \<lceil>remaining / slice\<rceil>"
  proof (cases "slice < remaining")
    case True
    then have "(remaining - this_slice) / slice = remaining / slice - 1" using s 2 by (simp add: diff_divide_distrib)
    then show ?thesis by simp
  next
    case False
    then show ?thesis using s 2 by (simp add: less_ceiling_iff)
  qed
  moreover have "0 < \<lceil>remaining / slice\<rceil>" using s by simp
  ultimately show ?case by simp
qed simp

declare wait_loop.simps [simp del]

text \<open>\<open>build_shutdown_aware_waiter\<close> refuses a non-positive slice; \<open>None\<close> is its \<open>ValueError\<close>.\<close>

definition wait_for :: "(nat \<Rightarrow> bool) \<Rightarrow> real \<Rightarrow> real \<Rightarrow> (bool \<times> real list) option" where
  "wait_for shutdown slice total_seconds =
     (if slice \<le> 0 then None
      else if shutdown 0 then Some (True, [])
      else Some (wait_loop shutdown slice 0 total_seconds))"

section \<open>Lemmas\<close>

lemma effective_connect_bounds:
  "1 \<le> effective_connect_timeout_seconds s" "s \<le> of_int (effective_connect_timeout_seconds s)"
  by (auto simp: effective_connect_timeout_seconds_def max_def)

lemma effective_statement_bounds:
  "1 \<le> effective_statement_timeout_ms s" "s \<le> effective_statement_timeout_seconds s"
  "0 < effective_statement_timeout_seconds s"
proof -
  have c: "s * 1000 \<le> of_int \<lceil>s * 1000\<rceil>" by (rule le_of_int_ceiling)
  show "1 \<le> effective_statement_timeout_ms s" by (simp add: effective_statement_timeout_ms_def)
  show "s \<le> effective_statement_timeout_seconds s" "0 < effective_statement_timeout_seconds s"
    using c by (auto simp: effective_statement_timeout_seconds_def effective_statement_timeout_ms_def max_def)
qed

text \<open>The range the settings' field constraints allow.\<close>

definition timing_ok :: "retry_timing \<Rightarrow> bool" where
  "timing_ok p \<longleftrightarrow>
     1 \<le> rt_max_attempts p \<and> 0 < rt_base_seconds p \<and> 0 < rt_max_backoff_seconds p \<and>
     0 \<le> rt_jitter_max_seconds p \<and> 0 \<le> rt_safety_margin_seconds p \<and> 0 < rt_db_connect_timeout_seconds p \<and>
     0 < rt_db_pool_timeout_seconds p \<and> 0 < rt_db_statement_timeout_seconds p \<and>
     0 \<le> rt_processing_overhead_seconds p \<and> 1 \<le> rt_max_db_round_trips_per_attempt p"

lemma attempt_pos: "timing_ok p \<Longrightarrow> 0 < worst_case_attempt_seconds p"
  using effective_connect_bounds(1)[of "rt_db_connect_timeout_seconds p"]
    effective_statement_bounds(3)[of "rt_db_statement_timeout_seconds p"]
  by (auto simp: worst_case_attempt_seconds_def timing_ok_def intro!: add_pos_nonneg)

lemma backoff_nonneg: "timing_ok p \<Longrightarrow> 0 \<le> backoff_delay_seconds p k"
  by (auto simp: backoff_delay_seconds_def timing_ok_def)

lemma backoff_mono: "timing_ok p \<Longrightarrow> j \<le> k \<Longrightarrow> backoff_delay_seconds p j \<le> backoff_delay_seconds p k"
  by (auto simp: backoff_delay_seconds_def timing_ok_def min_def intro!: mult_left_mono power_increasing)
     (meson dual_order.trans less_imp_le mult_left_mono one_le_numeral power_increasing)

lemma settings_sum:
  "worst_case_total_processing_seconds p =
     settings_worst_case_total p + of_nat (rt_max_attempts p - 1) * rt_jitter_max_seconds p"
proof -
  have "sum_list (map (\<lambda>k. f k + (c::real)) xs) = sum_list (map f xs) + of_nat (length xs) * c" for f c and xs :: "nat list"
    by (induction xs) (auto simp: algebra_simps)
  moreover have "backoff_delay_seconds p =
      (\<lambda>k. min (rt_base_seconds p * 2 ^ k) (rt_max_backoff_seconds p) + rt_jitter_max_seconds p)"
    by (rule ext) (simp add: backoff_delay_seconds_def)
  ultimately show ?thesis
    by (simp add: worst_case_total_processing_seconds_def deterministic_backoff_sum_seconds_def
        settings_worst_case_total_def settings_backoff_sum_def worst_case_attempt_seconds_def)
qed

lemma wait_loop_total:
  assumes "0 < slice" "0 \<le> remaining"
  shows "(\<forall>x \<in> set (snd (wait_loop shutdown slice k remaining)). 0 < x \<and> x \<le> slice) \<and>
    sum_list (snd (wait_loop shutdown slice k remaining)) \<le> remaining \<and>
    (\<not> fst (wait_loop shutdown slice k remaining) \<longrightarrow>
       sum_list (snd (wait_loop shutdown slice k remaining)) = remaining) \<and>
    (fst (wait_loop shutdown slice k remaining) \<longrightarrow>
       shutdown (k + length (snd (wait_loop shutdown slice k remaining)))) \<and>
    (\<forall>j. k < j \<and> j < k + length (snd (wait_loop shutdown slice k remaining)) \<longrightarrow> \<not> shutdown j)"
  using assms
proof (induction shutdown slice k remaining rule: wait_loop.induct)
  case (1 shutdown slice k remaining)
  show ?case
  proof (cases "remaining \<le> 0")
    case True
    then show ?thesis using "1.prems" by (auto simp: wait_loop.simps)
  next
    case False
    define t where "t = (if slice < remaining then slice else remaining)"
    have t: "0 < t" "t \<le> slice" "0 \<le> remaining - t" using "1.prems" False by (auto simp: t_def)
    show ?thesis
    proof (cases "shutdown (Suc k)")
      case True
      then show ?thesis using False "1.prems" t by (subst (1 2 3 4 5 6 7) wait_loop.simps) (auto simp: t_def[symmetric] Let_def)
    next
      case down: False
      obtain seen slept where r: "wait_loop shutdown slice (Suc k) (remaining - t) = (seen, slept)" by fastforce
      have step: "wait_loop shutdown slice k remaining = (seen, t # slept)"
        using False "1.prems" down r by (subst wait_loop.simps) (simp add: t_def[symmetric] Let_def)
      have IH: "(\<forall>x \<in> set slept. 0 < x \<and> x \<le> slice) \<and> sum_list slept \<le> remaining - t \<and>
          (\<not> seen \<longrightarrow> sum_list slept = remaining - t) \<and> (seen \<longrightarrow> shutdown (Suc k + length slept)) \<and>
          (\<forall>j. Suc k < j \<and> j < Suc k + length slept \<longrightarrow> \<not> shutdown j)"
        using "1.IH"[of t] False down "1.prems" t r by (simp add: t_def)
      have "\<forall>j. k < j \<and> j < k + length (t # slept) \<longrightarrow> \<not> shutdown j"
        using IH down by (metis Suc_lessI add_Suc_shift length_Cons)
      then show ?thesis using IH t by (auto simp: step)
    qed
  qed
qed

text \<open>The time a nominal episode has used before its \<open>k\<close>-th attempt: \<open>k\<close> attempts and \<open>k\<close> backoffs.\<close>

definition nominal_elapsed :: "retry_timing \<Rightarrow> nat \<Rightarrow> real" where
  "nominal_elapsed p k = of_nat k * worst_case_attempt_seconds p + sum_list (map (backoff_delay_seconds p) [0 ..< k])"

lemma nominal_within_total:
  assumes "timing_ok p" "k < rt_max_attempts p"
  shows "nominal_elapsed p k + worst_case_attempt_seconds p + rt_safety_margin_seconds p
    \<le> worst_case_total_processing_seconds p"
proof -
  let ?n = "rt_max_attempts p"
  have "sum_list (map (backoff_delay_seconds p) [0 ..< k]) \<le> sum_list (map (backoff_delay_seconds p) [0 ..< ?n - 1])"
  proof -
    have "[0 ..< ?n - 1] = [0 ..< k] @ [k ..< ?n - 1]"
      using assms(2) upt_add_eq_append[of 0 k "?n - 1 - k"] by simp
    moreover have "0 \<le> sum_list (map (backoff_delay_seconds p) [k ..< ?n - 1])"
      using backoff_nonneg[OF assms(1)] by (intro sum_list_nonneg) auto
    ultimately show ?thesis by simp
  qed
  moreover have "of_nat (Suc k) * worst_case_attempt_seconds p \<le> of_nat ?n * worst_case_attempt_seconds p"
    using assms(2) attempt_pos[OF assms(1)] by (intro mult_right_mono) auto
  ultimately show ?thesis
    by (simp add: nominal_elapsed_def worst_case_total_processing_seconds_def deterministic_backoff_sum_seconds_def
        algebra_simps)
qed

lemma within_deadline:
  assumes "of_int (now - received) \<le> 1000000 * e" "e + b + rt_safety_margin_seconds p + 1 / 1000000 \<le> max_poll"
  shows "now + timedelta_seconds b \<le> deadline_at p max_poll received"
proof -
  have "of_int (timedelta_seconds b) \<le> b * 1000000 + 1 / 2"
    "(max_poll - rt_safety_margin_seconds p) * 1000000 - 1 / 2
       \<le> of_int (timedelta_seconds (max_poll - rt_safety_margin_seconds p))"
    unfolding timedelta_seconds_def by (rule round_half_even_bounds)+
  then have "real_of_int (now + timedelta_seconds b) \<le> real_of_int (deadline_at p max_poll received)"
    using assms by (simp add: deadline_at_def algebra_simps)
  then show ?thesis by linarith
qed

section \<open>The approved configuration\<close>

definition default_timing :: retry_timing where
  "default_timing = \<lparr> rt_max_attempts = 3, rt_base_seconds = 1, rt_max_backoff_seconds = 30, rt_jitter_max_seconds = 0,
     rt_safety_margin_seconds = 60, rt_db_connect_timeout_seconds = 5, rt_db_pool_timeout_seconds = 5,
     rt_db_statement_timeout_seconds = 5, rt_processing_overhead_seconds = 2, rt_max_db_round_trips_per_attempt = 8 \<rparr>"

lemma default_timing_ok: "timing_ok default_timing"
  by (simp add: timing_ok_def default_timing_def)

lemma default_attempt: "worst_case_attempt_seconds default_timing = 52"
  by (simp add: worst_case_attempt_seconds_def default_timing_def effective_connect_timeout_seconds_def
      effective_statement_timeout_seconds_def effective_statement_timeout_ms_def)

lemma default_total: "worst_case_total_processing_seconds default_timing = 219"
proof -
  have "[0 ..< 2] = [0, 1 :: nat]" by code_simp
  then show ?thesis
    by (simp add: worst_case_total_processing_seconds_def default_attempt deterministic_backoff_sum_seconds_def)
       (simp add: default_timing_def backoff_delay_seconds_def)
qed

section \<open>Properties\<close>

text \<open>
  The retry budget fits under Kafka's poll interval: for every configuration in the
  settings' ranges whose worst case leaves one microsecond of the interval, an episode in which
  attempts and backoffs take at most their bounds is never refused by the deadline, neither at
  the start of an attempt nor before a backoff, and an attempt admitted at \<open>now\<close> that takes at most
  its bound ends by the deadline.
\<close>

lemma nominal_episode_is_admitted:
  assumes "timing_ok p" "worst_case_total_processing_seconds p + 1 / 1000000 \<le> max_poll" "k < rt_max_attempts p"
    "of_int (now - received) \<le> 1000000 * nominal_elapsed p k"
  shows "can_start_attempt p (deadline_at p max_poll received) now \<and>
    (\<forall>later. of_int (later - now) \<le> 1000000 * worst_case_attempt_seconds p \<and> Suc k < rt_max_attempts p \<longrightarrow>
       can_afford_backoff p (deadline_at p max_poll received) later (backoff_delay_seconds p k))"
proof (intro conjI allI impI)
  show "can_start_attempt p (deadline_at p max_poll received) now"
    unfolding can_start_attempt_def
    using nominal_within_total[OF assms(1,3)] assms(2) by (intro within_deadline[OF assms(4)]) simp
next
  fix later assume l: "of_int (later - now) \<le> 1000000 * worst_case_attempt_seconds p \<and> Suc k < rt_max_attempts p"
  have "nominal_elapsed p (Suc k) = nominal_elapsed p k + worst_case_attempt_seconds p + backoff_delay_seconds p k"
    by (simp add: nominal_elapsed_def algebra_simps)
  moreover have "nominal_elapsed p (Suc k) + worst_case_attempt_seconds p + rt_safety_margin_seconds p
      \<le> worst_case_total_processing_seconds p"
    using nominal_within_total[OF assms(1)] l by blast
  moreover have "of_int (later - received) \<le> 1000000 * (nominal_elapsed p k + worst_case_attempt_seconds p)"
    using l assms(4) by simp
  ultimately show "can_afford_backoff p (deadline_at p max_poll received) later (backoff_delay_seconds p k)"
    unfolding can_afford_backoff_def using assms(2)
    by (intro within_deadline[where e = "nominal_elapsed p k + worst_case_attempt_seconds p"]) auto
qed

lemma nominal_episode_is_admitted_witness:
  "can_start_attempt default_timing (deadline_at default_timing 300 1000) 1000"
proof -
  have "worst_case_total_processing_seconds default_timing + 1 / 1000000 \<le> 300"
    "0 < rt_max_attempts default_timing" "of_int (1000 - 1000) \<le> 1000000 * nominal_elapsed default_timing 0"
    by (simp_all add: default_total nominal_elapsed_def) (simp add: default_timing_def)
  from nominal_episode_is_admitted [OF default_timing_ok this] show ?thesis by blast
qed

text \<open>
  The timeouts handed to PostgreSQL are never zero (which would mean no timeout) and never
  shorter than configured.
\<close>

lemma effective_timeouts_never_disable:
  "1 \<le> effective_connect_timeout_seconds s \<and> s \<le> of_int (effective_connect_timeout_seconds s) \<and>
   1 \<le> effective_statement_timeout_ms s \<and> s \<le> effective_statement_timeout_seconds s"
  using effective_connect_bounds[of s] effective_statement_bounds[of s] by simp

text \<open>
  The settings' validator and the runtime's worst case differ by exactly the jitter: the
  validator bounds the runtime total minus \<open>(max_attempts - 1) * jitter_max_seconds\<close>.  With no
  jitter it therefore accepts exactly the configurations whose worst case is below the poll
  interval; with jitter it accepts some whose worst case is not.
\<close>

lemma settings_validator_omits_jitter:
  "(validate_consumer_retry_timing_margin p m \<longleftrightarrow>
      worst_case_total_processing_seconds p - of_nat (rt_max_attempts p - 1) * rt_jitter_max_seconds p < m) \<and>
   (\<exists>q m. timing_ok q \<and> validate_consumer_retry_timing_margin q m \<and> m \<le> worst_case_total_processing_seconds q)"
proof
  show "validate_consumer_retry_timing_margin p m \<longleftrightarrow>
      worst_case_total_processing_seconds p - of_nat (rt_max_attempts p - 1) * rt_jitter_max_seconds p < m"
    by (auto simp: validate_consumer_retry_timing_margin_def settings_sum)
  define q where "q = default_timing\<lparr> rt_jitter_max_seconds := 50 \<rparr>"
  have s: "settings_worst_case_total q = settings_worst_case_total default_timing"
    by (simp add: q_def settings_worst_case_total_def settings_backoff_sum_def)
  have d: "settings_worst_case_total default_timing = 219"
    using settings_sum[of default_timing] default_total by (simp add: default_timing_def)
  have "timing_ok q" using default_timing_ok by (simp add: timing_ok_def q_def)
  moreover have "validate_consumer_retry_timing_margin q 300"
    by (simp add: validate_consumer_retry_timing_margin_def s d)
  moreover have "300 \<le> worst_case_total_processing_seconds q"
    unfolding settings_sum s d by (simp add: q_def default_timing_def)
  ultimately show "\<exists>q m. timing_ok q \<and> validate_consumer_retry_timing_margin q m \<and> m \<le> worst_case_total_processing_seconds q"
    by blast
qed

text \<open>
  The waiter returns for every duration, sleeps in slices of at most \<open>slice_seconds\<close>, for the
  whole duration when no shutdown is seen, and otherwise stops at the first sample that sees it:
  shutdown is noticed within one slice.
\<close>

lemma waiter_notices_shutdown_within_a_slice:
  assumes "0 < slice" "0 \<le> total_s"
  shows "\<exists>seen slept. wait_for shutdown slice total_s = Some (seen, slept) \<and>
    (\<forall>x \<in> set slept. 0 < x \<and> x \<le> slice) \<and> sum_list slept \<le> total_s \<and>
    (seen \<or> sum_list slept = total_s) \<and> (\<not> seen \<or> shutdown (length slept)) \<and>
    (\<forall>j < length slept. \<not> shutdown j)"
proof (cases "shutdown 0")
  case True
  then show ?thesis using assms by (auto simp: wait_for_def)
next
  case False
  obtain seen slept where r: "wait_loop shutdown slice 0 total_s = (seen, slept)" by fastforce
  have "\<forall>j < length slept. \<not> shutdown j"
    using wait_loop_total[OF assms, of shutdown 0] False r by (metis add_0 gr0I snd_conv)
  then show ?thesis using wait_loop_total[OF assms, of shutdown 0] False r assms(1) by (auto simp: wait_for_def)
qed

lemma waiter_notices_shutdown_within_a_slice_witness:
  "\<exists>slept. wait_for (\<lambda>_. True) 1 5 = Some (True, slept) \<and> sum_list slept \<le> 5"
  using waiter_notices_shutdown_within_a_slice [of 1 5 "\<lambda>_. True"] by (auto simp: wait_for_def)

end
