(* ===== verification/Outbox_Relay.thy ===== *)
theory Outbox_Relay
  imports Outbox_Store
begin

text \<open>
  The outbox relay (\<open>src/src/atlas/outbox/relay.py\<close>), the classification of Kafka errors
  (\<open>kafka_errors.py\<close>), the producer adapter (\<open>kafka_producer.py\<close>), the relay's advisory lock and
  the poll loop of \<open>outbox/__main__.py\<close>.  The clock is a sequence of readings, the producer a
  sequence of outcomes, one per publish call; librdkafka's answers are parameters.
\<close>

section \<open>Kafka errors\<close>

datatype kafka_error_class = FATAL | RECOVERABLE

record kafka_error =
  ke_fatal :: bool
  ke_retriable :: bool
  ke_code :: int

text \<open>\<open>None\<close> is an object that is not a \<open>KafkaError\<close>; \<open>msg_timed_out\<close> is librdkafka's \<open>_MSG_TIMED_OUT\<close>.\<close>

definition msg_timed_out :: int where "msg_timed_out = -192"

definition classify_kafka_error :: "kafka_error option \<Rightarrow> kafka_error_class" where
  "classify_kafka_error err =
     (case err of
        None \<Rightarrow> FATAL
      | Some e \<Rightarrow>
          if ke_fatal e then FATAL
          else if ke_retriable e then RECOVERABLE
          else if ke_code e \<in> {msg_timed_out} then RECOVERABLE
          else FATAL)"

section \<open>The producer adapter\<close>

datatype publish_error = KafkaPublishError string | KafkaPublishTimeoutError string | KafkaFatalProducerError string

text \<open>What librdkafka answers during one publish: the result of \<open>produce()\<close>, of \<open>flush()\<close>, and the
  delivery callback (\<open>None\<close> when it was not invoked, \<open>Some None\<close> when it reported no error).\<close>

datatype produce_result = ProduceOk | ProduceBufferError | ProduceException "kafka_error option"
datatype flush_result = FlushRemaining int | FlushException "kafka_error option"

record kafka_answers =
  ka_produce :: produce_result
  ka_flush :: flush_result
  ka_callback :: "kafka_error option option option"

definition raise_for_kafka_error :: "kafka_error option \<Rightarrow> string \<Rightarrow> bool \<times> publish_error" where
  "raise_for_kafka_error err context =
     (if classify_kafka_error err = FATAL then (True, KafkaFatalProducerError (''Fatal'' @ context))
      else (False, KafkaPublishError (''Retriable'' @ context)))"

text \<open>The adapter's state is its \<open>_closed\<close> flag; the result is the new flag and the error raised, if any.\<close>

definition publish :: "bool \<Rightarrow> kafka_answers \<Rightarrow> bool \<times> publish_error option" where
  "publish is_closed ans =
     (if is_closed then (is_closed, Some (KafkaFatalProducerError ''ProducerClosed''))
      else case ka_produce ans of
        ProduceBufferError \<Rightarrow> (is_closed, Some (KafkaPublishError ''LocalQueueFull''))
      | ProduceException err \<Rightarrow> map_prod id Some (raise_for_kafka_error err ''ProduceCallFailed'')
      | ProduceOk \<Rightarrow>
          (case ka_flush ans of
             FlushException err \<Rightarrow> map_prod id Some (raise_for_kafka_error err ''FlushCallFailed'')
           | FlushRemaining remaining \<Rightarrow>
               (case ka_callback ans of
                  None \<Rightarrow> (is_closed, Some (KafkaPublishTimeoutError ''DeliveryCallbackNotInvoked''))
                | Some (Some err) \<Rightarrow> map_prod id Some (raise_for_kafka_error err ''DeliveryError'')
                | Some None \<Rightarrow>
                    if 0 < remaining then (is_closed, Some (KafkaPublishTimeoutError ''OutstandingMessagesAfterFlush''))
                    else (is_closed, None))))"

definition close :: "bool \<Rightarrow> bool" where
  "close is_closed = True"

section \<open>One relay run\<close>

datatype relay_outcome =
  EMPTY | PUBLISHED | RECOVERABLE_FAILURE | FATAL_FAILURE | OWNERSHIP_LOST | UNEXPECTED_FAILURE

datatype publish_outcome = Delivered | RaisedFatal string | RaisedRecoverable string | RaisedOther string

record relay_result =
  rr_outcome :: relay_outcome
  rr_published_count :: nat

definition failure_of :: "publish_outcome \<Rightarrow> (relay_outcome \<times> string) option" where
  "failure_of out =
     (case out of
        Delivered \<Rightarrow> None
      | RaisedFatal c \<Rightarrow> Some (FATAL_FAILURE, c)
      | RaisedRecoverable c \<Rightarrow> Some (RECOVERABLE_FAILURE, c)
      | RaisedOther c \<Rightarrow> Some (UNEXPECTED_FAILURE, c))"

fun release_remaining ::
  "(nat \<Rightarrow> timestamp) \<Rightarrow> string \<Rightarrow> string \<Rightarrow> outbox \<Rightarrow> nat \<Rightarrow> claimed_record list \<Rightarrow> outbox" where
  "release_remaining clock tok err ob k [] = ob"
| "release_remaining clock tok err ob k (c # cs) =
     release_remaining clock tok err (fst (release_failed_claim ob (cr_event_id c) tok (clock k) err)) (Suc k) cs"

text \<open>The loop over the claimed batch.  \<open>k\<close> counts clock readings, \<open>i\<close> publish calls and \<open>n\<close> marked
  rows; the last component lists the events the producer acknowledged.\<close>

fun publish_loop ::
  "(nat \<Rightarrow> timestamp) \<Rightarrow> (nat \<Rightarrow> publish_outcome) \<Rightarrow> string \<Rightarrow> outbox \<Rightarrow> nat \<Rightarrow> nat \<Rightarrow> nat \<Rightarrow>
   claimed_record list \<Rightarrow> outbox \<times> relay_result \<times> domain_event list" where
  "publish_loop clock produce tok ob k i n [] = (ob, \<lparr> rr_outcome = PUBLISHED, rr_published_count = n \<rparr>, [])"
| "publish_loop clock produce tok ob k i n (c # cs) =
     (case failure_of (produce i) of
        Some (outcome, error_class) \<Rightarrow>
          (let ob1 = fst (release_failed_claim ob (cr_event_id c) tok (clock k) error_class);
               ob2 = release_remaining clock tok ''EarlierEventPublishFailure'' ob1 (Suc k) cs
           in (ob2, \<lparr> rr_outcome = outcome, rr_published_count = n \<rparr>, []))
      | None \<Rightarrow>
          (let (ob1, marked) = mark_published ob (cr_event_id c) tok (clock k)
           in if marked then
                (let (ob', res, delivered) = publish_loop clock produce tok ob1 (Suc k) (Suc i) (Suc n) cs
                 in (ob', res, cr_event c # delivered))
              else
                (release_remaining clock tok ''EarlierEventOwnershipLost'' ob1 (Suc k) cs,
                 \<lparr> rr_outcome = OWNERSHIP_LOST, rr_published_count = n \<rparr>, [cr_event c])))"

definition run_once ::
  "outbox_env \<Rightarrow> bool \<Rightarrow> outbox \<Rightarrow> uuid list \<Rightarrow> (nat \<Rightarrow> timestamp) \<Rightarrow> (nat \<Rightarrow> publish_outcome) \<Rightarrow> string \<Rightarrow>
   real \<Rightarrow> int \<Rightarrow> outbox_error + (outbox \<times> relay_result \<times> domain_event list)" where
  "run_once env lock_held ob locked clock produce claim_token publish_lease_seconds batch_size =
     (if \<not> lock_held then Inl RelayNotOwnerError
      else bindE (claim_batch env ob locked claim_token (clock 0)
                    (clock 0 + timedelta_seconds publish_lease_seconds) batch_size)
             (\<lambda>(ob1, claimed).
                if claimed = [] then Inr (ob1, \<lparr> rr_outcome = EMPTY, rr_published_count = 0 \<rparr>, [])
                else Inr (publish_loop clock produce claim_token ob1 1 0 0 claimed)))"

section \<open>The poll loop\<close>

definition is_terminal_outcome :: "relay_outcome \<Rightarrow> bool" where
  "is_terminal_outcome out \<longleftrightarrow> out = FATAL_FAILURE \<or> out = UNEXPECTED_FAILURE"

definition is_backoff_outcome :: "relay_outcome \<Rightarrow> bool" where
  "is_backoff_outcome out \<longleftrightarrow> out = EMPTY \<or> out = RECOVERABLE_FAILURE \<or> out = OWNERSHIP_LOST"

text \<open>The exit code of the loop and the number of sleeps, for the results of successive runs
  (\<open>Inl\<close> is a raised exception); the list ends where shutdown is requested.\<close>

fun run_poll_loop :: "(outbox_error + relay_result) list \<Rightarrow> int \<times> nat" where
  "run_poll_loop [] = (0, 0)"
| "run_poll_loop (Inl _ # _) = (1, 0)"
| "run_poll_loop (Inr r # rest) =
     (if is_terminal_outcome (rr_outcome r) then (1, 0)
      else let (code, sleeps) = run_poll_loop rest
           in (code, if is_backoff_outcome (rr_outcome r) then Suc sleeps else sleeps))"

section \<open>The advisory lock\<close>

text \<open>\<open>free\<close>: whether \<open>pg_try_advisory_lock\<close> succeeds.  The state is whether a connection is held.\<close>

datatype lock_error = RelayOwnershipError

definition lock_acquire :: "bool \<Rightarrow> bool \<Rightarrow> lock_error + bool" where
  "lock_acquire held free =
     (if held then Inr True else if \<not> free then Inl RelayOwnershipError else Inr True)"

definition lock_release :: "bool \<Rightarrow> bool" where
  "lock_release held = False"

section \<open>Marking the head of the queue\<close>

text \<open>Publication is in order: whatever is published, everything before it is too.\<close>

definition prefix_published :: "outbox_row list \<Rightarrow> bool" where
  "prefix_published rows \<longleftrightarrow>
     (\<forall>r \<in> set rows. o_published_at r \<noteq> None \<longrightarrow>
        (\<forall>x \<in> set rows. o_outbox_position x < o_outbox_position r \<longrightarrow> o_published_at x \<noteq> None))"

lemma unpublished_tupdate_same:
  assumes "\<And>r. o_published_at (f r) = o_published_at r" "\<And>r. o_outbox_position (f r) = o_outbox_position r"
  shows "unpublished (tupdate P f rows) = map (\<lambda>r. if P r then f r else r) (unpublished rows)"
proof -
  have "filter (\<lambda>r. o_published_at r = None) (tupdate P f rows) =
      map (\<lambda>r. if P r then f r else r) (filter (\<lambda>r. o_published_at r = None) rows)"
    using assms(1) by (induction rows) (auto split: if_splits)
  then show ?thesis
    using sort_key_map_same[of o_outbox_position "\<lambda>r. if P r then f r else r"] assms(2)
    by (simp add: unpublished_def)
qed

lemma unpublished_mark:
  "unpublished (tupdate P (published_row at') rows) = filter (\<lambda>r. \<not> P r) (unpublished rows)"
proof -
  have "filter (\<lambda>r. o_published_at r = None) (tupdate P (published_row at') rows)
      = filter (\<lambda>r. \<not> P r) (filter (\<lambda>r. o_published_at r = None) rows)"
    by (induction rows) auto
  then show ?thesis by (simp add: unpublished_def filter_sort)
qed

lemma prefix_published_same:
  assumes "map (\<lambda>r. (o_outbox_position r, o_published_at r = None)) rows' =
           map (\<lambda>r. (o_outbox_position r, o_published_at r = None)) rows"
  shows "prefix_published rows' = prefix_published rows"
proof -
  have eq: "prefix_published xs \<longleftrightarrow>
      (\<forall>(p, u) \<in> set (map (\<lambda>r. (o_outbox_position r, o_published_at r = None)) xs). \<not> u \<longrightarrow>
         (\<forall>(q, v) \<in> set (map (\<lambda>r. (o_outbox_position r, o_published_at r = None)) xs). q < p \<longrightarrow> \<not> v))" for xs
    by (auto simp: prefix_published_def)
  show ?thesis unfolding eq assms by simp
qed

text \<open>A row that is marked was the one named, unpublished and owned.\<close>

lemma mark_published_cases:
  assumes "outbox_ok env ob" "mark_published ob i tok at' = (ob', True)"
  obtains r where "r \<in> set (ob_rows ob)" "o_event_id r = i" "owns_publish_claim r tok at'"
    "ob' = ob\<lparr> ob_rows := tupdate (\<lambda>x. x = r) (published_row at') (ob_rows ob) \<rparr>"
proof -
  let ?P = "\<lambda>r. o_event_id r = i \<and> owns_publish_claim r tok at'"
  have "0 < tcount ?P (ob_rows ob)" using assms(2) by (simp add: mark_published_def Let_def)
  then obtain r where r: "r \<in> set (ob_rows ob)" "?P r" by (auto simp: tcount_pos)
  have "(if ?P x then published_row at' x else x) = (if x = r then published_row at' x else x)"
    if "x \<in> set (ob_rows ob)" for x
    using that r assms(1) by (auto simp: outbox_ok_def distinct_map inj_on_def)
  then have "tupdate ?P (published_row at') (ob_rows ob) = tupdate (\<lambda>x. x = r) (published_row at') (ob_rows ob)"
    unfolding tupdate_def by (intro map_cong) auto
  then show thesis using that[OF r(1)] r assms(2) by (auto simp: mark_published_def Let_def)
qed

lemma mark_head:
  assumes "outbox_ok env ob" "mark_published ob i tok at' = (ob', True)"
    "unpublished (ob_rows ob) = h # U" "o_event_id h = i"
  shows "unpublished (ob_rows ob') = U" "prefix_published (ob_rows ob) \<Longrightarrow> prefix_published (ob_rows ob')"
proof -
  obtain r where r: "r \<in> set (ob_rows ob)" "o_event_id r = i"
    "ob' = ob\<lparr> ob_rows := tupdate (\<lambda>x. x = r) (published_row at') (ob_rows ob) \<rparr>"
    using mark_published_cases[OF assms(1,2)] by metis
  have mem: "h \<in> set (ob_rows ob)" using set_unpublished[of "ob_rows ob"] assms(3) by auto
  then have rh: "r = h" using r assms(1,4) by (auto simp: outbox_ok_def distinct_map inj_on_def)
  have dist: "distinct (map o_outbox_position (unpublished (ob_rows ob)))"
    using assms(1) unpublished_distinct by (simp add: outbox_ok_def)
  then have "h \<notin> set U" using assms(3) by auto
  then show "unpublished (ob_rows ob') = U"
    using assms(3) by (auto simp: r(3) rh unpublished_mark filter_id_conv)
  have least: "o_outbox_position h \<le> o_outbox_position x" if "x \<in> set (ob_rows ob)" "o_published_at x = None" for x
    using that unpublished_sorted[of "ob_rows ob"] set_unpublished[of "ob_rows ob"] assms(3) by auto
  assume pre: "prefix_published (ob_rows ob)"
  show "prefix_published (ob_rows ob')"
    unfolding prefix_published_def
  proof (intro ballI impI)
    fix a x assume a: "a \<in> set (ob_rows ob')" "o_published_at a \<noteq> None"
      and x: "x \<in> set (ob_rows ob')" "o_outbox_position x < o_outbox_position a"
    obtain z where z: "z \<in> set (ob_rows ob)" "a = (if z = h then published_row at' z else z)"
      using a(1) by (auto simp: r(3) rh tupdate_def)
    obtain y where y: "y \<in> set (ob_rows ob)" "x = (if y = h then published_row at' y else y)"
      using x(1) by (auto simp: r(3) rh tupdate_def)
    have lt: "o_outbox_position y < o_outbox_position z" using x(2) y(2) z(2) by (auto split: if_splits)
    show "o_published_at x \<noteq> None"
    proof (cases "y = h")
      case False
      have "o_published_at y \<noteq> None"
      proof (cases "z = h")
        case True
        then show ?thesis using least[OF y(1)] lt by fastforce
      next
        case zh: False
        then have "o_published_at z \<noteq> None" using z(2) a(2) by simp
        then show ?thesis using pre z(1) y(1) lt unfolding prefix_published_def by blast
      qed
      then show ?thesis using y(2) False by simp
    qed (simp add: y(2))
  qed
qed

section \<open>Releasing claims\<close>

lemma release_keeps:
  "map o_event_id (unpublished (ob_rows (fst (release_failed_claim ob i tok at' err)))) =
     map o_event_id (unpublished (ob_rows ob))"
  "prefix_published (ob_rows (fst (release_failed_claim ob i tok at' err))) = prefix_published (ob_rows ob)"
proof -
  let ?P = "\<lambda>r. o_event_id r = i \<and> owns_publish_claim r tok at'"
  let ?f = "released_row (sanitize_error_class err)"
  have rows: "ob_rows (fst (release_failed_claim ob i tok at' err)) = tupdate ?P ?f (ob_rows ob)"
    by (simp add: release_failed_claim_def Let_def)
  show "map o_event_id (unpublished (ob_rows (fst (release_failed_claim ob i tok at' err)))) =
     map o_event_id (unpublished (ob_rows ob))"
    unfolding rows by (simp add: unpublished_tupdate_same)
  show "prefix_published (ob_rows (fst (release_failed_claim ob i tok at' err))) = prefix_published (ob_rows ob)"
    unfolding rows by (rule prefix_published_same) (auto simp: tupdate_def)
qed

lemma release_remaining_keeps:
  "outbox_ok env ob \<Longrightarrow> outbox_ok env (release_remaining clock tok err ob k cs)"
  "map o_event_id (unpublished (ob_rows (release_remaining clock tok err ob k cs))) =
     map o_event_id (unpublished (ob_rows ob))"
  "prefix_published (ob_rows (release_remaining clock tok err ob k cs)) = prefix_published (ob_rows ob)"
  by (induction cs arbitrary: ob k) (auto simp: finish_ok release_keeps)

section \<open>The loop\<close>

definition aligned :: "outbox \<Rightarrow> claimed_record list \<Rightarrow> bool" where
  "aligned ob cs \<longleftrightarrow>
     map cr_event_id cs = map o_event_id (take (length cs) (unpublished (ob_rows ob)))"

lemma aligned_Cons:
  assumes "aligned ob (c # cs)"
  obtains h U where "unpublished (ob_rows ob) = h # U" "o_event_id h = cr_event_id c"
    "map cr_event_id cs = map o_event_id (take (length cs) U)"
  using assms by (cases "unpublished (ob_rows ob)") (auto simp: aligned_def)

lemma publish_loop_ordered:
  assumes "outbox_ok env ob" "prefix_published (ob_rows ob)" "aligned ob cs"
    "publish_loop clock produce tok ob k i n cs = (ob', res, sent)"
  shows "outbox_ok env ob' \<and> prefix_published (ob_rows ob') \<and>
    (\<exists>m. rr_published_count res = n + m \<and> m \<le> length sent \<and> length sent \<le> Suc m \<and>
         sent = take (length sent) (map cr_event cs) \<and>
         map o_event_id (unpublished (ob_rows ob')) = drop m (map o_event_id (unpublished (ob_rows ob))))"
  using assms
proof (induction cs arbitrary: ob k i n ob' res sent)
  case Nil
  then show ?case by auto
next
  case (Cons c cs)
  obtain h U where hU: "unpublished (ob_rows ob) = h # U" "o_event_id h = cr_event_id c"
    "map cr_event_id cs = map o_event_id (take (length cs) U)"
    using aligned_Cons[OF Cons.prems(3)] by metis
  show ?case
  proof (cases "failure_of (produce i)")
    case (Some f)
    then obtain outcome cls where f: "failure_of (produce i) = Some (outcome, cls)" by (cases f) auto
    from Cons.prems(4) show ?thesis using Cons.prems(1,2)
      by (auto simp: f Let_def release_remaining_keeps release_keeps finish_ok)
  next
    case None
    obtain ob1 marked where mk: "mark_published ob (cr_event_id c) tok (clock k) = (ob1, marked)"
      by fastforce
    have ok1: "outbox_ok env ob1" using finish_ok(1)[OF Cons.prems(1)] mk by (metis fst_conv)
    show ?thesis
    proof (cases marked)
      case True
      from mk True have "mark_published ob (cr_event_id c) tok (clock k) = (ob1, True)" by simp
      note head = mark_head[OF Cons.prems(1) this hU(1,2)]
      obtain res' sent' where loop: "publish_loop clock produce tok ob1 (Suc k) (Suc i) (Suc n) cs = (ob', res', sent')"
        and sent: "res = res'" "sent = cr_event c # sent'"
        using Cons.prems(4) None mk True by (auto simp: Let_def split: prod.splits)
      have "aligned ob1 cs" using hU(3) head(1) by (simp add: aligned_def)
      from Cons.IH[OF ok1 head(2)[OF Cons.prems(2)] this loop] obtain m where
        "outbox_ok env ob'" "prefix_published (ob_rows ob')" "rr_published_count res' = Suc n + m"
        "m \<le> length sent'" "length sent' \<le> Suc m" "sent' = take (length sent') (map cr_event cs)"
        "map o_event_id (unpublished (ob_rows ob')) = drop m (map o_event_id U)"
        using head(1) by auto
      then show ?thesis using sent hU(1) by (intro conjI exI[of _ "Suc m"]) auto
    next
      case False
      have "ob1 = ob"
      proof -
        let ?P = "\<lambda>r. o_event_id r = cr_event_id c \<and> owns_publish_claim r tok (clock k)"
        have "tcount ?P (ob_rows ob) \<noteq> 1" using mk False by (auto simp: mark_published_def Let_def)
        moreover have "tcount ?P (ob_rows ob) \<le> 1"
          using Cons.prems(1) by (intro tcount_le_one[of o_event_id _ _ "cr_event_id c"]) (auto simp: outbox_ok_def)
        ultimately have "tcount ?P (ob_rows ob) = 0" by linarith
        then show ?thesis using mk by (auto simp: mark_published_def Let_def tupdate_id)
      qed
      then show ?thesis using Cons.prems None mk False
        by (auto simp: Let_def release_remaining_keeps)
    qed
  qed
qed

lemma claimed_aligned:
  assumes "outbox_ok env ob" "claim_batch env ob locked tok at' lease b = Inr (ob1, cs)"
  shows "aligned ob1 cs"
    "map o_event_id (unpublished (ob_rows ob1)) = map o_event_id (unpublished (ob_rows ob))"
    "prefix_published (ob_rows ob1) = prefix_published (ob_rows ob)"
proof -
  have bl: "1 \<le> b" "at' < lease" using assms(2) by (auto simp: claim_batch_def split: if_splits)
  let ?rs = "rows_to_claim (ob_rows ob) locked at' (nat b)"
  have ob1: "ob_rows ob1 = tupdate (\<lambda>r. r \<in> set ?rs) (claim_outbox_row tok lease) (ob_rows ob)"
    and cs: "cs = map (claimed_of (oe_pydantic env) tok lease) ?rs"
    using assms(2) claim_batch_result[OF assms(1) bl, of locked tok] by auto
  show same: "map o_event_id (unpublished (ob_rows ob1)) = map o_event_id (unpublished (ob_rows ob))"
    unfolding ob1 by (simp add: unpublished_tupdate_same)
  show "prefix_published (ob_rows ob1) = prefix_published (ob_rows ob)"
    unfolding ob1 by (rule prefix_published_same) (auto simp: tupdate_def)
  have d: "distinct (map o_outbox_position (ob_rows ob))" using assms(1) by (simp add: outbox_ok_def)
  have "?rs = take (length ?rs) (unpublished (ob_rows ob))"
    using rows_to_claim_eq[OF d, of "nat b" locked at'] bl(1) take_takeWhile_prefix by simp
  then have "map cr_event_id cs = map o_event_id (take (length cs) (unpublished (ob_rows ob)))"
    unfolding cs by (simp add: claimed_of_def comp_def)
  then show "aligned ob1 cs" using same by (simp add: aligned_def take_map[symmetric])
qed

section \<open>No claim is left behind\<close>

definition held :: "string \<Rightarrow> timestamp \<Rightarrow> outbox \<Rightarrow> uuid set \<Rightarrow> bool" where
  "held tok lease ob S \<longleftrightarrow>
     (\<forall>r \<in> set (ob_rows ob). o_publish_claim_token r = Some tok \<longrightarrow>
        o_event_id r \<in> S \<and> o_publish_lease_expires_at r = Some lease)"

lemma held_owned:
  assumes "outbox_ok env ob" "held tok lease ob S" "r \<in> set (ob_rows ob)" "o_publish_claim_token r = Some tok" "t < lease"
  shows "owns_publish_claim r tok t"
proof -
  have "outbox_checks env r" using assms(1,3) by (auto simp: outbox_ok_def list_all_iff outbox_row_ok_iff)
  then have "o_published_at r = None" using assms(4) by (auto simp: outbox_checks_def)
  then show ?thesis using assms(2-5) by (auto simp: held_def owns_publish_claim_def)
qed

lemma held_finish:
  assumes "outbox_ok env ob" "held tok lease ob (insert i S)" "t < lease"
  shows "held tok lease (fst (mark_published ob i tok t)) S"
    "held tok lease (fst (release_failed_claim ob i tok t err)) S"
proof -
  have step: "held tok lease (ob\<lparr> ob_rows := tupdate (\<lambda>r. o_event_id r = i \<and> owns_publish_claim r tok t) f (ob_rows ob) \<rparr>) S"
    if f: "\<And>r. o_publish_claim_token (f r) = None" for f
  proof -
    have "o_event_id r \<noteq> i" if "r \<in> set (ob_rows ob)" "o_publish_claim_token r = Some tok"
      "\<not> (o_event_id r = i \<and> owns_publish_claim r tok t)" for r
      using held_owned[OF assms(1,2) that(1,2) assms(3)] that(3) by blast
    then show ?thesis using assms(2) f by (auto simp: held_def tupdate_def split: if_splits)
  qed
  show "held tok lease (fst (mark_published ob i tok t)) S"
    using step[of "published_row t"] by (simp add: mark_published_def Let_def published_row_def[of t])
  show "held tok lease (fst (release_failed_claim ob i tok t err)) S"
    using step[of "released_row (sanitize_error_class err)"]
    by (simp add: release_failed_claim_def Let_def) (simp add: released_row_def)
qed

lemma held_release_remaining:
  assumes "outbox_ok env ob" "held tok lease ob (set (map cr_event_id cs))" "\<And>k. clock k < lease"
  shows "held tok lease (release_remaining clock tok err ob k cs) {}"
  using assms(1,2)
proof (induction cs arbitrary: ob k)
  case (Cons c cs)
  have "held tok lease (fst (release_failed_claim ob (cr_event_id c) tok (clock k) err)) (set (map cr_event_id cs))"
    using held_finish(2)[OF Cons.prems(1) _ assms(3)] Cons.prems(2) by simp
  then show ?case using Cons.IH finish_ok(2)[OF Cons.prems(1)] by simp
qed simp

lemma publish_loop_releases:
  assumes "outbox_ok env ob" "held tok lease ob (set (map cr_event_id cs))" "\<And>k. clock k < lease"
    "publish_loop clock produce tok ob k i n cs = (ob', res, sent)"
  shows "held tok lease ob' {}"
  using assms(1,2,4)
proof (induction cs arbitrary: ob k i n ob' res sent)
  case (Cons c cs)
  have rel: "held tok lease (fst (release_failed_claim ob (cr_event_id c) tok (clock k) e)) (set (map cr_event_id cs))" for e
    using held_finish(2)[OF Cons.prems(1) _ assms(3)] Cons.prems(2) by simp
  have mark: "held tok lease (fst (mark_published ob (cr_event_id c) tok (clock k))) (set (map cr_event_id cs))"
    using held_finish(1)[OF Cons.prems(1) _ assms(3)] Cons.prems(2) by simp
  note ok = finish_ok[OF Cons.prems(1)]
  show ?case
  proof (cases "failure_of (produce i)")
    case (Some f)
    then show ?thesis using Cons.prems(3) held_release_remaining[OF ok(2) rel assms(3)]
      by (cases f) (auto simp: Let_def)
  next
    case None
    obtain ob1 marked where mk: "mark_published ob (cr_event_id c) tok (clock k) = (ob1, marked)" by fastforce
    have ok1: "outbox_ok env ob1" and h1: "held tok lease ob1 (set (map cr_event_id cs))"
      using ok(1)[of "cr_event_id c" tok "clock k"] mark mk by simp_all
    show ?thesis
    proof (cases marked)
      case True
      obtain res' sent' where "publish_loop clock produce tok ob1 (Suc k) (Suc i) (Suc n) cs = (ob', res', sent')"
        using Cons.prems(3) None mk True by (auto simp: Let_def split: prod.splits)
      then show ?thesis using Cons.IH[OF ok1 h1] by blast
    next
      case False
      then show ?thesis using Cons.prems(3) None mk held_release_remaining[OF ok1 h1 assms(3)]
        by (auto simp: Let_def)
    qed
  qed
qed simp

lemma claimed_of_id: "cr_event_id (claimed_of pd tok lease r) = o_event_id r"
  by (simp add: claimed_of_def)

lemma claim_batch_held:
  assumes "outbox_ok env ob" "claim_batch env ob locked tok at' lease b = Inr (ob1, cs)"
    "\<forall>r \<in> set (ob_rows ob). o_publish_claim_token r \<noteq> Some tok"
  shows "held tok lease ob1 (set (map cr_event_id cs))"
proof -
  have bl: "1 \<le> b" "at' < lease" using assms(2) by (auto simp: claim_batch_def split: if_splits)
  show ?thesis
    using assms(2,3) unfolding claim_batch_result[OF assms(1) bl]
    by (auto simp: held_def tupdate_def claim_outbox_row_def image_image claimed_of_id)
qed

section \<open>A healthy producer\<close>

lemma publish_loop_healthy:
  assumes "outbox_ok env ob" "aligned ob cs" "distinct (map cr_event_id cs)" "\<And>i. produce i = Delivered"
    "\<And>k. clock k < lease"
    "\<forall>c \<in> set cs. \<exists>r \<in> set (ob_rows ob). o_event_id r = cr_event_id c \<and> o_publish_claim_token r = Some tok \<and>
       o_publish_lease_expires_at r = Some lease"
  shows "\<exists>ob'. publish_loop clock produce tok ob k i n cs =
    (ob', \<lparr> rr_outcome = PUBLISHED, rr_published_count = n + length cs \<rparr>, map cr_event cs)"
  using assms(1-3,6)
proof (induction cs arbitrary: ob k i n)
  case (Cons c cs)
  obtain h U where hU: "unpublished (ob_rows ob) = h # U" "o_event_id h = cr_event_id c"
    "map cr_event_id cs = map o_event_id (take (length cs) U)"
    using aligned_Cons[OF Cons.prems(2)] by metis
  let ?P = "\<lambda>r. o_event_id r = cr_event_id c \<and> owns_publish_claim r tok (clock k)"
  obtain r where r: "r \<in> set (ob_rows ob)" "o_event_id r = cr_event_id c" "o_publish_claim_token r = Some tok"
    "o_publish_lease_expires_at r = Some lease" using Cons.prems(4) by auto
  have "outbox_checks env r" using Cons.prems(1) r(1) by (auto simp: outbox_ok_def list_all_iff outbox_row_ok_iff)
  then have "?P r" using r assms(5) by (auto simp: outbox_checks_def owns_publish_claim_def)
  then have "0 < tcount ?P (ob_rows ob)" using r(1) by (auto simp: tcount_pos)
  moreover have "tcount ?P (ob_rows ob) \<le> 1"
    using Cons.prems(1) by (intro tcount_le_one[of o_event_id _ _ "cr_event_id c"]) (auto simp: outbox_ok_def)
  ultimately have "tcount ?P (ob_rows ob) = 1" by linarith
  then obtain ob1 where mk: "mark_published ob (cr_event_id c) tok (clock k) = (ob1, True)"
    by (simp add: mark_published_def Let_def)
  have ok1: "outbox_ok env ob1" using finish_ok(1)[OF Cons.prems(1), of "cr_event_id c" tok "clock k"] mk by simp
  have "aligned ob1 cs" using hU(3) mark_head(1)[OF Cons.prems(1) mk hU(1,2)] by (simp add: aligned_def)
  moreover have "\<forall>c' \<in> set cs. \<exists>r \<in> set (ob_rows ob1). o_event_id r = cr_event_id c' \<and>
      o_publish_claim_token r = Some tok \<and> o_publish_lease_expires_at r = Some lease"
  proof
    fix c' assume c': "c' \<in> set cs"
    then obtain x where x: "x \<in> set (ob_rows ob)" "o_event_id x = cr_event_id c'" "o_publish_claim_token x = Some tok"
      "o_publish_lease_expires_at x = Some lease" using Cons.prems(4) by auto
    have "cr_event_id c' \<noteq> cr_event_id c" using Cons.prems(3) c' by (metis distinct.simps(2) image_eqI list.simps(9) set_map)
    then have "x \<in> set (ob_rows ob1)"
      using x(1,2) mk by (force simp: mark_published_def Let_def tupdate_def)
    then show "\<exists>r \<in> set (ob_rows ob1). o_event_id r = cr_event_id c' \<and>
      o_publish_claim_token r = Some tok \<and> o_publish_lease_expires_at r = Some lease" using x by blast
  qed
  ultimately obtain ob' where "publish_loop clock produce tok ob1 (Suc k) (Suc i) (Suc n) cs =
      (ob', \<lparr> rr_outcome = PUBLISHED, rr_published_count = Suc n + length cs \<rparr>, map cr_event cs)"
    using Cons.IH[OF ok1] Cons.prems(3) by fastforce
  then show ?case using assms(4)[of i] mk by (simp add: failure_of_def)
qed simp

section \<open>Concrete outbox for the witnesses\<close>

definition w_env :: outbox_env where
  "w_env = \<lparr> oe_pydantic = demo_pydantic, oe_dumps = (\<lambda>_. []), oe_column_size = (\<lambda>_. 0) \<rparr>"

definition w_outbox_row :: "uuid \<Rightarrow> int \<Rightarrow> outbox_row" where
  "w_outbox_row i p = \<lparr> o_event_id = i, o_outbox_position = p, o_event_type = ''research_job.created'',
     o_event_version = 1, o_aggregate_type = ''research_job'', o_aggregate_id = ''job-1'', o_occurred_at = 10,
     o_payload = payload_dump demo_pydantic (ResearchJobCreatedPayload ''job-1'' 10), o_created_at = 10,
     o_published_at = None, o_publish_claim_token = None, o_publish_lease_expires_at = None,
     o_publish_attempts = 0, o_last_publish_error_class = None, o_traceparent = None \<rparr>"

definition w_outbox :: outbox where
  "w_outbox = \<lparr> ob_rows = [w_outbox_row ''u2'' 2, w_outbox_row ''u1'' 1], ob_next = 3 \<rparr>"

definition w_clock :: "nat \<Rightarrow> timestamp" where "w_clock k = 100"

lemma w_outbox_ok: "outbox_ok w_env w_outbox"
  by code_simp

lemma w_prefix: "prefix_published (ob_rows w_outbox)"
  by code_simp

section \<open>Properties\<close>

text \<open>
  C23. \<open>claim_batch\<close> never leapfrogs: with a positive batch size and a lease in the future it
  succeeds, and what it claims is exactly the first \<open>batch_size\<close> rows of the longest prefix of the
  unpublished rows, in position order, that are unlocked and free of a live claim; those rows
  get the token, the lease and one more attempt, and every other row is untouched.
\<close>

theorem claim_batch_head_of_line:
  assumes "outbox_ok env ob" "1 \<le> b" "at' < lease"
  shows "\<exists>rs. rs = take (nat b) (takeWhile (\<lambda>x. o_event_id x \<notin> set locked \<and> is_claimable x at')
                                   (unpublished (ob_rows ob))) \<and>
    claim_batch env ob locked tok at' lease b =
      Inr (ob\<lparr> ob_rows := tupdate (\<lambda>r. r \<in> set rs) (claim_outbox_row tok lease) (ob_rows ob) \<rparr>,
           map (claimed_of (oe_pydantic env) tok lease) rs)"
proof -
  have "distinct (map o_outbox_position (ob_rows ob))" "0 < nat b" using assms by (auto simp: outbox_ok_def)
  from rows_to_claim_eq[OF this] claim_batch_result[OF assms] show ?thesis by simp
qed

theorem claim_batch_head_of_line_witness:
  "\<exists>rs. map o_event_id rs = [''u1''] \<and>
     claim_batch w_env w_outbox [] ''t'' 5 9 1 =
       Inr (w_outbox\<lparr> ob_rows := tupdate (\<lambda>r. r \<in> set rs) (claim_outbox_row ''t'' 9) (ob_rows w_outbox) \<rparr>,
            map (claimed_of (oe_pydantic w_env) ''t'' 9) rs)"
proof -
  have ids: "map o_event_id (take (nat 1) (takeWhile (\<lambda>x. o_event_id x \<notin> set [] \<and> is_claimable x 5)
          (unpublished (ob_rows w_outbox)))) = [''u1'']" by code_simp
  have "(1::int) \<le> 1" "(5::timestamp) < 9" by simp_all
  from claim_batch_head_of_line [OF w_outbox_ok this, of "[]" "''t''"] obtain rs where
    rs: "rs = take (nat 1) (takeWhile (\<lambda>x. o_event_id x \<notin> set [] \<and> is_claimable x 5) (unpublished (ob_rows w_outbox)))"
    and c: "claim_batch w_env w_outbox [] ''t'' 5 9 1 =
       Inr (w_outbox\<lparr> ob_rows := tupdate (\<lambda>r. r \<in> set rs) (claim_outbox_row ''t'' 9) (ob_rows w_outbox) \<rparr>,
            map (claimed_of (oe_pydantic w_env) ''t'' 9) rs)" by (elim exE conjE)
  from ids have "map o_event_id rs = [''u1'']" unfolding rs .
  then show ?thesis using c by (intro exI[of _ rs] conjI)
qed

text \<open>
  C8. A relay run publishes in order and at least once: from a state where everything before a
  published row is published, whatever the clock and the producer do, the run ends in such a
  state; the rows it marked are exactly the first \<open>published_count\<close> unpublished rows; the events
  the producer acknowledged are the events of the first unpublished rows, in position order;
  and a row is marked only after its event was acknowledged (at most one acknowledged event,
  the last, stays unmarked and is sent again later).
\<close>

theorem relay_run_publishes_in_order:
  assumes "outbox_ok env ob" "prefix_published (ob_rows ob)"
    "run_once env held_lock ob locked clock produce tok secs b = Inr (ob', res, sent)"
  shows "outbox_ok env ob' \<and> prefix_published (ob_rows ob') \<and>
    map o_event_id (unpublished (ob_rows ob')) =
      drop (rr_published_count res) (map o_event_id (unpublished (ob_rows ob))) \<and>
    sent = take (length sent) (map (row_event (oe_pydantic env)) (unpublished (ob_rows ob))) \<and>
    rr_published_count res \<le> length sent \<and> length sent \<le> Suc (rr_published_count res)"
proof -
  obtain ob1 cs where c: "claim_batch env ob locked tok (clock 0) (clock 0 + timedelta_seconds secs) b = Inr (ob1, cs)"
    and run: "if cs = [] then ob' = ob1 \<and> rr_published_count res = 0 \<and> sent = []
              else publish_loop clock produce tok ob1 1 0 0 cs = (ob', res, sent)"
    using assms(3) by (auto simp: run_once_def bindE_eq_Inr split: if_splits)
  have bl: "1 \<le> b" "clock 0 < clock 0 + timedelta_seconds secs"
    using c by (auto simp: claim_batch_def split: if_splits)
  note al = claimed_aligned[OF assms(1) c] and ok1 = claim_batch_ok[OF assms(1) c]
  let ?rs = "rows_to_claim (ob_rows ob) locked (clock 0) (nat b)"
  have d: "distinct (map o_outbox_position (ob_rows ob))" using assms(1) by (simp add: outbox_ok_def)
  have cs: "cs = map (claimed_of (oe_pydantic env) tok (clock 0 + timedelta_seconds secs)) ?rs"
    using c claim_batch_result[OF assms(1) bl] by simp
  then have ev: "map cr_event cs = map (row_event (oe_pydantic env)) ?rs" by (simp add: claimed_of_def)
  have rs: "?rs = take (length ?rs) (unpublished (ob_rows ob))"
    using rows_to_claim_eq[OF d, of "nat b"] bl(1) take_takeWhile_prefix by simp
  show ?thesis
  proof (cases "cs = []")
    case True
    then show ?thesis using run ok1 al assms(2) by simp
  next
    case False
    then have loop: "publish_loop clock produce tok ob1 1 0 0 cs = (ob', res, sent)" using run by simp
    from publish_loop_ordered[OF ok1 _ al(1) loop] al(2,3) assms(2) obtain m where
      m: "outbox_ok env ob'" "prefix_published (ob_rows ob')" "rr_published_count res = m" "m \<le> length sent"
      "length sent \<le> Suc m" "sent = take (length sent) (map cr_event cs)"
      "map o_event_id (unpublished (ob_rows ob')) = drop m (map o_event_id (unpublished (ob_rows ob)))" by auto
    have "sent = take (length sent) (map (row_event (oe_pydantic env)) (unpublished (ob_rows ob)))"
      using m(6) ev rs by (metis length_take min.cobounded2 take_map take_take min.absorb1 length_map)
    then show ?thesis using m by simp
  qed
qed

theorem relay_run_publishes_in_order_witness:
  "\<exists>ob' res sent. run_once w_env True w_outbox [] w_clock (\<lambda>i. if i = 0 then Delivered else RaisedRecoverable ''E'')
       ''t'' 30 2 = Inr (ob', res, sent) \<and> rr_published_count res = 1 \<and>
     map o_event_id (unpublished (ob_rows ob')) = [''u2'']"
proof -
  let ?produce = "\<lambda>i. if i = 0 then Delivered else RaisedRecoverable ''E''"
  have t: "timedelta_seconds 30 = 30000000" by simp
  have "case run_once w_env True w_outbox [] w_clock ?produce ''t'' 30 2 of
      Inl e \<Rightarrow> False | Inr (ob', res, sent) \<Rightarrow> rr_published_count res = 1"
    unfolding run_once_def t by code_simp
  then obtain ob' res sent where run: "run_once w_env True w_outbox [] w_clock ?produce ''t'' 30 2 = Inr (ob', res, sent)"
    and n: "rr_published_count res = 1" unfolding case_Inr_triple by blast
  have "map o_event_id (unpublished (ob_rows w_outbox)) = [''u1'', ''u2'']" by code_simp
  with relay_run_publishes_in_order [OF w_outbox_ok w_prefix run] n run show ?thesis by auto
qed

text \<open>
  C26. No claim is left behind: when the run's token is fresh and every clock reading is before
  the lease end, then however the run ends (published, failed or ownership lost) no row is still
  claimed with its token, so the next run can claim the head at once.
\<close>

theorem relay_run_releases_its_claims:
  assumes "outbox_ok env ob" "\<forall>r \<in> set (ob_rows ob). o_publish_claim_token r \<noteq> Some tok"
    "\<forall>k. clock k < clock 0 + timedelta_seconds secs"
    "run_once env held_lock ob locked clock produce tok secs b = Inr (ob', res, sent)"
  shows "\<forall>r \<in> set (ob_rows ob'). o_publish_claim_token r \<noteq> Some tok"
proof -
  obtain ob1 cs where c: "claim_batch env ob locked tok (clock 0) (clock 0 + timedelta_seconds secs) b = Inr (ob1, cs)"
    and run: "if cs = [] then ob' = ob1 else publish_loop clock produce tok ob1 1 0 0 cs = (ob', res, sent)"
    using assms(4) by (auto simp: run_once_def bindE_eq_Inr split: if_splits)
  note h = claim_batch_held[OF assms(1) c assms(2)] and ok1 = claim_batch_ok[OF assms(1) c]
  have "held tok (clock 0 + timedelta_seconds secs) ob' {}"
  proof (cases "cs = []")
    case False
    then have "publish_loop clock produce tok ob1 1 0 0 cs = (ob', res, sent)" using run by simp
    from publish_loop_releases[OF ok1 h spec[OF assms(3)] this] show ?thesis .
  qed (use run h in simp)
  then show ?thesis by (simp add: held_def)
qed

theorem relay_run_releases_its_claims_witness:
  "\<exists>ob' res sent. run_once w_env True w_outbox [] w_clock (\<lambda>i. RaisedOther ''TypeError'') ''t'' 30 2 = Inr (ob', res, sent) \<and>
     rr_outcome res = UNEXPECTED_FAILURE \<and> (\<exists>r \<in> set (ob_rows ob'). o_publish_claim_token r \<noteq> Some ''t'')"
proof -
  have t: "timedelta_seconds 30 = 30000000" by simp
  have "case run_once w_env True w_outbox [] w_clock (\<lambda>i. RaisedOther ''TypeError'') ''t'' 30 2 of
      Inl e \<Rightarrow> False | Inr (ob', res, sent) \<Rightarrow> rr_outcome res = UNEXPECTED_FAILURE \<and> ob_rows ob' \<noteq> []"
    unfolding run_once_def t by code_simp
  then obtain ob' res sent where
    run: "run_once w_env True w_outbox [] w_clock (\<lambda>i. RaisedOther ''TypeError'') ''t'' 30 2 = Inr (ob', res, sent)"
    and n: "rr_outcome res = UNEXPECTED_FAILURE" "ob_rows ob' \<noteq> []" unfolding case_Inr_triple by blast
  have "\<forall>r \<in> set (ob_rows w_outbox). o_publish_claim_token r \<noteq> Some ''t''" by code_simp
  moreover have "\<forall>k. w_clock k < w_clock 0 + timedelta_seconds 30" by (simp add: w_clock_def)
  ultimately have "\<forall>r \<in> set (ob_rows ob'). o_publish_claim_token r \<noteq> Some ''t''"
    by (rule relay_run_releases_its_claims [OF w_outbox_ok _ _ run])
  then show ?thesis using run n by (metis last_in_set)
qed



text \<open>
  C24. A relay whose claim was taken over cannot mark or release the row any more: after any
  claim, calls with another token on a claimed row return \<open>False\<close> and change nothing.
\<close>

theorem publish_claim_fences_stale_relay:
  assumes "outbox_ok env ob" "claim_batch env ob locked tok at' lease b = Inr (ob1, cs)" "c \<in> set cs" "tok' \<noteq> tok"
  shows "mark_published ob1 (cr_event_id c) tok' t = (ob1, False) \<and>
         release_failed_claim ob1 (cr_event_id c) tok' t err = (ob1, False)"
proof -
  have bl: "1 \<le> b" "at' < lease" using assms(2) by (auto simp: claim_batch_def split: if_splits)
  let ?rs = "rows_to_claim (ob_rows ob) locked at' (nat b)"
  have ob1: "ob_rows ob1 = tupdate (\<lambda>r. r \<in> set ?rs) (claim_outbox_row tok lease) (ob_rows ob)"
    and cs: "cs = map (claimed_of (oe_pydantic env) tok lease) ?rs"
    using assms(2) claim_batch_result[OF assms(1) bl, of locked tok] by auto
  obtain r where r: "r \<in> set ?rs" "cr_event_id c = o_event_id r" using assms(3) by (auto simp: cs claimed_of_id)
  have g: "publish_granted r tok at' lease (claim_outbox_row tok lease r)"
    using rows_to_claim_facts(2)[OF assms(1) r(1)] by (simp add: publish_granted_def)
  have "\<not> owns_publish_claim x tok' t" if x: "x \<in> set (ob_rows ob1)" "o_event_id x = o_event_id r" for x
  proof -
    obtain y where y: "y \<in> set (ob_rows ob)" "x = (if y \<in> set ?rs then claim_outbox_row tok lease y else y)"
      using x(1) unfolding ob1 tupdate_mem by blast
    have "r \<in> set (ob_rows ob)" using r(1) rows_to_claim_facts(1)[OF assms(1)] by blast
    then have "y = r" using y x(2) assms(1) by (auto simp: outbox_ok_def distinct_map inj_on_def split: if_splits)
    then show ?thesis using publish_claims.granted_fences_others[OF g] assms(4) y(2) r(1) by auto
  qed
  then have "tcount (\<lambda>x. o_event_id x = cr_event_id c \<and> owns_publish_claim x tok' t) (ob_rows ob1) = 0"
    unfolding r(2) using tcount_pos[of "\<lambda>x. o_event_id x = o_event_id r \<and> owns_publish_claim x tok' t" "ob_rows ob1"]
    by fastforce
  then show ?thesis by (simp add: mark_published_def release_failed_claim_def Let_def tupdate_id)
qed

theorem publish_claim_fences_stale_relay_witness:
  "\<exists>ob1 c cs. claim_batch w_env w_outbox [] ''new'' 5 9 1 = Inr (ob1, c # cs) \<and>
     mark_published ob1 (cr_event_id c) ''old'' 6 = (ob1, False)"
proof -
  have "case claim_batch w_env w_outbox [] ''new'' 5 9 1 of Inl e \<Rightarrow> False | Inr (ob1, cs) \<Rightarrow> cs \<noteq> []" by code_simp
  then obtain ob1 c cs where cb: "claim_batch w_env w_outbox [] ''new'' 5 9 1 = Inr (ob1, c # cs)"
    by (auto split: sum.splits simp: neq_Nil_conv)
  from publish_claim_fences_stale_relay [OF w_outbox_ok cb, of c "''old''" 6] cb show ?thesis by auto
qed

text \<open>
  The Kafka producer adapter reports success only for a confirmed delivery (the adapter is
  open, \<open>produce\<close> and \<open>flush\<close> returned, the callback ran without error and nothing is
  outstanding); an error that is fatal, unrecognisable, or neither retriable nor the one
  approved timeout closes it, and a closed adapter refuses every later publish.
\<close>

lemma producer_fails_closed:
  "(snd (publish is_closed ans) = None \<longleftrightarrow>
      \<not> is_closed \<and> ka_produce ans = ProduceOk \<and> ka_callback ans = Some None \<and>
      (\<exists>n. ka_flush ans = FlushRemaining n \<and> n \<le> 0)) \<and>
   (fst (publish is_closed ans) \<longleftrightarrow>
      (\<exists>msg. snd (publish is_closed ans) = Some (KafkaFatalProducerError msg))) \<and>
   publish True ans' = (True, Some (KafkaFatalProducerError ''ProducerClosed''))"
  by (auto simp: publish_def raise_for_kafka_error_def split: produce_result.splits flush_result.splits option.splits)

text \<open>
  The poll loop stops with exit code one exactly at the first run that raised or ended
  fatally or unexpectedly; otherwise it runs until shutdown and exits zero.
\<close>

lemma poll_loop_exit_code:
  "fst (run_poll_loop results) = 1 \<longleftrightarrow>
     (\<exists>x \<in> set results. case x of Inl _ \<Rightarrow> True | Inr r \<Rightarrow> is_terminal_outcome (rr_outcome r))"
  by (induction results rule: run_poll_loop.induct) (auto simp: Let_def split: prod.splits)

text \<open>
  An event that was enqueued comes out of the outbox as it went in: the row that
  \<open>enqueue\<close> appends is rebuilt by the relay as exactly that event, behind every row already
  there, and nothing else changes.
\<close>

lemma enqueued_event_is_rebuilt:
  assumes "outbox_ok env ob" "pydantic_laws (oe_pydantic env)" "event_ok e" "enqueue env ob e tp = Inr ob'"
  shows "outbox_ok env ob' \<and> (\<exists>r. ob_rows ob' = ob_rows ob @ [r] \<and> rebuild_event (oe_pydantic env) r = Inr e \<and>
    o_published_at r = None \<and> (\<forall>x \<in> set (ob_rows ob). o_outbox_position x < o_outbox_position r))"
proof -
  have "\<forall>x \<in> set (ob_rows ob). o_outbox_position x < ob_next ob"
    using assms(1) by (auto simp: outbox_ok_def list_all_iff)
  with enqueue_cases[OF assms(4)] enqueued_row_rebuilds[OF assms(2,3)] show ?thesis
    using enqueue_ok[OF assms] by (metis outbox.select_convs(1))
qed

lemma enqueued_event_is_rebuilt_witness:
  "\<exists>ob' r. enqueue w_env w_outbox (w_event\<lparr> ev_event_id := ''u3'' \<rparr>) None = Inr ob' \<and> ob_rows ob' = ob_rows w_outbox @ [r] \<and>
     rebuild_event demo_pydantic r = Inr (w_event\<lparr> ev_event_id := ''u3'' \<rparr>)"
proof -
  have "case enqueue w_env w_outbox (w_event\<lparr> ev_event_id := ''u3'' \<rparr>) None of Inl e \<Rightarrow> False | Inr ob' \<Rightarrow> True" by code_simp
  then obtain ob' where e: "enqueue w_env w_outbox (w_event\<lparr> ev_event_id := ''u3'' \<rparr>) None = Inr ob'" by (auto split: sum.splits)
  have ok: "event_ok (w_event\<lparr> ev_event_id := ''u3'' \<rparr>)" by code_simp
  have laws: "pydantic_laws (oe_pydantic w_env)" using demo_pydantic_laws by (simp add: w_env_def)
  from enqueued_event_is_rebuilt [OF w_outbox_ok laws ok e] e show ?thesis
    by (auto simp: w_env_def)
qed

end
