(* ===== verification/Consumer_Runner.thy ===== *)
theory Consumer_Runner
  imports Dead_Letters Consumer_Timing Outbox_Relay
begin

text \<open>
  The consumer process's cycle: the Kafka adapter of \<open>src/src/atlas/consumer/kafka_consumer.py\<close> and
  \<open>ConsumerRunner\<close> of \<open>consumer/runner.py\<close> (poll, decode, apply with bounded retry, dead-letter with
  bounded retry, commit the offset with bounded retry).  The database, the broker, the clock and the
  waiter answer through an environment: a transaction may fail before it commits or after, a commit of
  an offset may be recorded by the broker although the call fails.
\<close>

section \<open>The Kafka adapter\<close>

text \<open>The \<open>error\<close> of a \<open>TopicPartition\<close>: none, a structured \<open>KafkaError\<close>, or something else.\<close>

datatype partition_reply = PartitionOk | PartitionError "kafka_error option"

datatype commit_reply = CommitRaises "kafka_error option" | CommitReturns "partition_reply list option"

datatype runner_error =
    TransientKafkaError string
  | ConsumerError string
  | ProcessingDeadlineExceededError
  | ConsumerShutdownRequestedError
  | RetryExhaustedError consumer_exc
  | DeadLetterPersistenceExhaustedError consumer_exc
  | OffsetCommitFailedAfterDeadLetterError runner_error
  | Propagated consumer_exc

definition commit_result_confirms_success :: "partition_reply list option \<Rightarrow> bool" where
  "commit_result_confirms_success result =
     (case result of None \<Rightarrow> False | Some ps \<Rightarrow> ps \<noteq> [] \<and> list_all (\<lambda>p. p = PartitionOk) ps)"

fun classify_partitions :: "bool \<Rightarrow> partition_reply list \<Rightarrow> kafka_error_class" where
  "classify_partitions saw_any_error [] = (if saw_any_error then RECOVERABLE else FATAL)"
| "classify_partitions saw_any_error (PartitionOk # ps) = classify_partitions saw_any_error ps"
| "classify_partitions saw_any_error (PartitionError err # ps) =
     (if classify_kafka_error err = FATAL then FATAL else classify_partitions True ps)"

definition classify_unconfirmed_commit_result :: "partition_reply list option \<Rightarrow> kafka_error_class" where
  "classify_unconfirmed_commit_result result =
     (case result of None \<Rightarrow> FATAL | Some ps \<Rightarrow> if ps = [] then FATAL else classify_partitions False ps)"

definition raise_classified :: "kafka_error option \<Rightarrow> string \<Rightarrow> runner_error" where
  "raise_classified err context =
     (if classify_kafka_error err = RECOVERABLE then TransientKafkaError context else ConsumerError context)"

definition commit_message :: "bool \<Rightarrow> commit_reply \<Rightarrow> runner_error + unit" where
  "commit_message closed' reply =
     (if closed' then Inl (ConsumerError ''CommitAfterClose'')
      else case reply of
        CommitRaises err \<Rightarrow> Inl (raise_classified err ''CommitFailed'')
      | CommitReturns result \<Rightarrow>
          if commit_result_confirms_success result then Inr ()
          else if classify_unconfirmed_commit_result result = RECOVERABLE then Inl (TransientKafkaError ''CommitFailed'')
          else Inl (ConsumerError ''CommitFailed''))"

record consumed =
  cm_message :: kafka_message
  cm_error :: "kafka_error option"
  cm_partition :: "int option"
  cm_offset :: "int option"

datatype poll_reply = PollRaises "kafka_error option" | PollNothing | PollMessage consumed

definition poll :: "bool \<Rightarrow> poll_reply \<Rightarrow> runner_error + consumed option" where
  "poll closed' reply =
     (if closed' then Inl (ConsumerError ''PollAfterClose'')
      else case reply of
        PollRaises err \<Rightarrow> Inl (raise_classified err ''PollFailed'')
      | PollNothing \<Rightarrow> Inr None
      | PollMessage m \<Rightarrow>
          (case cm_error m of Some err \<Rightarrow> Inl (raise_classified (Some err) ''PollReturnedBrokerError'') | None \<Rightarrow> Inr (Some m)))"

section \<open>The environment\<close>

datatype db_fault = DriverFault bool "string option" | ProgramFault string

fun fault_exc :: "db_fault \<Rightarrow> consumer_exc" where
  "fault_exc (DriverFault ci st) = DBAPIError ci st"
| "fault_exc (ProgramFault n) = OtherException n"

text \<open>The \<open>k\<close>-th transaction runs, fails before its commit, or fails after its commit took effect.\<close>

datatype tx_answer = TxRuns | TxFails db_fault | TxFailsAfterCommit db_fault

record runner_env =
  re_codec :: codec
  re_pydantic :: pydantic
  re_sha256 :: "string \<Rightarrow> string"
  re_timing :: retry_timing
  re_max_poll_interval_seconds :: real
  re_clock :: "nat \<Rightarrow> timestamp"
  re_wait :: "nat \<Rightarrow> bool"
  re_tx :: "nat \<Rightarrow> tx_answer"
  re_commit :: "nat \<Rightarrow> commit_reply \<times> bool"
  re_uuid :: "nat \<Rightarrow> uuid"

record runner_state =
  rs_db :: consumer_db
  rs_committed :: "(int \<times> int) list"
  rs_clock :: nat
  rs_waits :: nat
  rs_txs :: nat
  rs_commits :: nat

definition read_clock :: "runner_env \<Rightarrow> runner_state \<Rightarrow> timestamp \<times> runner_state" where
  "read_clock env st = (re_clock env (rs_clock st), st\<lparr> rs_clock := Suc (rs_clock st) \<rparr>)"

definition wait_step :: "runner_env \<Rightarrow> runner_state \<Rightarrow> bool \<times> runner_state" where
  "wait_step env st = (re_wait env (rs_waits st), st\<lparr> rs_waits := Suc (rs_waits st) \<rparr>)"

text \<open>\<open>with session_scope(...)\<close> around a transaction body.\<close>

definition run_tx ::
  "runner_env \<Rightarrow> runner_state \<Rightarrow> (consumer_db \<Rightarrow> consumer_exc + consumer_db \<times> 'a) \<Rightarrow> runner_state \<times> (consumer_exc + 'a)" where
  "run_tx env st body =
     (let st' = st\<lparr> rs_txs := Suc (rs_txs st) \<rparr>
      in case re_tx env (rs_txs st) of
        TxRuns \<Rightarrow> (case body (rs_db st) of Inl e \<Rightarrow> (st', Inl e) | Inr (db, x) \<Rightarrow> (st'\<lparr> rs_db := db \<rparr>, Inr x))
      | TxFails f \<Rightarrow> (st', Inl (fault_exc f))
      | TxFailsAfterCommit f \<Rightarrow>
          (case body (rs_db st) of Inl e \<Rightarrow> (st', Inl e) | Inr (db, _) \<Rightarrow> (st'\<lparr> rs_db := db \<rparr>, Inl (fault_exc f))))"

text \<open>The broker records the offset when the call confirms it, and possibly when the call fails.\<close>

definition commit_call :: "runner_env \<Rightarrow> runner_state \<Rightarrow> int \<Rightarrow> int \<Rightarrow> runner_state \<times> (runner_error + unit)" where
  "commit_call env st part offset =
     (let (reply, recorded_anyway) = re_commit env (rs_commits st);
          res = commit_message False reply;
          st' = st\<lparr> rs_commits := Suc (rs_commits st) \<rparr>
      in (if res = Inr () \<or> recorded_anyway then st'\<lparr> rs_committed := (part, offset) # rs_committed st' \<rparr> else st', res))"

text \<open>The tail of every retry loop: exhaustion, the deadline's admission of a backoff, and the wait;
  \<open>None\<close> is \<open>continue\<close>.\<close>

definition backoff_step ::
  "runner_env \<Rightarrow> runner_state \<Rightarrow> timestamp \<Rightarrow> nat \<Rightarrow> runner_error \<Rightarrow> runner_state \<times> runner_error option" where
  "backoff_step env st deadline attempt_index exhausted =
     (if rt_max_attempts (re_timing env) \<le> attempt_index then (st, Some exhausted)
      else let backoff = backoff_delay_seconds (re_timing env) (attempt_index - 1);
               (now, st) = read_clock env st
           in if \<not> can_afford_backoff (re_timing env) deadline now backoff then (st, Some ProcessingDeadlineExceededError)
              else let (stop, st) = wait_step env st
                   in (st, if stop then Some ConsumerShutdownRequestedError else None))"

lemma backoff_step_continue:
  "backoff_step env st deadline k ex = (st', None) \<Longrightarrow> k < rt_max_attempts (re_timing env)"
  by (auto simp: backoff_step_def Let_def split: if_splits prod.splits)

section \<open>Committing the offset\<close>

function commit_loop :: "runner_env \<Rightarrow> runner_state \<Rightarrow> int \<Rightarrow> int \<Rightarrow> timestamp \<Rightarrow> nat \<Rightarrow> runner_state \<times> (runner_error + unit)" where
  "commit_loop env st part offset deadline attempt_index =
     (let (now, st) = read_clock env st
      in if \<not> can_start_attempt (re_timing env) deadline now then (st, Inl ProcessingDeadlineExceededError)
         else case commit_call env st part offset of
           (st, Inr _) \<Rightarrow> (st, Inr ())
         | (st, Inl (TransientKafkaError c)) \<Rightarrow>
             (case backoff_step env st deadline (Suc attempt_index) (TransientKafkaError c) of
                (st, Some err) \<Rightarrow> (st, Inl err)
              | (st, None) \<Rightarrow> commit_loop env st part offset deadline (Suc attempt_index))
         | (st, Inl err) \<Rightarrow> (st, Inl err))"
  by pat_completeness auto
termination
  by (relation "measure (\<lambda>(env, _, _, _, _, k). rt_max_attempts (re_timing env) - k)")
     (auto dest!: sym[THEN backoff_step_continue])

declare commit_loop.simps [simp del]

definition commit_with_retry :: "runner_env \<Rightarrow> runner_state \<Rightarrow> int \<Rightarrow> int \<Rightarrow> timestamp \<Rightarrow> runner_state \<times> (runner_error + unit)" where
  "commit_with_retry env st part offset deadline = commit_loop env st part offset deadline 0"

section \<open>Dead-lettering\<close>

function dead_letter_loop ::
  "runner_env \<Rightarrow> runner_state \<Rightarrow> int \<Rightarrow> int \<Rightarrow> string \<Rightarrow> int \<Rightarrow> timestamp \<Rightarrow> dead_letter_retention \<Rightarrow> timestamp \<Rightarrow> nat \<Rightarrow>
   runner_state \<times> (runner_error + unit)" where
  "dead_letter_loop env st part offset failure_code processing_attempt_count at' retention deadline attempt_index =
     (let (now, st) = read_clock env st
      in if \<not> can_start_attempt (re_timing env) deadline now then (st, Inl ProcessingDeadlineExceededError)
         else case run_tx env st (\<lambda>db. upsert (re_codec env) db (re_uuid env (rs_txs st))
                RESEARCH_JOB_PROJECTION_CONSUMER_GROUP_V1 part offset failure_code processing_attempt_count at' retention) of
           (st, Inr _) \<Rightarrow> (st, Inr ())
         | (st, Inl exc) \<Rightarrow>
             if classify_database_error exc \<noteq> TRANSIENT then (st, Inl (DeadLetterPersistenceExhaustedError exc))
             else (case backoff_step env st deadline (Suc attempt_index) (DeadLetterPersistenceExhaustedError exc) of
                     (st, Some err) \<Rightarrow> (st, Inl err)
                   | (st, None) \<Rightarrow> dead_letter_loop env st part offset failure_code processing_attempt_count at'
                       retention deadline (Suc attempt_index)))"
  by pat_completeness auto
termination
  by (relation "measure (\<lambda>(env, _, _, _, _, _, _, _, _, k). rt_max_attempts (re_timing env) - k)")
     (auto dest!: sym[THEN backoff_step_continue])

declare dead_letter_loop.simps [simp del]

datatype process_outcome = NO_MESSAGE | PROCESS_APPLIED | PROCESS_DUPLICATE | DEAD_LETTERED

text \<open>\<open>_dead_letter_and_commit\<close>; the \<open>ValueError\<close> of \<open>build_retention\<close> would propagate.\<close>

definition dead_letter_and_commit ::
  "runner_env \<Rightarrow> runner_state \<Rightarrow> poison_error \<Rightarrow> kafka_message \<Rightarrow> domain_event option \<Rightarrow> int \<Rightarrow> int \<Rightarrow> timestamp \<Rightarrow> int \<Rightarrow>
   timestamp \<Rightarrow> runner_state \<times> (runner_error + process_outcome)" where
  "dead_letter_and_commit env st exc message event part offset at' processing_attempt_count deadline =
     (let failure_code = failure_code_for exc
      in case build_retention (re_codec env) (re_pydantic env) (re_sha256 env) failure_code (km_value message)
                (if failure_code \<in> set TIER_A_ELIGIBLE_FAILURE_CODES then event else None) of
           None \<Rightarrow> (st, Inl (Propagated (OtherException ''ValueError'')))
         | Some retention \<Rightarrow>
             (case dead_letter_loop env st part offset failure_code processing_attempt_count at' retention deadline 0 of
                (st, Inl err) \<Rightarrow> (st, Inl err)
              | (st, Inr _) \<Rightarrow>
                  (case commit_with_retry env st part offset deadline of
                     (st, Inr _) \<Rightarrow> (st, Inr DEAD_LETTERED)
                   | (st, Inl err) \<Rightarrow>
                       (st, Inl (if err = ConsumerShutdownRequestedError \<or> err = ProcessingDeadlineExceededError then err
                                 else OffsetCommitFailedAfterDeadLetterError err)))))"

section \<open>Applying an event\<close>

function apply_loop ::
  "runner_env \<Rightarrow> runner_state \<Rightarrow> kafka_message \<Rightarrow> domain_event \<Rightarrow> int \<Rightarrow> int \<Rightarrow> timestamp \<Rightarrow> timestamp \<Rightarrow> nat \<Rightarrow>
   runner_state \<times> (runner_error + process_outcome)" where
  "apply_loop env st message event part offset at' deadline attempt_index =
     (let (now, st) = read_clock env st
      in if \<not> can_start_attempt (re_timing env) deadline now then (st, Inl ProcessingDeadlineExceededError)
         else case run_tx env st (\<lambda>db. record_and_apply db RESEARCH_JOB_PROJECTION_CONSUMER_GROUP_V1 event part offset at'
                (\<lambda>s e. apply_projection s e at')) of
           (st, Inr outcome) \<Rightarrow>
             (case commit_with_retry env st part offset deadline of
                (st, Inl err) \<Rightarrow> (st, Inl err)
              | (st, Inr _) \<Rightarrow> (st, Inr (if outcome = APPLIED then PROCESS_APPLIED else PROCESS_DUPLICATE)))
         | (st, Inl (PoisonEventError p)) \<Rightarrow>
             dead_letter_and_commit env st p message (Some event) part offset at' (int (Suc attempt_index)) deadline
         | (st, Inl exc) \<Rightarrow>
             if classify_database_error exc \<noteq> TRANSIENT then (st, Inl (Propagated exc))
             else (case backoff_step env st deadline (Suc attempt_index) (RetryExhaustedError exc) of
                     (st, Some err) \<Rightarrow> (st, Inl err)
                   | (st, None) \<Rightarrow> apply_loop env st message event part offset at' deadline (Suc attempt_index)))"
  by pat_completeness auto
termination
  by (relation "measure (\<lambda>(env, _, _, _, _, _, _, _, k). rt_max_attempts (re_timing env) - k)")
     (auto dest!: sym[THEN backoff_step_continue])

declare apply_loop.simps [simp del]

section \<open>One cycle\<close>

definition run_cycle :: "runner_env \<Rightarrow> runner_state \<Rightarrow> poll_reply \<Rightarrow> runner_state \<times> (runner_error + process_outcome)" where
  "run_cycle env st reply =
     (case poll False reply of
        Inl err \<Rightarrow> (st, Inl err)
      | Inr None \<Rightarrow> (st, Inr NO_MESSAGE)
      | Inr (Some m) \<Rightarrow>
          if cm_error m \<noteq> None then (st, Inl (raise_classified (cm_error m) ''PollReturnedBrokerError''))
          else
            let (at', st) = read_clock env st
            in case cm_partition m of
                 None \<Rightarrow> (st, Inl (ConsumerError ''MissingPartition''))
               | Some part \<Rightarrow>
                   (case cm_offset m of
                      None \<Rightarrow> (st, Inl (ConsumerError ''MissingOffset''))
                    | Some offset \<Rightarrow>
                        let deadline = deadline_at (re_timing env) (re_max_poll_interval_seconds env) at'
                        in case decode_message (re_codec env) (re_pydantic env) (cm_message m) of
                             Inl exc \<Rightarrow> dead_letter_and_commit env st exc (cm_message m) None part offset at' 1 deadline
                           | Inr (event, _) \<Rightarrow> apply_loop env st (cm_message m) event part offset at' deadline 0))"

section \<open>What each step changes\<close>

text \<open>Everything but the clock and wait counters.\<close>

definition same_world :: "runner_state \<Rightarrow> runner_state \<Rightarrow> bool" where
  "same_world st st' \<longleftrightarrow>
     rs_db st' = rs_db st \<and> rs_committed st' = rs_committed st \<and> rs_txs st' = rs_txs st \<and> rs_commits st' = rs_commits st"

lemma same_world_refl [simp]: "same_world st st"
  by (simp add: same_world_def)

lemma read_clock_world: "read_clock env st = (now, st') \<Longrightarrow> same_world st st'"
  by (auto simp: read_clock_def same_world_def)

lemma backoff_step_world: "backoff_step env st deadline k ex = (st', r) \<Longrightarrow> same_world st st'"
  by (auto simp: backoff_step_def read_clock_def wait_step_def same_world_def Let_def split: if_splits)

lemma commit_call_effect:
  assumes "commit_call env st p off = (st', res)"
  shows "rs_db st' = rs_db st" "rs_txs st' = rs_txs st" "rs_commits st' = Suc (rs_commits st)"
    "set (rs_committed st) \<subseteq> set (rs_committed st')" "set (rs_committed st') \<subseteq> insert (p, off) (set (rs_committed st))"
    "res = Inr () \<Longrightarrow> (p, off) \<in> set (rs_committed st')"
  using assms by (auto simp: commit_call_def Let_def split: prod.splits if_splits)

lemma commit_loop_cases:
  assumes "commit_loop env st p off deadline k = (st', res)"
  obtains (late) "same_world st st'" "res = Inl ProcessingDeadlineExceededError"
  | (finished) st0 where "same_world st st0" "commit_call env st0 p off = (st', res)"
  | (gave_up) st0 st1 c err where "same_world st st0" "commit_call env st0 p off = (st1, Inl c)" "same_world st1 st'" "res = Inl err"
  | (again) st0 st1 c st2 where "same_world st st0" "commit_call env st0 p off = (st1, Inl c)" "same_world st1 st2"
      "k < rt_max_attempts (re_timing env)" "Suc k < rt_max_attempts (re_timing env)" "commit_loop env st2 p off deadline (Suc k) = (st', res)"
proof -
  obtain now st0 where rc: "read_clock env st = (now, st0)" by fastforce
  note w0 = read_clock_world[OF rc]
  show thesis
  proof (cases "can_start_attempt (re_timing env) deadline now")
    case False
    then show thesis using assms w0 rc by (intro late) (auto simp: commit_loop.simps[of env st])
  next
    case True
    obtain st1 r where cc: "commit_call env st0 p off = (st1, r)" by fastforce
    show thesis
    proof (cases "\<exists>c. r = Inl (TransientKafkaError c)")
      case False
      then have "(st1, r) = (st', res)"
        using assms rc True cc
        by (cases r) (auto simp: commit_loop.simps[of env st] split: runner_error.splits)
      then show thesis using finished[OF w0] cc by simp
    next
      case tr: True
      then obtain c where c: "r = Inl (TransientKafkaError c)" by blast
      obtain st2 b where bo: "backoff_step env st1 deadline (Suc k) (TransientKafkaError c) = (st2, b)" by fastforce
      show thesis
      proof (cases b)
        case None
        then have k: "Suc k < rt_max_attempts (re_timing env)" using backoff_step_continue[of env st1 deadline "Suc k"] bo by auto
        show thesis
          using again[OF w0 cc[unfolded c] backoff_step_world[OF bo] _ k] k None assms rc True cc c bo
          by (auto simp: commit_loop.simps[of env st])
      next
        case (Some err)
        then have "st2 = st'" "res = Inl err" using assms rc True cc c bo by (auto simp: commit_loop.simps[of env st])
        then show thesis using gave_up[OF w0 cc[unfolded c]] backoff_step_world[OF bo] by blast
      qed
    qed
  qed
qed

lemma commit_loop_effect:
  assumes "commit_loop env st p off deadline k = (st', res)"
  shows "rs_db st' = rs_db st \<and> rs_txs st' = rs_txs st \<and> set (rs_committed st) \<subseteq> set (rs_committed st') \<and>
    set (rs_committed st') \<subseteq> insert (p, off) (set (rs_committed st)) \<and> (res = Inr () \<longrightarrow> (p, off) \<in> set (rs_committed st')) \<and>
    rs_commits st' \<le> rs_commits st + max 1 (rt_max_attempts (re_timing env) - k)"
  using assms
proof (induction "rt_max_attempts (re_timing env) - k" arbitrary: st k rule: less_induct)
  case less
  from less.prems show ?case
  proof (cases rule: commit_loop_cases)
    case (again st0 st1 c st2)
    have lt: "rt_max_attempts (re_timing env) - Suc k < rt_max_attempts (re_timing env) - k" using again(4) by simp
    note IH = less.hyps[OF lt again(6)] and call = commit_call_effect[OF again(2)]
    have "rs_commits st' \<le> rs_commits st + max 1 (rt_max_attempts (re_timing env) - k)"
      using IH again(1,3,5) call(3) by (simp add: same_world_def)
    then show ?thesis using IH again(1,3) call by (auto simp: same_world_def)
  next
    case late
    then show ?thesis by (auto simp: same_world_def)
  next
    case (finished st0)
    then show ?thesis using commit_call_effect[OF finished(2)] by (auto simp: same_world_def)
  next
    case (gave_up st0 st1 c err)
    then show ?thesis using commit_call_effect[OF gave_up(2)] by (auto simp: same_world_def)
  qed
qed

lemmas commit_with_retry_effect = commit_loop_effect[where k = 0, folded commit_with_retry_def]

lemma run_tx_effect:
  assumes "run_tx env st body = (st', r)"
  shows "rs_committed st' = rs_committed st" "rs_commits st' = rs_commits st" "rs_txs st' = Suc (rs_txs st)"
    "r = Inr x \<Longrightarrow> body (rs_db st) = Inr (rs_db st', x)"
    "rs_db st' = rs_db st \<or> (\<exists>x. body (rs_db st) = Inr (rs_db st', x))"
    "r = Inl (PoisonEventError p) \<Longrightarrow> body (rs_db st) = Inl (PoisonEventError p) \<and> rs_db st' = rs_db st"
proof -
  have "fault_exc f \<noteq> PoisonEventError p" for f by (cases f) auto
  then show "rs_committed st' = rs_committed st" "rs_commits st' = rs_commits st" "rs_txs st' = Suc (rs_txs st)"
    "r = Inr x \<Longrightarrow> body (rs_db st) = Inr (rs_db st', x)"
    "rs_db st' = rs_db st \<or> (\<exists>x. body (rs_db st) = Inr (rs_db st', x))"
    "r = Inl (PoisonEventError p) \<Longrightarrow> body (rs_db st) = Inl (PoisonEventError p) \<and> rs_db st' = rs_db st"
    using assms by (auto simp: run_tx_def Let_def split: tx_answer.splits sum.splits)
qed

text \<open>What dead-lettering may change.\<close>

definition dead_letter_evolves :: "codec \<Rightarrow> consumer_db \<Rightarrow> consumer_db \<Rightarrow> bool" where
  "dead_letter_evolves cd db db' \<longleftrightarrow>
     c_inbox db' = c_inbox db \<and> c_projection db' = c_projection db \<and> c_attempts db' = c_attempts db \<and>
     (replay_ok cd db \<longrightarrow> replay_ok cd db') \<and>
     set (map dead_letter_key (c_dead_letters db)) \<subseteq> set (map dead_letter_key (c_dead_letters db'))"

lemma dead_letter_evolves_refl [simp]: "dead_letter_evolves cd db db"
  by (simp add: dead_letter_evolves_def)

lemma dead_letter_evolves_trans:
  "dead_letter_evolves cd a b \<Longrightarrow> dead_letter_evolves cd b c \<Longrightarrow> dead_letter_evolves cd a c"
  by (auto simp: dead_letter_evolves_def)

lemma upsert_evolves:
  assumes "upsert cd db new_id cid p off code n t ret = Inr (db', i)"
  shows "dead_letter_evolves cd db db'" "(cid, p, off) \<in> set (map dead_letter_key (c_dead_letters db'))"
proof -
  have "c_inbox db' = c_inbox db \<and> c_projection db' = c_projection db \<and>
      set (map dead_letter_key (c_dead_letters db)) \<subseteq> set (map dead_letter_key (c_dead_letters db')) \<and>
      (cid, p, off) \<in> set (map dead_letter_key (c_dead_letters db'))"
    using assms
  proof (cases rule: upsert_cases)
    case (bump r)
    let ?r = "r\<lparr> d_dead_letter_delivery_count := d_dead_letter_delivery_count r + 1, d_last_failed_at := t, d_updated_at := t \<rparr>"
    have "map dead_letter_key (tput dead_letter_key ?r (c_dead_letters db)) = map dead_letter_key (c_dead_letters db)"
      by (rule tkeys_tput)
    moreover have "(cid, p, off) \<in> set (map dead_letter_key (c_dead_letters db))"
      using tget_None_iff[of dead_letter_key "(cid, p, off)" "c_dead_letters db"] bump(1) by auto
    ultimately show ?thesis unfolding bump(3) by simp
  next
    case (add r)
    then show ?thesis by auto
  qed
  then show "dead_letter_evolves cd db db'" "(cid, p, off) \<in> set (map dead_letter_key (c_dead_letters db'))"
    using upsert_attempts[OF assms] upsert_ok[OF _ assms] by (simp_all add: dead_letter_evolves_def)
qed

text \<open>One round of the dead-letter loop.\<close>

lemma dead_letter_loop_cases:
  assumes "dead_letter_loop env st p off code n at' ret deadline k = (st', res)"
  obtains (late) "same_world st st'" "res = Inl ProcessingDeadlineExceededError"
  | (stored) st0 i u where "same_world st st0" "res = Inr ()" "run_tx env st0 (\<lambda>db. upsert (re_codec env) db u
       RESEARCH_JOB_PROJECTION_CONSUMER_GROUP_V1 p off code n at' ret) = (st', Inr i)"
  | (gave_up) st0 st1 u exc err where "same_world st st0" "same_world st1 st'" "res = Inl err" "run_tx env st0 (\<lambda>db. upsert (re_codec env) db u
       RESEARCH_JOB_PROJECTION_CONSUMER_GROUP_V1 p off code n at' ret) = (st1, Inl exc)"
  | (again) st0 st1 st2 u exc where "same_world st st0" "same_world st1 st2" "run_tx env st0 (\<lambda>db. upsert (re_codec env) db u
       RESEARCH_JOB_PROJECTION_CONSUMER_GROUP_V1 p off code n at' ret) = (st1, Inl exc)"
      "Suc k < rt_max_attempts (re_timing env)"
      "dead_letter_loop env st2 p off code n at' ret deadline (Suc k) = (st', res)"
proof -
  obtain now st0 where rc: "read_clock env st = (now, st0)" by fastforce
  note w0 = read_clock_world[OF rc] and unf = dead_letter_loop.simps[of env st]
  show thesis
  proof (cases "can_start_attempt (re_timing env) deadline now")
    case False
    then show thesis using assms w0 rc by (intro late) (auto simp: unf)
  next
    case can: True
    obtain st1 r where tx: "run_tx env st0 (\<lambda>db. upsert (re_codec env) db (re_uuid env (rs_txs st0))
        RESEARCH_JOB_PROJECTION_CONSUMER_GROUP_V1 p off code n at' ret) = (st1, r)" by fastforce
    show thesis
    proof (cases r)
      case (Inr i)
      then have "st1 = st'" "res = Inr ()" using assms rc can tx by (auto simp: unf)
      then show thesis using stored[OF w0] tx Inr by blast
    next
      case (Inl exc)
      show thesis
      proof (cases "classify_database_error exc = TRANSIENT")
        case False
        then have "st1 = st'" "res = Inl (DeadLetterPersistenceExhaustedError exc)" using assms rc can tx Inl by (auto simp: unf)
        then show thesis using gave_up[OF w0 _ _ tx[unfolded Inl]] by simp
      next
        case tr: True
        obtain st2 b where bo: "backoff_step env st1 deadline (Suc k) (DeadLetterPersistenceExhaustedError exc) = (st2, b)" by fastforce
        note w2 = backoff_step_world[OF bo]
        show thesis
        proof (cases b)
          case None
          then show thesis
            using again[OF w0 w2 tx[unfolded Inl]] backoff_step_continue[of env st1 deadline "Suc k"] assms rc can tx Inl tr bo
            by (auto simp: unf)
        next
          case (Some err)
          then have "st2 = st'" "res = Inl err" using assms rc can tx Inl tr bo by (auto simp: unf)
          then show thesis using gave_up[OF w0 _ _ tx[unfolded Inl]] w2 by blast
        qed
      qed
    qed
  qed
qed

lemma upsert_tx_evolves:
  assumes "run_tx env st (\<lambda>db. upsert cd db u cid p off code n t ret) = (st', r)"
  shows "dead_letter_evolves cd (rs_db st) (rs_db st')" "r = Inr i \<Longrightarrow> (cid, p, off) \<in> set (map dead_letter_key (c_dead_letters (rs_db st')))"
  using run_tx_effect(4,5)[OF assms] upsert_evolves by fastforce+

lemma dead_letter_loop_effect:
  assumes "dead_letter_loop env st p off code n at' ret deadline k = (st', res)"
  shows "dead_letter_evolves (re_codec env) (rs_db st) (rs_db st') \<and> rs_committed st' = rs_committed st \<and> rs_commits st' = rs_commits st \<and>
    (res = Inr () \<longrightarrow> (RESEARCH_JOB_PROJECTION_CONSUMER_GROUP_V1, p, off) \<in> set (map dead_letter_key (c_dead_letters (rs_db st')))) \<and>
    rs_txs st' \<le> rs_txs st + max 1 (rt_max_attempts (re_timing env) - k)"
  using assms
proof (induction "rt_max_attempts (re_timing env) - k" arbitrary: st k rule: less_induct)
  case less
  from less.prems show ?case
  proof (cases rule: dead_letter_loop_cases)
    case late
    then show ?thesis by (simp add: same_world_def)
  next
    case (stored st0 i u)
    then show ?thesis using run_tx_effect(1-3)[OF stored(3)] upsert_tx_evolves[OF stored(3)] by (auto simp: same_world_def)
  next
    case (gave_up st0 st1 u exc err)
    then show ?thesis using run_tx_effect(1-3)[OF gave_up(4)] upsert_tx_evolves(1)[OF gave_up(4)] by (auto simp: same_world_def)
  next
    case (again st0 st1 st2 u exc)
    have lt: "rt_max_attempts (re_timing env) - Suc k < rt_max_attempts (re_timing env) - k" using again(4) by simp
    note IH = less.hyps[OF lt again(5)] and tx = run_tx_effect(1-3)[OF again(3)]
    have "rs_txs st' \<le> rs_txs st + max 1 (rt_max_attempts (re_timing env) - k)"
      using IH again(1,2,4) tx by (simp add: same_world_def)
    moreover have "dead_letter_evolves (re_codec env) (rs_db st) (rs_db st')"
      using IH upsert_tx_evolves(1)[OF again(3)] again(1,2) dead_letter_evolves_trans by (fastforce simp: same_world_def)
    ultimately show ?thesis using IH again(1,2) tx by (simp add: same_world_def)
  qed
qed

text \<open>The contract of a step that ends with an offset commit: \<open>durable\<close> is what has to be in the database
  before the offset may be committed, \<open>n\<close> bounds the transactions.\<close>

definition commits_after :: "(consumer_db \<Rightarrow> bool) \<Rightarrow> runner_env \<Rightarrow> int \<Rightarrow> int \<Rightarrow> nat \<Rightarrow> runner_state \<Rightarrow> runner_state \<Rightarrow> bool" where
  "commits_after durable env p off n st st' \<longleftrightarrow>
     set (rs_committed st) \<subseteq> set (rs_committed st') \<and> set (rs_committed st') \<subseteq> insert (p, off) (set (rs_committed st)) \<and>
     (rs_commits st' \<noteq> rs_commits st \<or> set (rs_committed st') \<noteq> set (rs_committed st) \<longrightarrow> durable (rs_db st')) \<and>
     rs_txs st' \<le> rs_txs st + n \<and> rs_commits st' \<le> rs_commits st + max 1 (rt_max_attempts (re_timing env))"

definition dead_lettered :: "int \<Rightarrow> int \<Rightarrow> consumer_db \<Rightarrow> bool" where
  "dead_lettered p off db \<longleftrightarrow>
     (RESEARCH_JOB_PROJECTION_CONSUMER_GROUP_V1, p, off) \<in> set (map dead_letter_key (c_dead_letters db))"

lemma commits_after_commit:
  assumes "commit_with_retry env st p off deadline = (st', res)" "durable (rs_db st)"
  shows "commits_after durable env p off 0 st st'" "rs_db st' = rs_db st" "res = Inr () \<Longrightarrow> (p, off) \<in> set (rs_committed st')"
  using commit_with_retry_effect[OF assms(1)] assms(2) by (auto simp: commits_after_def)

lemma commits_after_prefix:
  assumes "rs_committed st1 = rs_committed st" "rs_commits st1 = rs_commits st" "rs_txs st1 \<le> rs_txs st + k"
    "commits_after durable env p off n st1 st'"
  shows "commits_after durable env p off (k + n) st st'"
  using assms by (auto simp: commits_after_def)

lemma commits_after_mono:
  "commits_after D env p off n st st' \<Longrightarrow> n \<le> m \<Longrightarrow> (\<And>db. D db \<Longrightarrow> D' db) \<Longrightarrow> commits_after D' env p off m st st'"
  unfolding commits_after_def by fastforce

lemma commits_after_none:
  "rs_committed st' = rs_committed st \<Longrightarrow> rs_commits st' = rs_commits st \<Longrightarrow> rs_txs st' \<le> rs_txs st + n \<Longrightarrow>
   commits_after durable env p off n st st'"
  by (auto simp: commits_after_def)

lemma dead_letter_and_commit_effect:
  assumes "dead_letter_and_commit env st exc msg ev p off at' cnt deadline = (st', res)"
  shows "dead_letter_evolves (re_codec env) (rs_db st) (rs_db st')"
    "commits_after (dead_lettered p off) env p off (max 1 (rt_max_attempts (re_timing env))) st st'"
    "res = Inr out \<Longrightarrow> out = DEAD_LETTERED \<and> dead_lettered p off (rs_db st') \<and> (p, off) \<in> set (rs_committed st')"
proof -
  let ?ret = "build_retention (re_codec env) (re_pydantic env) (re_sha256 env) (failure_code_for exc) (km_value msg)
    (if failure_code_for exc \<in> set TIER_A_ELIGIBLE_FAILURE_CODES then ev else None)"
  have "dead_letter_evolves (re_codec env) (rs_db st) (rs_db st') \<and>
    commits_after (dead_lettered p off) env p off (max 1 (rt_max_attempts (re_timing env))) st st' \<and>
    (res = Inr out \<longrightarrow> out = DEAD_LETTERED \<and> dead_lettered p off (rs_db st') \<and> (p, off) \<in> set (rs_committed st'))"
  proof (cases ?ret)
    case None
    then show ?thesis using assms by (auto simp: dead_letter_and_commit_def Let_def commits_after_none)
  next
    case (Some ret)
    obtain st1 r1 where dl: "dead_letter_loop env st p off (failure_code_for exc) cnt at' ret deadline 0 = (st1, r1)" by fastforce
    note e1 = dead_letter_loop_effect[OF dl]
    show ?thesis
    proof (cases r1)
      case (Inl err)
      then show ?thesis using assms Some dl e1 by (auto simp: dead_letter_and_commit_def Let_def intro: commits_after_none)
    next
      case (Inr u)
      obtain st2 r2 where cm: "commit_with_retry env st1 p off deadline = (st2, r2)" by fastforce
      have d1: "dead_lettered p off (rs_db st1)" using e1 Inr by (simp add: dead_lettered_def)
      note e2 = commits_after_commit[where durable = "dead_lettered p off", OF cm d1]
      have "st' = st2" and res: "res = (case r2 of Inr _ \<Rightarrow> Inr DEAD_LETTERED | Inl err \<Rightarrow>
          Inl (if err = ConsumerShutdownRequestedError \<or> err = ProcessingDeadlineExceededError then err
               else OffsetCommitFailedAfterDeadLetterError err))"
        using assms Some dl Inr cm by (auto simp: dead_letter_and_commit_def Let_def split: sum.splits)
      moreover have "commits_after (dead_lettered p off) env p off (max 1 (rt_max_attempts (re_timing env)) + 0) st st2"
        using e1 e2(1) by (intro commits_after_prefix) auto
      ultimately show ?thesis using e1 e2 d1 by (auto split: sum.splits)
    qed
  qed
  then show "dead_letter_evolves (re_codec env) (rs_db st) (rs_db st')"
    "commits_after (dead_lettered p off) env p off (max 1 (rt_max_attempts (re_timing env))) st st'"
    "res = Inr out \<Longrightarrow> out = DEAD_LETTERED \<and> dead_lettered p off (rs_db st') \<and> (p, off) \<in> set (rs_committed st')" by auto
qed

text \<open>One round of the apply loop.\<close>

definition apply_body :: "delivery \<Rightarrow> consumer_db \<Rightarrow> consumer_exc + consumer_db \<times> inbox_outcome" where
  "apply_body x db = record_and_apply db RESEARCH_JOB_PROJECTION_CONSUMER_GROUP_V1 (dl_event x) (dl_partition x) (dl_offset x)
     (dl_at x) (\<lambda>s e. apply_projection s e (dl_at x))"

lemma apply_loop_cases:
  fixes x :: delivery
  assumes "apply_loop env st msg (dl_event x) (dl_partition x) (dl_offset x) (dl_at x) deadline k = (st', res)"
  obtains (late) "same_world st st'" "res = Inl ProcessingDeadlineExceededError"
  | (committed) st0 st1 out r where "same_world st st0" "run_tx env st0 (apply_body x) = (st1, Inr out)"
      "commit_with_retry env st1 (dl_partition x) (dl_offset x) deadline = (st', r)"
      "res = (case r of Inl err \<Rightarrow> Inl err | Inr _ \<Rightarrow> Inr (if out = APPLIED then PROCESS_APPLIED else PROCESS_DUPLICATE))"
  | (poison) st0 st1 p where "same_world st st0" "run_tx env st0 (apply_body x) = (st1, Inl (PoisonEventError p))"
      "dead_letter_and_commit env st1 p msg (Some (dl_event x)) (dl_partition x) (dl_offset x) (dl_at x) (int (Suc k)) deadline = (st', res)"
  | (gave_up) st0 st1 exc err where "same_world st st0" "run_tx env st0 (apply_body x) = (st1, Inl exc)" "same_world st1 st'" "res = Inl err"
  | (again) st0 st1 st2 exc where "same_world st st0" "run_tx env st0 (apply_body x) = (st1, Inl exc)" "same_world st1 st2"
      "Suc k < rt_max_attempts (re_timing env)"
      "apply_loop env st2 msg (dl_event x) (dl_partition x) (dl_offset x) (dl_at x) deadline (Suc k) = (st', res)"
proof -
  obtain now st0 where rc: "read_clock env st = (now, st0)" by fastforce
  note w0 = read_clock_world[OF rc] and unf = apply_loop.simps[of env st] apply_body_def[abs_def]
  show thesis
  proof (cases "can_start_attempt (re_timing env) deadline now")
    case False
    then show thesis using assms w0 rc by (intro late) (auto simp: unf)
  next
    case can: True
    obtain st1 r where tx: "run_tx env st0 (apply_body x) = (st1, r)" by fastforce
    consider (ok) out where "r = Inr out" | (bad) p where "r = Inl (PoisonEventError p)"
      | (other) exc where "r = Inl exc" "\<And>p. exc \<noteq> PoisonEventError p" by (cases r; cases "projl r") auto
    then show thesis
    proof cases
      case ok
      obtain st2 r2 where cm: "commit_with_retry env st1 (dl_partition x) (dl_offset x) deadline = (st2, r2)" by fastforce
      have "st2 = st'" "res = (case r2 of Inl err \<Rightarrow> Inl err | Inr _ \<Rightarrow> Inr (if out = APPLIED then PROCESS_APPLIED else PROCESS_DUPLICATE))"
        using assms rc can tx ok cm by (auto simp: unf split: sum.splits)
      then show thesis using committed[OF w0 tx[unfolded ok]] cm by simp
    next
      case bad
      then have "dead_letter_and_commit env st1 p msg (Some (dl_event x)) (dl_partition x) (dl_offset x) (dl_at x) (int (Suc k)) deadline = (st', res)"
        using assms rc can tx by (simp add: unf)
      then show thesis using poison[OF w0 tx[unfolded bad]] by simp
    next
      case other
      show thesis
      proof (cases "classify_database_error exc = TRANSIENT")
        case False
        then have "st1 = st'" "res = Inl (Propagated exc)"
          using assms rc can tx other by (auto simp: unf split: consumer_exc.splits)
        then show thesis using gave_up[OF w0 tx[unfolded other(1)]] by simp
      next
        case tr: True
        obtain st2 b where bo: "backoff_step env st1 deadline (Suc k) (RetryExhaustedError exc) = (st2, b)" by fastforce
        note w2 = backoff_step_world[OF bo]
        show thesis
        proof (cases b)
          case None
          then have "apply_loop env st2 msg (dl_event x) (dl_partition x) (dl_offset x) (dl_at x) deadline (Suc k) = (st', res)"
            using assms rc can tx other tr bo by (cases exc) (simp_all add: unf)
          then show thesis
            using again[OF w0 tx[unfolded other(1)] w2] backoff_step_continue[of env st1 deadline "Suc k"] bo None by blast
        next
          case (Some err)
          then have "st2 = st'" "res = Inl err" using assms rc can tx other tr bo by (cases exc; simp add: unf)+
          then show thesis using gave_up[OF w0 tx[unfolded other(1)]] w2 by blast
        qed
      qed
    qed
  qed
qed

lemma apply_body_Inr:
  assumes "apply_body x db = Inr (db', out)"
  shows "db' = deliver db x" "recorded db' (dl_event x)" "out = DUPLICATE \<longleftrightarrow> recorded db (dl_event x)"
proof -
  show "db' = deliver db x" using assms by (simp add: apply_body_def deliver_def deliver_with_def)
  show "recorded db' (dl_event x)" "out = DUPLICATE \<longleftrightarrow> recorded db (dl_event x)"
    using assms tget_None_iff[of inbox_key "(RESEARCH_JOB_PROJECTION_CONSUMER_GROUP_V1, ev_event_id (dl_event x))" "c_inbox db"]
    by (auto simp: apply_body_def record_and_apply_def recorded_def bind_simps Let_def inbox_key_def
        split: option.splits if_splits)
qed

lemma apply_tx_effect:
  assumes "run_tx env st (apply_body x) = (st', r)"
  shows "rs_db st' = rs_db st \<or> rs_db st' = deliver (rs_db st) x"
    "r = Inr out \<Longrightarrow> rs_db st' = deliver (rs_db st) x \<and> recorded (rs_db st') (dl_event x)"
  using run_tx_effect(4,5)[OF assms] apply_body_Inr by blast+

lemma deliver_twice:
  assumes "projection_ok db" "delivery_ok x"
  shows "deliver (deliver db x) x = deliver db x"
  unfolding deliver_def
  by (rule projection_effect.deliver_settled[OF projection_effect.deliver_ok[OF assms] assms(2) projection_effect.deliver_settles[OF assms]])

text \<open>What must be durable before the offset of a decoded record is committed.\<close>

definition handled :: "delivery \<Rightarrow> consumer_db \<Rightarrow> bool" where
  "handled x db \<longleftrightarrow> recorded db (dl_event x) \<or> dead_lettered (dl_partition x) (dl_offset x) db"

definition at_most_once :: "codec \<Rightarrow> consumer_db \<Rightarrow> delivery \<Rightarrow> consumer_db \<Rightarrow> bool" where
  "at_most_once cd db x db' \<longleftrightarrow> dead_letter_evolves cd db db' \<or> dead_letter_evolves cd (deliver db x) db'"

lemma apply_loop_effect:
  assumes "projection_ok db" "delivery_ok x" "rs_db st = db \<or> rs_db st = deliver db x"
    "apply_loop env st msg (dl_event x) (dl_partition x) (dl_offset x) (dl_at x) deadline k = (st', res)"
  shows "at_most_once (re_codec env) db x (rs_db st') \<and>
    commits_after (handled x) env (dl_partition x) (dl_offset x)
      (max 1 (rt_max_attempts (re_timing env) - k) + max 1 (rt_max_attempts (re_timing env))) st st' \<and>
    (\<forall>out. res = Inr out \<longrightarrow> (dl_partition x, dl_offset x) \<in> set (rs_committed st') \<and> handled x (rs_db st'))"
  using assms(3,4)
proof (induction "rt_max_attempts (re_timing env) - k" arbitrary: st k rule: less_induct)
  case less
  let ?n = "rt_max_attempts (re_timing env)"
  have step: "rs_db st1 = db \<or> rs_db st1 = deliver db x" if "same_world st st0" "run_tx env st0 (apply_body x) = (st1, r)" for st0 st1 r
    using that less.prems(1) apply_tx_effect(1)[OF that(2)] deliver_twice[OF assms(1,2)] by (auto simp: same_world_def)
  from less.prems(2) show ?case
  proof (cases rule: apply_loop_cases)
    case late
    then show ?thesis using less.prems(1) by (auto simp: same_world_def at_most_once_def intro: commits_after_none)
  next
    case (committed st0 st1 out r)
    have rec: "recorded (rs_db st1) (dl_event x)" using apply_tx_effect(2)[OF committed(2)] by blast
    note tx = run_tx_effect(1-3)[OF committed(2)]
    note cm = commits_after_commit[where durable = "handled x", OF committed(3)]
    have h: "handled x (rs_db st1)" using rec by (simp add: handled_def)
    have "commits_after (handled x) env (dl_partition x) (dl_offset x) (1 + 0) st st'"
      using committed(1) tx cm(1)[OF h] by (intro commits_after_prefix) (auto simp: same_world_def)
    then have "commits_after (handled x) env (dl_partition x) (dl_offset x) (max 1 (?n - k) + max 1 ?n) st st'"
      by (rule commits_after_mono) auto
    moreover have "at_most_once (re_codec env) db x (rs_db st')"
      using step[OF committed(1,2)] cm(2)[OF h] by (auto simp: at_most_once_def)
    ultimately show ?thesis using cm(2,3)[OF h] h committed(4) by (auto split: sum.splits)
  next
    case (poison st0 st1 p)
    note tx = run_tx_effect(1-3)[OF poison(2)] and e = dead_letter_and_commit_effect[OF poison(3)]
    have "commits_after (dead_lettered (dl_partition x) (dl_offset x)) env (dl_partition x) (dl_offset x) (1 + max 1 ?n) st st'"
      using poison(1) tx e(2) by (intro commits_after_prefix) (auto simp: same_world_def)
    then have "commits_after (handled x) env (dl_partition x) (dl_offset x) (max 1 (?n - k) + max 1 ?n) st st'"
      by (rule commits_after_mono) (auto simp: handled_def)
    moreover have "at_most_once (re_codec env) db x (rs_db st')"
      using step[OF poison(1,2)] e(1) by (auto simp: at_most_once_def)
    ultimately show ?thesis using e(3) by (auto simp: handled_def)
  next
    case (gave_up st0 st1 exc err)
    then show ?thesis
      using step[OF gave_up(1,2)] run_tx_effect(1-3)[OF gave_up(2)]
      by (auto simp: same_world_def at_most_once_def intro: commits_after_none)
  next
    case (again st0 st1 st2 exc)
    have lt: "?n - Suc k < ?n - k" using again(4) by simp
    have db2: "rs_db st2 = db \<or> rs_db st2 = deliver db x" using step[OF again(1,2)] again(3) by (simp add: same_world_def)
    note IH = less.hyps[OF lt db2 again(5)] and tx = run_tx_effect(1-3)[OF again(2)]
    have "commits_after (handled x) env (dl_partition x) (dl_offset x) (1 + (max 1 (?n - Suc k) + max 1 ?n)) st st'"
      using IH again(1,3) tx by - (rule commits_after_prefix[of st2]; simp add: same_world_def)
    then have "commits_after (handled x) env (dl_partition x) (dl_offset x) (max 1 (?n - k) + max 1 ?n) st st'"
      by (rule commits_after_mono) (use again(4) in auto)
    then show ?thesis using IH by simp
  qed
qed

end
