(* ===== verification/Runner_Safety.thy ===== *)
theory Runner_Safety
  imports Consumer_Runner
begin

text \<open>
  The properties of the consumer's cycle: an offset is committed only after the record's effect or its
  dead letter is durable, every cycle applies the record at most once and ends within its attempt
  bounds, and a healthy cycle handles the record and commits its offset.
\<close>

definition cycle_delivery :: "runner_env \<Rightarrow> runner_state \<Rightarrow> domain_event \<Rightarrow> int \<Rightarrow> int \<Rightarrow> delivery" where
  "cycle_delivery env st e p off = \<lparr> dl_event = e, dl_partition = p, dl_offset = off, dl_at = re_clock env (rs_clock st) \<rparr>"

definition polled :: "kafka_message \<Rightarrow> int \<Rightarrow> int \<Rightarrow> poll_reply" where
  "polled msg p off = PollMessage \<lparr> cm_message = msg, cm_error = None, cm_partition = Some p, cm_offset = Some off \<rparr>"

text \<open>The state after the clock reading that stamps the record.\<close>

definition stamped :: "runner_state \<Rightarrow> runner_state" where
  "stamped st = st\<lparr> rs_clock := Suc (rs_clock st) \<rparr>"

definition cycle_deadline :: "runner_env \<Rightarrow> runner_state \<Rightarrow> timestamp" where
  "cycle_deadline env st = deadline_at (re_timing env) (re_max_poll_interval_seconds env) (re_clock env (rs_clock st))"

lemma run_cycle_polled:
  "run_cycle env st (polled msg p off) =
     (case decode_message (re_codec env) (re_pydantic env) msg of
        Inl exc \<Rightarrow> dead_letter_and_commit env (stamped st) exc msg None p off (re_clock env (rs_clock st)) 1 (cycle_deadline env st)
      | Inr (e, _) \<Rightarrow> apply_loop env (stamped st) msg e p off (re_clock env (rs_clock st)) (cycle_deadline env st) 0)"
  by (cases "decode_message (re_codec env) (re_pydantic env) msg")
     (auto simp: run_cycle_def polled_def poll_def read_clock_def stamped_def cycle_deadline_def Let_def split: prod.splits)

lemma stamped_world [simp]:
  "rs_db (stamped st) = rs_db st" "commits_after D env p off n (stamped st) st' = commits_after D env p off n st st'"
  by (simp_all add: stamped_def commits_after_def)

section \<open>A healthy environment\<close>

definition healthy :: "runner_env \<Rightarrow> runner_state \<Rightarrow> bool" where
  "healthy env st \<longleftrightarrow>
     (\<forall>k. re_tx env k = TxRuns) \<and> (\<forall>k. fst (re_commit env k) = CommitReturns (Some [PartitionOk])) \<and>
     (\<forall>k. can_start_attempt (re_timing env) (cycle_deadline env st) (re_clock env k))"

lemma healthy_started: "healthy env st \<Longrightarrow> can_start_attempt (re_timing env) (cycle_deadline env st) (re_clock env k)"
  by (simp add: healthy_def)

lemma healthy_tx:
  "healthy env st0 \<Longrightarrow> run_tx env st body =
     (case body (rs_db st) of Inl e \<Rightarrow> (st\<lparr> rs_txs := Suc (rs_txs st) \<rparr>, Inl e)
      | Inr (db, y) \<Rightarrow> (st\<lparr> rs_txs := Suc (rs_txs st), rs_db := db \<rparr>, Inr y))"
  by (simp add: healthy_def run_tx_def Let_def)

lemma healthy_commit:
  assumes "healthy env st0"
  shows "\<exists>st'. commit_with_retry env st p off (cycle_deadline env st0) = (st', Inr ()) \<and> rs_db st' = rs_db st \<and>
    (p, off) \<in> set (rs_committed st')"
proof -
  obtain st' res where cm: "commit_with_retry env st p off (cycle_deadline env st0) = (st', res)" by fastforce
  moreover have "fst (re_commit env (rs_commits st)) = CommitReturns (Some [PartitionOk])" using assms by (simp add: healthy_def)
  ultimately have "res = Inr ()"
    using assms
    by (cases "re_commit env (rs_commits st)")
       (auto simp: commit_with_retry_def commit_loop.simps[of env st] read_clock_def healthy_def commit_call_def
          commit_message_def commit_result_confirms_success_def)
  then show ?thesis using cm commit_with_retry_effect[OF cm] by auto
qed

lemma healthy_apply:
  assumes "healthy env st" "projection_ok (rs_db st)" "delivery_ok x" "dl_at x = re_clock env (rs_clock st)"
    "recorded (rs_db st) (dl_event x) \<or> \<not> lifecycle_refuses (rs_db st) (dl_event x)"
  shows "\<exists>st'. apply_loop env (stamped st) msg (dl_event x) (dl_partition x) (dl_offset x) (dl_at x) (cycle_deadline env st) 0 =
      (st', Inr (if recorded (rs_db st) (dl_event x) then PROCESS_DUPLICATE else PROCESS_APPLIED)) \<and>
    rs_db st' = deliver (rs_db st) x \<and> (dl_partition x, dl_offset x) \<in> set (rs_committed st')"
proof -
  obtain out where body: "apply_body x (rs_db st) = Inr (deliver (rs_db st) x, out)"
  proof (cases "apply_body x (rs_db st)")
    case (Inr r)
    then show thesis using that[of "snd r"] apply_body_Inr(1)[of x "rs_db st" "fst r" "snd r"] by simp
  next
    case (Inl exc)
    then have nr: "\<not> recorded (rs_db st) (dl_event x)"
      by (auto simp: apply_body_def record_and_apply_def recorded_def tget_None_iff split: option.splits)
    then have none: "tget inbox_key (RESEARCH_JOB_PROJECTION_CONSUMER_GROUP_V1, ev_event_id (dl_event x)) (c_inbox (rs_db st)) = None"
      by (simp add: recorded_def tget_None_iff)
    have e: "event_ok (dl_event x)" using assms(3) by (simp add: delivery_ok_def)
    obtain db' where app: "apply_projection (rs_db st) (dl_event x) (dl_at x) = Inr db'"
      using lifecycle_refuses_iff[OF assms(2) e, of "dl_at x"] assms(5) nr by (cases "apply_projection (rs_db st) (dl_event x) (dl_at x)") auto
    then have False
      using Inl none assms(3) payload_type_supported
      by (auto simp: apply_body_def record_and_apply_def Let_def inbox_checks_def delivery_ok_def ev_event_type_def split: if_splits)
    then show thesis ..
  qed
  let ?s1 = "(stamped st)\<lparr> rs_clock := Suc (rs_clock (stamped st)), rs_txs := Suc (rs_txs st), rs_db := deliver (rs_db st) x \<rparr>"
  obtain st' where cm: "commit_with_retry env ?s1 (dl_partition x) (dl_offset x) (cycle_deadline env st) = (st', Inr ())"
    "rs_db st' = rs_db ?s1" "(dl_partition x, dl_offset x) \<in> set (rs_committed st')" using healthy_commit[OF assms(1)] by blast
  have "apply_loop env (stamped st) msg (dl_event x) (dl_partition x) (dl_offset x) (dl_at x) (cycle_deadline env st) 0 =
      (st', Inr (if out = APPLIED then PROCESS_APPLIED else PROCESS_DUPLICATE))"
    unfolding apply_loop.simps[of env "stamped st"]
    using body cm(1) healthy_started[OF assms(1)]
    by (simp add: read_clock_def healthy_tx[OF assms(1)] apply_body_def stamped_def)
  moreover have "out = APPLIED \<longleftrightarrow> \<not> recorded (rs_db st) (dl_event x)"
    using apply_body_Inr(3)[OF body] by (cases out) auto
  ultimately show ?thesis using cm(2,3) by auto
qed

section \<open>A concrete cycle\<close>

definition w_runner :: runner_env where
  "w_runner = \<lparr> re_codec = demo_codec, re_pydantic = demo_pydantic, re_sha256 = (\<lambda>_. w_hex (CHR ''a'')), re_timing = default_timing,
     re_max_poll_interval_seconds = 300, re_clock = (\<lambda>_. 100), re_wait = (\<lambda>_. False), re_tx = (\<lambda>_. TxRuns),
     re_commit = (\<lambda>_. (CommitReturns (Some [PartitionOk]), False)), re_uuid = (\<lambda>_. ''d1'') \<rparr>"

definition w_state :: runner_state where
  "w_state = \<lparr> rs_db = empty_db, rs_committed = [], rs_clock = 0, rs_waits = 0, rs_txs = 0, rs_commits = 0 \<rparr>"

definition w_message :: kafka_message where
  "w_message = produced_message demo_codec demo_pydantic w_event None"

lemma w_decodes: "decode_message (re_codec w_runner) (re_pydantic w_runner) w_message = Inr (w_event, None)"
proof -
  have "length (cd_encode demo_codec (serialize_domain_event demo_codec demo_pydantic w_event)) \<le> MAX_MESSAGE_VALUE_BYTES"
    by (simp add: demo_serialize)
  from produced_headers[OF demo_codec_laws w_event_ok, of demo_pydantic None]
    produced_value[OF demo_codec_laws demo_pydantic_laws w_event_ok this, of None]
  show ?thesis by (auto simp: decode_message_Inr w_runner_def w_message_def)
qed

lemma w_healthy: "healthy w_runner w_state"
proof -
  have "timedelta_seconds (worst_case_attempt_seconds default_timing) \<le> timedelta_seconds 240"
    by (rule timedelta_seconds_mono) (simp add: default_attempt)
  then show ?thesis
    by (simp add: healthy_def w_runner_def w_state_def cycle_deadline_def deadline_at_def can_start_attempt_def)
       (simp add: default_timing_def)
qed

lemma w_not_refused: "\<not> lifecycle_refuses (rs_db w_state) w_event" "\<not> recorded (rs_db w_state) w_event"
  by (simp_all add: lifecycle_refuses_def w_state_def empty_db_def get_projection_def recorded_def w_event_def)

section \<open>Properties\<close>

text \<open>
  C6. Acknowledgement follows durability: whatever the database, the broker, the clock and the waiter
  do (transactions that fail before or after their commit, commits the broker records although the
  call fails), a cycle that polled a record touches no other offset, calls or records its offset's
  commit only when the record's event is in the inbox or its dead letter is in the table, applies the
  event at most once (the inbox and projection are those before the cycle or those after exactly one
  delivery), and ends within \<open>2 * max 1 max_attempts\<close> transactions and \<open>max 1 max_attempts\<close> commits.
\<close>

theorem offset_committed_only_when_handled:
  assumes "projection_ok (rs_db st)" "0 \<le> p" "0 \<le> off" "run_cycle env st (polled msg p off) = (st', res)"
  shows "case decode_message (re_codec env) (re_pydantic env) msg of
      Inl _ \<Rightarrow> dead_letter_evolves (re_codec env) (rs_db st) (rs_db st') \<and>
        commits_after (dead_lettered p off) env p off (2 * max 1 (rt_max_attempts (re_timing env))) st st'
    | Inr (e, _) \<Rightarrow> at_most_once (re_codec env) (rs_db st) (cycle_delivery env st e p off) (rs_db st') \<and>
        commits_after (handled (cycle_delivery env st e p off)) env p off (2 * max 1 (rt_max_attempts (re_timing env))) st st'"
proof (cases "decode_message (re_codec env) (re_pydantic env) msg")
  case (Inl exc)
  then have "dead_letter_and_commit env (stamped st) exc msg None p off (re_clock env (rs_clock st)) 1 (cycle_deadline env st) = (st', res)"
    using assms(4) by (simp add: run_cycle_polled)
  from dead_letter_and_commit_effect(1,2)[OF this] show ?thesis
    using Inl by (auto intro: commits_after_mono)
next
  case (Inr et)
  obtain e tp where et: "et = (e, tp)" by fastforce
  let ?x = "cycle_delivery env st e p off"
  have "event_ok e" using Inr et decode_value_ok by (auto simp: decode_message_Inr)
  then have "delivery_ok ?x" using assms(2,3) by (simp add: delivery_ok_def cycle_delivery_def)
  moreover have "apply_loop env (stamped st) msg (dl_event ?x) (dl_partition ?x) (dl_offset ?x) (dl_at ?x) (cycle_deadline env st) 0 = (st', res)"
    using assms(4) Inr et by (simp add: run_cycle_polled cycle_delivery_def)
  ultimately have "at_most_once (re_codec env) (rs_db st) ?x (rs_db st')"
    "commits_after (handled ?x) env p off (max 1 (rt_max_attempts (re_timing env)) + max 1 (rt_max_attempts (re_timing env))) st st'"
    using apply_loop_effect[OF assms(1), of ?x "stamped st" env msg "cycle_deadline env st" 0 st' res]
    by (auto simp: cycle_delivery_def)
  then show ?thesis using Inr et by (simp add: mult_2)
qed

theorem offset_committed_only_when_handled_witness:
  "commits_after (handled (cycle_delivery w_runner w_state w_event 0 7)) w_runner 0 7
     (2 * max 1 (rt_max_attempts default_timing)) w_state (fst (run_cycle w_runner w_state (polled w_message 0 7)))"
proof -
  obtain st' res where r: "run_cycle w_runner w_state (polled w_message 0 7) = (st', res)" by fastforce
  have "projection_ok (rs_db w_state)" by (simp add: w_state_def w_deliveries_ok(1))
  from offset_committed_only_when_handled [OF this _ _ r] w_decodes r show ?thesis by (simp add: w_runner_def)
qed

text \<open>
  C27. A healthy cycle makes progress: when transactions run, the broker confirms and the deadline is
  not reached, a decoded event that is in the inbox already or fits the job's lifecycle is reported as
  duplicate or applied, the tables are those after exactly one delivery and the offset is committed.
\<close>

theorem healthy_cycle_applies_and_commits:
  assumes "healthy env st" "projection_ok (rs_db st)" "0 \<le> p" "0 \<le> off"
    "decode_message (re_codec env) (re_pydantic env) msg = Inr (e, tp)"
    "recorded (rs_db st) e \<or> \<not> lifecycle_refuses (rs_db st) e"
  shows "\<exists>st'. run_cycle env st (polled msg p off) = (st', Inr (if recorded (rs_db st) e then PROCESS_DUPLICATE else PROCESS_APPLIED)) \<and>
    rs_db st' = deliver (rs_db st) (cycle_delivery env st e p off) \<and> (p, off) \<in> set (rs_committed st')"
proof -
  let ?x = "cycle_delivery env st e p off"
  have "event_ok e" using assms(5) decode_value_ok by (auto simp: decode_message_Inr)
  then have "delivery_ok ?x" using assms(3,4) by (simp add: delivery_ok_def cycle_delivery_def)
  then show ?thesis
    using healthy_apply[OF assms(1,2), of ?x msg] assms(5,6) by (simp add: cycle_delivery_def run_cycle_polled)
qed

theorem healthy_cycle_applies_and_commits_witness:
  "\<exists>st'. run_cycle w_runner w_state (polled w_message 0 7) = (st', Inr PROCESS_APPLIED) \<and> (0, 7) \<in> set (rs_committed st')"
proof -
  have "projection_ok (rs_db w_state)" by (simp add: w_state_def w_deliveries_ok(1))
  from healthy_cycle_applies_and_commits [OF w_healthy this _ _ w_decodes, of 0 7] w_not_refused
  show ?thesis by auto
qed

text \<open>A record that no dead letter will take: its aggregate id passes decoding but exceeds the projection's
  128 characters.\<close>

theorem overlong_aggregate_is_never_acknowledged:
  assumes "healthy env st" "projection_ok (rs_db st)" "0 \<le> p" "0 \<le> off"
    "decode_message (re_codec env) (re_pydantic env) msg = Inr (e, tp)" "128 < length (ev_aggregate_id e)" "\<not> recorded (rs_db st) e"
  shows "\<exists>st'. run_cycle env st (polled msg p off) = (st', Inl (Propagated StringDataRightTruncation)) \<and>
    rs_db st' = rs_db st \<and> rs_committed st' = rs_committed st"
proof -
  let ?x = "cycle_delivery env st e p off"
  have none: "tget inbox_key (RESEARCH_JOB_PROJECTION_CONSUMER_GROUP_V1, ev_event_id e) (c_inbox (rs_db st)) = None"
    using assms(7) by (simp add: recorded_def tget_None_iff)
  have "get_projection (rs_db st) (ev_aggregate_id e) = None"
    using get_projection_mem[OF assms(2)] assms(6) by (cases "get_projection (rs_db st) (ev_aggregate_id e)") fastforce+
  then have "apply_body ?x (rs_db st) = Inl StringDataRightTruncation"
    using none assms(6)
    by (simp add: apply_body_def record_and_apply_def apply_projection_def get_projection_def cycle_delivery_def flush_projection_def)
  then have "\<exists>st'. apply_loop env (stamped st) msg e p off (re_clock env (rs_clock st)) (cycle_deadline env st) 0 =
      (st', Inl (Propagated StringDataRightTruncation)) \<and> rs_db st' = rs_db st \<and> rs_committed st' = rs_committed st"
    unfolding apply_loop.simps[of env "stamped st"]
    using healthy_started[OF assms(1)]
    by (simp add: read_clock_def healthy_tx[OF assms(1)] apply_body_def cycle_delivery_def stamped_def
        StringDataRightTruncation_def APPROVED_TRANSIENT_SQLSTATES_def)
  then show ?thesis using assms(5) by (simp add: run_cycle_polled)
qed

end
