(* ===== verification/Evidence_Text.thy ===== *)
theory Evidence_Text
  imports Specialists
begin

text \<open>
  The text pipeline of the evidence store (\<open>src/src/atlas/evidence/normalize.py\<close>, \<open>chunk.py\<close>, \<open>pack.py\<close>): what is
  accepted as text, its normal form, its division into overlapping chunks, and the pack of evidence
  given to the drafter under its byte budget.

  A character is a code point below 256, so its UTF-8 encoding has one byte or two and encoding never
  fails; the raw bytes of a text are represented by the text.  SHA-256 is a parameter.
\<close>

section \<open>Bounds\<close>

definition MAX_RAW_TEXT_BYTES :: nat where "MAX_RAW_TEXT_BYTES = 100000"
definition MAX_NORMALIZED_TEXT_BYTES :: nat where "MAX_NORMALIZED_TEXT_BYTES = 100000"
definition MAX_CHUNKS_PER_DOCUMENT :: int where "MAX_CHUNKS_PER_DOCUMENT = 64"
definition CHUNK_SIZE_CODE_POINTS :: int where "CHUNK_SIZE_CODE_POINTS = 800"
definition CHUNK_OVERLAP_CODE_POINTS :: int where "CHUNK_OVERLAP_CODE_POINTS = 100"
definition MAX_SOURCE_URI_CHARS :: nat where "MAX_SOURCE_URI_CHARS = 2000"
definition MAX_EVIDENCE_ITEMS_TO_DRAFTER :: nat where "MAX_EVIDENCE_ITEMS_TO_DRAFTER = 8"
definition MAX_EVIDENCE_CHARS_PER_ITEM_IN_DRAFT :: int where "MAX_EVIDENCE_CHARS_PER_ITEM_IN_DRAFT = 1500"
definition MAX_DRAFT_EVIDENCE_CONTEXT_BYTES :: nat where "MAX_DRAFT_EVIDENCE_CONTEXT_BYTES = 12000"
definition PARSER_PLAIN_TEXT_V1 :: string where "PARSER_PLAIN_TEXT_V1 = ''plain_text.normalize.v1''"
definition PARSER_MARKDOWN_V1 :: string where "PARSER_MARKDOWN_V1 = ''markdown.normalize.v1''"
definition PARSER_SEARCH_SNIPPET_V1 :: string where "PARSER_SEARCH_SNIPPET_V1 = ''search_snippet.v1''"

section \<open>Normalisation\<close>

definition utf8_byte_length :: "string \<Rightarrow> nat" where
  "utf8_byte_length s = sum_list (map (\<lambda>c. if (of_char c :: nat) < 128 then 1 else 2) s)"

definition accept_raw_text :: "string \<Rightarrow> exc_class + string" where
  "accept_raw_text txt =
     (if utf8_byte_length txt = 0 then Inl EvidenceValidationError
      else if MAX_RAW_TEXT_BYTES < utf8_byte_length txt then Inl EvidenceTooLargeError
      else Inr txt)"

definition LF :: char where "LF = CHR 0x0A"
definition CR :: char where "CR = CHR 0x0D"
definition TAB :: char where "TAB = CHR 0x09"

text \<open>\<open>text.replace("\r\n", "\n")\<close> and \<open>text.replace("\r", "\n")\<close>.\<close>

fun replace_crlf :: "string \<Rightarrow> string" where
  "replace_crlf [] = []"
| "replace_crlf [c] = [c]"
| "replace_crlf (c # d # s) = (if c = CR \<and> d = LF then LF # replace_crlf s else c # replace_crlf (d # s))"

definition replace_cr :: "string \<Rightarrow> string" where
  "replace_cr s = map (\<lambda>c. if c = CR then LF else c) s"

text \<open>\<open>text.split("\n")\<close>.\<close>

fun split_lines :: "string \<Rightarrow> string list" where
  "split_lines [] = [[]]"
| "split_lines (c # s) =
     (if c = LF then [] # split_lines s
      else case split_lines s of [] \<Rightarrow> [[c]] | l # ls \<Rightarrow> (c # l) # ls)"

definition blank :: "char \<Rightarrow> bool" where
  "blank c \<longleftrightarrow> c = CHR '' '' \<or> c = TAB"

text \<open>\<open>_WHITESPACE_RE.sub(" ", line)\<close> and \<open>_NEWLINE_RE.sub("\n\n", joined)\<close>; the first argument tells what of the
  current run has been written.\<close>

fun collapse_blanks :: "bool \<Rightarrow> string \<Rightarrow> string" where
  "collapse_blanks inside [] = []"
| "collapse_blanks inside (c # s) =
     (if blank c then (if inside then collapse_blanks True s else CHR '' '' # collapse_blanks True s)
      else c # collapse_blanks False s)"

fun collapse_newlines :: "nat \<Rightarrow> string \<Rightarrow> string" where
  "collapse_newlines k [] = []"
| "collapse_newlines k (c # s) =
     (if c = LF then (if k < 2 then LF # collapse_newlines (Suc k) s else collapse_newlines k s)
      else c # collapse_newlines 0 s)"

definition py_rstrip :: "string \<Rightarrow> string" where
  "py_rstrip s = rev (dropWhile py_isspace (rev s))"

definition normalize_plain_whitespace :: "string \<Rightarrow> string" where
  "normalize_plain_whitespace txt =
     (let unified = replace_cr (replace_crlf txt);
          lines = map (\<lambda>line. py_rstrip (collapse_blanks False line)) (split_lines unified);
          joined = py_strip (py_join [LF] lines)
      in collapse_newlines 0 joined)"

definition assert_normalized_size :: "string \<Rightarrow> exc_class + unit" where
  "assert_normalized_size normalized =
     (if utf8_byte_length normalized = 0 then Inl EvidenceValidationError
      else if MAX_NORMALIZED_TEXT_BYTES < utf8_byte_length normalized then Inl EvidenceTooLargeError
      else Inr ())"

definition normalize_plain_text :: "string \<Rightarrow> exc_class + (string \<times> string)" where
  "normalize_plain_text raw =
     (let normalized = normalize_plain_whitespace raw
      in bindE (assert_normalized_size normalized) (\<lambda>_. Inr (normalized, PARSER_PLAIN_TEXT_V1)))"

text \<open>\<open>_FENCE_OPEN_RE\<close>: the character of the fence and its length.\<close>

definition fence_of :: "string \<Rightarrow> (char \<times> nat) option" where
  "fence_of line =
     (let ticks = length (takeWhile (\<lambda>c. c = CHR 0x60) line); tildes = length (takeWhile (\<lambda>c. c = CHR ''~'') line)
      in if 3 \<le> ticks then Some (CHR 0x60, ticks) else if 3 \<le> tildes then Some (CHR ''~'', tildes) else None)"

fun markdown_lines :: "(char \<times> nat) option \<Rightarrow> nat \<Rightarrow> string list \<Rightarrow> string list" where
  "markdown_lines fence_marker blank_run [] = []"
| "markdown_lines (Some (ch, n)) blank_run (line # lines) =
     line # markdown_lines
       (case fence_of line of Some (ch', n') \<Rightarrow> if ch' = ch \<and> n \<le> n' then None else Some (ch, n) | None \<Rightarrow> Some (ch, n)) 0 lines"
| "markdown_lines None blank_run (line # lines) =
     (case fence_of line of
        Some f \<Rightarrow> line # markdown_lines (Some f) 0 lines
      | None \<Rightarrow>
          if line = [] then
            (if Suc blank_run \<le> 1 then line # markdown_lines None (Suc blank_run) lines
             else markdown_lines None (Suc blank_run) lines)
          else line # markdown_lines None 0 lines)"

definition strip_newlines :: "string \<Rightarrow> string" where
  "strip_newlines s = rev (dropWhile (\<lambda>c. c = LF) (rev (dropWhile (\<lambda>c. c = LF) s)))"

definition normalize_markdown_text :: "string \<Rightarrow> string" where
  "normalize_markdown_text txt =
     py_join [LF] (markdown_lines None 0 (split_lines (strip_newlines (replace_cr (replace_crlf txt)))))"

definition normalize_markdown :: "string \<Rightarrow> exc_class + (string \<times> string)" where
  "normalize_markdown raw =
     (let normalized = normalize_markdown_text raw
      in if py_strip normalized = [] then Inl EvidenceValidationError
         else bindE (assert_normalized_size normalized) (\<lambda>_. Inr (normalized, PARSER_MARKDOWN_V1)))"

definition normalize_search_snippet :: "string \<Rightarrow> string \<Rightarrow> exc_class + (string \<times> string \<times> string)" where
  "normalize_search_snippet title snippet =
     bindE (accept_raw_text (py_strip (py_strip title @ [LF, LF] @ py_strip snippet))) (\<lambda>raw.
       let normalized = normalize_plain_whitespace raw
       in bindE (assert_normalized_size normalized) (\<lambda>_. Inr (normalized, PARSER_SEARCH_SNIPPET_V1, raw)))"

definition media_type_for_parser :: "string \<Rightarrow> string" where
  "media_type_for_parser parser_version = (if parser_version = PARSER_MARKDOWN_V1 then ''text/markdown'' else ''text/plain'')"

definition parser_for_media_type :: "string \<Rightarrow> exc_class + string" where
  "parser_for_media_type media_type =
     (let cleaned = map py_lower_char (py_strip media_type)
      in if cleaned = ''text/markdown'' then Inr PARSER_MARKDOWN_V1
         else if cleaned = ''text/plain'' then Inr PARSER_PLAIN_TEXT_V1
         else Inl EvidenceValidationError)"

definition normalize_for_media_type :: "string \<Rightarrow> string \<Rightarrow> exc_class + (string \<times> string)" where
  "normalize_for_media_type raw media_type =
     bindE (parser_for_media_type media_type) (\<lambda>parser.
       if parser = PARSER_MARKDOWN_V1 then normalize_markdown raw else normalize_plain_text raw)"

section \<open>Chunks\<close>

record text_chunk =
  tc_ordinal :: nat
  tc_text :: string
  tc_content_sha256 :: string
  tc_char_start :: nat
  tc_char_end :: nat

definition chunk_at :: "(string \<Rightarrow> string) \<Rightarrow> string \<Rightarrow> nat \<Rightarrow> nat \<Rightarrow> nat \<Rightarrow> text_chunk" where
  "chunk_at sha txt ordinal pos stop =
     (let piece = take (stop - pos) (drop pos txt)
      in \<lparr> tc_ordinal = ordinal, tc_text = piece, tc_content_sha256 = sha piece, tc_char_start = pos, tc_char_end = stop \<rparr>)"

text \<open>The \<open>while\<close> loop; the first number is what \<open>max_chunks\<close> still allows.\<close>

fun chunk_loop ::
  "(string \<Rightarrow> string) \<Rightarrow> nat \<Rightarrow> nat \<Rightarrow> string \<Rightarrow> nat \<Rightarrow> nat \<Rightarrow> nat \<Rightarrow> exc_class + text_chunk list" where
  "chunk_loop sha chunk_size step txt 0 ordinal pos = (if \<not> pos < length txt then Inr [] else Inl EvidenceTooLargeError)"
| "chunk_loop sha chunk_size step txt (Suc left) ordinal pos =
     (if \<not> pos < length txt then Inr []
      else
        let stop = min (pos + chunk_size) (length txt); chunk = chunk_at sha txt ordinal pos stop
        in if length txt \<le> stop then Inr [chunk]
           else bindE (chunk_loop sha chunk_size step txt left (Suc ordinal) (pos + step)) (\<lambda>chunks. Inr (chunk # chunks)))"

definition chunk_normalized_text ::
  "(string \<Rightarrow> string) \<Rightarrow> string \<Rightarrow> int \<Rightarrow> int \<Rightarrow> int \<Rightarrow> exc_class + text_chunk list" where
  "chunk_normalized_text sha normalized chunk_size overlap max_chunks =
     (if chunk_size < 1 then Inl EvidenceValidationError
      else if overlap < 0 \<or> chunk_size \<le> overlap then Inl EvidenceValidationError
      else if normalized = [] then Inl EvidenceValidationError
      else if int (length normalized) \<le> chunk_size then Inr [chunk_at sha normalized 0 0 (length normalized)]
      else chunk_loop sha (nat chunk_size) (nat (chunk_size - overlap)) normalized (nat max_chunks) 0 0)"

section \<open>The drafter's pack\<close>

definition truncate_display_text :: "string \<Rightarrow> int \<Rightarrow> exc_class + string" where
  "truncate_display_text txt max_code_points =
     (if max_code_points < 0 then Inl (OtherClass ''ValueError'') else Inr (take (nat max_code_points) txt))"

record evidence_view =
  vw_id :: string
  vw_document_id :: string
  vw_source_id :: string
  vw_source_kind :: string
  vw_canonical_uri :: string
  vw_display_uri :: string
  vw_trust_class :: string
  vw_ordinal :: int
  vw_text :: string
  vw_content_sha256 :: string
  vw_char_start :: "int option"
  vw_char_end :: "int option"
  vw_strength :: string
  vw_trust_label :: string
  vw_document_content_sha256 :: string
  vw_parser_version :: string
  vw_media_type :: string

fun pack_loop :: "int \<Rightarrow> nat \<Rightarrow> nat \<Rightarrow> evidence_view list \<Rightarrow> exc_class + evidence_context_item list" where
  "pack_loop max_code_points max_bytes used [] = Inr []"
| "pack_loop max_code_points max_bytes used (v # vs) =
     bindE (truncate_display_text (vw_text v) max_code_points) (\<lambda>display.
       let item_bytes = utf8_byte_length display
       in if max_bytes < used + item_bytes then Inr []
          else if display = [] \<or> MAX_SOURCE_URI_CHARS < length (vw_display_uri v) then Inl PYDANTIC_INVALID
          else bindE (pack_loop max_code_points max_bytes (used + item_bytes) vs) (\<lambda>pack.
            Inr (\<lparr> ei_evidence_item_id = vw_id v, ei_text = display, ei_source_display_uri = vw_display_uri v,
                    ei_strength = vw_strength v, ei_trust_label = vw_trust_label v \<rparr> # pack)))"

definition build_evidence_context_pack :: "evidence_view list \<Rightarrow> exc_class + evidence_context_item list" where
  "build_evidence_context_pack views =
     pack_loop MAX_EVIDENCE_CHARS_PER_ITEM_IN_DRAFT MAX_DRAFT_EVIDENCE_CONTEXT_BYTES 0 (take MAX_EVIDENCE_ITEMS_TO_DRAFTER views)"

definition evidence_pack_text_utf8_bytes :: "evidence_context_item list \<Rightarrow> nat" where
  "evidence_pack_text_utf8_bytes pack = sum_list (map (\<lambda>i. utf8_byte_length (ei_text i)) pack)"

section \<open>Chunks cover the text\<close>

definition reassemble :: "nat \<Rightarrow> text_chunk list \<Rightarrow> string" where
  "reassemble overlap chunks =
     (case chunks of [] \<Rightarrow> [] | c # cs \<Rightarrow> tc_text c @ concat (map (\<lambda>c. drop overlap (tc_text c)) cs))"

definition chunk_ok :: "(string \<Rightarrow> string) \<Rightarrow> nat \<Rightarrow> nat \<Rightarrow> string \<Rightarrow> nat \<Rightarrow> nat \<Rightarrow> text_chunk \<Rightarrow> bool" where
  "chunk_ok sha width step txt k pos c \<longleftrightarrow>
     tc_ordinal c = k \<and> tc_char_start c = pos \<and> pos < tc_char_end c \<and> tc_char_end c \<le> pos + width \<and>
     tc_char_end c \<le> length txt \<and> tc_text c = take (tc_char_end c - pos) (drop pos txt) \<and> tc_content_sha256 c = sha (tc_text c)"

lemma chunk_at_ok:
  "pos < length txt \<Longrightarrow> 0 < width \<Longrightarrow> chunk_ok sha width step txt k pos (chunk_at sha txt k pos (min (pos + width) (length txt)))"
  by (auto simp: chunk_ok_def chunk_at_def Let_def)

lemma chunk_loop_spec:
  assumes "chunk_loop sha width step txt n k pos = Inr cs" "pos < length txt" "0 < step" "step \<le> width"
  shows "cs \<noteq> [] \<and> length cs \<le> n \<and> reassemble (width - step) cs = drop pos txt \<and>
    (\<forall>i < length cs. chunk_ok sha width step txt (k + i) (pos + i * step) (cs ! i))"
  using assms(1,2)
proof (induction n arbitrary: k pos cs)
  case 0
  then show ?case by simp
next
  case (Suc n)
  let ?stop = "min (pos + width) (length txt)" and ?ov = "width - step"
  let ?c = "chunk_at sha txt k pos ?stop"
  have c: "chunk_ok sha width step txt k pos ?c" using Suc.prems(2) assms(3,4) by (intro chunk_at_ok) auto
  show ?case
  proof (cases "length txt \<le> ?stop")
    case True
    then have "cs = [?c]" "tc_text ?c = drop pos txt" using Suc.prems by (auto simp: Let_def chunk_at_def)
    then show ?thesis using c by (auto simp: reassemble_def)
  next
    case False
    then obtain ds where ds: "chunk_loop sha width step txt n (Suc k) (pos + step) = Inr ds" "cs = ?c # ds"
      using Suc.prems by (auto simp: Let_def bind_simps)
    have lt: "pos + width < length txt" using False by auto
    then have "pos + step < length txt" using assms(4) by simp
    from Suc.IH[OF ds(1) this] obtain d es where d: "ds = d # es" "length ds \<le> n" "reassemble ?ov ds = drop (pos + step) txt"
      "\<forall>i < length ds. chunk_ok sha width step txt (Suc k + i) (pos + step + i * step) (ds ! i)"
      by (cases ds) auto
    have len: "?ov \<le> length (tc_text d)"
    proof (cases es)
      case Nil
      then have "tc_text d = drop (pos + step) txt" using d(1,3) by (simp add: reassemble_def)
      then show ?thesis using lt assms(4) by simp
    next
      case (Cons e es')
      then have "chunk_loop sha width step txt n (Suc k) (pos + step) = Inr (d # e # es')" using ds(1) d(1) by simp
      then have "d = chunk_at sha txt (Suc k) (pos + step) (pos + step + width)" using \<open>pos + step < length txt\<close>
        by (cases n) (auto simp: Let_def bind_simps min_def split: if_splits)
      moreover have "pos + step + width < length txt" using \<open>chunk_loop sha width step txt n (Suc k) (pos + step) = Inr (d # e # es')\<close>
          \<open>pos + step < length txt\<close>
        by (cases n) (auto simp: Let_def bind_simps min_def split: if_splits)
      ultimately show ?thesis by (simp add: chunk_at_def Let_def)
    qed
    have "reassemble ?ov cs = tc_text ?c @ drop ?ov (reassemble ?ov ds)"
      using len by (simp add: reassemble_def ds(2) d(1))
    also have "\<dots> = drop pos txt"
    proof -
      have "tc_text ?c = take width (drop pos txt)" using lt by (simp add: chunk_at_def Let_def)
      moreover have "drop ?ov (reassemble ?ov ds) = drop width (drop pos txt)" using assms(4) by (simp add: d(3) add.commute)
      ultimately show ?thesis by (metis append_take_drop_id)
    qed
    finally have "reassemble ?ov cs = drop pos txt" .
    moreover have "chunk_ok sha width step txt (k + i) (pos + i * step) (cs ! i)" if "i < length cs" for i
      using that c d(4) ds(2) by (cases i) (auto simp: add.assoc add.commute)
    ultimately show ?thesis using ds(2) d(2) by auto
  qed
qed

lemma chunk_loop_succeeds:
  assumes "pos < length txt" "0 < step" "step \<le> width"
  shows "chunk_loop sha width step txt n k pos = Inl EvidenceTooLargeError \<or> (\<exists>cs. chunk_loop sha width step txt n k pos = Inr cs)"
    and "(\<exists>cs. chunk_loop sha width step txt n k pos = Inr cs) \<longleftrightarrow> 0 < n \<and> length txt \<le> pos + width + (n - 1) * step"
  using assms(1)
proof (induction n arbitrary: k pos)
  case 0
  { case 1 then show ?case by simp next case 2 then show ?case by simp }
next
  case (Suc n)
  have next_pos: "pos + step < length txt" if "\<not> length txt \<le> pos + width" for pos using that assms(3) by simp
  { case 1
    show ?case
    proof (cases "length txt \<le> pos + width")
      case True
      then show ?thesis using 1 by (simp add: Let_def)
    next
      case False
      then show ?thesis using Suc.IH(1)[OF next_pos[OF False], of "Suc k"] 1 by (auto simp: Let_def)
    qed
  next
    case 2
    show ?case
    proof (cases "length txt \<le> pos + width")
      case True
      then show ?thesis using 2 by (simp add: Let_def)
    next
      case False
      then have "(\<exists>cs. chunk_loop sha width step txt (Suc n) k pos = Inr cs) \<longleftrightarrow>
          (\<exists>cs. chunk_loop sha width step txt n (Suc k) (pos + step) = Inr cs)"
        using 2 by (auto simp: Let_def bind_simps)
      then show ?thesis using Suc.IH(2)[of "pos + step" "Suc k"] next_pos[OF False] False by (cases n) (auto simp: algebra_simps)
    qed }
qed

section \<open>Properties\<close>

text \<open>
  C38. Chunking loses nothing.  With a positive size and a smaller overlap, a non-empty text is divided
  exactly when the chunks allowed can hold it, and refused as too large otherwise.  The chunks are
  numbered from zero, start a fixed step apart, are never empty nor longer than the size, carry the
  hash of their text, are as many as allowed at most, and laid over each other by the overlap they
  give back the text.
\<close>

theorem chunking_loses_nothing:
  assumes "1 \<le> width" "0 \<le> overlap" "overlap < width" "txt \<noteq> []"
  shows "case chunk_normalized_text sha txt width overlap most of
      Inl e \<Rightarrow> e = EvidenceTooLargeError \<and> width < int (length txt) \<and>
        (most < 1 \<or> width + (most - 1) * (width - overlap) < int (length txt))
    | Inr cs \<Rightarrow> (int (length txt) \<le> width \<or> 1 \<le> most \<and> int (length txt) \<le> width + (most - 1) * (width - overlap)) \<and>
        reassemble (nat overlap) cs = txt \<and> int (length cs) \<le> max 1 most \<and>
        (\<forall>i < length cs. chunk_ok sha (nat width) (nat (width - overlap)) txt i (i * nat (width - overlap)) (cs ! i))"
proof (cases "int (length txt) \<le> width")
  case True
  then have "chunk_normalized_text sha txt width overlap most = Inr [chunk_at sha txt 0 0 (length txt)]"
    using assms by (simp add: chunk_normalized_text_def)
  then show ?thesis using True assms by (auto simp: reassemble_def chunk_at_def chunk_ok_def Let_def)
next
  case False
  let ?w = "nat width" and ?s = "nat (width - overlap)" and ?n = "nat most"
  have e: "chunk_normalized_text sha txt width overlap most = chunk_loop sha ?w ?s txt ?n 0 0"
    using False assms by (simp add: chunk_normalized_text_def)
  have pre: "0 < length txt" "0 < ?s" "?s \<le> ?w" "?w - ?s = nat overlap" using assms by auto
  note ok = chunk_loop_succeeds[OF pre(1-3), of sha ?n 0]
  have fits: "0 < ?n \<and> length txt \<le> 0 + ?w + (?n - 1) * ?s \<longleftrightarrow> 1 \<le> most \<and> int (length txt) \<le> width + (most - 1) * (width - overlap)"
  proof (cases "1 \<le> most")
    case True
    then have "int (0 + ?w + (?n - 1) * ?s) = width + (most - 1) * (width - overlap)"
      using assms by (simp add: of_nat_diff)
    then show ?thesis using True by (metis of_nat_le_iff zero_less_nat_eq zless_iff_Suc_zadd zle_iff_zadd int_one_le_iff_zero_less)
  qed simp
  show ?thesis
  proof (cases "chunk_loop sha ?w ?s txt ?n 0 0")
    case (Inl x)
    then show ?thesis using e ok fits False by auto
  next
    case (Inr cs)
    from chunk_loop_spec[OF Inr pre(1-3)] have "length cs \<le> ?n" "reassemble (nat overlap) cs = txt"
      "\<forall>i < length cs. chunk_ok sha ?w ?s txt i (i * ?s) (cs ! i)" using pre(4) by auto
    then show ?thesis using e ok(2) fits Inr by auto
  qed
qed

theorem chunking_loses_nothing_witness:
  "(case chunk_normalized_text (\<lambda>_. []) ''abcdefghij'' 4 1 3 of Inr cs \<Rightarrow> reassemble 1 cs = ''abcdefghij'' | Inl _ \<Rightarrow> False) \<and>
   map_sum id (map tc_text) (chunk_normalized_text (\<lambda>_. []) ''abcdefghij'' 4 1 3) = Inr [''abcd'', ''defg'', ''ghij'']"
proof -
  have m: "map_sum id (map tc_text) (chunk_normalized_text (\<lambda>_. []) ''abcdefghij'' 4 1 3) = Inr [''abcd'', ''defg'', ''ghij'']"
    by code_simp
  then show ?thesis using chunking_loses_nothing [of 4 1 "''abcdefghij''" 3 "\<lambda>_. []"] by (auto split: sum.splits)
qed

section \<open>What the normal form of Markdown keeps\<close>

text \<open>
  The blanks at the ends of a document stay, because only newlines are stripped there, and already two
  blank lines become one; the comment of \<open>normalize_markdown\<close> speaks of outer white space and of three.
\<close>

lemma markdown_keeps_outer_blanks:
  "normalize_markdown_text (''  a'' @ [LF, LF, LF] @ ''b '') = ''  a'' @ [LF, LF] @ ''b ''"
  by code_simp

section \<open>The pack keeps its budget\<close>

lemma pack_loop_spec:
  assumes "pack_loop m b used vs = Inr pack" "used \<le> b"
  shows "used + evidence_pack_text_utf8_bytes pack \<le> b \<and> length pack \<le> length vs \<and>
    (\<forall>i < length pack. ei_evidence_item_id (pack ! i) = vw_id (vs ! i) \<and> ei_text (pack ! i) = take (nat m) (vw_text (vs ! i)) \<and>
       ei_text (pack ! i) \<noteq> []) \<and>
    (length pack < length vs \<longrightarrow>
       b < used + evidence_pack_text_utf8_bytes pack + utf8_byte_length (take (nat m) (vw_text (vs ! length pack))))"
  using assms
proof (induction vs arbitrary: used pack)
  case Nil
  then show ?case by (simp add: evidence_pack_text_utf8_bytes_def)
next
  case (Cons v vs)
  let ?d = "take (nat m) (vw_text v)"
  have t: "truncate_display_text (vw_text v) m = Inr ?d" using Cons.prems(1)
    by (auto simp: truncate_display_text_def bind_simps split: if_splits)
  show ?case
  proof (cases "b < used + utf8_byte_length ?d")
    case True
    then have "pack = []" using Cons.prems t by (simp add: Let_def)
    then show ?thesis using True Cons.prems(2) by (simp add: evidence_pack_text_utf8_bytes_def)
  next
    case False
    then obtain rest where r: "pack_loop m b (used + utf8_byte_length ?d) vs = Inr rest"
      "pack = \<lparr> ei_evidence_item_id = vw_id v, ei_text = ?d, ei_source_display_uri = vw_display_uri v,
                ei_strength = vw_strength v, ei_trust_label = vw_trust_label v \<rparr> # rest" "?d \<noteq> []"
      using Cons.prems(1) t by (auto simp: Let_def bind_simps split: if_splits)
    from Cons.IH[OF r(1)] False r(3) show ?thesis
      by (auto simp: r(2) evidence_pack_text_utf8_bytes_def nth_Cons split: nat.splits)
  qed
qed


definition t_view :: "string \<Rightarrow> evidence_view" where
  "t_view i = \<lparr> vw_id = i, vw_document_id = ''d'', vw_source_id = ''s'', vw_source_kind = ''corpus_text'', vw_canonical_uri = ''u'',
     vw_display_uri = ''u'', vw_trust_class = ''operator_corpus'', vw_ordinal = 0, vw_text = replicate 2000 (CHR ''x''),
     vw_content_sha256 = ''c'', vw_char_start = Some 0, vw_char_end = Some 2000, vw_strength = ''document_chunk'',
     vw_trust_label = ''[operator_corpus]'', vw_document_content_sha256 = ''h'', vw_parser_version = PARSER_PLAIN_TEXT_V1,
     vw_media_type = ''text/plain'' \<rparr>"


end
