(* ===== verification/Evidence_Normal_Form.thy ===== *)
theory Evidence_Normal_Form
  imports Evidence_Text
begin

text \<open>
  The normal form of plain text: what \<open>normalize_plain_text\<close> returns has no carriage returns, tabs, doubled
  blanks or trailing white space, and normalising it again changes nothing.
\<close>

section \<open>Adjacent characters\<close>

definition adjacent :: "char \<Rightarrow> char \<Rightarrow> bool" where
  "adjacent a b \<longleftrightarrow> \<not> (blank a \<and> blank b) \<and> (b = LF \<longrightarrow> a = LF \<or> \<not> py_isspace a)"

lemma blank_space: "blank c \<Longrightarrow> py_isspace c" "\<not> blank LF" "py_isspace LF" "LF \<noteq> CR" "LF \<noteq> TAB" "LF \<noteq> CHR '' ''" "CR \<noteq> LF" "CR \<noteq> CHR '' ''" "TAB \<noteq> LF"
  by (auto simp: blank_def TAB_def LF_def CR_def py_isspace_def Let_def)

lemma adjacent_LF [simp]: "adjacent LF b"
  by (simp add: adjacent_def blank_space)

lemma replace_no_CR: "CR \<notin> set (replace_cr s)" "CR \<notin> set s \<Longrightarrow> replace_cr s = s"
  by (auto simp: replace_cr_def blank_space intro!: map_idI)

lemma replace_crlf_id: "CR \<notin> set s \<Longrightarrow> replace_crlf s = s"
  by (induction s rule: replace_crlf.induct) auto

lemma split_lines_not_Nil [simp]: "split_lines s \<noteq> []"
  by (cases s) (auto split: list.splits)

lemma split_lines_set: "l \<in> set (split_lines s) \<Longrightarrow> set l \<subseteq> set s - {LF}"
proof (induction s arbitrary: l)
  case (Cons c s)
  obtain k ks where k: "split_lines s = k # ks" by (cases "split_lines s") auto
  have "set x \<subseteq> set s - {LF}" if "x \<in> set (k # ks)" for x using Cons.IH[of x] that k by simp
  then show ?case using Cons.prems k by (fastforce split: if_splits)
qed simp

lemma join_Cons: "ls \<noteq> [] \<Longrightarrow> py_join sep (l # ls) = l @ sep @ py_join sep ls"
  by (cases ls) auto

lemma join_split: "py_join [LF] (split_lines s) = s"
proof (induction s)
  case (Cons c s)
  obtain l ls where l: "split_lines s = l # ls" by (cases "split_lines s") auto
  show ?case using Cons by (cases ls) (auto simp: l join_Cons)
qed simp

section \<open>One line\<close>

definition line_ok :: "string \<Rightarrow> bool" where
  "line_ok l \<longleftrightarrow> TAB \<notin> set l \<and> successively (\<lambda>a b. \<not> (blank a \<and> blank b)) l \<and> (l \<noteq> [] \<longrightarrow> \<not> py_isspace (last l))"

lemma collapse_blanks_ok:
  "TAB \<notin> set (collapse_blanks i s)" "set (collapse_blanks i s) \<subseteq> insert (CHR '' '') (set s)"
  "successively (\<lambda>a b. \<not> (blank a \<and> blank b)) (collapse_blanks i s)"
  "i \<Longrightarrow> collapse_blanks i s \<noteq> [] \<Longrightarrow> \<not> blank (hd (collapse_blanks i s))"
proof -
  show "TAB \<notin> set (collapse_blanks i s)" "set (collapse_blanks i s) \<subseteq> insert (CHR '' '') (set s)"
    by (induction i s rule: collapse_blanks.induct) (auto simp: blank_def TAB_def)
  have "successively (\<lambda>a b. \<not> (blank a \<and> blank b)) (collapse_blanks i s) \<and>
    (i \<longrightarrow> collapse_blanks i s \<noteq> [] \<longrightarrow> \<not> blank (hd (collapse_blanks i s)))"
    by (induction i s rule: collapse_blanks.induct) (auto simp: successively_Cons)
  then show "successively (\<lambda>a b. \<not> (blank a \<and> blank b)) (collapse_blanks i s)"
    "i \<Longrightarrow> collapse_blanks i s \<noteq> [] \<Longrightarrow> \<not> blank (hd (collapse_blanks i s))" by auto
qed

lemma rstrip_split: "\<exists>t. s = py_rstrip s @ t" "py_rstrip s \<noteq> [] \<Longrightarrow> \<not> py_isspace (last (py_rstrip s))"
proof -
  have "s = rev (takeWhile py_isspace (rev s) @ dropWhile py_isspace (rev s))" by simp
  then show "\<exists>t. s = py_rstrip s @ t" unfolding py_rstrip_def by (metis rev_append)
  show "\<not> py_isspace (last (py_rstrip s))" if "py_rstrip s \<noteq> []"
    using that hd_dropWhile_not[of py_isspace "rev s"] by (simp add: py_rstrip_def last_rev)
qed

lemma rstrip_ok: "successively P s \<Longrightarrow> successively P (py_rstrip s)" "set (py_rstrip s) \<subseteq> set s"
  using rstrip_split(1)[of s] by (metis successively_append_iff) (auto simp: py_rstrip_def dest: set_dropWhileD)

lemma normalized_line_ok:
  "line_ok (py_rstrip (collapse_blanks False l))" "set (py_rstrip (collapse_blanks False l)) \<subseteq> insert (CHR '' '') (set l)"
  unfolding line_ok_def
  using collapse_blanks_ok(1,2)[of False l] rstrip_ok(1)[OF collapse_blanks_ok(3)[of False l]]
    rstrip_ok(2)[of "collapse_blanks False l"] rstrip_split(2)[of "collapse_blanks False l"] by blast+

lemma line_ok_fixed:
  assumes "line_ok l" shows "py_rstrip (collapse_blanks False l) = l"
proof -
  have "collapse_blanks i l = l" if "TAB \<notin> set l" "successively (\<lambda>a b. \<not> (blank a \<and> blank b)) l" "i \<Longrightarrow> l \<noteq> [] \<Longrightarrow> \<not> blank (hd l)" for i
    using that
  proof (induction i l rule: collapse_blanks.induct)
    case (2 i c s)
    then show ?case by (cases s) (auto simp: blank_def successively_Cons)
  qed simp
  then have c: "collapse_blanks False l = l" using assms by (auto simp: line_ok_def)
  have "py_rstrip l = l"
    using assms by (cases l rule: rev_cases) (auto simp: line_ok_def py_rstrip_def)
  then show ?thesis using c by simp
qed

section \<open>The whole text\<close>

lemma join_adjacent:
  assumes "ls \<noteq> []" "\<forall>l \<in> set ls. line_ok l \<and> LF \<notin> set l \<and> CR \<notin> set l"
  shows "successively adjacent (py_join [LF] ls) \<and> CR \<notin> set (py_join [LF] ls) \<and> TAB \<notin> set (py_join [LF] ls)"
  using assms
proof (induction ls)
  case (Cons l ls)
  have "successively adjacent l"
    by (rule successively_mono[of "\<lambda>a b. \<not> (blank a \<and> blank b)"]) (use Cons.prems(2) in \<open>auto simp: line_ok_def adjacent_def\<close>)
  then have l: "successively adjacent (l @ [LF])"
    using Cons.prems(2) by (auto simp: successively_append_iff line_ok_def adjacent_def blank_space simp del: successively_cong)
  show ?case
  proof (cases "ls = []")
    case True
    then show ?thesis using Cons.prems l by (auto simp: line_ok_def successively_append_iff)
  next
    case False
    then show ?thesis using Cons.IH Cons.prems l
      by (auto simp: join_Cons line_ok_def successively_append_iff successively_Cons blank_space)
  qed
qed simp

lemma strip_parts: "\<exists>a b. s = a @ py_strip s @ b"
proof -
  have "s = takeWhile py_isspace s @ dropWhile py_isspace s" by simp
  moreover obtain t where "dropWhile py_isspace s = py_rstrip (dropWhile py_isspace s) @ t" using rstrip_split(1) by blast
  moreover have "py_rstrip (dropWhile py_isspace s) = py_strip s" by (simp add: py_strip_def py_rstrip_def)
  ultimately show ?thesis by metis
qed

lemma strip_keeps: "successively P s \<Longrightarrow> successively P (py_strip s)" "set (py_strip s) \<subseteq> set s"
proof -
  obtain a b where ab: "s = a @ py_strip s @ b" using strip_parts by blast
  then show "successively P (py_strip s)" if "successively P s" using that by (metis successively_append_iff)
  show "set (py_strip s) \<subseteq> set s" by (subst (2) ab) auto
qed

fun short_runs :: "nat \<Rightarrow> string \<Rightarrow> bool" where
  "short_runs k [] \<longleftrightarrow> True"
| "short_runs k (c # s) \<longleftrightarrow> (if c = LF then k < 2 \<and> short_runs (Suc k) s else short_runs 0 s)"

lemma collapse_newlines_id: "short_runs k s \<Longrightarrow> collapse_newlines k s = s"
  by (induction k s rule: short_runs.induct) (auto split: if_splits)

lemma collapse_newlines_short: "short_runs k (collapse_newlines k s)"
  by (induction k s rule: collapse_newlines.induct) auto

lemma collapse_newlines_keeps:
  "set (collapse_newlines k s) \<subseteq> set s"
  "successively adjacent s \<Longrightarrow> successively adjacent (collapse_newlines k s) \<and>
     (s \<noteq> [] \<longrightarrow> hd s \<noteq> LF \<longrightarrow> collapse_newlines k s \<noteq> [] \<and> hd (collapse_newlines k s) = hd s)"
  "s \<noteq> [] \<Longrightarrow> last s \<noteq> LF \<Longrightarrow> collapse_newlines k s \<noteq> [] \<and> last (collapse_newlines k s) = last s"
proof -
  show "set (collapse_newlines k s) \<subseteq> set s" by (induction k s rule: collapse_newlines.induct) auto
  have "successively adjacent (collapse_newlines k s) \<and>
     (collapse_newlines k s \<noteq> [] \<longrightarrow> hd (collapse_newlines k s) = hd s \<or> hd s = LF)" if "successively adjacent s"
    using that
  proof (induction k s rule: collapse_newlines.induct)
    case (2 k c s)
    have s: "successively adjacent s" using 2(4) by (auto simp: successively_Cons)
    show ?case
    proof (cases "c = LF")
      case True
      then show ?thesis using 2(1,2) s by (auto simp: successively_Cons)
    next
      case False
      have "adjacent c (hd (collapse_newlines 0 s))" if n: "collapse_newlines 0 s \<noteq> []"
      proof -
        have "s \<noteq> []" using n by auto
        then have "adjacent c (hd s)" using 2(4) by (auto simp: successively_Cons)
        moreover have "hd (collapse_newlines 0 s) = hd s" using n by (cases s) (auto split: if_splits)
        ultimately show ?thesis by simp
      qed
      then show ?thesis using 2(3)[OF False s] False by (auto simp: successively_Cons)
    qed
  qed simp
  then show "successively adjacent (collapse_newlines k s) \<and>
     (s \<noteq> [] \<longrightarrow> hd s \<noteq> LF \<longrightarrow> collapse_newlines k s \<noteq> [] \<and> hd (collapse_newlines k s) = hd s)" if "successively adjacent s"
    using that by (cases s) auto
  show "collapse_newlines k s \<noteq> [] \<and> last (collapse_newlines k s) = last s" if "s \<noteq> []" "last s \<noteq> LF"
    using that
  proof (induction k s rule: collapse_newlines.induct)
    case (2 k c s)
    then show ?case by (cases s) auto
  qed simp
qed

definition plain_normal :: "string \<Rightarrow> bool" where
  "plain_normal n \<longleftrightarrow> CR \<notin> set n \<and> TAB \<notin> set n \<and> successively adjacent n \<and> short_runs 0 n \<and> (n \<noteq> [] \<longrightarrow> stripped n)"

lemma normalized_is_normal: "plain_normal (normalize_plain_whitespace txt)"
proof -
  let ?u = "replace_cr (replace_crlf txt)"
  let ?ls = "map (\<lambda>line. py_rstrip (collapse_blanks False line)) (split_lines ?u)"
  let ?j = "py_join [LF] ?ls" and ?s = "py_strip (py_join [LF] ?ls)"
  have "\<forall>l \<in> set ?ls. line_ok l \<and> LF \<notin> set l \<and> CR \<notin> set l"
    using normalized_line_ok split_lines_set[of _ ?u] replace_no_CR(1)[of "replace_crlf txt"]
    by (fastforce simp: blank_space CR_def)
  then have j: "successively adjacent ?j" "CR \<notin> set ?j" "TAB \<notin> set ?j" using join_adjacent[of ?ls] by auto
  have s: "successively adjacent ?s" "CR \<notin> set ?s" "TAB \<notin> set ?s"
    using j strip_keeps(1)[of adjacent ?j] strip_keeps(2)[of ?j] by auto
  have n: "normalize_plain_whitespace txt = collapse_newlines 0 ?s" by (simp add: normalize_plain_whitespace_def)
  have "stripped (collapse_newlines 0 ?s)" if "?s \<noteq> []"
  proof -
    have st: "stripped ?s" using that stripped_py_strip by blast
    then have "hd ?s \<noteq> LF" "last ?s \<noteq> LF" using blank_space(3) by (auto simp: stripped_def)
    with collapse_newlines_keeps(2)[where k = 0, OF s(1)] collapse_newlines_keeps(3)[where k = 0, OF that] that st show ?thesis
      by (auto simp: stripped_def)
  qed
  then show ?thesis using s collapse_newlines_keeps(1)[where k = 0 and s = ?s] collapse_newlines_keeps(2)[where k = 0, OF s(1)] collapse_newlines_short
    unfolding plain_normal_def n by (cases "?s = []") auto
qed

lemma normal_lines:
  "successively adjacent s \<Longrightarrow> TAB \<notin> set s \<Longrightarrow> (s \<noteq> [] \<longrightarrow> last s = LF \<or> \<not> py_isspace (last s)) \<Longrightarrow> l \<in> set (split_lines s) \<Longrightarrow> line_ok l"
proof (induction s arbitrary: l)
  case (Cons c s)
  obtain k ks where k: "split_lines s = k # ks" by (cases "split_lines s") auto
  have ih: "line_ok l" if "l \<in> set (split_lines s)" for l
    using Cons.IH[OF _ _ _ that] Cons.prems(1-3) by (cases s) (auto simp: successively_Cons)
  show ?case
  proof (cases "c = LF \<or> l \<in> set ks")
    case True
    then show ?thesis using Cons.prems(4) ih k by (auto simp: line_ok_def split: if_splits)
  next
    case False
    then have l: "l = c # k" using Cons.prems(4) k by auto
    have "line_ok k" using ih k by simp
    moreover have "\<not> py_isspace c" if "k = []"
      using Cons.prems(1,3) that k False
      by (cases s) (auto simp: adjacent_def split: if_splits list.splits)
    moreover have "\<not> (blank c \<and> blank (hd k))" if "k \<noteq> []"
    proof -
      have "s \<noteq> [] \<and> hd s = hd k" using that k by (cases s) (auto split: if_splits list.splits)
      then show ?thesis using Cons.prems(1) by (auto simp: successively_Cons adjacent_def)
    qed
    ultimately show ?thesis using Cons.prems(2) by (auto simp: l line_ok_def successively_Cons)
  qed
qed (simp add: line_ok_def)

lemma normal_is_fixed:
  assumes "plain_normal n" shows "normalize_plain_whitespace n = n"
proof -
  have u: "replace_cr (replace_crlf n) = n" using assms by (simp add: plain_normal_def replace_crlf_id replace_no_CR)
  have "line_ok l" if "l \<in> set (split_lines n)" for l
    using assms normal_lines[OF _ _ _ that] by (auto simp: plain_normal_def stripped_def)
  then have "map (\<lambda>line. py_rstrip (collapse_blanks False line)) (split_lines n) = split_lines n"
    by (intro map_idI) (simp add: line_ok_fixed)
  moreover have "py_strip n = n" using assms by (cases "n = []") (auto simp: plain_normal_def py_strip_stripped)
  ultimately show ?thesis using assms by (simp add: normalize_plain_whitespace_def u join_split collapse_newlines_id plain_normal_def)
qed

section \<open>Property\<close>

text \<open>
  C40. Plain text has one normal form.  What is accepted as plain text comes back without carriage
  returns and tabs, without white space at its ends or at the end of a line, in at most 100000 bytes;
  and normalising it again returns it unchanged, so that a document stored twice is recognised by its
  normal form.
\<close>

theorem plain_text_normal_form:
  assumes "normalize_plain_text raw = Inr (n, parser)"
  shows "normalize_plain_text n = Inr (n, parser) \<and> CR \<notin> set n \<and> TAB \<notin> set n \<and> stripped n \<and>
    (\<forall>line \<in> set (split_lines n). py_rstrip line = line) \<and> utf8_byte_length n \<le> 100000"
proof -
  have n: "n = normalize_plain_whitespace raw" "assert_normalized_size n = Inr ()" "parser = PARSER_PLAIN_TEXT_V1"
    using assms by (auto simp: normalize_plain_text_def Let_def bind_simps)
  have ne: "n \<noteq> []" using n(2) by (auto simp: assert_normalized_size_def utf8_byte_length_def)
  have nf: "plain_normal n" unfolding n(1) by (rule normalized_is_normal)
  have "py_rstrip l = l" if "l \<in> set (split_lines n)" for l
  proof -
    have "line_ok l" using nf normal_lines[OF _ _ _ that] by (auto simp: plain_normal_def stripped_def)
    then show ?thesis by (cases l rule: rev_cases) (auto simp: line_ok_def py_rstrip_def)
  qed
  moreover have "normalize_plain_text n = Inr (n, parser)"
    using n normal_is_fixed[OF nf] by (simp add: normalize_plain_text_def)
  moreover have "utf8_byte_length n \<le> 100000"
    using n(2) by (auto simp: assert_normalized_size_def MAX_NORMALIZED_TEXT_BYTES_def split: if_splits)
  ultimately show ?thesis using nf ne by (auto simp: plain_normal_def)
qed

theorem plain_text_normal_form_witness:
  "normalize_plain_text (''a  b'' @ [CHR 0x20, CR, LF, LF, LF, LF, TAB] @ ''c'') = Inr (''a b'' @ [LF, LF] @ '' c'', PARSER_PLAIN_TEXT_V1) \<and>
   normalize_plain_text (''a b'' @ [LF, LF] @ '' c'') = Inr (''a b'' @ [LF, LF] @ '' c'', PARSER_PLAIN_TEXT_V1)"
proof -
  have "normalize_plain_whitespace (''a  b'' @ [CHR 0x20, CR, LF, LF, LF, LF, TAB] @ ''c'') = ''a b'' @ [LF, LF] @ '' c''"
    by code_simp
  moreover have "utf8_byte_length (''a b'' @ [LF, LF] @ '' c'') = 7"
    by code_simp
  ultimately have "normalize_plain_text (''a  b'' @ [CHR 0x20, CR, LF, LF, LF, LF, TAB] @ ''c'') = Inr (''a b'' @ [LF, LF] @ '' c'', PARSER_PLAIN_TEXT_V1)"
    by (simp add: normalize_plain_text_def assert_normalized_size_def MAX_NORMALIZED_TEXT_BYTES_def)
  from plain_text_normal_form [OF this] this show ?thesis by blast
qed

end
